(* ===== verification/Backoff.thy ===== *)
theory Backoff
  imports Prelude
begin

text \<open>
  The pause between two connections of the ledger tail (\<open>sleepUnlessAborted\<close>, \<open>cli/src/util/api.ts\<close>): a
  promise settled by a timer or by the abort signal, whichever comes first. The timers of the runtime and the
  listeners of the signal are kept in one state; a promise is named by its number. The abort
  clears the timers its listeners know; a timer that fires leaves its listener on the signal.
\<close>

record pauses =
  pa_aborted :: bool
  pa_started :: nat
  pa_timers :: "nat list"
  pa_listeners :: "nat list"
  pa_resolved :: "nat list"

datatype pause_event = Sleep | Timer nat | Abort

definition no_pauses :: pauses where
  "no_pauses = \<lparr>pa_aborted = False, pa_started = 0, pa_timers = [], pa_listeners = [], pa_resolved = []\<rparr>"

text \<open>A call: at once when the signal is aborted, otherwise a timer and a listener.\<close>

definition sleepUnlessAborted :: "pauses \<Rightarrow> pauses" where
  "sleepUnlessAborted p =
     (let i = pa_started p; p = p\<lparr>pa_started := i + 1\<rparr> in
      if pa_aborted p then p\<lparr>pa_resolved := pa_resolved p @ [i]\<rparr>
      else p\<lparr>pa_timers := pa_timers p @ [i], pa_listeners := pa_listeners p @ [i]\<rparr>)"

text \<open>A listener clears its timer and resolves its promise; a promise settled before is left alone.\<close>

definition on_abort :: "pauses \<Rightarrow> nat \<Rightarrow> pauses" where
  "on_abort p i =
     p\<lparr>pa_timers := filter (\<lambda>j. j \<noteq> i) (pa_timers p),
       pa_resolved := (if i \<in> set (pa_resolved p) then pa_resolved p else pa_resolved p @ [i])\<rparr>"

text \<open>The abort event is dispatched once, to every listener; \<open>once\<close> takes each off the signal.\<close>

fun pause_step :: "pauses \<Rightarrow> pause_event \<Rightarrow> pauses" where
  "pause_step p Sleep = sleepUnlessAborted p"
| "pause_step p (Timer i) =
     (if i \<in> set (pa_timers p) then
        p\<lparr>pa_timers := filter (\<lambda>j. j \<noteq> i) (pa_timers p), pa_resolved := pa_resolved p @ [i]\<rparr>
      else p)"
| "pause_step p Abort =
     (if pa_aborted p then p
      else foldl on_abort (p\<lparr>pa_aborted := True, pa_listeners := []\<rparr>) (pa_listeners p))"

section \<open>No pause is lost\<close>

definition pauses_ok :: "pauses \<Rightarrow> bool" where
  "pauses_ok p \<longleftrightarrow>
     {..<pa_started p} = set (pa_timers p) \<union> set (pa_resolved p) \<and> set (pa_timers p) \<inter> set (pa_resolved p) = {} \<and>
     distinct (pa_resolved p) \<and> set (pa_timers p) \<subseteq> set (pa_listeners p) \<and> (pa_aborted p \<longrightarrow> pa_timers p = [])"

lemma on_abort_fold:
  "pa_started (foldl on_abort p is) = pa_started p \<and> pa_aborted (foldl on_abort p is) = pa_aborted p \<and>
   pa_listeners (foldl on_abort p is) = pa_listeners p \<and>
   set (pa_timers (foldl on_abort p is)) = set (pa_timers p) - set is \<and>
   set (pa_resolved (foldl on_abort p is)) = set (pa_resolved p) \<union> set is \<and>
   (distinct (pa_resolved p) \<longrightarrow> distinct (pa_resolved (foldl on_abort p is)))"
  by (induction "is" arbitrary: p) (auto simp: on_abort_def)

lemma sleep_ok: "pauses_ok p \<Longrightarrow> pauses_ok (sleepUnlessAborted p)"
proof -
  assume ok: "pauses_ok p"
  then have "pa_started p \<notin> set (pa_timers p) \<union> set (pa_resolved p)"
    by (simp only: pauses_ok_def) (metis lessThan_iff less_irrefl)
  then show ?thesis using ok by (auto simp: pauses_ok_def sleepUnlessAborted_def Let_def lessThan_Suc)
qed

lemma timer_ok: "pauses_ok p \<Longrightarrow> pauses_ok (pause_step p (Timer i))"
  by (auto simp: pauses_ok_def)

definition listeners_known :: "pauses \<Rightarrow> bool" where
  "listeners_known p \<longleftrightarrow> set (pa_listeners p) \<subseteq> {..<pa_started p}"

lemma abort_ok:
  assumes "pauses_ok p" "listeners_known p"
  shows "pauses_ok (pause_step p Abort)"
  using assms on_abort_fold [of "p\<lparr>pa_aborted := True, pa_listeners := []\<rparr>" "pa_listeners p"]
  by (auto simp: pauses_ok_def listeners_known_def simp flip: set_empty)

lemma known_step: "listeners_known p \<Longrightarrow> listeners_known (pause_step p e)"
  by (cases e) (auto simp: listeners_known_def sleepUnlessAborted_def on_abort_fold Let_def)

interpretation pause: machine pause_step "\<lambda>p. pauses_ok p \<and> listeners_known p" "\<lambda>_. True"
proof unfold_locales
  fix p e
  assume "pauses_ok p \<and> listeners_known p"
  then show "pauses_ok (pause_step p e) \<and> listeners_known (pause_step p e)"
    using sleep_ok [of p] timer_ok [of p] abort_ok [of p] known_step [of p e] by (cases e) simp_all
qed

lemma pauses_reached: "pauses_ok (foldl pause_step no_pauses es) \<and> listeners_known (foldl pause_step no_pauses es)"
  by (rule pause.run) (auto simp: no_pauses_def pauses_ok_def listeners_known_def list_all_iff)

text \<open>Once the tail is cancelled no timer is left behind and every promise handed out is settled, exactly once.\<close>

lemma cancel_settles:
  "(let p = foldl pause_step no_pauses (es @ [Abort]) in
    pa_timers p = [] \<and> distinct (pa_resolved p) \<and> set (pa_resolved p) = {..<pa_started p})"
proof -
  let ?p = "foldl pause_step no_pauses (es @ [Abort])"
  have "pa_aborted ?p" by (simp add: on_abort_fold)
  then show ?thesis using pauses_reached [of "es @ [Abort]"] by (auto simp: pauses_ok_def Let_def)
qed

text \<open>The listeners of pauses that ran out stay: a tail that has reconnected \<open>n\<close> times holds \<open>n\<close> of them.\<close>

definition pause_out :: "pauses \<Rightarrow> pauses" where
  "pause_out p = pause_step (pause_step p Sleep) (Timer (pa_started p))"

lemma listeners_pile_up:
  "length (pa_listeners ((pause_out ^^ n) no_pauses)) = n \<and> pa_timers ((pause_out ^^ n) no_pauses) = [] \<and>
   \<not> pa_aborted ((pause_out ^^ n) no_pauses)"
  by (induction n) (simp_all add: no_pauses_def pause_out_def sleepUnlessAborted_def Let_def)

end
