(* ===== verification/Json.thy ===== *)
theory Json
  imports Prelude
begin

text \<open>
  JavaScript values as the sources see them through \<open>JSON.parse\<close> and \<open>JSON.stringify\<close>: the value
  type, property access with its \<open>undefined\<close>, truthiness and \<open>String(v)\<close>, an executable parser
  and the compact and two-space printers. A number is the exact decimal of its text
  (\<open>mant * 10 ^ expo\<close>, no trailing zero in the mantissa): the rounding of binary64 beyond 17
  digits is not modelled, nor the ordering of integer-like keys before the others.
\<close>

section \<open>Values\<close>

datatype dec = Dec (mant: int) (expo: int)

datatype json =
    JNull
  | JBool bool
  | JNum dec
  | JStr string
  | JArr "json list"
  | JObj "(string \<times> json) list"

function norm_dec :: "int \<Rightarrow> int \<Rightarrow> dec" where
  "norm_dec m e = (if m = 0 then Dec 0 0 else if m mod 10 = 0 then norm_dec (m div 10) (e + 1) else Dec m e)"
  by pat_completeness auto
termination
  by (relation "measure (\<lambda>(m, e). nat \<bar>m\<bar>)") auto

declare norm_dec.simps [simp del]

definition jint :: "int \<Rightarrow> json" where
  "jint i = JNum (norm_dec i 0)"

text \<open>\<open>Math.floor\<close> of a number.\<close>

definition dec_floor :: "dec \<Rightarrow> int" where
  "dec_floor d = (if 0 \<le> expo d then mant d * 10 ^ nat (expo d) else mant d div 10 ^ nat (- expo d))"

text \<open>\<open>String(n)\<close> for a number: the layout rules of Number::toString over the decimal digits.\<close>

definition num_str :: "dec \<Rightarrow> string" where
  "num_str d =
     (let ds = nat_str (nat \<bar>mant d\<bar>); k = int (length ds); n = k + expo d; sg = (if mant d < 0 then ''-'' else '''')
      in sg @
        (if k \<le> n \<and> n \<le> 21 then ds @ replicate (nat (n - k)) CHR ''0''
         else if 0 < n \<and> n \<le> 21 then take (nat n) ds @ ''.'' @ drop (nat n) ds
         else if -6 < n \<and> n \<le> 0 then ''0.'' @ replicate (nat (- n)) CHR ''0'' @ ds
         else take 1 ds @ (if k = 1 then '''' else ''.'' @ drop 1 ds) @ ''e''
              @ (if 0 < n then ''+'' else '''') @ int_str (n - 1)))"

section \<open>Objects\<close>

text \<open>Assigning a property keeps its position when it exists and appends it otherwise.\<close>

fun obj_put :: "string \<Rightarrow> json \<Rightarrow> (string \<times> json) list \<Rightarrow> (string \<times> json) list" where
  "obj_put k v [] = [(k, v)]"
| "obj_put k v ((k', v') # kvs) = (if k = k' then (k, v) # kvs else (k', v') # obj_put k v kvs)"

text \<open>
  \<open>v.k\<close> on a value that is not \<open>null\<close>: \<open>None\<close> is \<open>undefined\<close>. The keys the program reads are not
  properties of strings, numbers, booleans or arrays. Reading from \<open>null\<close> throws, which the
  callers model where they do it unguarded.
\<close>

fun jprop :: "json \<Rightarrow> string \<Rightarrow> json option" where
  "jprop (JObj kvs) k = map_of kvs k"
| "jprop v k = None"

text \<open>\<open>v?.k\<close>\<close>

definition oprop :: "json option \<Rightarrow> string \<Rightarrow> json option" where
  "oprop v k = (case v of None \<Rightarrow> None | Some j \<Rightarrow> jprop j k)"

text \<open>\<open>a ?? b\<close>\<close>

definition nullish :: "json option \<Rightarrow> json option \<Rightarrow> json option" where
  "nullish a b = (case a of None \<Rightarrow> b | Some JNull \<Rightarrow> b | Some v \<Rightarrow> Some v)"

fun truthy :: "json option \<Rightarrow> bool" where
  "truthy None = False"
| "truthy (Some JNull) = False"
| "truthy (Some (JBool b)) = b"
| "truthy (Some (JNum d)) = (mant d \<noteq> 0)"
| "truthy (Some (JStr s)) = (s \<noteq> [])"
| "truthy (Some (JArr xs)) = True"
| "truthy (Some (JObj kvs)) = True"

text \<open>\<open>String(v)\<close>, also what a template literal inserts.\<close>

fun js_string :: "json \<Rightarrow> string" where
  "js_string JNull = ''null''"
| "js_string (JBool b) = (if b then ''true'' else ''false'')"
| "js_string (JNum d) = num_str d"
| "js_string (JStr s) = s"
| "js_string (JArr xs) = join '','' (map (\<lambda>x. case x of JNull \<Rightarrow> [] | _ \<Rightarrow> js_string x) xs)"
| "js_string (JObj kvs) = ''[object Object]''"

definition js_ostring :: "json option \<Rightarrow> string" where
  "js_ostring v = (case v of None \<Rightarrow> ''undefined'' | Some j \<Rightarrow> js_string j)"

definition is_str :: "json option \<Rightarrow> bool" where
  "is_str v = (case v of Some (JStr s) \<Rightarrow> True | _ \<Rightarrow> False)"

text \<open>\<open>typeof v === "object" && v !== null\<close> and \<open>Array.isArray(v)\<close>\<close>

fun is_object :: "json \<Rightarrow> bool" where
  "is_object (JObj kvs) = True"
| "is_object (JArr xs) = True"
| "is_object _ = False"

fun is_array :: "json \<Rightarrow> bool" where
  "is_array (JArr xs) = True"
| "is_array _ = False"

section \<open>Printing\<close>

definition esc_char :: "char \<Rightarrow> string" where
  "esc_char c =
     (if c = chr_dq then [chr_bs, chr_dq]
      else if c = chr_bs then [chr_bs, chr_bs]
      else if c = CHR 0x08 then [chr_bs, CHR ''b'']
      else if c = CHR 0x0C then [chr_bs, CHR ''f'']
      else if c = chr_nl then [chr_bs, CHR ''n'']
      else if c = chr_cr then [chr_bs, CHR ''r'']
      else if c = chr_tab then [chr_bs, CHR ''t'']
      else if code_of c < 32 then [chr_bs, CHR ''u'', CHR ''0'', CHR ''0'', hex_chr (code_of c div 16), hex_chr (code_of c mod 16)]
      else [c])"

definition esc_body :: "string \<Rightarrow> string" where
  "esc_body s = concat (map esc_char s)"

definition quote_json :: "string \<Rightarrow> string" where
  "quote_json s = [chr_dq] @ esc_body s @ [chr_dq]"

fun json_stringify :: "json \<Rightarrow> string" where
  "json_stringify JNull = ''null''"
| "json_stringify (JBool b) = (if b then ''true'' else ''false'')"
| "json_stringify (JNum d) = num_str d"
| "json_stringify (JStr s) = quote_json s"
| "json_stringify (JArr xs) = ''['' @ join '','' (map json_stringify xs) @ '']''"
| "json_stringify (JObj kvs) =
     ''{'' @ join '','' (map (\<lambda>kv. quote_json (fst kv) @ '':'' @ json_stringify (snd kv)) kvs) @ ''}''"

text \<open>\<open>JSON.stringify(v, null, 2)\<close>; the first argument is the current indentation.\<close>

fun json_pretty :: "nat \<Rightarrow> json \<Rightarrow> string" where
  "json_pretty n JNull = ''null''"
| "json_pretty n (JBool b) = (if b then ''true'' else ''false'')"
| "json_pretty n (JNum d) = num_str d"
| "json_pretty n (JStr s) = quote_json s"
| "json_pretty n (JArr xs) =
     (if xs = [] then ''[]''
      else ''['' @ [chr_nl] @ join (CHR '','' # [chr_nl]) (map (\<lambda>x. replicate (n + 2) CHR 0x20 @ json_pretty (n + 2) x) xs)
           @ [chr_nl] @ replicate n CHR 0x20 @ '']'')"
| "json_pretty n (JObj kvs) =
     (if kvs = [] then ''{}''
      else ''{'' @ [chr_nl]
           @ join (CHR '','' # [chr_nl])
               (map (\<lambda>kv. replicate (n + 2) CHR 0x20 @ quote_json (fst kv) @ '': '' @ json_pretty (n + 2) (snd kv)) kvs)
           @ [chr_nl] @ replicate n CHR 0x20 @ ''}'')"

text \<open>An object literal whose \<open>undefined\<close> fields the printer leaves out.\<close>

fun obj_of :: "(string \<times> json option) list \<Rightarrow> json" where
  "obj_of fs = JObj (map (\<lambda>(k, v). (k, the v)) (filter (\<lambda>(k, v). v \<noteq> None) fs))"

definition ostr :: "string option \<Rightarrow> json option" where
  "ostr s = map_option JStr s"

section \<open>Parsing\<close>

definition json_ws :: "char \<Rightarrow> bool" where
  "json_ws c \<longleftrightarrow> c \<in> {CHR 0x20, chr_tab, chr_nl, chr_cr}"

definition skip_ws :: "string \<Rightarrow> string" where
  "skip_ws s = dropWhile json_ws s"

text \<open>The UTF-8 bytes of a \<open>\u\<close> escape; a lone surrogate keeps its three-byte form.\<close>

definition utf8 :: "nat \<Rightarrow> string" where
  "utf8 n =
     (if n < 128 then [char_of n]
      else if n < 2048 then [char_of (192 + n div 64), char_of (128 + n mod 64)]
      else [char_of (224 + n div 4096), char_of (128 + n div 64 mod 64), char_of (128 + n mod 64)])"

definition unesc :: "char \<Rightarrow> char option" where
  "unesc c =
     (if c = chr_dq \<or> c = chr_bs \<or> c = CHR ''/'' then Some c
      else if c = CHR ''b'' then Some (CHR 0x08)
      else if c = CHR ''f'' then Some (CHR 0x0C)
      else if c = CHR ''n'' then Some chr_nl
      else if c = CHR ''r'' then Some chr_cr
      else if c = CHR ''t'' then Some chr_tab
      else None)"

text \<open>The rest of a string literal after its opening quote.\<close>

fun parse_str :: "string \<Rightarrow> (string \<times> string) option" where
  "parse_str [] = None"
| "parse_str (c # cs) =
     (if c = chr_dq then Some ([], cs)
      else if code_of c < 32 then None
      else if c = chr_bs then
        (case cs of
           [] \<Rightarrow> None
         | e # es \<Rightarrow>
             if e = CHR ''u'' then
               (case es of
                  a # b # x # y # rest \<Rightarrow>
                    if is_hex a \<and> is_hex b \<and> is_hex x \<and> is_hex y
                    then map_option (\<lambda>(t, r). (utf8 (4096 * hex_val a + 256 * hex_val b + 16 * hex_val x + hex_val y) @ t, r))
                           (parse_str rest)
                    else None
                | _ \<Rightarrow> None)
             else (case unesc e of
                     None \<Rightarrow> None
                   | Some d \<Rightarrow> map_option (\<lambda>(t, r). (d # t, r)) (parse_str es)))
      else map_option (\<lambda>(t, r). (c # t, r)) (parse_str cs))"

definition parse_exp :: "string \<Rightarrow> (int \<times> string) option" where
  "parse_exp s =
     (case s of
        c # cs \<Rightarrow>
          if c = CHR ''e'' \<or> c = CHR ''E'' then
            (let (neg, r) = (case cs of d # ds \<Rightarrow> if d = CHR ''-'' then (True, ds) else if d = CHR ''+'' then (False, ds) else (False, cs)
                             | [] \<Rightarrow> (False, cs));
                 ds = takeWhile is_digit r
             in if ds = [] then None
                else Some ((if neg then - int (read_nat 0 ds) else int (read_nat 0 ds)), dropWhile is_digit r))
          else Some (0, s)
      | [] \<Rightarrow> Some (0, s))"

definition num_sign :: "string \<Rightarrow> bool \<times> string" where
  "num_sign s = (if take 1 s = ''-'' then (True, drop 1 s) else (False, s))"

definition num_int :: "string \<Rightarrow> string \<times> string" where
  "num_int s = (let ds = takeWhile is_digit s; ip = (if take 1 ds = ''0'' then ''0'' else ds) in (ip, drop (length ip) s))"

text \<open>The fraction digits, \<open>None\<close> for a point with no digit after it.\<close>

definition num_frac :: "string \<Rightarrow> (string \<times> string) option" where
  "num_frac s =
     (if take 1 s = ''.'' then
        (let fs = takeWhile is_digit (drop 1 s) in if fs = [] then None else Some (fs, drop (length fs + 1) s))
      else Some ([], s))"

definition parse_num :: "string \<Rightarrow> (dec \<times> string) option" where
  "parse_num s =
     (case num_sign s of (neg, s1) \<Rightarrow>
      (case num_int s1 of (ds, s2) \<Rightarrow>
       if ds = [] then None
       else (case num_frac s2 of
               None \<Rightarrow> None
             | Some (fs, s3) \<Rightarrow>
                 (case parse_exp s3 of
                    None \<Rightarrow> None
                  | Some (e, r) \<Rightarrow>
                      Some (norm_dec ((if neg then -1 else 1) * int (read_nat 0 (ds @ fs))) (e - int (length fs)), r)))))"

definition parse_lit :: "string \<Rightarrow> json \<Rightarrow> string \<Rightarrow> (json \<times> string) option" where
  "parse_lit l v s = (if starts_with l s then Some (v, drop (length l) s) else None)"

fun parse_value :: "nat \<Rightarrow> string \<Rightarrow> (json \<times> string) option"
  and parse_elems :: "nat \<Rightarrow> json list \<Rightarrow> string \<Rightarrow> (json \<times> string) option"
  and parse_members :: "nat \<Rightarrow> (string \<times> json) list \<Rightarrow> string \<Rightarrow> (json \<times> string) option" where
  "parse_value 0 s = None"
| "parse_value (Suc f) s =
     (case skip_ws s of
        [] \<Rightarrow> None
      | c # cs \<Rightarrow>
          if c = CHR ''{'' then
            (case skip_ws cs of
               [] \<Rightarrow> None
             | d # ds \<Rightarrow> if d = CHR ''}'' then Some (JObj [], ds) else parse_members f [] (d # ds))
          else if c = CHR ''['' then
            (case skip_ws cs of
               [] \<Rightarrow> None
             | d # ds \<Rightarrow> if d = CHR '']'' then Some (JArr [], ds) else parse_elems f [] (d # ds))
          else if c = chr_dq then map_option (\<lambda>(t, r). (JStr t, r)) (parse_str cs)
          else if c = CHR ''t'' then parse_lit ''true'' (JBool True) (c # cs)
          else if c = CHR ''f'' then parse_lit ''false'' (JBool False) (c # cs)
          else if c = CHR ''n'' then parse_lit ''null'' JNull (c # cs)
          else map_option (\<lambda>(d, r). (JNum d, r)) (parse_num (c # cs)))"
| "parse_elems 0 acc s = None"
| "parse_elems (Suc f) acc s =
     (case parse_value f s of
        None \<Rightarrow> None
      | Some (v, r) \<Rightarrow>
          (case skip_ws r of
             [] \<Rightarrow> None
           | d # ds \<Rightarrow>
               if d = CHR '','' then parse_elems f (acc @ [v]) ds
               else if d = CHR '']'' then Some (JArr (acc @ [v]), ds)
               else None))"
| "parse_members 0 acc s = None"
| "parse_members (Suc f) acc s =
     (case skip_ws s of
        [] \<Rightarrow> None
      | q # qs \<Rightarrow>
          if q \<noteq> chr_dq then None
          else (case parse_str qs of
                  None \<Rightarrow> None
                | Some (k, r) \<Rightarrow>
                    (case skip_ws r of
                       [] \<Rightarrow> None
                     | d # ds \<Rightarrow>
                         if d \<noteq> CHR '':'' then None
                         else (case parse_value f ds of
                                 None \<Rightarrow> None
                               | Some (v, r') \<Rightarrow>
                                   (case skip_ws r' of
                                      [] \<Rightarrow> None
                                    | e # es \<Rightarrow>
                                        if e = CHR '','' then parse_members f (obj_put k v acc) es
                                        else if e = CHR ''}'' then Some (JObj (obj_put k v acc), es)
                                        else None)))))"

declare parse_value.simps [simp del] parse_elems.simps [simp del] parse_members.simps [simp del]

definition json_parse :: "string \<Rightarrow> json option" where
  "json_parse s =
     (case parse_value (Suc (2 * length s)) s of
        Some (v, r) \<Rightarrow> if skip_ws r = [] then Some v else None
      | None \<Rightarrow> None)"

end
