(* ===== verification/Json_Roundtrip.thy ===== *)
theory Json_Roundtrip
  imports Json
begin

text \<open>
  What a program printed with \<open>JSON.stringify\<close>, \<open>JSON.parse\<close> reads back: the round trip for string
  literals without restriction, and for every value whose numbers are integers below
  \<open>10 ^ 21\<close> and whose objects have distinct keys. A printed value holds no control character, so
  it is one line of a newline-delimited stream.
\<close>

section \<open>String literals\<close>

lemma chr_codes [simp]:
  "code_of (CHR 0x08) = 8" "code_of (CHR 0x0A) = 10" "code_of (CHR 0x0C) = 12" "code_of (CHR 0x0D) = 13"
  "code_of (CHR 0x09) = 9" "code_of (CHR 0x22) = 34" "code_of (CHR 0x5C) = 92" "code_of (CHR 0x0B) = 11"
  "code_of (CHR 0x20) = 32"
  by (simp_all add: code_of_def)

lemma code_of_hex_chr: "n < 16 \<Longrightarrow> 48 \<le> code_of (hex_chr n)"
  by (simp add: hex_chr_def)

lemma esc_char_printable: "x \<in> set (esc_char c) \<Longrightarrow> 32 \<le> code_of x"
proof -
  assume x: "x \<in> set (esc_char c)"
  have lit: "32 \<le> code_of CHR ''b''" "32 \<le> code_of CHR ''f''" "32 \<le> code_of CHR ''n''" "32 \<le> code_of CHR ''r''"
    "32 \<le> code_of CHR ''t''" "32 \<le> code_of CHR ''u''" "32 \<le> code_of CHR ''0''"
    by (simp_all add: code_of_def)
  have hx: "32 \<le> code_of (hex_chr (n div 16))" "32 \<le> code_of (hex_chr (n mod 16))" if "n < 32" for n
  proof -
    have "n div 16 < 16" using that by (simp add: less_mult_imp_div_less)
    then show "32 \<le> code_of (hex_chr (n div 16))" using code_of_hex_chr [of "n div 16"] by simp
    show "32 \<le> code_of (hex_chr (n mod 16))" using code_of_hex_chr [of "n mod 16"] by simp
  qed
  show ?thesis
    using x lit hx [of "code_of c"] by (auto simp: esc_char_def split: if_splits)
qed

lemma esc_body_printable: "x \<in> set (esc_body s) \<Longrightarrow> 32 \<le> code_of x"
  by (auto simp: esc_body_def dest: esc_char_printable)

lemma quote_json_printable: "x \<in> set (quote_json s) \<Longrightarrow> 32 \<le> code_of x"
  by (auto simp: quote_json_def dest: esc_body_printable)

lemma parse_str_esc_char:
  "parse_str (esc_char c @ r) = map_option (\<lambda>(t, r). (c # t, r)) (parse_str r)"
proof -
  have hx: "is_hex CHR ''0''" "hex_val CHR ''0'' = 0"
    by (simp_all add: is_hex_def is_digit_def hex_val_def code_of_def)
  have ctl: "utf8 (code_of c) = [c]" if "code_of c < 32"
    using that by (simp add: utf8_def)
  show ?thesis
    using code_of_less [of c]
    by (auto simp: esc_char_def unesc_def hx ctl)
qed

lemma parse_str_esc_body: "parse_str (esc_body s @ chr_dq # r) = Some (s, r)"
  by (induction s) (simp_all add: esc_body_def parse_str_esc_char)

lemma parse_str_quote: "parse_str (tl (quote_json s) @ r) = Some (s, r)"
  by (simp add: quote_json_def parse_str_esc_body)

lemma esc_body_inject: "esc_body a = esc_body b \<longleftrightarrow> a = b"
  by (metis parse_str_esc_body option.inject prod.inject)

section \<open>Integers\<close>

lemma digit_chr_zero: "digit_chr 0 = CHR ''0''"
  by (simp flip: code_of_inject add: digit_chr_def) (simp add: code_of_def)

definition int_dec :: "dec \<Rightarrow> bool" where
  "int_dec d \<longleftrightarrow> 0 \<le> expo d \<and> int (length (nat_str (nat \<bar>mant d\<bar>))) + expo d \<le> 21
     \<and> (mant d = 0 \<longrightarrow> expo d = 0) \<and> (mant d \<noteq> 0 \<longrightarrow> mant d mod 10 \<noteq> 0)"

definition ends_num :: "string \<Rightarrow> bool" where
  "ends_num r \<longleftrightarrow> r = [] \<or> hd r \<in> {CHR '','', CHR '']'', CHR ''}''}"

lemma nat_str_hd_zero: "0 < n \<Longrightarrow> hd (nat_str n) \<noteq> CHR ''0''"
proof (induction n rule: nat_str.induct)
  case (1 n)
  show ?case
  proof (cases "n < 10")
    case True
    have "digit_chr n \<noteq> digit_chr 0"
      using True 1 by (metis digit_val_chr less_numeral_extra(3) zero_less_numeral)
    then show ?thesis using True by (simp add: nat_str.simps [of n] digit_chr_zero)
  next
    case False
    then have "hd (nat_str (n div 10)) \<noteq> CHR ''0''" using 1 by simp
    with False show ?thesis by (simp add: nat_str.simps [of n])
  qed
qed

lemma takeWhile_digits:
  "list_all is_digit ds \<Longrightarrow> r = [] \<or> \<not> is_digit (hd r) \<Longrightarrow> takeWhile is_digit (ds @ r) = ds"
  by (induction ds) (cases r, auto)

lemma ends_num_not_digit: "ends_num r \<Longrightarrow> r = [] \<or> \<not> is_digit (hd r)"
  by (auto simp: ends_num_def is_digit_def code_of_def)

lemma parse_exp_ends: "ends_num r \<Longrightarrow> parse_exp r = Some (0, r)"
  by (auto simp: ends_num_def parse_exp_def split: list.splits)

lemma read_nat_zeros: "read_nat n (replicate k CHR ''0'') = n * 10 ^ k"
  by (induction k arbitrary: n) (simp_all add: digit_val_def code_of_def)

lemma norm_dec_shift: "m \<noteq> 0 \<Longrightarrow> m mod 10 \<noteq> 0 \<Longrightarrow> norm_dec (m * 10 ^ k) e = Dec m (e + int k)"
proof (induction k arbitrary: e)
  case 0
  then show ?case by (simp add: norm_dec.simps)
next
  case (Suc k)
  have "norm_dec (m * 10 ^ Suc k) e = norm_dec (m * 10 ^ k) (e + 1)"
    using Suc.prems by (subst norm_dec.simps) (simp add: mult.left_commute)
  with Suc show ?case by simp
qed

lemma num_str_int:
  assumes "int_dec d"
  shows "num_str d = (if mant d < 0 then ''-'' else '''') @ nat_str (nat \<bar>mant d\<bar>) @ replicate (nat (expo d)) CHR ''0''"
  using assms by (auto simp: num_str_def int_dec_def Let_def)

lemma nat_str_zero: "nat_str 0 = ''0''"
  by (simp add: nat_str.simps digit_chr_zero)

lemma is_digit_zero: "is_digit CHR ''0''"
  by (simp add: is_digit_def code_of_def)

lemma num_sign_neg: "num_sign (CHR ''-'' # s) = (True, s)"
  by (simp add: num_sign_def)

lemma num_sign_pos: "c \<noteq> CHR ''-'' \<Longrightarrow> num_sign (c # s) = (False, c # s)"
  by (simp add: num_sign_def)

lemma num_int_digits:
  assumes "list_all is_digit ds" and "take 1 ds = ''0'' \<Longrightarrow> ds = ''0''" and "ends_num r"
  shows "num_int (ds @ r) = (ds, r)"
proof -
  have tw: "takeWhile is_digit (ds @ r) = ds"
    by (rule takeWhile_digits [OF assms(1) ends_num_not_digit [OF assms(3)]])
  have ip: "(if take 1 ds = ''0'' then ''0'' else ds) = ds"
    using assms(2) by (cases "take 1 ds = ''0''") simp_all
  show ?thesis by (simp only: num_int_def Let_def tw ip append_eq_conv_conj) simp
qed

lemma num_frac_none: "ends_num r \<Longrightarrow> num_frac r = Some ([], r)"
  by (cases r) (auto simp: ends_num_def num_frac_def)

lemma parse_num_plain:
  assumes ds: "list_all is_digit ds" "ds \<noteq> []" "take 1 ds = ''0'' \<Longrightarrow> ds = ''0''" and r: "ends_num r"
  shows "parse_num ((if neg then ''-'' else '''') @ ds @ r) = Some (norm_dec ((if neg then -1 else 1) * int (read_nat 0 ds)) 0, r)"
proof -
  obtain c cs where c: "ds = c # cs" "is_digit c" using ds by (cases ds) auto
  have sg: "num_sign ((if neg then ''-'' else '''') @ ds @ r) = (neg, ds @ r)"
  proof -
    have "c \<noteq> CHR ''-''" using c(2) by auto
    then show ?thesis using c(1) by (cases neg) (simp_all add: num_sign_neg num_sign_pos)
  qed
  have "num_int (ds @ r) = (ds, r)"
    by (rule num_int_digits) (use ds r in auto)
  then show ?thesis
    by (simp add: parse_num_def sg ds(2) num_frac_none [OF r] parse_exp_ends [OF r])
qed

lemma parse_num_int:
  assumes d: "int_dec d" and r: "ends_num r"
  shows "parse_num (num_str d @ r) = Some (d, r)"
proof -
  define ds where "ds = nat_str (nat \<bar>mant d\<bar>) @ replicate (nat (expo d)) CHR ''0''"
  have dig: "list_all is_digit ds"
    by (simp add: ds_def nat_str_digits is_digit_zero list_all_iff [of _ "replicate _ _"])
  have z: "ds = ''0''" if "take 1 ds = ''0''"
  proof (cases "mant d = 0")
    case True
    with d show ?thesis by (simp add: ds_def int_dec_def nat_str_zero)
  next
    case False
    then have "hd (nat_str (nat \<bar>mant d\<bar>)) \<noteq> CHR ''0''" by (intro nat_str_hd_zero) simp
    with that nat_str_ne show ?thesis by (cases "nat_str (nat \<bar>mant d\<bar>)") (auto simp: ds_def)
  qed
  have val: "norm_dec ((if mant d < 0 then -1 else 1) * int (read_nat 0 ds)) 0 = d"
  proof (cases "mant d = 0")
    case True
    with d show ?thesis by (cases d) (simp add: ds_def int_dec_def norm_dec.simps read_nat_append read_nat_zeros)
  next
    case False
    then have "(if mant d < 0 then -1 else 1) * int (read_nat 0 ds) = mant d * 10 ^ nat (expo d)"
      by (simp add: ds_def read_nat_append read_nat_zeros)
    with False d show ?thesis by (cases d) (simp add: int_dec_def norm_dec_shift)
  qed
  have "ds \<noteq> []" by (simp add: ds_def)
  from parse_num_plain [OF dig this z r, of "mant d < 0"] val
  show ?thesis by (simp add: num_str_int [OF d] ds_def)
qed

section \<open>Values\<close>

fun json_ok :: "json \<Rightarrow> bool" where
  "json_ok (JNum d) = int_dec d"
| "json_ok (JArr xs) = list_all json_ok xs"
| "json_ok (JObj kvs) = (distinct (map fst kvs) \<and> list_all (\<lambda>kv. json_ok (snd kv)) kvs)"
| "json_ok _ = True"

fun json_fuel :: "json \<Rightarrow> nat" where
  "json_fuel (JArr xs) = Suc (sum_list (map (\<lambda>x. Suc (json_fuel x)) xs))"
| "json_fuel (JObj kvs) = Suc (sum_list (map (\<lambda>kv. Suc (json_fuel (snd kv))) kvs))"
| "json_fuel _ = 1"

definition member_str :: "string \<times> json \<Rightarrow> string" where
  "member_str kv = quote_json (fst kv) @ '':'' @ json_stringify (snd kv)"

lemma stringify_obj: "json_stringify (JObj kvs) = ''{'' @ join '','' (map member_str kvs) @ ''}''"
  by (simp add: member_str_def [abs_def])

text \<open>The first character of a printed value decides the branch the parser takes.\<close>

lemma num_str_hd:
  assumes "int_dec d"
  shows "\<exists>c cs. num_str d = c # cs \<and> (c = CHR ''-'' \<or> is_digit c)"
proof -
  obtain c cs where "nat_str (nat \<bar>mant d\<bar>) = c # cs" by (cases "nat_str (nat \<bar>mant d\<bar>)") auto
  moreover have "is_digit c" using nat_str_digits [of "nat \<bar>mant d\<bar>"] calculation by simp
  ultimately show ?thesis using num_str_int [OF assms] by auto
qed

lemma skip_ws_not: "\<not> json_ws c \<Longrightarrow> skip_ws (c # cs) = c # cs"
  by (simp add: skip_ws_def)

lemma not_ws [simp]:
  "\<not> json_ws CHR ''{''" "\<not> json_ws CHR ''['' " "\<not> json_ws CHR ''-''" "\<not> json_ws CHR ''}''" "\<not> json_ws CHR '']''"
  "\<not> json_ws CHR ''t''" "\<not> json_ws CHR ''f''" "\<not> json_ws CHR ''n''" "\<not> json_ws CHR 0x22" "\<not> json_ws CHR '',''"
  "\<not> json_ws CHR '':''"
  by (simp_all add: json_ws_def)

lemma digit_not [simp]: "is_digit c \<Longrightarrow> \<not> json_ws c"
  "\<not> is_digit CHR ''{''" "\<not> is_digit CHR ''[''" "\<not> is_digit CHR ''t''" "\<not> is_digit CHR ''f''" "\<not> is_digit CHR ''n''"
  "\<not> is_digit CHR 0x22" "\<not> is_digit CHR ''}''" "\<not> is_digit CHR '']''"
  by (auto simp: json_ws_def is_digit_def code_of_def)

lemma stringify_hd:
  assumes "json_ok j"
  shows "\<exists>c cs. json_stringify j = c # cs \<and> \<not> json_ws c \<and> c \<noteq> CHR '']'' \<and> c \<noteq> CHR ''}''"
proof (cases j)
  case (JNum d)
  with assms num_str_hd [of d] show ?thesis by auto
qed (auto simp: quote_json_def)

lemma member_str_hd: "\<exists>cs. member_str kv = CHR 0x22 # cs"
  by (simp add: member_str_def quote_json_def)

lemma join_map_hd:
  assumes "xs \<noteq> []"
  shows "\<exists>r. join s (map f xs) @ t = f (hd xs) @ r"
  using assms by (cases xs; cases "tl xs") auto

lemma skip_ws_stringify: "json_ok j \<Longrightarrow> skip_ws (json_stringify j @ r) = json_stringify j @ r"
  using stringify_hd [of j] by (auto simp: skip_ws_not)

definition reads_back :: "json \<Rightarrow> bool" where
  "reads_back j \<longleftrightarrow> (\<forall>f r. json_fuel j \<le> f \<longrightarrow> ends_num r \<longrightarrow> parse_value f (json_stringify j @ r) = Some (j, r))"

lemma reads_backD: "reads_back j \<Longrightarrow> json_fuel j \<le> f \<Longrightarrow> ends_num r \<Longrightarrow> parse_value f (json_stringify j @ r) = Some (j, r)"
  by (simp add: reads_back_def)

lemma json_fuel_pos: "0 < json_fuel j"
  by (cases j) auto

lemma reads_backI:
  assumes "\<And>f r. json_fuel j \<le> Suc f \<Longrightarrow> ends_num r \<Longrightarrow> parse_value (Suc f) (json_stringify j @ r) = Some (j, r)"
  shows "reads_back j"
  unfolding reads_back_def
proof (intro allI impI)
  fix f r assume "json_fuel j \<le> f" "ends_num r"
  then show "parse_value f (json_stringify j @ r) = Some (j, r)"
    using assms json_fuel_pos [of j] by (cases f) auto
qed

lemma ends_num_delims [simp]: "ends_num (CHR '','' # r)" "ends_num (CHR '']'' # r)" "ends_num (CHR ''}'' # r)"
  by (simp_all add: ends_num_def)

lemma parse_elems_back:
  assumes "xs \<noteq> []" and "\<And>x. x \<in> set xs \<Longrightarrow> reads_back x"
    and "sum_list (map (\<lambda>x. Suc (json_fuel x)) xs) \<le> f"
  shows "parse_elems f acc (join '','' (map json_stringify xs) @ CHR '']'' # r) = Some (JArr (acc @ xs), r)"
  using assms
proof (induction xs arbitrary: f acc)
  case Nil
  then show ?case by simp
next
  case (Cons x xs)
  from Cons.prems(3) obtain g where f: "f = Suc g" by (cases f) auto
  have x: "reads_back x" and g: "json_fuel x \<le> g" using Cons.prems f by auto
  show ?case
  proof (cases "xs = []")
    case True
    then show ?thesis
      by (simp add: f parse_elems.simps reads_backD [OF x g] skip_ws_not)
  next
    case False
    have "parse_elems g (acc @ [x]) (join '','' (map json_stringify xs) @ CHR '']'' # r) = Some (JArr ((acc @ [x]) @ xs), r)"
      by (rule Cons.IH) (use False Cons.prems f in auto)
    with False show ?thesis
      by (simp add: f parse_elems.simps reads_backD [OF x g] skip_ws_not join_Cons)
  qed
qed

lemma obj_put_fresh: "k \<notin> fst ` set acc \<Longrightarrow> obj_put k v acc = acc @ [(k, v)]"
  by (induction acc) auto

lemma parse_members_back:
  assumes "kvs \<noteq> []" and "\<And>kv. kv \<in> set kvs \<Longrightarrow> reads_back (snd kv)"
    and "distinct (map fst (acc @ kvs))"
    and "sum_list (map (\<lambda>kv. Suc (json_fuel (snd kv))) kvs) \<le> f"
  shows "parse_members f acc (join '','' (map member_str kvs) @ CHR ''}'' # r) = Some (JObj (acc @ kvs), r)"
  using assms
proof (induction kvs arbitrary: f acc)
  case Nil
  then show ?case by simp
next
  case (Cons kv kvs)
  obtain k v where kv: "kv = (k, v)" by (cases kv)
  from Cons.prems(4) obtain g where f: "f = Suc g" by (cases f) auto
  have v: "reads_back v" using Cons.prems(2) [of kv] kv by simp
  have g: "json_fuel v \<le> g" using Cons.prems f kv by auto
  have put: "obj_put k v acc = acc @ [(k, v)]"
    using Cons.prems(3) kv by (intro obj_put_fresh) auto
  have str: "parse_str (esc_body k @ chr_dq # CHR '':'' # json_stringify v @ t) = Some (k, CHR '':'' # json_stringify v @ t)" for t
    by (rule parse_str_esc_body)
  show ?case
  proof (cases "kvs = []")
    case True
    then show ?thesis
      by (simp add: f kv parse_members.simps member_str_def quote_json_def skip_ws_not str reads_backD [OF v g] put)
  next
    case False
    have "parse_members g (acc @ [(k, v)]) (join '','' (map member_str kvs) @ CHR ''}'' # r) = Some (JObj ((acc @ [(k, v)]) @ kvs), r)"
      by (rule Cons.IH) (use False Cons.prems f kv in auto)
    with False show ?thesis
      by (simp add: f kv parse_members.simps member_str_def [of "(k, v)"] quote_json_def skip_ws_not str
          reads_backD [OF v g] put join_Cons)
  qed
qed

lemma starts_lit [simp]: "starts_with l (l @ r)" by simp

lemma parse_back: "json_ok j \<Longrightarrow> reads_back j"
proof (induction j)
  case JNull
  show ?case by (rule reads_backI) (simp add: parse_value.simps skip_ws_not parse_lit_def starts_with_def)
next
  case (JBool b)
  show ?case by (rule reads_backI) (simp add: parse_value.simps skip_ws_not parse_lit_def starts_with_def)
next
  case (JNum d)
  then have d: "int_dec d" by simp
  have "parse_value (Suc f) (num_str d @ r) = Some (JNum d, r)" if "ends_num r" for f r
  proof -
    obtain c cs where c: "num_str d = c # cs" and cd: "c = CHR ''-'' \<or> is_digit c" using num_str_hd [OF d] by blast
    have "\<not> json_ws c" "c \<noteq> CHR ''{''" "c \<noteq> CHR ''[''" "c \<noteq> chr_dq" "c \<noteq> CHR ''t''" "c \<noteq> CHR ''f''" "c \<noteq> CHR ''n''"
      using cd by (elim disjE; force)+
    then show ?thesis using parse_num_int [OF d that] c by (simp add: parse_value.simps skip_ws_not)
  qed
  then show ?case by (intro reads_backI) simp
next
  case (JStr s)
  show ?case
    by (rule reads_backI) (simp add: parse_value.simps skip_ws_not quote_json_def parse_str_esc_body)
next
  case (JArr xs)
  have el: "reads_back x" if "x \<in> set xs" for x
    using JArr that by (auto simp: list_all_iff)
  have "parse_value (Suc f) (json_stringify (JArr xs) @ r) = Some (JArr xs, r)"
    if "sum_list (map (\<lambda>x. Suc (json_fuel x)) xs) \<le> f" for f r
  proof (cases "xs = []")
    case True
    then show ?thesis by (simp add: parse_value.simps skip_ws_not)
  next
    case False
    then obtain x ys where xs: "xs = x # ys" by (cases xs) auto
    obtain t where t: "join '','' (map json_stringify xs) @ CHR '']'' # r = json_stringify x @ t"
      using join_map_hd [OF False, of "'',''" json_stringify "CHR '']'' # r"] xs by auto
    obtain c cs where c: "json_stringify x = c # cs" "\<not> json_ws c" "c \<noteq> CHR '']''"
      using stringify_hd [of x] JArr.prems xs by auto
    from parse_elems_back [OF False el that, of "[]" r]
    show ?thesis using t c by (simp add: parse_value.simps skip_ws_not)
  qed
  then show ?case by (intro reads_backI) (simp del: json_stringify.simps)
next
  case (JObj kvs)
  have el: "reads_back (snd kv)" if "kv \<in> set kvs" for kv
    using JObj that by (cases kv) (auto simp: list_all_iff)
  have "parse_value (Suc f) (json_stringify (JObj kvs) @ r) = Some (JObj kvs, r)"
    if "sum_list (map (\<lambda>kv. Suc (json_fuel (snd kv))) kvs) \<le> f" for f r
  proof (cases "kvs = []")
    case True
    then show ?thesis by (simp add: parse_value.simps skip_ws_not)
  next
    case False
    obtain t where t: "join '','' (map member_str kvs) @ CHR ''}'' # r = member_str (hd kvs) @ t"
      using join_map_hd [OF False, of "'',''" member_str "CHR ''}'' # r"] by auto
    obtain cs where c: "member_str (hd kvs) = CHR 0x22 # cs" using member_str_hd by blast
    have "distinct (map fst kvs)" using JObj.prems by simp
    then have "parse_members f [] (join '','' (map member_str kvs) @ CHR ''}'' # r) = Some (JObj kvs, r)"
      using parse_members_back [OF False el _ that, of "[]" r] by simp
    then show ?thesis using t c unfolding stringify_obj by (simp add: parse_value.simps skip_ws_not)
  qed
  then show ?case by (intro reads_backI) (simp del: json_stringify.simps)
qed

lemma num_str_ne: "num_str d \<noteq> []"
  by (cases "nat_str (nat \<bar>mant d\<bar>)") (auto simp: num_str_def Let_def)

lemma json_fuel_length: "json_fuel j \<le> 2 * length (json_stringify j)"
proof (induction j)
  case (JNum d)
  then show ?case using num_str_ne [of d] by (cases "num_str d") auto
next
  case (JArr xs)
  have "sum_list (map (\<lambda>x. Suc (json_fuel x)) xs) \<le> 2 * length (join '','' (map json_stringify xs)) + 2"
    using JArr
  proof (induction xs)
    case Nil
    then show ?case by simp
  next
    case (Cons x xs)
    have x: "json_fuel x \<le> 2 * length (json_stringify x)" using Cons.prems by simp
    have xs: "(\<Sum>x\<leftarrow>xs. Suc (json_fuel x)) \<le> 2 * length (join '','' (map json_stringify xs)) + 2"
      using Cons by simp
    show ?case using x xs by (cases "xs = []") (simp_all add: join_Cons)
  qed
  then show ?case by simp
next
  case (JObj kvs)
  have "sum_list (map (\<lambda>kv. Suc (json_fuel (snd kv))) kvs) \<le> 2 * length (join '','' (map member_str kvs)) + 2"
    using JObj
  proof (induction kvs)
    case Nil
    then show ?case by simp
  next
    case (Cons kv kvs)
    have "json_fuel (snd kv) \<le> 2 * length (json_stringify (snd kv))"
      using Cons.prems [of kv "snd kv"] by (cases kv) simp
    then have "Suc (json_fuel (snd kv)) \<le> 2 * length (member_str kv)"
      by (simp add: member_str_def)
    moreover have "(\<Sum>kv\<leftarrow>kvs. Suc (json_fuel (snd kv))) \<le> 2 * length (join '','' (map member_str kvs)) + 2"
      using Cons.prems by (intro Cons.IH) auto
    ultimately show ?case by (cases "kvs = []") (simp_all add: join_Cons)
  qed
  then show ?case unfolding stringify_obj by simp
qed (simp_all add: quote_json_def)

theorem json_roundtrip: "json_ok j \<Longrightarrow> json_parse (json_stringify j) = Some j"
  using reads_backD [OF parse_back [of j], of "Suc (2 * length (json_stringify j))" "[]"] json_fuel_length [of j]
  by (simp add: json_parse_def ends_num_def skip_ws_def)

lemma digit_printable: "is_digit c \<Longrightarrow> 32 \<le> code_of c"
  by (simp add: is_digit_def)

lemma nat_str_printable: "c \<in> set (nat_str n) \<Longrightarrow> 32 \<le> code_of c"
  using nat_str_digits [of n] by (auto simp: list_all_iff intro: digit_printable)

lemma num_str_printable: "c \<in> set (num_str d) \<Longrightarrow> 32 \<le> code_of c"
  by (auto simp: num_str_def int_str_def Let_def code_of_def [of "CHR ''0''"] code_of_def [of "CHR ''-''"]
      code_of_def [of "CHR ''.''"] code_of_def [of "CHR ''e''"] code_of_def [of "CHR ''+''"]
      dest: nat_str_printable in_set_takeD in_set_dropD split: if_splits)

lemma join_set: "c \<in> set (join sep ws) \<Longrightarrow> c \<in> set sep \<or> (\<exists>w \<in> set ws. c \<in> set w)"
  by (induction sep ws rule: join.induct) auto

lemma lit_printable:
  "list_all (\<lambda>c. 32 \<le> code_of c) ''null''" "list_all (\<lambda>c. 32 \<le> code_of c) ''true''"
  "list_all (\<lambda>c. 32 \<le> code_of c) ''false''" "list_all (\<lambda>c. 32 \<le> code_of c) ''{}[],:''"
  by (simp_all add: code_of_def)

definition printable :: "string \<Rightarrow> bool" where
  "printable s \<longleftrightarrow> list_all (\<lambda>c. 32 \<le> code_of c) s"

lemma printable_append [simp]: "printable (a @ b) \<longleftrightarrow> printable a \<and> printable b"
  by (simp add: printable_def)

lemma printable_lits [simp]:
  "printable ''null''" "printable ''true''" "printable ''false''" "printable ''{''" "printable ''}''" "printable ''[''"
  "printable '']''" "printable '',''" "printable '':''" "printable []"
  by (simp_all add: printable_def code_of_def)

lemma printable_quote [simp]: "printable (quote_json s)"
  by (auto simp: printable_def list_all_iff dest: quote_json_printable)

lemma printable_num [simp]: "printable (num_str d)"
  by (auto simp: printable_def list_all_iff dest: num_str_printable)

lemma printable_join: "printable sep \<Longrightarrow> (\<And>w. w \<in> set ws \<Longrightarrow> printable w) \<Longrightarrow> printable (join sep ws)"
  by (induction sep ws rule: join.induct) (simp_all add: printable_def)

text \<open>A printed value has no control character, a newline least of all.\<close>

theorem json_stringify_printable: "printable (json_stringify j)"
proof (induction j)
  case (JArr xs)
  have "printable (join '','' (map json_stringify xs))"
    by (rule printable_join) (use JArr in auto)
  then show ?case by (simp only: json_stringify.simps printable_append printable_lits)
next
  case (JObj kvs)
  have "printable (member_str kv)" if "kv \<in> set kvs" for kv
    using JObj [of kv "snd kv"] that unfolding member_str_def by (cases kv) (simp only: printable_append printable_lits, simp)
  then have "printable (join '','' (map member_str kvs))"
    by (intro printable_join) auto
  then show ?case unfolding stringify_obj by (simp only: printable_append printable_lits)
qed (simp_all del: append.simps)

lemma json_stringify_one_line: "chr_nl \<notin> set (json_stringify j)"
  using json_stringify_printable [of j] by (auto simp: printable_def list_all_iff)

end
