(* ===== verification/World.thy ===== *)
theory World
  imports Json_Roundtrip
begin

text \<open>
  The world the command-line program acts on, and programs over it. A program is a function from
  the world to an outcome and the next world: a value, a thrown error, the end of the process
  (\<open>process.exit\<close>), or a promise that never settles (a response body without an end). The world
  holds what the sources reach through Node: environment, platform, a file tree, the network as
  an oracle over the requests sent so far, the clock, randomness, child processes, standard input
  and the two output streams.

  The clock is in milliseconds; the text of a date (\<open>toISOString\<close>) and its reading (\<open>Date.parse\<close>,
  \<open>None\<close> for \<open>NaN\<close>) are functions of the world, since the formats are the engine's, and so is the
  origin of a URL (\<open>None\<close> when \<open>new URL\<close> throws).
  The daemon, the remote registries, \<open>git\<close> and the keychain tools are not code of the repository's
  TypeScript: their answers are the oracle fields of the world, about which nothing is assumed.
\<close>

section \<open>Outcomes and programs\<close>

datatype js_error = JsError (err_msg: string) (err_code: "string option")

datatype 'a res = Val 'a | Err js_error | Exited int | Pending

datatype platform = Darwin | Linux | Win32

datatype node = File string | Dir

record http_req =
  rq_method :: string
  rq_url :: string
  rq_auth :: "string option"
  rq_body :: "string option"

text \<open>A response body of \<open>None\<close> is a stream that the server never ends.\<close>

record http_resp =
  rs_status :: nat
  rs_text :: string
  rs_body :: "string option"

datatype http_out = NetErr string | Answer http_resp

record world =
  w_env :: "string \<Rightarrow> string option"
  w_platform :: platform
  w_home :: string
  w_cwd :: string
  w_tree :: "(string \<times> node) list"
  w_denied :: "string \<Rightarrow> string option"
  w_net :: "http_req list \<Rightarrow> http_req \<Rightarrow> http_out"
  w_sent :: "http_req list"
  w_run :: "string list list \<Rightarrow> string list \<Rightarrow> (int \<times> string \<times> string) option"
  w_ran :: "string list list"
  w_now :: int
  w_date_str :: "int \<Rightarrow> string"
  w_date_parse :: "string \<Rightarrow> int option"
  w_url_origin :: "string \<Rightarrow> string option"
  w_rand :: "nat \<Rightarrow> byte"
  w_draws :: nat
  w_parse_msg :: "string \<Rightarrow> string"
  w_stdin :: string
  w_tty :: bool
  w_out :: string
  w_err :: string
  w_exit_code :: "int option"

type_synonym 'a prog = "world \<Rightarrow> 'a res \<times> world"

definition ret :: "'a \<Rightarrow> 'a prog" where
  "ret x w = (Val x, w)"

definition throwP :: "js_error \<Rightarrow> 'a prog" where
  "throwP e w = (Err e, w)"

definition throw_msg :: "string \<Rightarrow> 'a prog" where
  "throw_msg m w = (Err (JsError m None), w)"

definition exitP :: "int \<Rightarrow> 'a prog" where
  "exitP c w = (Exited c, w)"

definition pendP :: "'a prog" where
  "pendP w = (Pending, w)"

definition bindP :: "'a prog \<Rightarrow> ('a \<Rightarrow> 'b prog) \<Rightarrow> 'b prog" where
  "bindP m f w =
     (case m w of
        (Val x, w') \<Rightarrow> f x w'
      | (Err e, w') \<Rightarrow> (Err e, w')
      | (Exited c, w') \<Rightarrow> (Exited c, w')
      | (Pending, w') \<Rightarrow> (Pending, w'))"

definition thenP :: "'a prog \<Rightarrow> 'b prog \<Rightarrow> 'b prog" where
  "thenP m n = bindP m (\<lambda>_. n)"

text \<open>\<open>try { m } catch (e) { h(e) }\<close>: only a thrown error is caught, not the end of the process.\<close>

definition tryP :: "'a prog \<Rightarrow> (js_error \<Rightarrow> 'a prog) \<Rightarrow> 'a prog" where
  "tryP m h w = (case m w of (Err e, w') \<Rightarrow> h e w' | (r, w') \<Rightarrow> (r, w'))"

text \<open>\<open>try { m } finally { n }\<close>; an outcome of \<open>n\<close> other than a value replaces that of \<open>m\<close>.\<close>

definition finallyP :: "'a prog \<Rightarrow> unit prog \<Rightarrow> 'a prog" where
  "finallyP m n w =
     (case m w of
        (Exited c, w') \<Rightarrow> (Exited c, w')
      | (Pending, w') \<Rightarrow> (Pending, w')
      | (Val x, w') \<Rightarrow> thenP n (ret x) w'
      | (Err e, w') \<Rightarrow> thenP n (throwP e) w')"

definition whenP :: "bool \<Rightarrow> unit prog \<Rightarrow> unit prog" where
  "whenP b m = (if b then m else ret ())"

fun eachP :: "('a \<Rightarrow> unit prog) \<Rightarrow> 'a list \<Rightarrow> unit prog" where
  "eachP f [] = ret ()"
| "eachP f (x # xs) = thenP (f x) (eachP f xs)"

fun mapP :: "('a \<Rightarrow> 'b prog) \<Rightarrow> 'a list \<Rightarrow> 'b list prog" where
  "mapP f [] = ret []"
| "mapP f (x # xs) = bindP (f x) (\<lambda>y. bindP (mapP f xs) (\<lambda>ys. ret (y # ys)))"

fun foldP :: "('b \<Rightarrow> 'a \<Rightarrow> 'b prog) \<Rightarrow> 'b \<Rightarrow> 'a list \<Rightarrow> 'b prog" where
  "foldP f b [] = ret b"
| "foldP f b (x # xs) = bindP (f b x) (\<lambda>b'. foldP f b' xs)"

definition getsP :: "(world \<Rightarrow> 'a) \<Rightarrow> 'a prog" where
  "getsP f w = (Val (f w), w)"

definition updP :: "(world \<Rightarrow> world) \<Rightarrow> unit prog" where
  "updP f w = (Val (), f w)"

lemma run_ret [prog_simps]: "ret x w = (Val x, w)" by (simp add: ret_def)
lemma run_throwP [prog_simps]: "throwP e w = (Err e, w)" by (simp add: throwP_def)
lemma run_throw_msg [prog_simps]: "throw_msg m w = (Err (JsError m None), w)" by (simp add: throw_msg_def)
lemma run_exitP [prog_simps]: "exitP c w = (Exited c, w)" by (simp add: exitP_def)
lemma run_pendP [prog_simps]: "pendP w = (Pending, w)" by (simp add: pendP_def)
lemma run_getsP [prog_simps]: "getsP f w = (Val (f w), w)" by (simp add: getsP_def)
lemma run_updP [prog_simps]: "updP f w = (Val (), f w)" by (simp add: updP_def)

lemma run_bindP [prog_simps]:
  "m w = (Val x, w') \<Longrightarrow> bindP m f w = f x w'"
  "m w = (Err e, w') \<Longrightarrow> bindP m f w = (Err e, w')"
  "m w = (Exited c, w') \<Longrightarrow> bindP m f w = (Exited c, w')"
  "m w = (Pending, w') \<Longrightarrow> bindP m f w = (Pending, w')"
  by (simp_all add: bindP_def)

lemma run_thenP [prog_simps]:
  "m w = (Val x, w') \<Longrightarrow> thenP m n w = n w'"
  "m w = (Err e, w') \<Longrightarrow> thenP m n w = (Err e, w')"
  "m w = (Exited c, w') \<Longrightarrow> thenP m n w = (Exited c, w')"
  "m w = (Pending, w') \<Longrightarrow> thenP m n w = (Pending, w')"
  by (simp_all add: thenP_def bindP_def)

lemma run_tryP [prog_simps]:
  "m w = (Val x, w') \<Longrightarrow> tryP m h w = (Val x, w')"
  "m w = (Err e, w') \<Longrightarrow> tryP m h w = h e w'"
  "m w = (Exited c, w') \<Longrightarrow> tryP m h w = (Exited c, w')"
  "m w = (Pending, w') \<Longrightarrow> tryP m h w = (Pending, w')"
  by (simp_all add: tryP_def)

lemma bindP_ret_left [simp]: "bindP (ret x) f = f x"
  by (rule ext) (simp add: bindP_def ret_def)

lemma bindP_ret_right [simp]: "bindP m ret = m"
  by (rule ext) (auto simp: bindP_def ret_def split: prod.splits res.splits)

lemma bindP_assoc: "bindP (bindP m f) g = bindP m (\<lambda>x. bindP (f x) g)"
  by (rule ext) (auto simp: bindP_def split: prod.splits res.splits)

lemma thenP_ret_left [simp]: "thenP (ret x) n = n"
  by (simp add: thenP_def)

lemma ret_Val: "ret x w = (Val y, w') \<longleftrightarrow> y = x \<and> w' = w"
  by (auto simp: ret_def)

lemma bindP_Val: "bindP m f w = (Val y, w'') \<longleftrightarrow> (\<exists>x w'. m w = (Val x, w') \<and> f x w' = (Val y, w''))"
  by (auto simp: bindP_def split: prod.splits res.splits)

lemma thenP_Val: "thenP m n w = (Val y, w'') \<longleftrightarrow> (\<exists>x w'. m w = (Val x, w') \<and> n w' = (Val y, w''))"
  by (simp add: thenP_def bindP_Val)

lemma bindP_cases:
  assumes "bindP m f w = (r, w'')"
  obtains (val) x w' where "m w = (Val x, w')" "f x w' = (r, w'')"
    | (err) e where "m w = (Err e, w'')" "r = Err e"
    | (exit) c where "m w = (Exited c, w'')" "r = Exited c"
    | (pending) "m w = (Pending, w'')" "r = Pending"
  using assms by (auto simp: bindP_def split: prod.splits res.splits)

text \<open>Every outcome of a program keeps a property of the world: closed under the combinators.\<close>

definition keeps :: "(world \<Rightarrow> 'b) \<Rightarrow> 'a prog \<Rightarrow> bool" where
  "keeps f m \<longleftrightarrow> (\<forall>w. f (snd (m w)) = f w)"

named_theorems keeps_intros \<open>operations that leave a component of the world as it is\<close>

lemma keepsD: "keeps f m \<Longrightarrow> m w = (r, w') \<Longrightarrow> f w' = f w"
  by (metis keeps_def snd_conv)

lemma keeps_bindP [keeps_intros]: "keeps f m \<Longrightarrow> (\<And>x. keeps f (g x)) \<Longrightarrow> keeps f (bindP m g)"
  by (auto simp: keeps_def bindP_def split: prod.splits res.splits) (metis snd_conv)+

lemma keeps_thenP [keeps_intros]: "keeps f m \<Longrightarrow> keeps f n \<Longrightarrow> keeps f (thenP m n)"
  by (simp add: thenP_def keeps_bindP)

lemma keeps_tryP [keeps_intros]: "keeps f m \<Longrightarrow> (\<And>e. keeps f (h e)) \<Longrightarrow> keeps f (tryP m h)"
  by (auto simp: keeps_def tryP_def split: prod.splits res.splits) (metis snd_conv)+

lemma keeps_basic [keeps_intros]:
  "keeps f (ret x)" "keeps f (throwP e)" "keeps f (throw_msg m)" "keeps f (exitP c)" "keeps f pendP" "keeps f (getsP g)"
  by (simp_all add: keeps_def ret_def throwP_def throw_msg_def exitP_def pendP_def getsP_def)

lemma keeps_updP [keeps_intros]: "(\<And>w. f (g w) = f w) \<Longrightarrow> keeps f (updP g)"
  by (simp add: keeps_def updP_def)

lemma keeps_whenP [keeps_intros]: "keeps f m \<Longrightarrow> keeps f (whenP b m)"
  by (simp add: whenP_def keeps_basic)

lemma keeps_if [keeps_intros]: "(b \<Longrightarrow> keeps f m) \<Longrightarrow> (\<not> b \<Longrightarrow> keeps f n) \<Longrightarrow> keeps f (if b then m else n)"
  by simp

lemma keeps_eachP [keeps_intros]: "(\<And>x. keeps f (g x)) \<Longrightarrow> keeps f (eachP g xs)"
  by (induction xs) (simp_all add: keeps_basic keeps_thenP)

lemma keeps_mapP [keeps_intros]: "(\<And>x. keeps f (g x)) \<Longrightarrow> keeps f (mapP g xs)"
  by (induction xs) (simp_all add: keeps_basic keeps_bindP)

lemma keeps_foldP [keeps_intros]: "(\<And>b x. keeps f (g b x)) \<Longrightarrow> keeps f (foldP g b xs)"
  by (induction xs arbitrary: b) (simp_all add: keeps_basic keeps_bindP)

text \<open>Every request a program sends satisfies \<open>P\<close>, whatever its outcome: closed under the combinators.\<close>

definition emits :: "(http_req \<Rightarrow> bool) \<Rightarrow> 'a prog \<Rightarrow> bool" where
  "emits P m \<longleftrightarrow> (\<forall>w. \<exists>rqs. w_sent (snd (m w)) = w_sent w @ rqs \<and> list_all P rqs)"

named_theorems emits_intros \<open>programs whose requests satisfy a predicate\<close>

lemma emitsD: "emits P m \<Longrightarrow> m w = (r, w') \<Longrightarrow> \<exists>rqs. w_sent w' = w_sent w @ rqs \<and> list_all P rqs"
  by (metis emits_def snd_conv)

lemma emitsI: "(\<And>w r w'. m w = (r, w') \<Longrightarrow> \<exists>rqs. w_sent w' = w_sent w @ rqs \<and> list_all P rqs) \<Longrightarrow> emits P m"
  by (metis emits_def prod.collapse)

lemma emits_silent: "keeps w_sent m \<Longrightarrow> emits P m"
  by (auto simp: emits_def keeps_def intro: exI [of _ "[]"])

lemma emits_then_world:
  assumes "w_sent w1 = w_sent w @ a" "list_all P a" "w_sent w2 = w_sent w1 @ b" "list_all P b"
  shows "\<exists>rqs. w_sent w2 = w_sent w @ rqs \<and> list_all P rqs"
  using assms by (intro exI [of _ "a @ b"]) simp

lemma emits_bindP [emits_intros]:
  assumes "emits P m" "\<And>x. emits P (g x)"
  shows "emits P (bindP m g)"
proof (rule emitsI)
  fix w r w' assume "bindP m g w = (r, w')"
  then show "\<exists>rqs. w_sent w' = w_sent w @ rqs \<and> list_all P rqs"
  proof (cases rule: bindP_cases)
    case (val x w1)
    from emitsD [OF assms(1) val(1)] emitsD [OF assms(2) val(2)] show ?thesis using emits_then_world by blast
  qed (use emitsD [OF assms(1)] in blast)+
qed

lemma emits_thenP [emits_intros]: "emits P m \<Longrightarrow> emits P n \<Longrightarrow> emits P (thenP m n)"
  by (simp add: thenP_def emits_bindP)

lemma emits_tryP [emits_intros]:
  assumes "emits P m" "\<And>e. emits P (h e)"
  shows "emits P (tryP m h)"
proof (rule emitsI)
  fix w r w' assume t: "tryP m h w = (r, w')"
  obtain r1 w1 where m: "m w = (r1, w1)" by fastforce
  from emitsD [OF assms(1) m] obtain a where a: "w_sent w1 = w_sent w @ a" "list_all P a" by blast
  show "\<exists>rqs. w_sent w' = w_sent w @ rqs \<and> list_all P rqs"
  proof (cases r1)
    case (Err e)
    with t m have "h e w1 = (r, w')" by (simp add: tryP_def)
    from emitsD [OF assms(2) this] a emits_then_world show ?thesis by blast
  qed (use t m a in \<open>auto simp: tryP_def\<close>)
qed

lemma emits_basic [emits_intros]:
  "emits P (ret x)" "emits P (throwP e)" "emits P (throw_msg m)" "emits P (exitP c)" "emits P pendP" "emits P (getsP g)"
  by (rule emits_silent, rule keeps_basic)+

lemma emits_if [emits_intros]: "(b \<Longrightarrow> emits P m) \<Longrightarrow> (\<not> b \<Longrightarrow> emits P n) \<Longrightarrow> emits P (if b then m else n)"
  by simp

lemma emits_whenP [emits_intros]: "emits P m \<Longrightarrow> emits P (whenP b m)"
  by (simp add: whenP_def emits_basic)

lemma emits_eachP [emits_intros]: "(\<And>x. x \<in> set xs \<Longrightarrow> emits P (f x)) \<Longrightarrow> emits P (eachP f xs)"
  by (induction xs) (simp_all add: emits_basic emits_thenP)

text \<open>Case distinctions.\<close>

lemma keeps_cases [keeps_intros]:
  "(\<And>a b. keeps f (g a b)) \<Longrightarrow> keeps f (case p of (a, b) \<Rightarrow> g a b)"
  "keeps f n \<Longrightarrow> (\<And>x. keeps f (m x)) \<Longrightarrow> keeps f (case v of None \<Rightarrow> n | Some x \<Rightarrow> m x)"
  "(\<And>x. keeps f (h x)) \<Longrightarrow> (\<And>y. keeps f (k y)) \<Longrightarrow> keeps f (case s of Inl x \<Rightarrow> h x | Inr y \<Rightarrow> k y)"
  by (auto split: prod.split option.split sum.split)

lemma emits_cases [emits_intros]:
  "(\<And>a b. emits P (g a b)) \<Longrightarrow> emits P (case p of (a, b) \<Rightarrow> g a b)"
  "emits P n \<Longrightarrow> (\<And>x. emits P (m x)) \<Longrightarrow> emits P (case v of None \<Rightarrow> n | Some x \<Rightarrow> m x)"
  "(\<And>x. emits P (h x)) \<Longrightarrow> (\<And>y. emits P (k y)) \<Longrightarrow> emits P (case s of Inl x \<Rightarrow> h x | Inr y \<Rightarrow> k y)"
  by (auto split: prod.split option.split sum.split)

end
