(* ===== verification/Node.thy ===== *)
theory Node
  imports World
begin

text \<open>
  The part of Node's standard library the sources call: POSIX \<open>path\<close> functions, the process streams
  and environment, \<open>fs\<close> on the file tree of the world, \<open>fetch\<close> and \<open>JSON.parse\<close> with its thrown
  error. A path denotes the file at its absolute, normalised form (\<open>fs_key\<close>); symbolic links,
  file modes and the Windows path syntax are not modelled. \<open>w_denied\<close> gives the error code of a
  path the process may not touch.
\<close>

section \<open>Paths\<close>

fun norm_segs :: "bool \<Rightarrow> string list \<Rightarrow> string list \<Rightarrow> string list" where
  "norm_segs ab acc [] = rev acc"
| "norm_segs ab acc (s # ss) =
     (if s = [] \<or> s = ''.'' then norm_segs ab acc ss
      else if s = ''..'' then
        (case acc of
           [] \<Rightarrow> norm_segs ab (if ab then [] else [s]) ss
         | a # as \<Rightarrow> if a = ''..'' then norm_segs ab (s # acc) ss else norm_segs ab as ss)
      else norm_segs ab (s # acc) ss)"

definition path_normalize :: "string \<Rightarrow> string" where
  "path_normalize p =
     (if p = [] then ''.''
      else let ab = starts_with ''/'' p; tr = ends_with ''/'' p;
               body = join ''/'' (norm_segs ab [] (split_on CHR ''/'' p))
           in if body = [] then (if ab then ''/'' else if tr then ''./'' else ''.'')
              else (if ab then ''/'' else '''') @ body @ (if tr then ''/'' else ''''))"

definition path_join :: "string list \<Rightarrow> string" where
  "path_join ps = path_normalize (join ''/'' (filter (\<lambda>p. p \<noteq> []) ps))"

text \<open>The components of the absolute path \<open>p\<close> denotes, seen from the directory \<open>cwd\<close>.\<close>

definition path_segs :: "string \<Rightarrow> string \<Rightarrow> string list" where
  "path_segs cwd p = norm_segs True [] (split_on CHR ''/'' (if starts_with ''/'' p then p else cwd @ ''/'' @ p))"

definition path_resolve :: "string \<Rightarrow> string \<Rightarrow> string" where
  "path_resolve cwd p = ''/'' @ join ''/'' (path_segs cwd p)"

text \<open>\<open>resolve(a, b)\<close>\<close>

definition path_resolve2 :: "string \<Rightarrow> string \<Rightarrow> string \<Rightarrow> string" where
  "path_resolve2 cwd a b = path_resolve (path_resolve cwd a) b"

definition path_dirname :: "string \<Rightarrow> string" where
  "path_dirname p =
     (let q = strip_slashes p;
          d = rev (dropWhile (\<lambda>c. c \<noteq> CHR ''/'') (rev q))
      in if p = [] then ''.''
         else if q = [] then ''/''
         else if d = [] then ''.''
         else if butlast d = [] then ''/'' else butlast d)"

definition path_basename :: "string \<Rightarrow> string" where
  "path_basename p = rev (takeWhile (\<lambda>c. c \<noteq> CHR ''/'') (rev (strip_slashes p)))"

section \<open>Process\<close>

definition env_var :: "string \<Rightarrow> string option prog" where
  "env_var k = getsP (\<lambda>w. w_env w k)"

text \<open>\<open>process.env.K ?? d\<close>\<close>

definition env_or :: "string \<Rightarrow> string prog \<Rightarrow> string prog" where
  "env_or k d = bindP (env_var k) (\<lambda>v. case v of Some s \<Rightarrow> ret s | None \<Rightarrow> d)"

definition stdout_write :: "string \<Rightarrow> unit prog" where
  "stdout_write s = updP (\<lambda>w. w\<lparr>w_out := w_out w @ s\<rparr>)"

definition stderr_write :: "string \<Rightarrow> unit prog" where
  "stderr_write s = updP (\<lambda>w. w\<lparr>w_err := w_err w @ s\<rparr>)"

definition out_line :: "string \<Rightarrow> unit prog" where
  "out_line s = stdout_write (s @ [chr_nl])"

definition err_line :: "string \<Rightarrow> unit prog" where
  "err_line s = stderr_write (s @ [chr_nl])"

definition set_exit_code :: "int \<Rightarrow> unit prog" where
  "set_exit_code c = updP (\<lambda>w. w\<lparr>w_exit_code := Some c\<rparr>)"

definition read_stdin :: "string prog" where
  "read_stdin w = (Val (w_stdin w), w\<lparr>w_stdin := []\<rparr>)"

text \<open>\<open>crypto.getRandomValues\<close> on an array of \<open>n\<close> bytes.\<close>

definition random_bytes :: "nat \<Rightarrow> byte list prog" where
  "random_bytes n w = (Val (map (\<lambda>i. w_rand w (w_draws w + i)) [0..<n]), w\<lparr>w_draws := w_draws w + n\<rparr>)"

text \<open>\<open>spawnSync\<close>: exit status, standard output and standard error, or \<open>None\<close> when it cannot start.\<close>

definition spawn_sync :: "string list \<Rightarrow> (int \<times> string \<times> string) option prog" where
  "spawn_sync cmd w = (Val (w_run w (w_ran w) cmd), w\<lparr>w_ran := w_ran w @ [cmd]\<rparr>)"

text \<open>The message of a caught error: \<open>e instanceof Error ? e.message : String(e)\<close>.\<close>

abbreviation error_text :: "js_error \<Rightarrow> string" where
  "error_text e \<equiv> err_msg e"

section \<open>JSON and HTTP\<close>

definition parse_json :: "string \<Rightarrow> json prog" where
  "parse_json s w = (case json_parse s of Some j \<Rightarrow> (Val j, w) | None \<Rightarrow> (Err (JsError (w_parse_msg w s) None), w))"

definition fetch :: "http_req \<Rightarrow> http_resp prog" where
  "fetch rq w =
     (case w_net w (w_sent w) rq of
        NetErr m \<Rightarrow> (Err (JsError m None), w\<lparr>w_sent := w_sent w @ [rq]\<rparr>)
      | Answer r \<Rightarrow> (Val r, w\<lparr>w_sent := w_sent w @ [rq]\<rparr>))"

definition resp_ok :: "http_resp \<Rightarrow> bool" where
  "resp_ok r \<longleftrightarrow> 200 \<le> rs_status r \<and> rs_status r < 300"

definition resp_text :: "http_resp \<Rightarrow> string prog" where
  "resp_text r = (case rs_body r of Some b \<Rightarrow> ret b | None \<Rightarrow> pendP)"

definition resp_json :: "http_resp \<Rightarrow> json prog" where
  "resp_json r = bindP (resp_text r) parse_json"

text \<open>Reading \<open>v.k\<close> throws when \<open>v\<close> is \<open>null\<close>.\<close>

definition type_error :: "string \<Rightarrow> js_error" where
  "type_error k = JsError (''null is not an object (evaluating '' @ [chr_sq] @ k @ [chr_sq] @ '')'') None"

definition propP :: "json \<Rightarrow> string \<Rightarrow> json option prog" where
  "propP j k = (if j = JNull then throwP (type_error k) else ret (jprop j k))"

lemma emits_fetch: "P rq \<Longrightarrow> emits P (fetch rq)"
  by (auto simp: emits_def fetch_def split: http_out.split)

lemma emits_node [emits_intros]:
  "emits P (env_var k)" "emits P (stdout_write s)" "emits P (stderr_write s)" "emits P (out_line s)" "emits P (err_line s)"
  "emits P (set_exit_code c)" "emits P read_stdin" "emits P (spawn_sync cmd)" "emits P (parse_json t)" "emits P (resp_text r)"
  "emits P (propP j k)"
  by (rule emits_silent, auto simp: keeps_def env_var_def getsP_def stdout_write_def stderr_write_def out_line_def err_line_def
      set_exit_code_def updP_def read_stdin_def spawn_sync_def parse_json_def resp_text_def ret_def pendP_def propP_def throwP_def
      split: option.split)+

lemma emits_env_or [emits_intros]: "emits P d \<Longrightarrow> emits P (env_or k d)"
  unfolding env_or_def by (rule emits_bindP) (auto intro: emits_intros split: option.split)

lemma emits_resp_json [emits_intros]: "emits P (resp_json r)"
  unfolding resp_json_def by (intro emits_intros)

section \<open>Files\<close>

definition fs_key :: "world \<Rightarrow> string \<Rightarrow> string" where
  "fs_key w p = path_resolve (w_cwd w) p"

definition node_at :: "world \<Rightarrow> string \<Rightarrow> node option" where
  "node_at w p = (if fs_key w p = ''/'' then Some Dir else map_of (w_tree w) (fs_key w p))"

text \<open>The contents of the file \<open>p\<close>, when it is a readable file.\<close>

definition file_at :: "world \<Rightarrow> string \<Rightarrow> string option" where
  "file_at w p = (case node_at w p of Some (File c) \<Rightarrow> (if w_denied w (fs_key w p) = None then Some c else None) | _ \<Rightarrow> None)"

definition fs_err :: "string \<Rightarrow> string \<Rightarrow> string \<Rightarrow> js_error" where
  "fs_err code op p = JsError (code @ '': '' @ op @ '' '' @ [chr_sq] @ p @ [chr_sq]) (Some code)"

definition put_node :: "string \<Rightarrow> node \<Rightarrow> world \<Rightarrow> world" where
  "put_node k n w = w\<lparr>w_tree := AList.update k n (w_tree w)\<rparr>"

definition del_node :: "string \<Rightarrow> world \<Rightarrow> world" where
  "del_node k w = w\<lparr>w_tree := AList.delete k (w_tree w)\<rparr>"

text \<open>\<open>existsSync\<close>\<close>

definition exists_sync :: "string \<Rightarrow> bool prog" where
  "exists_sync p = getsP (\<lambda>w. node_at w p \<noteq> None)"

definition read_file :: "string \<Rightarrow> string prog" where
  "read_file p w =
     (case w_denied w (fs_key w p) of
        Some code \<Rightarrow> (Err (fs_err code ''open'' p), w)
      | None \<Rightarrow>
          (case node_at w p of
             None \<Rightarrow> (Err (fs_err ''ENOENT'' ''open'' p), w)
           | Some Dir \<Rightarrow> (Err (fs_err ''EISDIR'' ''read'' p), w)
           | Some (File c) \<Rightarrow> (Val c, w)))"

definition write_file :: "string \<Rightarrow> string \<Rightarrow> unit prog" where
  "write_file p c w =
     (case w_denied w (fs_key w p) of
        Some code \<Rightarrow> (Err (fs_err code ''open'' p), w)
      | None \<Rightarrow>
          (if node_at w p = Some Dir then (Err (fs_err ''EISDIR'' ''open'' p), w)
           else (case node_at w (path_dirname (fs_key w p)) of
                   None \<Rightarrow> (Err (fs_err ''ENOENT'' ''open'' p), w)
                 | Some (File c') \<Rightarrow> (Err (fs_err ''ENOTDIR'' ''open'' p), w)
                 | Some Dir \<Rightarrow> (Val (), put_node (fs_key w p) (File c) w))))"

definition unlink :: "string \<Rightarrow> unit prog" where
  "unlink p w =
     (case w_denied w (fs_key w p) of
        Some code \<Rightarrow> (Err (fs_err code ''unlink'' p), w)
      | None \<Rightarrow>
          (case node_at w p of
             None \<Rightarrow> (Err (fs_err ''ENOENT'' ''unlink'' p), w)
           | Some Dir \<Rightarrow> (Err (fs_err ''EPERM'' ''unlink'' p), w)
           | Some (File c) \<Rightarrow> (Val (), del_node (fs_key w p) w)))"

text \<open>\<open>rename\<close> of a file; the target's directory is the source's in every call of the sources.\<close>

definition rename_file :: "string \<Rightarrow> string \<Rightarrow> unit prog" where
  "rename_file p q w =
     (case (w_denied w (fs_key w p), w_denied w (fs_key w q)) of
        (Some code, _) \<Rightarrow> (Err (fs_err code ''rename'' p), w)
      | (None, Some code) \<Rightarrow> (Err (fs_err code ''rename'' p), w)
      | (None, None) \<Rightarrow>
          (case node_at w p of
             Some (File c) \<Rightarrow>
               (if node_at w q = Some Dir then (Err (fs_err ''EISDIR'' ''rename'' p), w)
                else (Val (), put_node (fs_key w q) (File c) (del_node (fs_key w p) w)))
           | _ \<Rightarrow> (Err (fs_err ''ENOENT'' ''rename'' p), w)))"

text \<open>\<open>mkdir(p, {recursive: true})\<close>: every ancestor that is missing is made.\<close>

definition path_prefixes :: "string list \<Rightarrow> string list" where
  "path_prefixes segs = map (\<lambda>i. ''/'' @ join ''/'' (take i segs)) [1..<Suc (length segs)]"

definition mkdir_p :: "string \<Rightarrow> unit prog" where
  "mkdir_p p w =
     (let ks = path_prefixes (path_segs (w_cwd w) p) in
      case find (\<lambda>k. w_denied w k \<noteq> None \<and> map_of (w_tree w) k = None) ks of
        Some k \<Rightarrow> (Err (fs_err (the (w_denied w k)) ''mkdir'' p), w)
      | None \<Rightarrow>
          (if list_ex (\<lambda>k. case map_of (w_tree w) k of Some (File c) \<Rightarrow> True | _ \<Rightarrow> False) ks
           then (Err (fs_err ''EEXIST'' ''mkdir'' p), w)
           else (Val (), foldl (\<lambda>u k. put_node k Dir u) w ks)))"

text \<open>\<open>rm(p, {recursive: true, force: true})\<close>\<close>

definition rm_rf :: "string \<Rightarrow> unit prog" where
  "rm_rf p w =
     (case w_denied w (fs_key w p) of
        Some code \<Rightarrow> (Err (fs_err code ''rm'' p), w)
      | None \<Rightarrow>
          (Val (), w\<lparr>w_tree := filter (\<lambda>(k, n). k \<noteq> fs_key w p \<and> \<not> starts_with (fs_key w p @ ''/'') k) (w_tree w)\<rparr>))"

text \<open>The entries of a directory: the names one level below it, in the order of the tree.\<close>

definition dir_entries :: "world \<Rightarrow> string \<Rightarrow> (string \<times> node) list" where
  "dir_entries w p =
     (let k = (if fs_key w p = ''/'' then '''' else fs_key w p) @ ''/'' in
      map (\<lambda>(q, n). (drop (length k) q, n))
        (filter (\<lambda>(q, n). starts_with k q \<and> drop (length k) q \<noteq> [] \<and> CHR ''/'' \<notin> set (drop (length k) q)) (w_tree w)))"

definition read_dir :: "string \<Rightarrow> (string \<times> node) list prog" where
  "read_dir p w =
     (case w_denied w (fs_key w p) of
        Some code \<Rightarrow> (Err (fs_err code ''scandir'' p), w)
      | None \<Rightarrow>
          (case node_at w p of
             None \<Rightarrow> (Err (fs_err ''ENOENT'' ''scandir'' p), w)
           | Some (File c) \<Rightarrow> (Err (fs_err ''ENOTDIR'' ''scandir'' p), w)
           | Some Dir \<Rightarrow> (Val (dir_entries w p), w)))"

section \<open>Lemmas on the primitives\<close>

lemma run_env_var [prog_simps]: "env_var k w = (Val (w_env w k), w)"
  by (simp add: env_var_def getsP_def)

lemma run_env_or [prog_simps]:
  "env_or k d w = (case w_env w k of Some s \<Rightarrow> (Val s, w) | None \<Rightarrow> d w)"
  by (simp add: env_or_def bindP_def env_var_def getsP_def ret_def split: option.splits)

lemma run_stdout_write [prog_simps]: "stdout_write s w = (Val (), w\<lparr>w_out := w_out w @ s\<rparr>)"
  by (simp add: stdout_write_def updP_def)

lemma run_stderr_write [prog_simps]: "stderr_write s w = (Val (), w\<lparr>w_err := w_err w @ s\<rparr>)"
  by (simp add: stderr_write_def updP_def)

lemma run_out_line [prog_simps]: "out_line s w = (Val (), w\<lparr>w_out := w_out w @ s @ [chr_nl]\<rparr>)"
  by (simp add: out_line_def run_stdout_write)

lemma run_err_line [prog_simps]: "err_line s w = (Val (), w\<lparr>w_err := w_err w @ s @ [chr_nl]\<rparr>)"
  by (simp add: err_line_def run_stderr_write)

lemma run_set_exit_code [prog_simps]: "set_exit_code c w = (Val (), w\<lparr>w_exit_code := Some c\<rparr>)"
  by (simp add: set_exit_code_def updP_def)

lemma run_read_stdin [prog_simps]: "read_stdin w = (Val (w_stdin w), w\<lparr>w_stdin := []\<rparr>)"
  by (simp add: read_stdin_def)

lemma run_exists_sync [prog_simps]: "exists_sync p w = (Val (node_at w p \<noteq> None), w)"
  by (simp add: exists_sync_def getsP_def)

text \<open>Operations that only look, and those that change one component of the world.\<close>

lemma keeps_pure [keeps_intros]:
  "keeps f (env_var k)" "keeps f (parse_json t)" "keeps f (propP j k)" "keeps f (resp_text r)" "keeps f (exists_sync p)" "keeps f (read_file p)"
  by (auto simp: keeps_def prog_simps parse_json_def propP_def resp_text_def read_file_def split: option.splits node.splits)

lemma keeps_resp_json [keeps_intros]: "keeps f (resp_json r)"
  unfolding resp_json_def by (intro keeps_intros)

lemma keeps_fetch: "(\<And>w s. f (w\<lparr>w_sent := s\<rparr>) = f w) \<Longrightarrow> keeps f (fetch rq)"
  by (auto simp: keeps_def fetch_def split: http_out.splits)

lemma keeps_output:
  "(\<And>w s. f (w\<lparr>w_out := s\<rparr>) = f w) \<Longrightarrow> keeps f (stdout_write t)" "(\<And>w s. f (w\<lparr>w_out := s\<rparr>) = f w) \<Longrightarrow> keeps f (out_line t)"
  "(\<And>w s. f (w\<lparr>w_err := s\<rparr>) = f w) \<Longrightarrow> keeps f (stderr_write t)" "(\<And>w s. f (w\<lparr>w_err := s\<rparr>) = f w) \<Longrightarrow> keeps f (err_line t)"
  by (simp_all add: keeps_def prog_simps)

lemma keeps_sent_io [keeps_intros]:
  "keeps w_sent (stdout_write s)" "keeps w_sent (stderr_write s)" "keeps w_sent (out_line s)" "keeps w_sent (err_line s)"
  "keeps w_sent (set_exit_code c)" "keeps w_sent read_stdin"
  by (auto simp: keeps_def prog_simps)

lemma keeps_tree_io [keeps_intros]:
  "keeps w_tree (stdout_write s)" "keeps w_tree (stderr_write s)" "keeps w_tree (out_line s)" "keeps w_tree (err_line s)"
  "keeps w_tree (set_exit_code c)" "keeps w_tree read_stdin" "keeps w_tree (fetch rq)" "keeps w_tree (random_bytes n)"
  by (auto simp: keeps_def prog_simps fetch_def random_bytes_def split: http_out.splits)

lemma fetch_sent: "fetch rq w = (r, w') \<Longrightarrow> w_sent w' = w_sent w @ [rq]"
  by (auto simp: fetch_def split: http_out.splits)

lemma fs_key_put [simp]: "fs_key (put_node k n w) p = fs_key w p"
  and fs_key_del [simp]: "fs_key (del_node k w) p = fs_key w p"
  by (simp_all add: fs_key_def put_node_def del_node_def)

lemma denied_put [simp]: "w_denied (put_node k n w) = w_denied w"
  and denied_del [simp]: "w_denied (del_node k w) = w_denied w"
  by (simp_all add: put_node_def del_node_def)

lemma node_at_put: "node_at (put_node k n w) p = (if fs_key w p = ''/'' then Some Dir else if fs_key w p = k then Some n else node_at w p)"
  by (auto simp: node_at_def put_node_def fs_key_def)

lemma node_at_del: "node_at (del_node k w) p = (if fs_key w p = ''/'' then Some Dir else if fs_key w p = k then None else node_at w p)"
  by (auto simp: node_at_def del_node_def fs_key_def)

definition clean_seg :: "string \<Rightarrow> bool" where
  "clean_seg s \<longleftrightarrow> s \<noteq> [] \<and> s \<noteq> ''.'' \<and> s \<noteq> ''..''"

lemma norm_segs_clean: "list_all clean_seg acc \<Longrightarrow> list_all clean_seg (norm_segs True acc ss)"
proof (induction ss arbitrary: acc)
  case Nil
  then show ?case by (simp add: list_all_iff)
next
  case (Cons s ss)
  then show ?case by (cases acc) (simp_all add: clean_seg_def)
qed

lemma norm_segs_sub: "set (norm_segs ab acc ss) \<subseteq> set acc \<union> set ss"
proof (induction ss arbitrary: acc)
  case Nil
  then show ?case by simp
next
  case (Cons s ss)
  show ?case using Cons.IH [of "s # acc"] Cons.IH [of acc] Cons.IH [of "tl acc"] Cons.IH [of "[s]"] Cons.IH [of "[]"]
    by (cases acc) auto
qed

text \<open>A resolved path has no empty, \<open>.\<close> or \<open>..\<close> component, and no slash inside one.\<close>

lemma path_segs_clean: "s \<in> set (path_segs cwd p) \<Longrightarrow> s \<noteq> [] \<and> s \<noteq> ''.'' \<and> s \<noteq> ''..'' \<and> CHR ''/'' \<notin> set s"
proof -
  assume s: "s \<in> set (path_segs cwd p)"
  have "list_all clean_seg (path_segs cwd p)"
    unfolding path_segs_def by (rule norm_segs_clean) simp
  with s have "clean_seg s" by (simp add: list_all_iff)
  moreover from s have "CHR ''/'' \<notin> set s"
    unfolding path_segs_def using norm_segs_sub split_on_pieces by fastforce
  ultimately show ?thesis by (simp add: clean_seg_def)
qed

section \<open>Files in a directory\<close>

text \<open>A file name: one path component.\<close>

definition plain_name :: "string \<Rightarrow> bool" where
  "plain_name f \<longleftrightarrow> clean_seg f \<and> CHR ''/'' \<notin> set f"

lemma norm_segs_append: "norm_segs True acc (xs @ ys) = norm_segs True (rev (norm_segs True acc xs)) ys"
proof (induction xs arbitrary: acc)
  case (Cons x xs)
  then show ?case by (cases acc) simp_all
qed simp

lemma norm_segs_id: "list_all clean_seg ss \<Longrightarrow> norm_segs True acc ss = rev acc @ ss"
proof (induction ss arbitrary: acc)
  case (Cons s ss)
  then show ?case by (simp add: clean_seg_def)
qed simp

lemma norm_segs_name: "clean_seg f \<Longrightarrow> norm_segs True acc [f] = rev acc @ [f]"
  by (simp add: clean_seg_def)

declare norm_segs.simps [simp del]

lemma split_on_append: "split_on d (a @ d # b) = split_on d a @ split_on d b"
proof (induction a)
  case (Cons c a)
  then show ?case by (cases "split_on d a") (auto split: list.splits)
qed simp

definition dir_segs :: "string \<Rightarrow> string list" where
  "dir_segs h = norm_segs True [] (split_on CHR ''/'' h)"

lemma dir_segs_clean: "list_all clean_seg (dir_segs h)"
  unfolding dir_segs_def by (rule norm_segs_clean) simp

lemma dir_segs_no_slash: "s \<in> set (dir_segs h) \<Longrightarrow> CHR ''/'' \<notin> set s"
  unfolding dir_segs_def using norm_segs_sub split_on_pieces by fastforce

definition key_of :: "string list \<Rightarrow> string" where
  "key_of segs = ''/'' @ join ''/'' segs"

lemma key_of_segs:
  assumes "list_all clean_seg segs" "\<And>s. s \<in> set segs \<Longrightarrow> CHR ''/'' \<notin> set s"
  shows "dir_segs (key_of segs) = segs"
proof (cases "segs = []")
  case True
  then show ?thesis by (simp add: dir_segs_def key_of_def norm_segs.simps)
next
  case False
  have "split_on CHR ''/'' (key_of segs) = [] # split_on CHR ''/'' (join ''/'' segs)"
    by (simp add: key_of_def)
  also have "split_on CHR ''/'' (join ''/'' segs) = segs" by (rule split_join) (use False assms(2) in auto)
  finally show ?thesis
    using norm_segs_id [OF assms(1), of "[]"] by (simp add: dir_segs_def norm_segs.simps(2) [of _ _ "[]"])
qed

lemma key_of_inject:
  assumes "list_all clean_seg a" "\<And>s. s \<in> set a \<Longrightarrow> CHR ''/'' \<notin> set s"
    and "list_all clean_seg b" "\<And>s. s \<in> set b \<Longrightarrow> CHR ''/'' \<notin> set s" and "key_of a = key_of b"
  shows "a = b"
  by (metis key_of_segs [OF assms(1,2)] key_of_segs [OF assms(3,4)] assms(5))

lemma fs_key_abs: "starts_with ''/'' h \<Longrightarrow> fs_key w h = key_of (dir_segs h)"
  by (simp add: fs_key_def path_resolve_def path_segs_def dir_segs_def key_of_def)

text \<open>\<open>join(dir, name)\<close> under an absolute directory.\<close>

definition in_dir :: "string \<Rightarrow> string \<Rightarrow> string" where
  "in_dir h f = key_of (dir_segs h @ [f])"

lemma path_join_file:
  assumes "starts_with ''/'' h" "plain_name f"
  shows "path_join [h, f] = in_dir h f"
proof -
  from assms have ne: "h \<noteq> []" "f \<noteq> []" by (auto simp: starts_with_def plain_name_def clean_seg_def)
  have ns: "CHR ''/'' \<notin> set f" using assms(2) by (simp add: plain_name_def)
  obtain t where t: "h = CHR ''/'' # t" using assms(1) by (cases h) (auto simp: starts_with_def)
  let ?p = "h @ ''/'' @ f"
  have segs: "norm_segs True [] (split_on CHR ''/'' ?p) = dir_segs h @ [f]"
    using ns assms(2) by (simp add: split_on_append split_on_no_sep norm_segs_append norm_segs_name plain_name_def dir_segs_def)
  have tr: "\<not> ends_with ''/'' ?p"
    using ne(2) ns by (cases f rule: rev_cases) (auto simp: ends_with_def starts_with_def)
  have nb: "join ''/'' (dir_segs h @ [f]) \<noteq> []"
    using ne(2) by (cases "dir_segs h") (auto simp: join_Cons)
  have "path_join [h, f] = path_normalize ?p" using ne by (simp add: path_join_def)
  also have "\<dots> = in_dir h f"
    using tr nb segs by (simp add: path_normalize_def Let_def t in_dir_def key_of_def starts_with_def)
  finally show ?thesis .
qed

lemma in_dir_segs: "plain_name f \<Longrightarrow> dir_segs (in_dir h f) = dir_segs h @ [f]"
  unfolding in_dir_def by (rule key_of_segs) (use dir_segs_clean dir_segs_no_slash in \<open>auto simp: plain_name_def\<close>)

lemma in_dir_abs: "starts_with ''/'' (in_dir h f)"
  by (simp add: in_dir_def key_of_def starts_with_def)

lemma fs_key_in_dir: "plain_name f \<Longrightarrow> fs_key w (in_dir h f) = in_dir h f"
  by (simp add: fs_key_abs in_dir_abs in_dir_segs) (simp add: in_dir_def)

lemma in_dir_inject: "plain_name f \<Longrightarrow> plain_name g \<Longrightarrow> in_dir h f = in_dir h g \<longleftrightarrow> f = g"
  by (metis in_dir_segs append_same_eq last_snoc)

lemma in_dir_not_root: "plain_name f \<Longrightarrow> in_dir h f \<noteq> ''/''"
proof
  assume "plain_name f" "in_dir h f = ''/''"
  then have "dir_segs h @ [f] = dir_segs ''/''" using in_dir_segs [of f h] by simp
  then show False by (simp add: dir_segs_def norm_segs.simps)
qed

section \<open>What a successful file operation did\<close>

lemma write_file_Val:
  assumes "write_file p c w = (Val u, w')"
  shows "w' = put_node (fs_key w p) (File c) w" and "w_denied w (fs_key w p) = None"
  using assms by (auto simp: write_file_def split: option.splits if_splits node.splits)

lemma write_read:
  assumes "write_file p c w = (Val u, w')" and "fs_key w p \<noteq> ''/''"
  shows "read_file p w' = (Val c, w')"
  using write_file_Val [OF assms(1)] assms(2) by (simp add: read_file_def node_at_put)

lemma put_dirs:
  "node_at (foldl (\<lambda>u k. put_node k Dir u) w ks) q =
     (if fs_key w q = ''/'' \<or> fs_key w q \<in> set ks then Some Dir else node_at w q)
   \<and> w_denied (foldl (\<lambda>u k. put_node k Dir u) w ks) = w_denied w \<and> w_cwd (foldl (\<lambda>u k. put_node k Dir u) w ks) = w_cwd w"
proof (induction ks arbitrary: w)
  case Nil
  then show ?case by (simp add: node_at_def)
next
  case (Cons k ks)
  have "w_cwd (put_node k Dir w) = w_cwd w" by (simp add: put_node_def)
  with Cons.IH [of "put_node k Dir w"] show ?case by (auto simp: node_at_put)
qed

lemma foldl_put_fields:
  "w_env (foldl (\<lambda>u k. put_node k Dir u) w ks) = w_env w" "w_sent (foldl (\<lambda>u k. put_node k Dir u) w ks) = w_sent w"
  "w_rand (foldl (\<lambda>u k. put_node k Dir u) w ks) = w_rand w" "w_draws (foldl (\<lambda>u k. put_node k Dir u) w ks) = w_draws w"
  "w_now (foldl (\<lambda>u k. put_node k Dir u) w ks) = w_now w" "w_net (foldl (\<lambda>u k. put_node k Dir u) w ks) = w_net w"
  "w_platform (foldl (\<lambda>u k. put_node k Dir u) w ks) = w_platform w" "w_ran (foldl (\<lambda>u k. put_node k Dir u) w ks) = w_ran w"
  by (induction ks arbitrary: w) (simp_all add: put_node_def)

section \<open>A concrete world\<close>

definition demo_world :: world where
  "demo_world = \<lparr>w_env = (\<lambda>_. None), w_platform = Linux, w_home = ''/home/u'', w_cwd = ''/home/u'', w_tree = [],
     w_denied = (\<lambda>_. None), w_net = (\<lambda>_ _. NetErr ''refused''), w_sent = [], w_run = (\<lambda>_ _. None), w_ran = [],
     w_now = 0, w_date_str = (\<lambda>t. ''@'' @ int_str t), w_date_parse = (\<lambda>_. None), w_url_origin = (\<lambda>u. None), w_rand = (\<lambda>n. of_nat n), w_draws = 0, w_parse_msg = (\<lambda>_. ''bad JSON''), w_stdin = [], w_tty = False,
     w_out = [], w_err = [], w_exit_code = None\<rparr>"

definition answer_with :: "nat \<Rightarrow> string \<Rightarrow> http_req list \<Rightarrow> http_req \<Rightarrow> http_out" where
  "answer_with st body = (\<lambda>_ _. Answer \<lparr>rs_status = st, rs_text = '''', rs_body = Some body\<rparr>)"

end
