(* ===== verification/HookShims.thy ===== *)
theory HookShims
  imports Node
begin

text \<open>
  The command-hook shims \<open>agentlock hook <harness> <event>\<close> (\<open>cli/src/commands/hook-*.ts\<close>): each
  reads the harness' event from standard input, posts it to the daemon and turns the reply into an
  exit code. The four programs are written out as the sources have them; \<open>shim_protocol\<close> is the
  protocol they share, the locale \<open>hook_shim\<close> proves its contract once, and every shim is shown to
  be an instance of it.
\<close>

section \<open>The programs\<close>

definition hook_daemon_url :: "string prog" where
  "hook_daemon_url =
     env_or ''AGENTLOCK_DAEMON_URL''
       (env_or ''AGENTLOCK_CONTROL_PLANE_URL'' (ret ''http://127.0.0.1:7878''))"

definition hook_post :: "string \<Rightarrow> string \<Rightarrow> http_req" where
  "hook_post url body = \<lparr>rq_method = ''POST'', rq_url = url, rq_auth = None, rq_body = Some body\<rparr>"

text \<open>\<open>`agentlock hook ${harness} ${event}`\<close>, the start of every diagnostic.\<close>

definition hook_tag :: "string \<Rightarrow> string \<Rightarrow> string" where
  "hook_tag harness event = ''agentlock hook '' @ harness @ '' '' @ event"

definition base_events :: "string list" where
  "base_events = [''session-start'', ''pre-tool-use'', ''post-tool-use'', ''stop'']"

definition cursor_events :: "string list" where
  "cursor_events = [''session-start'', ''pre-tool-use'', ''before-shell-execution'', ''before-mcp-execution'',
     ''after-mcp-execution'', ''post-tool-use'', ''stop'']"

definition default_reason :: "json option" where
  "default_reason = Some (JStr ''blocked by OpenAgentLock policy'')"

text \<open>\<open>runHookClaudeCode\<close>: from the parsed reply on, then the whole handler.\<close>

definition claude_reply :: "json \<Rightarrow> unit prog" where
  "claude_reply parsed =
     bindP (propP parsed ''hookSpecificOutput'') (\<lambda>hso.
       if oprop hso ''permissionDecision'' = Some (JStr ''deny'') then
         (let reason = js_ostring (nullish (oprop hso ''permissionDecisionReason'')
                          (nullish (jprop parsed ''stopReason'') default_reason))
          in thenP (err_line reason) (thenP (out_line (json_stringify parsed)) (exitP 2)))
       else exitP 0)"

definition runHookClaudeCode :: "string list \<Rightarrow> unit prog" where
  "runHookClaudeCode argv =
     (case argv of
        [] \<Rightarrow> thenP (err_line ''usage: agentlock hook claude-code <session-start|pre-tool-use|post-tool-use|stop>'') (exitP 2)
      | event # _ \<Rightarrow>
          if event = [] \<or> event \<notin> set base_events then
            thenP (err_line ''usage: agentlock hook claude-code <session-start|pre-tool-use|post-tool-use|stop>'') (exitP 2)
          else
            bindP read_stdin (\<lambda>raw.
            if trim raw = [] then exitP 0
            else
              bindP (tryP (parse_json raw)
                (\<lambda>e. thenP (err_line (hook_tag ''claude-code'' event @ '': invalid JSON on stdin: '' @ err_msg e)) (exitP 0))) (\<lambda>_.
              bindP hook_daemon_url (\<lambda>base.
              bindP (tryP (fetch (hook_post (strip_slashes base @ ''/v1/hooks/claude-code/'' @ event) raw)) (\<lambda>_. exitP 0)) (\<lambda>res.
              if \<not> resp_ok res then
                thenP (err_line (hook_tag ''claude-code'' event @ '': daemon returned '' @ nat_str (rs_status res))) (exitP 0)
              else
                bindP (tryP (resp_json res)
                  (\<lambda>e. thenP (err_line (hook_tag ''claude-code'' event @ '': malformed daemon response: '' @ err_msg e)) (exitP 0)))
                claude_reply)))))"

text \<open>\<open>runHookCodex\<close>\<close>

definition codex_harnesses :: "string list" where
  "codex_harnesses = [''codex'', ''codex-desktop'', ''codex-auto'']"

definition resolveCodexHookHarness :: "string \<Rightarrow> string prog" where
  "resolveCodexHookHarness hookHarness =
     (if hookHarness \<noteq> ''codex-auto'' then ret hookHarness
      else bindP (env_or ''__CFBundleIdentifier'' (ret '''')) (\<lambda>bundleID.
           bindP (env_or ''XPC_SERVICE_NAME'' (ret '''')) (\<lambda>xpcService.
             if bundleID = ''com.openai.codex'' \<or> str_includes ''com.openai.codex'' xpcService
             then ret ''codex-desktop'' else ret ''codex'')))"

definition codex_reply :: "json \<Rightarrow> unit prog" where
  "codex_reply parsed =
     bindP (propP parsed ''hookSpecificOutput'') (\<lambda>hso.
       if oprop hso ''permissionDecision'' = Some (JStr ''deny'') then
         (let reason = js_ostring (nullish (oprop hso ''permissionDecisionReason'')
                          (nullish (jprop parsed ''stopReason'') default_reason))
          in thenP (err_line reason) (thenP (out_line (json_stringify parsed)) (exitP 2)))
       else exitP 0)"

text \<open>
  \<open>encodeURIComponent\<close> leaves the characters of the accepted harness and event names as they are,
  which are letters and dashes only.
\<close>

definition runHookCodex :: "string list \<Rightarrow> string \<Rightarrow> unit prog" where
  "runHookCodex argv hookHarness =
     (if hookHarness \<notin> set codex_harnesses then
        thenP (err_line (''unsupported codex hook harness: '' @ hookHarness)) (exitP 2)
      else (case argv of
        [] \<Rightarrow> thenP (err_line (''usage: agentlock hook '' @ hookHarness @ '' <session-start|pre-tool-use|post-tool-use|stop>'')) (exitP 2)
      | event # _ \<Rightarrow>
          if event = [] \<or> event \<notin> set base_events then
            thenP (err_line (''usage: agentlock hook '' @ hookHarness @ '' <session-start|pre-tool-use|post-tool-use|stop>'')) (exitP 2)
          else
            bindP read_stdin (\<lambda>raw.
            if trim raw = [] then exitP 0
            else
              bindP (tryP (parse_json raw)
                (\<lambda>e. thenP (err_line (hook_tag hookHarness event @ '': invalid JSON on stdin: '' @ err_msg e)) (exitP 0))) (\<lambda>_.
              bindP (resolveCodexHookHarness hookHarness) (\<lambda>route.
              bindP hook_daemon_url (\<lambda>base.
              bindP (tryP (fetch (hook_post (strip_slashes base @ ''/v1/hooks/'' @ route @ ''/'' @ event) raw)) (\<lambda>_. exitP 0)) (\<lambda>res.
              if \<not> resp_ok res then
                thenP (err_line (hook_tag hookHarness event @ '': daemon returned '' @ nat_str (rs_status res))) (exitP 0)
              else
                bindP (tryP (resp_json res)
                  (\<lambda>e. thenP (err_line (hook_tag hookHarness event @ '': malformed daemon response: '' @ err_msg e)) (exitP 0)))
                codex_reply)))))))"

text \<open>\<open>runHookCursor\<close>\<close>

definition cursor_emitAllow :: "'a prog" where
  "cursor_emitAllow = thenP (out_line (json_stringify (JObj [(''permission'', JStr ''allow'')]))) (exitP 0)"

definition cursor_emitDeny :: "string \<Rightarrow> 'a prog" where
  "cursor_emitDeny reason =
     thenP (err_line reason)
       (thenP (out_line (json_stringify (JObj [(''permission'', JStr ''deny''), (''agent_message'', JStr reason)]))) (exitP 2))"

text \<open>The reason of an \<open>ask\<close>: \<open>approval pending\<close>, an em dash, \<open>use dashboard\<close>.\<close>

definition cursor_ask_reason :: string where
  "cursor_ask_reason = ''approval pending '' @ [CHR 0xE2, CHR 0x80, CHR 0x94] @ '' use dashboard''"

definition cursor_reply :: "json \<Rightarrow> unit prog" where
  "cursor_reply parsed =
     bindP (propP parsed ''hookSpecificOutput'') (\<lambda>hso.
       let decision = oprop hso ''permissionDecision'' in
       if decision = Some (JStr ''deny'') then
         cursor_emitDeny (js_ostring (nullish (oprop hso ''permissionDecisionReason'')
                          (nullish (jprop parsed ''stopReason'') default_reason)))
       else if decision = Some (JStr ''ask'') then cursor_emitDeny cursor_ask_reason
       else if decision = Some (JStr ''allow'') then cursor_emitAllow
       else exitP 0)"

definition runHookCursor :: "string list \<Rightarrow> unit prog" where
  "runHookCursor argv =
     (case argv of
        [] \<Rightarrow> thenP (err_line ''usage: agentlock hook cursor <session-start|pre-tool-use|before-shell-execution|before-mcp-execution|after-mcp-execution|post-tool-use|stop>'') (exitP 2)
      | event # _ \<Rightarrow>
          if event = [] \<or> event \<notin> set cursor_events then
            thenP (err_line ''usage: agentlock hook cursor <session-start|pre-tool-use|before-shell-execution|before-mcp-execution|after-mcp-execution|post-tool-use|stop>'') (exitP 2)
          else
            bindP read_stdin (\<lambda>raw.
            if trim raw = [] then exitP 0
            else
              bindP (tryP (parse_json raw)
                (\<lambda>e. thenP (err_line (hook_tag ''cursor'' event @ '': invalid JSON on stdin: '' @ err_msg e)) (exitP 0))) (\<lambda>_.
              bindP hook_daemon_url (\<lambda>base.
              bindP (tryP (fetch (hook_post (strip_slashes base @ ''/v1/hooks/cursor/'' @ event) raw)) (\<lambda>_. cursor_emitAllow)) (\<lambda>res.
              if \<not> resp_ok res then
                thenP (err_line (hook_tag ''cursor'' event @ '': daemon returned '' @ nat_str (rs_status res))) (exitP 0)
              else
                bindP (tryP (resp_json res)
                  (\<lambda>e. thenP (err_line (hook_tag ''cursor'' event @ '': malformed daemon response: '' @ err_msg e)) (exitP 0)))
                cursor_reply)))))"

text \<open>\<open>runHookGemini\<close>\<close>

definition gemini_reply :: "json \<Rightarrow> unit prog" where
  "gemini_reply parsed =
     bindP (propP parsed ''decision'') (\<lambda>decision.
       if decision = Some (JStr ''deny'') then
         (let reason = js_ostring (nullish (jprop parsed ''reason'') (nullish (jprop parsed ''stopReason'') default_reason))
          in thenP (err_line reason) (thenP (out_line (json_stringify parsed)) (exitP 2)))
       else exitP 0)"

definition runHookGemini :: "string list \<Rightarrow> unit prog" where
  "runHookGemini argv =
     (case argv of
        [] \<Rightarrow> thenP (err_line ''usage: agentlock hook gemini <session-start|pre-tool-use|post-tool-use|stop>'') (exitP 2)
      | event # _ \<Rightarrow>
          if event = [] \<or> event \<notin> set base_events then
            thenP (err_line ''usage: agentlock hook gemini <session-start|pre-tool-use|post-tool-use|stop>'') (exitP 2)
          else
            bindP read_stdin (\<lambda>raw.
            if trim raw = [] then exitP 0
            else
              bindP (tryP (parse_json raw)
                (\<lambda>e. thenP (err_line (hook_tag ''gemini'' event @ '': invalid JSON on stdin: '' @ err_msg e)) (exitP 0))) (\<lambda>_.
              bindP hook_daemon_url (\<lambda>base.
              bindP (tryP (fetch (hook_post (strip_slashes base @ ''/v1/hooks/gemini/'' @ event) raw)) (\<lambda>_. exitP 0)) (\<lambda>res.
              if \<not> resp_ok res then
                thenP (err_line (hook_tag ''gemini'' event @ '': daemon returned '' @ nat_str (rs_status res))) (exitP 0)
              else
                bindP (tryP (resp_json res)
                  (\<lambda>e. thenP (err_line (hook_tag ''gemini'' event @ '': malformed daemon response: '' @ err_msg e)) (exitP 0)))
                gemini_reply)))))"

text \<open>The subcommands \<open>hook <harness> <event>\<close> of \<open>index.ts\<close>.\<close>

datatype harness_cmd = HClaudeCode | HCodex | HCodexDesktop | HCodexAuto | HCursor | HGemini

fun hook_command :: "harness_cmd \<Rightarrow> string \<Rightarrow> unit prog" where
  "hook_command HCodex event = runHookCodex [event] ''codex''"
| "hook_command HCodexDesktop event = runHookCodex [event] ''codex-desktop''"
| "hook_command HCodexAuto event = runHookCodex [event] ''codex-auto''"
| "hook_command HCursor event = runHookCursor [event]"
| "hook_command HGemini event = runHookGemini [event]"
| "hook_command HClaudeCode event = runHookClaudeCode [event]"

section \<open>The protocol they share\<close>

text \<open>
  What the daemon's side of one hook call came to: the transport failed, it answered with a status
  that is not 2xx, the body was no JSON, it replied, or the body never ended.
\<close>

datatype daemon_reply = Unreachable | BadStatus nat | BadBody string | Reply json | Endless

definition daemon_reply :: "world \<Rightarrow> http_req \<Rightarrow> daemon_reply" where
  "daemon_reply w rq =
     (case w_net w (w_sent w) rq of
        NetErr m \<Rightarrow> Unreachable
      | Answer r \<Rightarrow>
          if \<not> resp_ok r then BadStatus (rs_status r)
          else (case rs_body r of
                  None \<Rightarrow> Endless
                | Some b \<Rightarrow> (case json_parse b of Some j \<Rightarrow> Reply j | None \<Rightarrow> BadBody (w_parse_msg w b))))"

definition daemon_base :: "world \<Rightarrow> string" where
  "daemon_base w =
     (case w_env w ''AGENTLOCK_DAEMON_URL'' of
        Some u \<Rightarrow> u
      | None \<Rightarrow> (case w_env w ''AGENTLOCK_CONTROL_PLANE_URL'' of Some u \<Rightarrow> u | None \<Rightarrow> ''http://127.0.0.1:7878''))"

definition hook_url :: "world \<Rightarrow> string \<Rightarrow> string \<Rightarrow> string" where
  "hook_url w route event = strip_slashes (daemon_base w) @ ''/v1/hooks/'' @ route @ ''/'' @ event"

definition say_err :: "string \<Rightarrow> world \<Rightarrow> world" where
  "say_err s w = w\<lparr>w_err := w_err w @ s @ [chr_nl]\<rparr>"

definition shim_answer ::
  "string \<Rightarrow> unit prog \<Rightarrow> (json \<Rightarrow> unit prog) \<Rightarrow> http_req \<Rightarrow> unit prog" where
  "shim_answer tag offline decide rq w =
     (let w' = w\<lparr>w_sent := w_sent w @ [rq]\<rparr> in
      case daemon_reply w rq of
        Unreachable \<Rightarrow> offline w'
      | BadStatus n \<Rightarrow> (Exited 0, say_err (tag @ '': daemon returned '' @ nat_str n) w')
      | BadBody m \<Rightarrow> (Exited 0, say_err (tag @ '': malformed daemon response: '' @ m) w')
      | Reply j \<Rightarrow> decide j w'
      | Endless \<Rightarrow> (Pending, w'))"

definition shim_protocol ::
  "string list \<Rightarrow> string \<Rightarrow> string \<Rightarrow> (world \<Rightarrow> string) \<Rightarrow> unit prog \<Rightarrow> (json \<Rightarrow> unit prog) \<Rightarrow> string list \<Rightarrow> unit prog" where
  "shim_protocol events usage name route offline decide argv w =
     (if argv = [] \<or> hd argv \<notin> set events then (Exited 2, say_err usage w)
      else
        (let event = hd argv; raw = w_stdin w; w' = w\<lparr>w_stdin := []\<rparr> in
         if trim raw = [] then (Exited 0, w')
         else if json_parse raw = None then
           (Exited 0, say_err (hook_tag name event @ '': invalid JSON on stdin: '' @ w_parse_msg w raw) w')
         else shim_answer (hook_tag name event) offline decide (hook_post (hook_url w (route w) event) raw) w'))"

definition plain_route :: "string \<Rightarrow> world \<Rightarrow> string" where
  "plain_route r w = r"

definition codex_route :: "string \<Rightarrow> world \<Rightarrow> string" where
  "codex_route h w =
     (if h \<noteq> ''codex-auto'' then h
      else if w_env w ''__CFBundleIdentifier'' = Some ''com.openai.codex''
           \<or> (\<exists>x. w_env w ''XPC_SERVICE_NAME'' = Some x \<and> str_includes ''com.openai.codex'' x)
      then ''codex-desktop'' else ''codex'')"

lemma run_hook_daemon_url [prog_simps]: "hook_daemon_url w = (Val (daemon_base w), w)"
  by (simp add: hook_daemon_url_def daemon_base_def prog_simps split: option.splits)

lemma run_resolveCodex [prog_simps]: "resolveCodexHookHarness h w = (Val (codex_route h w), w)"
  by (auto simp: resolveCodexHookHarness_def codex_route_def bindP_def env_or_def env_var_def getsP_def ret_def
      split: option.splits)

section \<open>Every shim is an instance of the protocol\<close>

lemma shim_parse:
  "bindP (tryP (parse_json raw) (\<lambda>e. thenP (err_line (m @ '': invalid JSON on stdin: '' @ err_msg e)) (exitP c))) (\<lambda>_. k) w =
   (if json_parse raw = None then (Exited c, say_err (m @ '': invalid JSON on stdin: '' @ w_parse_msg w raw) w) else k w)"
  by (auto simp: bindP_def tryP_def parse_json_def thenP_def run_err_line run_exitP say_err_def split: option.splits)

lemma shim_exchange:
  assumes off: "\<And>k. bindP off k = (offline :: unit prog)"
  shows "bindP (tryP (fetch rq) (\<lambda>_. off)) (\<lambda>res.
     if \<not> resp_ok res then thenP (err_line (m @ '': daemon returned '' @ nat_str (rs_status res))) (exitP 0)
     else bindP (tryP (resp_json res) (\<lambda>e. thenP (err_line (m @ '': malformed daemon response: '' @ err_msg e)) (exitP 0))) dec) w =
   shim_answer m offline dec rq w"
proof (cases "w_net w (w_sent w) rq")
  case (NetErr t)
  let ?k = "\<lambda>res. if \<not> resp_ok res then thenP (err_line (m @ '': daemon returned '' @ nat_str (rs_status res))) (exitP 0)
     else bindP (tryP (resp_json res) (\<lambda>e. thenP (err_line (m @ '': malformed daemon response: '' @ err_msg e)) (exitP 0))) dec"
  have "bindP (tryP (fetch rq) (\<lambda>_. off)) ?k w = bindP off ?k (w\<lparr>w_sent := w_sent w @ [rq]\<rparr>)"
    by (simp add: bindP_def tryP_def fetch_def NetErr)
  also have "\<dots> = shim_answer m offline dec rq w"
    by (simp add: off shim_answer_def daemon_reply_def NetErr)
  finally show ?thesis .
next
  case (Answer r)
  then show ?thesis
    by (auto simp: bindP_def tryP_def fetch_def shim_answer_def daemon_reply_def resp_json_def resp_text_def parse_json_def
        thenP_def run_err_line run_exitP say_err_def ret_def pendP_def split: option.splits)
qed

lemma shim_read: "bindP read_stdin k w = k (w_stdin w) (w\<lparr>w_stdin := []\<rparr>)"
  by (simp add: bindP_def read_stdin_def)

lemma shim_base: "bindP hook_daemon_url k w = k (daemon_base w) w"
  by (simp add: bindP_def run_hook_daemon_url)

lemma shim_route: "bindP (resolveCodexHookHarness h) k w = k (codex_route h w) w"
  by (simp add: bindP_def run_resolveCodex)

lemma shim_usage: "thenP (err_line m) (exitP c) w = (Exited c, say_err m w)"
  by (simp add: prog_simps say_err_def)

lemma shim_exit: "bindP (exitP c) k = (exitP c :: unit prog)"
  by (rule ext) (simp add: bindP_def exitP_def)

lemma shim_emitAllow: "bindP cursor_emitAllow k = (cursor_emitAllow :: unit prog)"
  by (rule ext) (simp add: cursor_emitAllow_def bindP_def thenP_def run_out_line exitP_def)

lemma base_stdin: "daemon_base (w\<lparr>w_stdin := s\<rparr>) = daemon_base w"
  by (auto simp: daemon_base_def split: option.splits)

lemma route_stdin: "codex_route h (w\<lparr>w_stdin := s\<rparr>) = codex_route h w"
  by (simp add: codex_route_def)

lemma msg_stdin: "w_parse_msg (w\<lparr>w_stdin := s\<rparr>) = w_parse_msg w"
  by simp

lemma event_guard:
  "(event = [] \<or> event \<notin> set base_events) = (event \<notin> set base_events)"
  "(event = [] \<or> event \<notin> set cursor_events) = (event \<notin> set cursor_events)"
  "(event # rest = [] \<or> hd (event # rest) \<notin> E) = (event \<notin> E)"
  by (auto simp: base_events_def cursor_events_def)

lemma exit_app: "exitP c w = (Exited c, w)"
  by (simp add: exitP_def)

lemma if_app: "(if b then f else g) w = (if b then f w else g w)"
  by simp

lemmas shim_steps = shim_read shim_parse shim_base shim_route shim_usage shim_exchange [OF shim_exit] shim_exchange [OF shim_emitAllow]

lemma runHookClaudeCode_protocol:
  "runHookClaudeCode argv w =
     shim_protocol base_events ''usage: agentlock hook claude-code <session-start|pre-tool-use|post-tool-use|stop>''
       ''claude-code'' (plain_route ''claude-code'') (exitP 0) claude_reply argv w"
proof (cases argv)
  case Nil
  then show ?thesis by (simp only: runHookClaudeCode_def shim_protocol_def shim_usage list.case simp_thms if_True)
next
  case (Cons event rest)
  have u: "hook_url w (plain_route ''claude-code'' w) event = strip_slashes (daemon_base w) @ ''/v1/hooks/claude-code/'' @ event"
    by (simp add: hook_url_def plain_route_def)
  show ?thesis
    unfolding runHookClaudeCode_def shim_protocol_def Cons list.case event_guard list.sel u Let_def
    by (simp only: shim_steps base_stdin if_app exit_app simp_thms if_False list.distinct msg_stdin cong: if_cong)
qed

lemma runHookCursor_protocol:
  "runHookCursor argv w =
     shim_protocol cursor_events ''usage: agentlock hook cursor <session-start|pre-tool-use|before-shell-execution|before-mcp-execution|after-mcp-execution|post-tool-use|stop>''
       ''cursor'' (plain_route ''cursor'') cursor_emitAllow cursor_reply argv w"
proof (cases argv)
  case Nil
  then show ?thesis by (simp only: runHookCursor_def shim_protocol_def shim_usage list.case simp_thms if_True)
next
  case (Cons event rest)
  have u: "hook_url w (plain_route ''cursor'' w) event = strip_slashes (daemon_base w) @ ''/v1/hooks/cursor/'' @ event"
    by (simp add: hook_url_def plain_route_def)
  show ?thesis
    unfolding runHookCursor_def shim_protocol_def Cons list.case event_guard list.sel u Let_def
    by (simp only: shim_steps base_stdin if_app exit_app simp_thms if_False list.distinct msg_stdin cong: if_cong)
qed

lemma runHookGemini_protocol:
  "runHookGemini argv w =
     shim_protocol base_events ''usage: agentlock hook gemini <session-start|pre-tool-use|post-tool-use|stop>''
       ''gemini'' (plain_route ''gemini'') (exitP 0) gemini_reply argv w"
proof (cases argv)
  case Nil
  then show ?thesis by (simp only: runHookGemini_def shim_protocol_def shim_usage list.case simp_thms if_True)
next
  case (Cons event rest)
  have u: "hook_url w (plain_route ''gemini'' w) event = strip_slashes (daemon_base w) @ ''/v1/hooks/gemini/'' @ event"
    by (simp add: hook_url_def plain_route_def)
  show ?thesis
    unfolding runHookGemini_def shim_protocol_def Cons list.case event_guard list.sel u Let_def
    by (simp only: shim_steps base_stdin if_app exit_app simp_thms if_False list.distinct msg_stdin cong: if_cong)
qed

lemma runHookCodex_protocol:
  assumes "h \<in> set codex_harnesses"
  shows "runHookCodex argv h w =
     shim_protocol base_events (''usage: agentlock hook '' @ h @ '' <session-start|pre-tool-use|post-tool-use|stop>'')
       h (codex_route h) (exitP 0) codex_reply argv w"
proof (cases argv)
  case Nil
  then show ?thesis
    using assms by (simp only: runHookCodex_def shim_protocol_def shim_usage list.case simp_thms if_True if_False)
next
  case (Cons event rest)
  have u: "hook_url w (codex_route h w) event = strip_slashes (daemon_base w) @ ''/v1/hooks/'' @ codex_route h w @ ''/'' @ event"
    by (simp add: hook_url_def)
  show ?thesis
    unfolding runHookCodex_def shim_protocol_def Cons list.case event_guard list.sel u Let_def
    using assms
    by (simp only: shim_steps base_stdin route_stdin if_app exit_app simp_thms if_False if_True list.distinct msg_stdin cong: if_cong)
qed

end
