(* ===== verification/HookContract.thy ===== *)
theory HookContract
  imports HookShims
begin

text \<open>
  The contract of the hook shims. The locale \<open>hook_shim\<close> states what a shim's two harness-specific
  parts promise (the answer to an unreachable daemon, the translation of a reply) and derives the
  outcome, the requests and the output of the whole protocol; it is interpreted on the four shims
  of the sources, and \<open>hook_outcome\<close> is the specification of the six subcommands.
\<close>

section \<open>Blocking replies\<close>

definition claude_decision :: "json \<Rightarrow> json option" where
  "claude_decision j = oprop (jprop j ''hookSpecificOutput'') ''permissionDecision''"

definition claude_blocked :: "json \<Rightarrow> bool" where
  "claude_blocked j \<longleftrightarrow> claude_decision j = Some (JStr ''deny'')"

definition cursor_blocked :: "json \<Rightarrow> bool" where
  "cursor_blocked j \<longleftrightarrow> claude_decision j = Some (JStr ''deny'') \<or> claude_decision j = Some (JStr ''ask'')"

definition gemini_blocked :: "json \<Rightarrow> bool" where
  "gemini_blocked j \<longleftrightarrow> jprop j ''decision'' = Some (JStr ''deny'')"

text \<open>The one-line envelope the Cursor shim prints when the call may go on.\<close>

definition allow_envelope :: string where
  "allow_envelope = json_stringify (JObj [(''permission'', JStr ''allow'')]) @ [chr_nl]"

text \<open>Whether the event on standard input gets as far as the daemon.\<close>

definition forwards :: "string list \<Rightarrow> string list \<Rightarrow> world \<Rightarrow> bool" where
  "forwards events argv w \<longleftrightarrow>
     argv \<noteq> [] \<and> hd argv \<in> set events \<and> trim (w_stdin w) \<noteq> [] \<and> json_parse (w_stdin w) \<noteq> None"

definition shim_outcome :: "string list \<Rightarrow> string \<Rightarrow> (json \<Rightarrow> bool) \<Rightarrow> string \<Rightarrow> string list \<Rightarrow> world \<Rightarrow> unit res" where
  "shim_outcome events route blocked key argv w =
     (if argv = [] \<or> hd argv \<notin> set events then Exited 2
      else if \<not> forwards events argv w then Exited 0
      else (case daemon_reply w (hook_post (hook_url w route (hd argv)) (w_stdin w)) of
              Reply j \<Rightarrow> (if j = JNull then Err (type_error key) else if blocked j then Exited 2 else Exited 0)
            | Endless \<Rightarrow> Pending
            | _ \<Rightarrow> Exited 0))"

section \<open>The contract, proved once\<close>

locale hook_shim =
  fixes events :: "string list" and usage :: string and name :: string and route :: "world \<Rightarrow> string"
    and offline :: "unit prog" and decide :: "json \<Rightarrow> unit prog"
    and blocked :: "json \<Rightarrow> bool" and key :: string and allow :: string
  assumes offline_exit: "fst (offline w) = Exited 0"
    and offline_keeps: "keeps w_sent offline"
    and offline_out: "w_out (snd (offline w)) \<in> {w_out w, w_out w @ allow}"
    and offline_err: "w_err (snd (offline w)) = w_err w"
    and decide_exit: "fst (decide j w) = (if j = JNull then Err (type_error key) else if blocked j then Exited 2 else Exited 0)"
    and decide_keeps: "keeps w_sent (decide j)"
    and decide_out: "fst (decide j w) = Exited 0 \<Longrightarrow> w_out (snd (decide j w)) \<in> {w_out w, w_out w @ allow}"
begin

lemma reply_any_stdin: "daemon_reply (w\<lparr>w_stdin := s\<rparr>) rq = daemon_reply w rq"
  by (auto simp: daemon_reply_def split: http_out.splits option.splits)

lemma protocol_forwards:
  assumes "forwards events argv w"
  shows "shim_protocol events usage name route offline decide argv w =
    shim_answer (hook_tag name (hd argv)) offline decide (hook_post (hook_url w (route w) (hd argv)) (w_stdin w)) (w\<lparr>w_stdin := []\<rparr>)"
  using assms by (auto simp: forwards_def shim_protocol_def Let_def)

lemma outcome:
  "fst (shim_protocol events usage name route offline decide argv w) = shim_outcome events (route w) blocked key argv w"
proof (cases "forwards events argv w")
  case True
  then show ?thesis
    by (simp add: protocol_forwards shim_outcome_def shim_answer_def Let_def reply_any_stdin offline_exit decide_exit forwards_def
        split: daemon_reply.split)
next
  case False
  then show ?thesis
    by (auto simp: shim_protocol_def shim_outcome_def Let_def forwards_def)
qed

lemma requests:
  "w_sent (snd (shim_protocol events usage name route offline decide argv w)) =
   w_sent w @ (if forwards events argv w then [hook_post (hook_url w (route w) (hd argv)) (w_stdin w)] else [])"
proof (cases "forwards events argv w")
  case True
  have off: "w_sent (snd (offline u)) = w_sent u" and dec: "w_sent (snd (decide j u)) = w_sent u" for u j
    using offline_keeps decide_keeps by (simp_all add: keeps_def)
  from True show ?thesis
    by (simp add: protocol_forwards shim_answer_def Let_def off dec say_err_def split: daemon_reply.split)
next
  case False
  then show ?thesis
    by (auto simp: shim_protocol_def Let_def forwards_def say_err_def)
qed

lemma open_stdout:
  assumes "fst (shim_protocol events usage name route offline decide argv w) = Exited 0"
  shows "w_out (snd (shim_protocol events usage name route offline decide argv w)) \<in> {w_out w, w_out w @ allow}"
proof (cases "forwards events argv w")
  case True
  have off: "w_out (snd (offline u)) = w_out u \<or> w_out (snd (offline u)) = w_out u @ allow" for u
    using offline_out [of u] by simp
  have dec: "w_out (snd (decide j u)) = w_out u \<or> w_out (snd (decide j u)) = w_out u @ allow"
    if "fst (decide j u) = Exited 0" for u j
    using decide_out [OF that] by simp
  let ?rq = "hook_post (hook_url w (route w) (hd argv)) (w_stdin w)"
  from True assms show ?thesis
    using off [of "w\<lparr>w_stdin := [], w_sent := w_sent w @ [?rq]\<rparr>"]
      dec [of _ "w\<lparr>w_stdin := [], w_sent := w_sent w @ [?rq]\<rparr>"]
    by (simp add: protocol_forwards shim_answer_def Let_def say_err_def split: daemon_reply.splits)
next
  case False
  then show ?thesis
    by (auto simp: shim_protocol_def Let_def forwards_def say_err_def)
qed

text \<open>A transport failure is silent on the error stream.\<close>

lemma unreachable_silent:
  assumes "forwards events argv w"
    and "daemon_reply w (hook_post (hook_url w (route w) (hd argv)) (w_stdin w)) = Unreachable"
  shows "w_err (snd (shim_protocol events usage name route offline decide argv w)) = w_err w"
  using assms by (simp add: protocol_forwards shim_answer_def Let_def reply_any_stdin offline_err)

end

section \<open>The four shims\<close>

lemma run_propP: "propP j k w = (if j = JNull then (Err (type_error k), w) else (Val (jprop j k), w))"
  by (simp add: propP_def prog_simps)

lemma exit0_shim: "fst (exitP 0 w) = Exited 0" "keeps w_sent (exitP 0 :: unit prog)"
  "w_out (snd (exitP 0 w)) = w_out w" "w_err (snd (exitP 0 w)) = w_err w"
  by (simp_all add: exitP_def keeps_def)

lemma claude_reply_run:
  "claude_reply j w =
    (if j = JNull then (Err (type_error ''hookSpecificOutput''), w)
     else if claude_blocked j then
       (Exited 2, w\<lparr>w_err := w_err w @ js_ostring (nullish (oprop (jprop j ''hookSpecificOutput'') ''permissionDecisionReason'')
            (nullish (jprop j ''stopReason'') default_reason)) @ [chr_nl],
          w_out := w_out w @ json_stringify j @ [chr_nl]\<rparr>)
     else (Exited 0, w))"
  by (simp add: claude_reply_def bindP_def run_propP claude_blocked_def claude_decision_def Let_def thenP_def run_err_line
      run_out_line exitP_def)

lemma codex_is_claude: "codex_reply = claude_reply"
  by (rule ext) (simp add: codex_reply_def claude_reply_def)

lemmas codex_reply_run = claude_reply_run [folded codex_is_claude]

lemma gemini_reply_run:
  "gemini_reply j w =
    (if j = JNull then (Err (type_error ''decision''), w)
     else if gemini_blocked j then
       (Exited 2, w\<lparr>w_err := w_err w @ js_ostring (nullish (jprop j ''reason'') (nullish (jprop j ''stopReason'') default_reason)) @ [chr_nl],
          w_out := w_out w @ json_stringify j @ [chr_nl]\<rparr>)
     else (Exited 0, w))"
  by (simp add: gemini_reply_def bindP_def run_propP gemini_blocked_def Let_def thenP_def run_err_line run_out_line exitP_def)

text \<open>The reason the Cursor shim gives for a blocked call.\<close>

definition cursor_reason :: "json \<Rightarrow> string" where
  "cursor_reason j =
     (if claude_blocked j then js_ostring (nullish (oprop (jprop j ''hookSpecificOutput'') ''permissionDecisionReason'')
            (nullish (jprop j ''stopReason'') default_reason))
      else cursor_ask_reason)"

definition cursor_deny_envelope :: "string \<Rightarrow> json" where
  "cursor_deny_envelope reason = JObj [(''permission'', JStr ''deny''), (''agent_message'', JStr reason)]"

lemma cursor_reply_run:
  "cursor_reply j w =
    (if j = JNull then (Err (type_error ''hookSpecificOutput''), w)
     else if cursor_blocked j then
       (Exited 2, w\<lparr>w_err := w_err w @ cursor_reason j @ [chr_nl],
          w_out := w_out w @ json_stringify (cursor_deny_envelope (cursor_reason j)) @ [chr_nl]\<rparr>)
     else (Exited 0, w\<lparr>w_out := w_out w @ (if claude_decision j = Some (JStr ''allow'') then allow_envelope else [])\<rparr>))"
  by (simp add: cursor_reply_def bindP_def run_propP cursor_blocked_def claude_blocked_def claude_decision_def Let_def thenP_def
      cursor_emitDeny_def cursor_emitAllow_def cursor_reason_def cursor_deny_envelope_def allow_envelope_def run_err_line
      run_out_line exitP_def del: json_stringify.simps)

lemma cursor_offline_run: "cursor_emitAllow w = (Exited 0, w\<lparr>w_out := w_out w @ allow_envelope\<rparr>)"
  by (simp add: cursor_emitAllow_def thenP_def bindP_def run_out_line exitP_def allow_envelope_def del: json_stringify.simps)

interpretation claude: hook_shim base_events "''usage: agentlock hook claude-code <session-start|pre-tool-use|post-tool-use|stop>''"
  "''claude-code''" "plain_route ''claude-code''" "exitP 0" claude_reply claude_blocked "''hookSpecificOutput''" "[]"
  by unfold_locales (simp_all add: exit0_shim exit_app claude_reply_run keeps_def split: if_splits)

interpretation codex: hook_shim base_events "''usage: agentlock hook '' @ h @ '' <session-start|pre-tool-use|post-tool-use|stop>''"
  h "codex_route h" "exitP 0" codex_reply claude_blocked "''hookSpecificOutput''" "[]" for h
  by unfold_locales (simp_all add: exit0_shim exit_app codex_is_claude claude_reply_run keeps_def split: if_splits)

interpretation cursor: hook_shim cursor_events
  "''usage: agentlock hook cursor <session-start|pre-tool-use|before-shell-execution|before-mcp-execution|after-mcp-execution|post-tool-use|stop>''"
  "''cursor''" "plain_route ''cursor''" cursor_emitAllow cursor_reply cursor_blocked "''hookSpecificOutput''" allow_envelope
  by unfold_locales (simp_all add: cursor_offline_run cursor_reply_run keeps_def split: if_splits)

interpretation gemini: hook_shim base_events "''usage: agentlock hook gemini <session-start|pre-tool-use|post-tool-use|stop>''"
  "''gemini''" "plain_route ''gemini''" "exitP 0" gemini_reply gemini_blocked "''decision''" "[]"
  by unfold_locales (simp_all add: exit0_shim exit_app gemini_reply_run keeps_def split: if_splits)

section \<open>The subcommands\<close>

definition hook_events :: "harness_cmd \<Rightarrow> string list" where
  "hook_events h = (if h = HCursor then cursor_events else base_events)"

fun hook_route :: "harness_cmd \<Rightarrow> world \<Rightarrow> string" where
  "hook_route HClaudeCode w = ''claude-code''"
| "hook_route HCodex w = ''codex''"
| "hook_route HCodexDesktop w = ''codex-desktop''"
| "hook_route HCodexAuto w = codex_route ''codex-auto'' w"
| "hook_route HCursor w = ''cursor''"
| "hook_route HGemini w = ''gemini''"

fun hook_blocked :: "harness_cmd \<Rightarrow> json \<Rightarrow> bool" where
  "hook_blocked HCursor j = cursor_blocked j"
| "hook_blocked HGemini j = gemini_blocked j"
| "hook_blocked _ j = claude_blocked j"

definition hook_key :: "harness_cmd \<Rightarrow> string" where
  "hook_key h = (if h = HGemini then ''decision'' else ''hookSpecificOutput'')"

text \<open>The specification of the exit of a subcommand.\<close>

definition hook_outcome :: "harness_cmd \<Rightarrow> string \<Rightarrow> world \<Rightarrow> unit res" where
  "hook_outcome h event w = shim_outcome (hook_events h) (hook_route h w) (hook_blocked h) (hook_key h) [event] w"

lemma codex_routes: "codex_route ''codex'' w = ''codex''" "codex_route ''codex-desktop'' w = ''codex-desktop''"
  by (simp_all add: codex_route_def)

lemma codex_names: "''codex'' \<in> set codex_harnesses" "''codex-desktop'' \<in> set codex_harnesses" "''codex-auto'' \<in> set codex_harnesses"
  by (simp_all add: codex_harnesses_def)

lemmas hook_protocols = runHookClaudeCode_protocol runHookCursor_protocol runHookGemini_protocol
  runHookCodex_protocol [OF codex_names(1)] runHookCodex_protocol [OF codex_names(2)] runHookCodex_protocol [OF codex_names(3)]

lemma hook_blocked_fun:
  "hook_blocked HClaudeCode = claude_blocked" "hook_blocked HCodex = claude_blocked" "hook_blocked HCodexDesktop = claude_blocked"
  "hook_blocked HCodexAuto = claude_blocked" "hook_blocked HCursor = cursor_blocked" "hook_blocked HGemini = gemini_blocked"
  by (auto simp: fun_eq_iff)

lemmas hook_specs = hook_events_def hook_key_def plain_route_def codex_routes hook_route.simps hook_blocked_fun
  harness_cmd.distinct simp_thms if_True if_False

text \<open>The line a blocked call puts on standard output, and the reason on standard error.\<close>

fun hook_block_line :: "harness_cmd \<Rightarrow> json \<Rightarrow> json" where
  "hook_block_line HCursor j = cursor_deny_envelope (cursor_reason j)"
| "hook_block_line _ j = j"

fun hook_reason :: "harness_cmd \<Rightarrow> json \<Rightarrow> string" where
  "hook_reason HCursor j = cursor_reason j"
| "hook_reason HGemini j = js_ostring (nullish (jprop j ''reason'') (nullish (jprop j ''stopReason'') default_reason))"
| "hook_reason _ j = js_ostring (nullish (oprop (jprop j ''hookSpecificOutput'') ''permissionDecisionReason'')
       (nullish (jprop j ''stopReason'') default_reason))"

definition hook_request :: "harness_cmd \<Rightarrow> string \<Rightarrow> world \<Rightarrow> http_req" where
  "hook_request h event w = hook_post (hook_url w (hook_route h w) event) (w_stdin w)"

lemma hook_block_run:
  assumes "forwards (hook_events h) [event] w" and "daemon_reply w (hook_request h event w) = Reply j" and "hook_blocked h j"
  shows "hook_command h event w =
    (Exited 2, w\<lparr>w_stdin := [], w_sent := w_sent w @ [hook_request h event w], w_err := w_err w @ hook_reason h j @ [chr_nl],
       w_out := w_out w @ json_stringify (hook_block_line h j) @ [chr_nl]\<rparr>)"
proof -
  have nn: "j \<noteq> JNull"
    using assms(3) by (cases h) (auto simp: claude_blocked_def cursor_blocked_def gemini_blocked_def claude_decision_def oprop_def)
  show ?thesis
    using assms nn
    by (cases h)
      (simp_all only: hook_command.simps hook_protocols hook_specs claude.protocol_forwards codex.protocol_forwards
        cursor.protocol_forwards gemini.protocol_forwards shim_answer_def Let_def claude.reply_any_stdin daemon_reply.case
        hook_request_def list.sel claude_reply_run codex_reply_run cursor_reply_run gemini_reply_run hook_block_line.simps
        hook_reason.simps world.select_convs world.update_convs, simp_all)
qed

text \<open>C1. Exit contract of every \<open>agentlock hook\<close> subcommand: exit code 2 exactly for a usage error or a
  blocking reply of the daemon; everything else that ends (no payload, bad JSON, unreachable daemon, bad status,
  malformed body, allowing reply) exits 0. The only other outcomes are a \<open>null\<close> reply, which throws, and a
  body that never ends.\<close>

theorem hook_exit_contract: "fst (hook_command h event w) = hook_outcome h event w"
  by (cases h) (simp_all only: hook_command.simps hook_protocols claude.outcome codex.outcome cursor.outcome gemini.outcome
      hook_outcome_def hook_specs)

text \<open>C2. A hook event reaches the daemon verbatim: a subcommand makes exactly one request when the event is one the
  harness supports and standard input holds JSON, with the raw payload as its body and the harness' own route as its
  URL, and none otherwise.\<close>

theorem hook_forwards_verbatim:
  "w_sent (snd (hook_command h event w)) =
   w_sent w @ (if forwards (hook_events h) [event] w then [hook_request h event w] else [])"
  by (cases h) (simp_all only: hook_command.simps hook_protocols claude.requests codex.requests cursor.requests gemini.requests
      hook_request_def hook_specs list.sel)

text \<open>Fail-open is silent: a hook that lets the call go on leaves standard output alone, but for Cursor's
  one-line allow envelope, so nothing the daemon or the shim says can reach the model as text.\<close>

theorem hook_open_stdout:
  assumes "fst (hook_command h event w) = Exited 0"
  shows "w_out (snd (hook_command h event w)) \<in> {w_out w, w_out w @ (if h = HCursor then allow_envelope else [])}"
  using assms
  by (cases h) (simp_all only: hook_command.simps hook_protocols claude.open_stdout codex.open_stdout cursor.open_stdout
      gemini.open_stdout hook_specs append_Nil2 insert_absorb2, (metis append_Nil2 claude.open_stdout codex.open_stdout gemini.open_stdout insert_absorb2 singletonD)+)

lemma hook_block_one_line:
  "chr_nl \<notin> set (json_stringify (hook_block_line h j))"
  by (rule json_stringify_one_line)

text \<open>C3. A blocked call is explained twice: the reason alone on standard error, and on standard output one line that
  parses back to the daemon's reply, or for Cursor to its deny envelope with that reason; the exit code is 2.\<close>

theorem hook_block_explained:
  assumes "forwards (hook_events h) [event] w"
    and "daemon_reply w (hook_request h event w) = Reply j" and "hook_blocked h j"
    and "json_ok (hook_block_line h j)"
  shows "fst (hook_command h event w) = Exited 2 \<and>
    w_err (snd (hook_command h event w)) = w_err w @ hook_reason h j @ [chr_nl] \<and>
    (\<exists>line. w_out (snd (hook_command h event w)) = w_out w @ line @ [chr_nl] \<and> chr_nl \<notin> set line \<and>
       json_parse line = Some (hook_block_line h j))"
  using hook_block_run [OF assms(1-3)] json_roundtrip [OF assms(4)] hook_block_one_line [of h j] by simp

section \<open>Concrete runs\<close>

definition ask_world :: world where
  "ask_world = demo_world\<lparr>w_stdin := ''{}'',
     w_net := answer_with 200 (json_stringify (JObj [(''hookSpecificOutput'', JObj [(''permissionDecision'', JStr ''ask'')])]))\<rparr>"

lemma ask_world_reply: "daemon_reply ask_world rq = Reply (JObj [(''hookSpecificOutput'', JObj [(''permissionDecision'', JStr ''ask'')])])"
proof -
  have "json_parse (json_stringify (JObj [(''hookSpecificOutput'', JObj [(''permissionDecision'', JStr ''ask'')])]))
      = Some (JObj [(''hookSpecificOutput'', JObj [(''permissionDecision'', JStr ''ask'')])])"
    by (rule json_roundtrip) simp
  then show ?thesis
    by (simp add: daemon_reply_def ask_world_def answer_with_def resp_ok_def del: json_stringify.simps)
qed

lemma braces_parse: "json_parse ''{}'' = Some (JObj [])"
proof -
  have "json_parse (json_stringify (JObj [])) = Some (JObj [])" by (rule json_roundtrip) simp
  then show ?thesis by simp
qed

lemma ask_world_forwards: "forwards cursor_events [''stop''] ask_world"
  by (simp add: forwards_def cursor_events_def ask_world_def braces_parse trim_def trim_end_def trim_start_def is_space_def)

theorem hook_open_stdout_witness:
  "w_out (snd (hook_command HCursor ''stop'' demo_world)) \<in> {w_out demo_world, w_out demo_world @ allow_envelope}"
proof -
  have "fst (hook_command HCursor ''stop'' demo_world) = Exited 0"
    by (simp only: hook_exit_contract)
      (simp add: hook_outcome_def shim_outcome_def hook_events_def cursor_events_def forwards_def demo_world_def trim_def trim_end_def
        trim_start_def)
  from hook_open_stdout [OF this] show ?thesis by simp
qed

theorem hook_block_explained_witness:
  "fst (hook_command HCursor ''stop'' ask_world) = Exited 2 \<and>
   w_err (snd (hook_command HCursor ''stop'' ask_world)) = cursor_ask_reason @ [chr_nl]"
proof -
  let ?j = "JObj [(''hookSpecificOutput'', JObj [(''permissionDecision'', JStr ''ask'')])]"
  have b: "cursor_blocked ?j" and nb: "\<not> claude_blocked ?j"
    by (simp_all add: cursor_blocked_def claude_blocked_def claude_decision_def oprop_def)
  have ok: "json_ok (hook_block_line HCursor ?j)"
    by (simp add: cursor_deny_envelope_def)
  have "w_err ask_world = []" by (simp add: ask_world_def demo_world_def)
  then show ?thesis
    using hook_block_explained [of HCursor "''stop''" ask_world ?j] ask_world_forwards b nb ok
    by (simp add: ask_world_reply hook_events_def cursor_reason_def)
qed

end
