(* ===== verification/Canonical.thy ===== *)
theory Canonical
  imports Node
begin

text \<open>
  The attestation payload and its canonical text (\<open>cli/src/signer/canonical.ts\<close> and
  \<open>cli/src/signer/types.ts\<close>): what a signer signs and the daemon re-derives. The text is shown to
  be the JSON of the payload, byte for byte, hence injective and readable by any JSON parser.
\<close>

section \<open>Signers and payloads\<close>

datatype signer_kind = KindNone | OsKeychain | TotpBackedSoftware | YubikeyPiv | YubikeyFido2 | Software

fun kind_str :: "signer_kind \<Rightarrow> string" where
  "kind_str KindNone = ''none''"
| "kind_str OsKeychain = ''os_keychain''"
| "kind_str TotpBackedSoftware = ''totp_backed_software''"
| "kind_str YubikeyPiv = ''yubikey_piv''"
| "kind_str YubikeyFido2 = ''yubikey_fido2''"
| "kind_str Software = ''software''"

record payload =
  policy_hash :: string
  session_pubkey :: string
  signer :: signer_kind
  signer_pubkey :: string

text \<open>
  The cryptography the signers call (\<open>@noble/ed25519\<close>, \<open>@noble/hashes\<close>, \<open>node:crypto\<close>) is a parameter:
  the public key of a seed (\<open>None\<close> when the library rejects the seed), signing, HMAC-SHA1, Argon2id
  and SHA-256.
\<close>

record crypto =
  c_pub :: "byte list \<Rightarrow> byte list option"
  c_sign :: "byte list \<Rightarrow> byte list \<Rightarrow> byte list"
  c_hmac :: "byte list \<Rightarrow> byte list \<Rightarrow> byte list"
  c_argon :: "bool \<Rightarrow> byte list \<Rightarrow> byte list \<Rightarrow> byte list"
  c_sha256 :: "byte list \<Rightarrow> byte list"

section \<open>Canonical text\<close>

definition ctrl_code :: "char \<Rightarrow> bool" where
  "ctrl_code c \<longleftrightarrow> code_of c < 32 \<or> code_of c = 127"

definition hex_str :: "nat \<Rightarrow> string" where
  "hex_str n = (if n < 16 then [hex_chr n] else [hex_chr (n div 16), hex_chr (n mod 16)])"

fun assertPrintable :: "string \<Rightarrow> string \<Rightarrow> string option" where
  "assertPrintable key [] = None"
| "assertPrintable key (c # cs) =
     (if ctrl_code c then Some (''canonicalAttestation: field '' @ key @ '' contains control char 0x'' @ hex_str (code_of c))
      else assertPrintable key cs)"

definition escapeString :: "string \<Rightarrow> string" where
  "escapeString s = replace_char chr_dq [chr_bs, chr_dq] (replace_char chr_bs [chr_bs, chr_bs] s)"

fun canonical_parts :: "(string \<times> string) list \<Rightarrow> string + string list" where
  "canonical_parts [] = Inr []"
| "canonical_parts ((k, v) # kvs) =
     (case assertPrintable k v of
        Some e \<Rightarrow> Inl e
      | None \<Rightarrow>
          (case canonical_parts kvs of
             Inl e \<Rightarrow> Inl e
           | Inr ps \<Rightarrow> Inr (([chr_dq] @ k @ [chr_dq] @ '':'' @ [chr_dq] @ escapeString v @ [chr_dq]) # ps)))"

definition canonicalAttestation :: "payload \<Rightarrow> string + string" where
  "canonicalAttestation p =
     (case canonical_parts
         [(''policy_hash'', policy_hash p), (''session_pubkey'', session_pubkey p),
          (''signer'', kind_str (signer p)), (''signer_pubkey'', signer_pubkey p)] of
        Inl e \<Rightarrow> Inl e
      | Inr ps \<Rightarrow> Inr (''{'' @ join '','' ps @ ''}''))"

definition signAttestation :: "crypto \<Rightarrow> payload \<Rightarrow> byte list \<Rightarrow> string + byte list" where
  "signAttestation c p seed =
     (case canonicalAttestation p of Inl e \<Rightarrow> Inl e | Inr s \<Rightarrow> Inr (c_sign c (bytes_of s) seed))"

section \<open>The canonical text is the payload's JSON\<close>

definition payload_json :: "payload \<Rightarrow> json" where
  "payload_json p = JObj [(''policy_hash'', JStr (policy_hash p)), (''session_pubkey'', JStr (session_pubkey p)),
      (''signer'', JStr (kind_str (signer p))), (''signer_pubkey'', JStr (signer_pubkey p))]"

definition no_ctrl :: "string \<Rightarrow> bool" where
  "no_ctrl s \<longleftrightarrow> list_all (\<lambda>c. \<not> ctrl_code c) s"

lemma assertPrintable_None: "assertPrintable k s = None \<longleftrightarrow> no_ctrl s"
  by (induction s) (auto simp: no_ctrl_def)

lemma escapeString_Cons: "escapeString (c # s) =
    (if c = chr_bs then [chr_bs, chr_bs] else if c = chr_dq then [chr_bs, chr_dq] else [c]) @ escapeString s"
  by (simp add: escapeString_def replace_char_def)

lemma esc_char_plain: "\<not> ctrl_code c \<Longrightarrow>
    esc_char c = (if c = chr_bs then [chr_bs, chr_bs] else if c = chr_dq then [chr_bs, chr_dq] else [c])"
  by (auto simp: esc_char_def ctrl_code_def code_of_def)

lemma escapeString_json: "no_ctrl s \<Longrightarrow> escapeString s = esc_body s"
proof (induction s)
  case Nil
  then show ?case by (simp add: escapeString_def replace_char_def esc_body_def)
next
  case (Cons c s)
  then show ?case by (simp add: no_ctrl_def escapeString_Cons esc_body_def esc_char_plain)
qed

lemma kind_str_no_ctrl [simp]: "no_ctrl (kind_str k)"
  by (cases k) (simp_all add: no_ctrl_def ctrl_code_def code_of_def)

lemma kind_str_inject [simp]: "kind_str a = kind_str b \<longleftrightarrow> a = b"
  by (cases a; cases b) simp_all

lemma canonical_parts_ok:
  "list_all (\<lambda>(k, v). no_ctrl v) kvs \<Longrightarrow>
   canonical_parts kvs = Inr (map (\<lambda>(k, v). [chr_dq] @ k @ [chr_dq] @ '':'' @ quote_json v) kvs)"
  by (induction kvs) (auto simp: assertPrintable_None [THEN iffD2] escapeString_json quote_json_def)

lemma canonical_parts_bad:
  "\<not> list_all (\<lambda>(k, v). no_ctrl v) kvs \<Longrightarrow> \<exists>e. canonical_parts kvs = Inl e"
proof (induction kvs)
  case (Cons kv kvs)
  obtain k v where kv: "kv = (k, v)" by fastforce
  show ?case
  proof (cases "assertPrintable k v")
    case None
    then have "\<not> list_all (\<lambda>(k, v). no_ctrl v) kvs"
      using Cons.prems by (simp add: kv assertPrintable_None)
    with Cons.IH None show ?thesis by (auto simp: kv)
  qed (simp add: kv)
qed simp

definition payload_clean :: "payload \<Rightarrow> bool" where
  "payload_clean p \<longleftrightarrow> no_ctrl (policy_hash p) \<and> no_ctrl (session_pubkey p) \<and> no_ctrl (signer_pubkey p)"

lemma key_plain: "list_all (\<lambda>c. esc_char c = [c]) k \<Longrightarrow> quote_json k = [chr_dq] @ k @ [chr_dq]"
proof -
  have "list_all (\<lambda>c. esc_char c = [c]) k \<Longrightarrow> esc_body k = k"
    by (induction k) (simp_all add: esc_body_def)
  then show "list_all (\<lambda>c. esc_char c = [c]) k \<Longrightarrow> ?thesis" by (simp add: quote_json_def)
qed

lemma payload_keys:
  "quote_json ''policy_hash'' = [chr_dq] @ ''policy_hash'' @ [chr_dq]"
  "quote_json ''session_pubkey'' = [chr_dq] @ ''session_pubkey'' @ [chr_dq]"
  "quote_json ''signer'' = [chr_dq] @ ''signer'' @ [chr_dq]"
  "quote_json ''signer_pubkey'' = [chr_dq] @ ''signer_pubkey'' @ [chr_dq]"
  by (rule key_plain, simp add: esc_char_def code_of_def)+

lemma canonical_cases:
  "(payload_clean p \<longrightarrow> canonicalAttestation p = Inr (json_stringify (payload_json p))) \<and>
   (\<not> payload_clean p \<longrightarrow> (\<exists>e. canonicalAttestation p = Inl e))"
proof -
  let ?kvs = "[(''policy_hash'', policy_hash p), (''session_pubkey'', session_pubkey p),
          (''signer'', kind_str (signer p)), (''signer_pubkey'', signer_pubkey p)]"
  have clean: "list_all (\<lambda>(k, v). no_ctrl v) ?kvs \<longleftrightarrow> payload_clean p"
    by (simp add: payload_clean_def)
  have "canonicalAttestation p = Inr (json_stringify (payload_json p))" if "payload_clean p"
  proof -
    have parts: "canonical_parts ?kvs = Inr (map (\<lambda>(k, v). [chr_dq] @ k @ [chr_dq] @ '':'' @ quote_json v) ?kvs)"
      by (rule canonical_parts_ok) (simp only: clean that)
    show ?thesis
      unfolding canonicalAttestation_def parts sum.case by (simp add: payload_json_def payload_keys)
  qed
  moreover have "\<not> payload_clean p \<Longrightarrow> \<exists>e. canonicalAttestation p = Inl e"
    using canonical_parts_bad [of ?kvs] unfolding clean canonicalAttestation_def by auto
  ultimately show ?thesis by blast
qed

lemma canonical_is_json_clean: "payload_clean p \<Longrightarrow> canonicalAttestation p = Inr (json_stringify (payload_json p))"
  and canonical_is_json_dirty: "\<not> payload_clean p \<Longrightarrow> \<exists>e. canonicalAttestation p = Inl e"
  using canonical_cases by blast+

lemma canonical_Inr: "canonicalAttestation p = Inr s \<longleftrightarrow> payload_clean p \<and> s = json_stringify (payload_json p)"
  using canonical_is_json_clean [of p] canonical_is_json_dirty [of p] by (cases "payload_clean p") auto

lemma payload_json_ok: "json_ok (payload_json p)"
  by (simp add: payload_json_def)

lemma payload_json_inject: "payload_json p = payload_json q \<longleftrightarrow> p = q"
  by (auto simp: payload_json_def)

text \<open>C4. A canonical attestation exists exactly when no field has a control character; it is then the compact JSON text of the
  payload, byte for byte, so a parser reads the fields back from the signed bytes, and no other payload has the same text: a
  signature over it vouches for one policy hash, one session key and one signer.\<close>

theorem canonical_injective:
  "((\<exists>s. canonicalAttestation p = Inr s) = payload_clean p) \<and>
   (canonicalAttestation p = Inr s \<longrightarrow>
      s = json_stringify (payload_json p) \<and> json_parse s = Some (payload_json p) \<and> (canonicalAttestation q = Inr s \<longrightarrow> q = p))"
proof -
  have "q = p" if "canonicalAttestation p = Inr s" "canonicalAttestation q = Inr s"
  proof -
    from that have "json_parse s = Some (payload_json p)" "json_parse s = Some (payload_json q)"
      using json_roundtrip [OF payload_json_ok [of p]] json_roundtrip [OF payload_json_ok [of q]] unfolding canonical_Inr by metis+
    then show ?thesis by (simp add: payload_json_inject)
  qed
  then show ?thesis
    using json_roundtrip [OF payload_json_ok [of p]] by (auto simp: canonical_Inr)
qed

definition demo_payload :: payload where
  "demo_payload = \<lparr>policy_hash = ''sha256:0000'', session_pubkey = ''ed25519:aa'', signer = Software, signer_pubkey = ''ed25519:bb''\<rparr>"

theorem canonical_injective_witness:
  "json_parse (json_stringify (payload_json demo_payload)) = Some (payload_json demo_payload)"
proof -
  have "canonicalAttestation demo_payload = Inr (json_stringify (payload_json demo_payload))"
    by (simp add: canonical_Inr payload_clean_def demo_payload_def no_ctrl_def ctrl_code_def code_of_def)
  with canonical_injective show ?thesis by blast
qed

end
