(* ===== verification/Totp.thy ===== *)
theory Totp
  imports Canonical
begin

text \<open>
  The pure core of the TOTP signer (\<open>cli/src/signer/totp.ts\<close>): the RFC 6238 code with its 32-bit
  arithmetic, the three-window check, the constant-time comparisons, base32 with a wrapping
  32-bit accumulator, and the XOR seal. HMAC-SHA1 is a parameter (\<open>c_hmac\<close>).
\<close>

unbundle bit_operations_syntax

section \<open>The code of a time step\<close>

text \<open>\<open>a[i]\<close> of a byte array inside an integer expression: \<open>undefined\<close> counts as 0.\<close>

definition byte_at :: "byte list \<Rightarrow> nat \<Rightarrow> byte" where
  "byte_at bs i = (if i < length bs then bs ! i else 0)"

definition be32 :: "32 word \<Rightarrow> byte list" where
  "be32 w = [ucast (drop_bit 24 w), ucast (drop_bit 16 w), ucast (drop_bit 8 w), ucast w]"

text \<open>Two \<open>setUint32\<close> calls: the upper and the lower half of the step counter.\<close>

definition counter_bytes :: "int \<Rightarrow> byte list" where
  "counter_bytes counter = be32 (word_of_int (counter div 2 ^ 32)) @ be32 (word_of_int counter)"

definition truncate_mac :: "byte list \<Rightarrow> 32 word" where
  "truncate_mac mac =
     (let ofs = unat (byte_at mac (length mac - 1) AND 0x0F) in
      push_bit 24 (ucast (byte_at mac ofs AND 0x7F)) OR
      push_bit 16 (ucast (byte_at mac (ofs + 1) AND 0xFF)) OR
      push_bit 8 (ucast (byte_at mac (ofs + 2) AND 0xFF)) OR
      ucast (byte_at mac (ofs + 3) AND 0xFF))"

definition generateTOTPCode :: "crypto \<Rightarrow> byte list \<Rightarrow> int \<Rightarrow> string" where
  "generateTOTPCode c secret unixSeconds =
     pad_start 6 CHR ''0'' (int_str (sint (truncate_mac (c_hmac c secret (counter_bytes (unixSeconds div 30)))) mod 10 ^ 6))"

text \<open>\<open>diff |= a[i] ^ b[i]\<close> over two sequences of equal length.\<close>

fun diff_bytes :: "byte \<Rightarrow> byte list \<Rightarrow> byte list \<Rightarrow> byte" where
  "diff_bytes d (a # as) (b # bs) = diff_bytes (d OR (a XOR b)) as bs"
| "diff_bytes d _ _ = d"

definition timingSafeEqualStr :: "string \<Rightarrow> string \<Rightarrow> bool" where
  "timingSafeEqualStr a b = (if length a \<noteq> length b then False else diff_bytes 0 (bytes_of a) (bytes_of b) = 0)"

definition constantTimeBytesEqual :: "byte list \<Rightarrow> byte list \<Rightarrow> bool" where
  "constantTimeBytesEqual a b = (if length a \<noteq> length b then False else diff_bytes 0 a b = 0)"

definition verifyCode :: "crypto \<Rightarrow> byte list \<Rightarrow> string \<Rightarrow> int \<Rightarrow> bool" where
  "verifyCode c secret code now =
     list_ex (\<lambda>delta. timingSafeEqualStr (generateTOTPCode c secret (now + delta * 30)) code) [-1, 0, 1]"

section \<open>Base32\<close>

definition b32_alphabet :: string where
  "b32_alphabet = ''ABCDEFGHIJKLMNOPQRSTUVWXYZ234567''"

definition b32_chr :: "32 word \<Rightarrow> char" where
  "b32_chr v = b32_alphabet ! unat (v AND 0x1F)"

text \<open>The inner loop: emit a digit while at least five bits are pending.\<close>

function b32_drain :: "nat \<Rightarrow> 32 word \<Rightarrow> string \<Rightarrow> nat \<times> string" where
  "b32_drain bits v out =
     (if 5 \<le> bits then b32_drain (bits - 5) v (out @ [b32_chr (drop_bit (bits - 5) v)]) else (bits, out))"
  by pat_completeness auto
termination by (relation "measure (\<lambda>(b, v, s). b)") auto

declare b32_drain.simps [simp del]

fun b32_loop :: "byte list \<Rightarrow> nat \<Rightarrow> 32 word \<Rightarrow> string \<Rightarrow> nat \<times> 32 word \<times> string" where
  "b32_loop [] bits v out = (bits, v, out)"
| "b32_loop (b # bs) bits v out =
     (let v' = push_bit 8 v OR ucast b in
      case b32_drain (bits + 8) v' out of (bits', out') \<Rightarrow> b32_loop bs bits' v' out')"

definition base32Encode :: "byte list \<Rightarrow> string" where
  "base32Encode bytes =
     (case b32_loop bytes 0 0 [] of
        (bits, v, out) \<Rightarrow> if 0 < bits then out @ [b32_chr (push_bit (5 - bits) v)] else out)"

section \<open>Seal\<close>

text \<open>\<open>out[i] = a[i] ^ b[i]\<close> over the length of \<open>a\<close>.\<close>

definition xor_bytes :: "byte list \<Rightarrow> byte list \<Rightarrow> byte list" where
  "xor_bytes a b = map (\<lambda>i. (a ! i) XOR byte_at b i) [0..<length a]"

section \<open>Correctness\<close>

lemma xor_zero_iff: "a XOR b = 0 \<longleftrightarrow> a = (b :: byte)"
  by (metis xor.assoc xor.left_neutral xor_self_eq)

lemma diff_bytes_zero: "length a = length b \<Longrightarrow> diff_bytes d a b = 0 \<longleftrightarrow> d = 0 \<and> a = b"
proof (induction a b arbitrary: d rule: list_induct2')
  case (4 x xs y ys)
  then show ?case by (auto simp: or_eq_0_iff xor_zero_iff)
qed auto

lemma bytes_of_inject [simp]: "bytes_of a = bytes_of b \<longleftrightarrow> a = b"
proof
  assume e: "bytes_of a = bytes_of b"
  have "string_of_bytes (bytes_of s) = s" for s
    by (simp add: string_of_bytes_def bytes_of_def o_def unsigned_of_nat take_bit_eq_mod)
  with e show "a = b" by metis
qed simp

lemma timingSafeEqualStr_iff [simp]: "timingSafeEqualStr a b \<longleftrightarrow> a = b"
  by (auto simp: timingSafeEqualStr_def diff_bytes_zero)

lemma constantTimeBytesEqual_iff [simp]: "constantTimeBytesEqual a b \<longleftrightarrow> a = b"
  by (auto simp: constantTimeBytesEqual_def diff_bytes_zero)

text \<open>The constant-time comparisons of codes and of public keys decide equality: no early exit, no false match.\<close>

theorem constant_time_equality:
  "timingSafeEqualStr a b = (a = b) \<and> constantTimeBytesEqual x y = (x = y)"
  by simp

subsection \<open>The six-digit code\<close>

lemma nat_str_length: "n < 10 ^ k \<Longrightarrow> 0 < k \<Longrightarrow> length (nat_str n) \<le> k"
proof (induction k arbitrary: n)
  case (Suc k)
  show ?case
  proof (cases "n < 10")
    case True
    then show ?thesis by (simp add: nat_str.simps [of n])
  next
    case False
    then have "0 < k" using Suc.prems by (cases k) auto
    moreover have "n div 10 < 10 ^ k" using Suc.prems by (simp add: less_mult_imp_div_less mult.commute)
    ultimately show ?thesis using Suc.IH [of "n div 10"] False by (simp add: nat_str.simps [of n])
  qed
qed simp

lemma pad_start_zeros:
  "list_all is_digit s \<Longrightarrow> list_all is_digit (pad_start k CHR ''0'' s) \<and> read_nat 0 (pad_start k CHR ''0'' s) = read_nat 0 s"
proof -
  assume s: "list_all is_digit s"
  have z: "is_digit CHR ''0''" by (simp add: is_digit_def code_of_def)
  have r: "read_nat 0 (replicate n CHR ''0'' @ s) = read_nat 0 s" for n
    by (simp add: read_nat_append read_nat_zeros)
  show ?thesis using s z r by (auto simp: pad_start_def list_all_iff)
qed

text \<open>The RFC's dynamic truncation as a number: 31 bits, big-endian, from the offset the last byte names.\<close>

definition hotp_value :: "byte list \<Rightarrow> nat" where
  "hotp_value mac = (let ofs = unat (byte_at mac (length mac - 1)) mod 16 in
     (unat (byte_at mac ofs) mod 128) * 2 ^ 24 + unat (byte_at mac (ofs + 1)) * 2 ^ 16
       + unat (byte_at mac (ofs + 2)) * 2 ^ 8 + unat (byte_at mac (ofs + 3)))"

lemma be_or_step:
  fixes x y :: int
  assumes "0 \<le> y" "y < 2 ^ n"
  shows "push_bit n x OR y = x * 2 ^ n + y"
proof -
  have "concat_bit n y x = take_bit n y + push_bit n x" by (rule concat_bit_eq)
  moreover have "concat_bit n y x = push_bit n x OR take_bit n y" by (simp add: concat_bit_def or.commute)
  moreover have "take_bit n y = y" using assms by (simp add: take_bit_int_eq_self)
  ultimately show ?thesis by (simp add: push_bit_eq_mult)
qed

lemma or_pushed:
  fixes a b c d :: int
  assumes "0 \<le> b" "b < 2 ^ 8" "0 \<le> c" "c < 2 ^ 8" "0 \<le> d" "d < 2 ^ 8"
  shows "push_bit 24 a OR push_bit 16 b OR push_bit 8 c OR d = a * 2 ^ 24 + b * 2 ^ 16 + c * 2 ^ 8 + d"
proof -
  have "push_bit 24 a OR push_bit 16 b = push_bit 16 (push_bit 8 a OR b)"
    by (simp add: push_bit_or)
  then have 1: "push_bit 24 a OR push_bit 16 b OR push_bit 8 c = push_bit 8 (push_bit 8 (push_bit 8 a OR b) OR c)"
    by (simp add: push_bit_or or.assoc)
  have "push_bit 24 a OR push_bit 16 b OR push_bit 8 c OR d = push_bit 8 (push_bit 8 (push_bit 8 a OR b) OR c) OR d"
    using 1 by (simp add: or.assoc)
  with assms show ?thesis by (simp add: be_or_step)
qed

lemma and_masks:
  "(w :: byte) AND 0x0F = take_bit 4 w" "(w :: byte) AND 0x7F = take_bit 7 w" "(w :: byte) AND 0xFF = w"
proof -
  show "w AND 0x0F = take_bit 4 w" "w AND 0x7F = take_bit 7 w"
    by (simp_all add: take_bit_eq_mask mask_numeral)
  have "w AND 0xFF = take_bit 8 w" by (simp add: take_bit_eq_mask mask_numeral)
  also have "\<dots> = w" by (rule take_bit_word_eq_self) simp
  finally show "w AND 0xFF = w" .
qed

lemma uint_byte: "0 \<le> uint (w :: byte)" "uint (w :: byte) < 256"
  using unsigned_less [of w, where 'a = int] by simp_all

lemma uint_push_ucast:
  assumes "n \<le> 24"
  shows "uint (push_bit n (ucast (x :: byte)) :: 32 word) = push_bit n (uint x)"
proof -
  have "push_bit n (uint x) < 2 ^ n * 2 ^ 8"
    using uint_byte [of x] by (simp add: push_bit_eq_mult)
  also have "\<dots> \<le> (2 :: int) ^ 32"
    using assms power_increasing [of "n + 8" 32 "2 :: int"] by (simp add: power_add)
  finally have "push_bit n (uint x) < 2 ^ 32" .
  moreover have "0 \<le> push_bit n (uint x)" using uint_byte [of x] by simp
  moreover have "take_bit 32 (uint x) = uint x" using uint_byte [of x] by (simp add: take_bit_int_eq_self)
  ultimately show ?thesis
    by (simp add: unsigned_push_bit_eq unsigned_ucast_eq take_bit_int_eq_self)
qed

lemma uint_truncate: "uint (truncate_mac mac) = int (hotp_value mac)"
proof -
  let ?o = "unat (byte_at mac (length mac - 1)) mod 16"
  have o: "unat (byte_at mac (length mac - 1) AND 0x0F) = ?o"
    unfolding and_masks unsigned_take_bit_eq by (simp add: take_bit_eq_mod)
  have a: "uint (byte_at mac ?o AND 0x7F) = uint (byte_at mac ?o) mod 128"
    unfolding and_masks unsigned_take_bit_eq by (simp add: take_bit_eq_mod)
  have d: "uint (ucast (w :: byte) :: 32 word) = uint w" for w
    using uint_push_ucast [of 0 w] by simp
  have "uint (truncate_mac mac) =
      push_bit 24 (uint (byte_at mac ?o) mod 128) OR push_bit 16 (uint (byte_at mac (?o + 1)))
      OR push_bit 8 (uint (byte_at mac (?o + 2))) OR uint (byte_at mac (?o + 3))"
    unfolding truncate_mac_def Let_def o and_masks(3)
    by (simp only: uint_or uint_push_ucast d a or.assoc)
  also have "\<dots> = int (hotp_value mac)"
    using or_pushed [of "uint (byte_at mac (?o + 1))" "uint (byte_at mac (?o + 2))" "uint (byte_at mac (?o + 3))"]
    by (simp add: uint_byte hotp_value_def Let_def uint_nat [symmetric] zmod_int)
  finally show ?thesis .
qed

lemma hotp_less: "hotp_value mac < 2 ^ 31"
proof -
  have "unat (byte_at mac i) < 256" for i by simp
  from this [of "unat (byte_at mac (length mac - 1)) mod 16 + 1"] this [of "unat (byte_at mac (length mac - 1)) mod 16 + 2"]
    this [of "unat (byte_at mac (length mac - 1)) mod 16 + 3"]
  have "unat (byte_at mac (unat (byte_at mac (length mac - 1)) mod 16 + 1)) \<le> 255"
    "unat (byte_at mac (unat (byte_at mac (length mac - 1)) mod 16 + 2)) \<le> 255"
    "unat (byte_at mac (unat (byte_at mac (length mac - 1)) mod 16 + 3)) \<le> 255"
    "unat (byte_at mac (unat (byte_at mac (length mac - 1)) mod 16)) mod 128 \<le> 127"
    by linarith+
  then show ?thesis unfolding hotp_value_def Let_def by simp
qed

lemma sint_truncate: "sint (truncate_mac mac) = int (hotp_value mac)"
proof -
  have "int (hotp_value mac) < 2 ^ 31" using hotp_less [of mac] by simp
  then show ?thesis by (simp add: sint_uint uint_truncate signed_take_bit_int_eq_self)
qed

lemma totp_code_eq:
  "generateTOTPCode c secret t = pad_start 6 CHR ''0'' (nat_str (hotp_value (c_hmac c secret (counter_bytes (t div 30))) mod 10 ^ 6))"
proof -
  let ?h = "hotp_value (c_hmac c secret (counter_bytes (t div 30)))"
  have "int ?h mod 10 ^ 6 = int (?h mod 10 ^ 6)" by (simp add: zmod_int)
  then show ?thesis unfolding generateTOTPCode_def sint_truncate by (simp only: int_str_def nat_int) simp
qed

definition be_num :: "byte list \<Rightarrow> nat" where
  "be_num bs = foldl (\<lambda>n b. n * 256 + unat b) 0 bs"

lemma be_num_foldl: "foldl (\<lambda>n b. n * 256 + unat b) k bs = k * 256 ^ length bs + be_num bs"
proof (induction bs arbitrary: k)
  case (Cons b bs)
  from Cons.IH [of "k * 256 + unat b"] Cons.IH [of "unat b"] show ?case
    by (simp add: be_num_def algebra_simps)
qed (simp add: be_num_def)

lemma be_num_append: "be_num (xs @ ys) = be_num xs * 256 ^ length ys + be_num ys"
  using be_num_foldl [of "be_num xs" ys] by (simp add: be_num_def)

lemma be_num_snoc: "be_num (bs @ [b]) = be_num bs * 256 + unat b"
  by (simp add: be_num_def)

lemma div_split: "(n :: nat) div (a * b) * b + n div a mod b = n div a"
  by (simp add: div_mult2_eq)

lemma be_num_be32: "be_num (be32 w) = unat w"
proof -
  have lt: "unat w < 2 ^ 32" using unsigned_less [of w, where 'a = nat] by simp
  have byte: "unat (ucast (drop_bit n w) :: byte) = unat w div 2 ^ n mod 256" for n
    unfolding unsigned_ucast_eq unsigned_drop_bit_eq using lt by (simp add: take_bit_eq_mod drop_bit_eq_div)
  have low: "unat (ucast w :: byte) = unat w mod 256"
    using byte [of 0] by simp
  have "be_num (be32 w) =
      ((unat w div 2 ^ 24 mod 256 * 256 + unat w div 2 ^ 16 mod 256) * 256 + unat w div 2 ^ 8 mod 256) * 256 + unat w mod 256"
    by (simp add: be_num_def be32_def byte low)
  also have "\<dots> = unat w"
  proof -
    have "unat w div 2 ^ 24 mod 256 = unat w div 2 ^ 16 div 256"
      using lt by (simp add: div_mult2_eq [symmetric])
    moreover have "unat w div 2 ^ 16 = unat w div 2 ^ 8 div 256"
      by (simp add: div_mult2_eq [symmetric])
    ultimately show ?thesis by simp
  qed
  finally show ?thesis .
qed

text \<open>The step counter is fed to the HMAC as the 64-bit big-endian number RFC 4226 asks for: eight bytes whose value is
  the counter modulo \<open>2^64\<close>, although the code assembles it from two 32-bit halves.\<close>

theorem counter_bytes_big_endian:
  "length (counter_bytes n) = 8 \<and> int (be_num (counter_bytes n)) = n mod 2 ^ 64"
proof -
  have half: "uint (word_of_int k :: 32 word) = k mod 4294967296" for k
    by (simp add: uint_word_of_int)
  have "int (be_num (counter_bytes n)) = (n div 2 ^ 32 mod 2 ^ 32) * 2 ^ 32 + n mod 2 ^ 32"
    unfolding counter_bytes_def be_num_append be_num_be32
    by (simp add: half be32_def)
  also have "\<dots> = n mod 2 ^ 64"
    using mod_mult2_eq' [of n "2 ^ 32" "2 ^ 32"] by simp
  finally show ?thesis by (simp add: counter_bytes_def be32_def)
qed

text \<open>A TOTP code is six decimal digits whose value is the RFC's dynamic truncation of the MAC modulo a million,
  for every MAC: the 32-bit OR of shifted bytes never goes negative, and the padding keeps leading zeros.\<close>

theorem totp_code_format:
  "length (generateTOTPCode c secret t) = 6 \<and> list_all is_digit (generateTOTPCode c secret t) \<and>
   read_nat 0 (generateTOTPCode c secret t) = hotp_value (c_hmac c secret (counter_bytes (t div 30))) mod 10 ^ 6"
proof -
  let ?n = "hotp_value (c_hmac c secret (counter_bytes (t div 30))) mod 10 ^ 6"
  have "length (nat_str ?n) \<le> 6" by (rule nat_str_length) simp_all
  then have "length (pad_start 6 CHR ''0'' (nat_str ?n)) = 6" by (simp add: pad_start_def)
  then show ?thesis
    unfolding totp_code_eq using pad_start_zeros [OF nat_str_digits, of 6 ?n] by simp
qed


subsection \<open>Base32\<close>

text \<open>The RFC 4648 reading of an unpadded base32 text: its digits as a number, the trailing bits that do not fill a byte dropped.\<close>

definition b32_digit :: "char \<Rightarrow> nat" where
  "b32_digit c = (if is_upper c then code_of c - 65 else code_of c - 24)"

definition b32_num :: "string \<Rightarrow> nat" where
  "b32_num s = foldl (\<lambda>n c. n * 32 + b32_digit c) 0 s"

fun be_bytes :: "nat \<Rightarrow> nat \<Rightarrow> byte list" where
  "be_bytes 0 k = []"
| "be_bytes (Suc n) k = be_bytes n (k div 256) @ [of_nat k]"

definition base32Decode :: "string \<Rightarrow> byte list" where
  "base32Decode s = (let n = length s * 5 div 8 in be_bytes n (b32_num s div 2 ^ (length s * 5 - 8 * n)))"

lemma be_bytes_num: "be_bytes (length bs) (be_num bs) = bs"
proof (induction bs rule: rev_induct)
  case (snoc b bs)
  have "(be_num bs * 256 + unat b) div 256 = be_num bs" by simp
  moreover have "(of_nat (be_num bs * 256 + unat b) :: byte) = b"
  proof -
    have "(256 :: byte) = 0" by transfer simp
    then have "(of_nat (be_num bs * 256) :: byte) = 0" by (simp only: of_nat_mult of_nat_numeral mult_zero_right)
    then show ?thesis by simp
  qed
  ultimately show ?case using snoc by (simp add: be_num_snoc)
qed (simp add: be_num_def)

lemma b32_num_snoc: "b32_num (s @ [c]) = b32_num s * 32 + b32_digit c"
  by (simp add: b32_num_def)

lemma less32: "n < 32 \<Longrightarrow> b32_digit (b32_alphabet ! n) = n"
proof -
  assume "n < 32"
  then have "n \<in> set [0..<32]" by simp
  moreover have "list_all (\<lambda>n. b32_digit (b32_alphabet ! n) = n) [0..<32]"
    by (simp add: upt_rec b32_digit_def b32_alphabet_def is_upper_def code_of_def)
  ultimately show ?thesis by (simp only: list_all_iff)
qed

lemma b32_digit_chr: "b32_digit (b32_chr v) = unat v mod 32"
proof -
  have "v AND 0x1F = take_bit 5 v" by (simp add: take_bit_eq_mask mask_numeral)
  then have "unat (v AND 0x1F) = take_bit 5 (unat v)" by (simp only: unsigned_take_bit_eq)
  then have "unat (v AND 0x1F) = unat v mod 32" by (simp add: take_bit_eq_mod)
  then show ?thesis by (simp add: b32_chr_def less32)
qed

lemma mod_split_digit: "(v :: nat) mod 2 ^ (b + 5) = (v div 2 ^ b mod 32) * 2 ^ b + v mod 2 ^ b"
  using mod_mult2_eq [of v "2 ^ b" 32] by (simp add: power_add)

lemma unat_drop: "unat (drop_bit n (v :: 32 word)) = unat v div 2 ^ n"
proof -
  have "unat v < 2 ^ 32" using unsigned_less [of v, where 'a = nat] by simp
  then show ?thesis unfolding unsigned_drop_bit_eq by (simp add: drop_bit_eq_div take_bit_eq_mod)
qed

text \<open>Draining turns pending bits into digits and loses nothing.\<close>

lemma b32_drain_inv:
  assumes "b32_drain bits v out = (bits', out')"
  shows "bits' < 5 \<and> 5 * length out' + bits' = 5 * length out + bits \<and>
    b32_num out' * 2 ^ bits' + unat v mod 2 ^ bits' = b32_num out * 2 ^ bits + unat v mod 2 ^ bits"
  using assms
proof (induction bits v out arbitrary: bits' out' rule: b32_drain.induct)
  case (1 bits v out)
  show ?case
  proof (cases "5 \<le> bits")
    case True
    then obtain b where b: "bits = b + 5" by (metis add.commute le_Suc_ex)
    let ?out = "out @ [b32_chr (drop_bit b v)]"
    have "b32_drain b v ?out = (bits', out')" using "1.prems" b by (simp add: b32_drain.simps [of "b + 5"])
    from "1.IH" [OF True, simplified b, simplified, OF this]
    have IH: "bits' < 5" "5 * length out' + bits' = 5 * length ?out + b"
      "b32_num out' * 2 ^ bits' + unat v mod 2 ^ bits' = b32_num ?out * 2 ^ b + unat v mod 2 ^ b" by auto
    have "b32_num ?out * 2 ^ b + unat v mod 2 ^ b = b32_num out * 2 ^ bits + unat v mod 2 ^ bits"
      unfolding b b32_num_snoc b32_digit_chr unat_drop mod_split_digit by (simp add: power_add algebra_simps)
    with IH b show ?thesis by simp
  next
    case False
    with "1.prems" show ?thesis by (simp add: b32_drain.simps [of bits])
  qed
qed

text \<open>Shifting a byte in keeps the pending bits, as long as they fit the 32-bit accumulator.\<close>

lemma shift_in_mod:
  assumes "bits < 5"
  shows "unat (push_bit 8 (v :: 32 word) OR ucast (b :: byte)) mod 2 ^ (bits + 8) = (unat v mod 2 ^ bits) * 256 + unat b"
proof -
  have ub: "uint (ucast b :: 32 word) = uint b" using uint_push_ucast [of 0 b] by simp
  have "uint (push_bit 8 v OR ucast b) mod 2 ^ (bits + 8) = take_bit (bits + 8) (push_bit 8 (uint v) OR uint b)"
    using assms by (simp add: uint_or ub unsigned_push_bit_eq take_bit_eq_mod [symmetric] del: take_bit_or)
      (simp add: take_bit_or)
  also have "\<dots> = (uint v * 256 + uint b) mod 2 ^ (bits + 8)"
    using uint_byte [of b] by (simp add: be_or_step take_bit_eq_mod)
  also have "\<dots> = (uint v mod 2 ^ bits) * 256 + uint b"
  proof -
    have "(uint v * 256 + uint b) mod (256 * 2 ^ bits) = 256 * ((uint v * 256 + uint b) div 256 mod 2 ^ bits) + (uint v * 256 + uint b) mod 256"
      by (rule zmod_zmult2_eq) simp
    then show ?thesis using uint_byte [of b] by (simp add: power_add mult.commute)
  qed
  finally have "int (unat (push_bit 8 v OR ucast b) mod 2 ^ (bits + 8)) = int ((unat v mod 2 ^ bits) * 256 + unat b)"
    by (simp add: zmod_int)
  then show ?thesis by (simp only: of_nat_eq_iff)
qed

lemma b32_loop_inv:
  assumes "b32_loop bs bits v out = (bits', v', out')" and "bits < 5"
    and "8 * length seen = 5 * length out + bits" and "be_num seen = b32_num out * 2 ^ bits + unat v mod 2 ^ bits"
  shows "bits' < 5 \<and> 8 * length (seen @ bs) = 5 * length out' + bits' \<and>
    be_num (seen @ bs) = b32_num out' * 2 ^ bits' + unat v' mod 2 ^ bits'"
  using assms
proof (induction bs arbitrary: bits v out seen)
  case (Cons b bs)
  let ?v = "push_bit 8 v OR ucast b :: 32 word"
  obtain bits1 out1 where d: "b32_drain (bits + 8) ?v out = (bits1, out1)" by fastforce
  from b32_drain_inv [OF d] have D: "bits1 < 5" "5 * length out1 + bits1 = 5 * length out + (bits + 8)"
    "b32_num out1 * 2 ^ bits1 + unat ?v mod 2 ^ bits1 = b32_num out * 2 ^ (bits + 8) + unat ?v mod 2 ^ (bits + 8)" by auto
  have "be_num (seen @ [b]) = b32_num out1 * 2 ^ bits1 + unat ?v mod 2 ^ bits1"
    unfolding D(3) shift_in_mod [OF Cons.prems(2)] be_num_snoc Cons.prems(4) by (simp add: power_add algebra_simps)
  moreover have "b32_loop bs bits1 ?v out1 = (bits', v', out')" using Cons.prems(1) d by simp
  moreover have "8 * length (seen @ [b]) = 5 * length out1 + bits1" using D(2) Cons.prems(3) by simp
  ultimately show ?case using Cons.IH [of bits1 ?v out1 "seen @ [b]"] D(1) by simp
qed simp

lemma b32_pad_digit:
  assumes "0 < bits" "bits < 5"
  shows "b32_digit (b32_chr (push_bit (5 - bits) v)) = (unat v mod 2 ^ bits) * 2 ^ (5 - bits)"
proof -
  have "unat (push_bit (5 - bits) v) mod 32 = take_bit 5 (take_bit 32 (push_bit (5 - bits) (unat v)))"
    by (simp add: unsigned_push_bit_eq take_bit_eq_mod)
  also have "\<dots> = take_bit 5 (push_bit (5 - bits) (unat v))" by (simp add: take_bit_take_bit)
  also have "\<dots> = push_bit (5 - bits) (take_bit bits (unat v))"
    using assms by (simp add: take_bit_push_bit)
  finally show ?thesis by (simp add: b32_digit_chr push_bit_eq_mult take_bit_eq_mod)
qed

text \<open>C6. The base32 text of a TOTP secret decodes to the secret, for secrets of any length: the 32-bit accumulator wraps after
  four bytes, but no pending bit is ever lost.\<close>

theorem base32_roundtrip: "base32Decode (base32Encode bs) = bs"
proof -
  obtain bits v out where l: "b32_loop bs 0 0 [] = (bits, v, out)" by (metis prod_cases3)
  from b32_loop_inv [OF l, of "[]"] have I: "bits < 5" "8 * length bs = 5 * length out + bits"
    "be_num bs = b32_num out * 2 ^ bits + unat v mod 2 ^ bits"
    by (simp_all add: be_num_def b32_num_def)
  show ?thesis
  proof (cases "bits = 0")
    case True
    have s: "base32Encode bs = out" using True l by (simp add: base32Encode_def)
    have len: "length out * 5 div 8 = length bs" "length out * 5 - 8 * length bs = 0"
      using I(2) True by simp_all
    have "b32_num out = be_num bs" using I(3) True by simp
    then show ?thesis unfolding s base32Decode_def Let_def len by (simp add: be_bytes_num)
  next
    case False
    let ?s = "out @ [b32_chr (push_bit (5 - bits) v)]"
    have s: "base32Encode bs = ?s" using False l by (simp add: base32Encode_def)
    have len: "length ?s * 5 div 8 = length bs" "length ?s * 5 - 8 * length bs = 5 - bits"
      using I(1,2) False by (simp_all add: algebra_simps)
    have "b32_num ?s = be_num bs * 2 ^ (5 - bits)"
      using False I(1) by (simp add: b32_num_snoc b32_pad_digit I(3) algebra_simps flip: power_add)
    then show ?thesis unfolding s base32Decode_def Let_def len by (simp add: be_bytes_num)
  qed
qed

subsection \<open>Seal\<close>

lemma length_xor_bytes [simp]: "length (xor_bytes a b) = length a"
  by (simp add: xor_bytes_def)

lemma xor_bytes_twice: "xor_bytes (xor_bytes a b) b = a"
  by (rule nth_equalityI) (simp_all add: xor_bytes_def xor.assoc)

end
