(* ===== verification/ApiClient.thy ===== *)
theory ApiClient
  imports Node
begin

text \<open>
  The daemon client (\<open>cli/src/util/api.ts\<close>) and the path helpers (\<open>cli/src/util/paths.ts\<close>). The client
  holds its base URL, its token and the cached capabilities; a method is a program that sends one
  request and either returns the decoded body or throws with the status in the message. Request
  and response bodies are JSON values, as the code casts them without a check. The header
  \<open>Content-Type\<close> is left out of the requests.
\<close>

section \<open>Paths\<close>

text \<open>On Windows \<open>join\<close> would use backslashes; the branch is kept with the POSIX separator.\<close>

definition home :: "world \<Rightarrow> string" where
  "home w = (case w_env w ''AGENTLOCK_DEV_HOME'' of
     Some h \<Rightarrow> h | None \<Rightarrow> (case w_env w ''HOME'' of Some h \<Rightarrow> h | None \<Rightarrow> w_home w))"

definition isMac :: "world \<Rightarrow> bool" where "isMac w \<longleftrightarrow> w_platform w = Darwin"

definition isLinux :: "world \<Rightarrow> bool" where "isLinux w \<longleftrightarrow> w_platform w = Linux"

definition isWin :: "world \<Rightarrow> bool" where "isWin w \<longleftrightarrow> w_platform w = Win32"

definition xdgConfigHome :: "world \<Rightarrow> string" where
  "xdgConfigHome w = (case w_env w ''XDG_CONFIG_HOME'' of Some d \<Rightarrow> d | None \<Rightarrow> path_join [home w, ''.config''])"

definition appSupport :: "world \<Rightarrow> string" where
  "appSupport w =
     (if isMac w then path_join [home w, ''Library'', ''Application Support'']
      else if isWin w then (case w_env w ''APPDATA'' of Some d \<Rightarrow> d | None \<Rightarrow> path_join [home w, ''AppData'', ''Roaming''])
      else xdgConfigHome w)"

definition agentlockHome :: "world \<Rightarrow> string" where
  "agentlockHome w = (case w_env w ''AGENTLOCK_HOME'' of Some d \<Rightarrow> d | None \<Rightarrow> path_join [appSupport w, ''OpenAgentLock''])"

definition binDir :: "world \<Rightarrow> string" where
  "binDir w = path_join [agentlockHome w, ''bin'']"

definition vscodeUserDir :: "world \<Rightarrow> string option" where
  "vscodeUserDir w =
     (if isMac w then Some (path_join [home w, ''Library'', ''Application Support'', ''Code'', ''User''])
      else if isLinux w then Some (path_join [xdgConfigHome w, ''Code'', ''User''])
      else if isWin w then Some (path_join [(case w_env w ''APPDATA'' of Some d \<Rightarrow> d | None \<Rightarrow> ''''), ''Code'', ''User''])
      else None)"

section \<open>Percent encoding\<close>

definition uri_unreserved :: "char \<Rightarrow> bool" where
  "uri_unreserved c \<longleftrightarrow> is_alnum c \<or>
     c \<in> {CHR ''-'', CHR ''_'', CHR ''.'', CHR ''!'', CHR ''~'', CHR ''*'', chr_sq, CHR ''('', CHR '')''}"

definition upper_hex :: "nat \<Rightarrow> char" where
  "upper_hex n = (if n < 10 then char_of (48 + n) else char_of (55 + n))"

definition encode_char :: "char \<Rightarrow> string" where
  "encode_char c =
     (if uri_unreserved c then [c] else [CHR ''%'', upper_hex (code_of c div 16), upper_hex (code_of c mod 16)])"

definition encodeURIComponent :: "string \<Rightarrow> string" where
  "encodeURIComponent s = concat (map encode_char s)"

section \<open>The client\<close>

record client =
  cl_url :: string
  cl_token :: "string option"
  cl_caps :: "json option"

definition apiClient :: "string option \<Rightarrow> string option \<Rightarrow> client prog" where
  "apiClient baseUrl initialToken = getsP (\<lambda>w.
     \<lparr>cl_url = (case baseUrl of Some u \<Rightarrow> u | None \<Rightarrow>
                 (case w_env w ''AGENTLOCK_CONTROL_PLANE_URL'' of Some u \<Rightarrow> u | None \<Rightarrow> ''http://127.0.0.1:7878'')),
      cl_token = (case initialToken of Some t \<Rightarrow> Some t | None \<Rightarrow> w_env w ''AGENTLOCK_TOKEN''),
      cl_caps = None\<rparr>)"

definition authHeaders :: "client \<Rightarrow> string option" where
  "authHeaders cl = (case cl_token cl of Some t \<Rightarrow> if t = [] then None else Some (''Bearer '' @ t) | None \<Rightarrow> None)"

definition setToken :: "string option \<Rightarrow> client \<Rightarrow> client" where
  "setToken t cl = cl\<lparr>cl_token := t\<rparr>"

definition ledgerTailUrl :: "client \<Rightarrow> string" where
  "ledgerTailUrl cl =
     (let base = cl_url cl @ ''/v1/ledger/tail'' in
      case cl_token cl of
        Some t \<Rightarrow> if t = [] then base else base @ ''?token='' @ encodeURIComponent t
      | None \<Rightarrow> base)"

text \<open>The three shapes of failure message: without the body, with it after a colon, with it after a space.\<close>

definition status_text :: "string \<Rightarrow> http_resp \<Rightarrow> string" where
  "status_text what r = what @ '': '' @ nat_str (rs_status r) @ '' '' @ rs_text r"

definition fail_plain :: "string \<Rightarrow> http_resp \<Rightarrow> json prog" where
  "fail_plain what r = throw_msg (status_text what r)"

definition fail_body :: "string \<Rightarrow> http_resp \<Rightarrow> json prog" where
  "fail_body what r = bindP (resp_text r) (\<lambda>body. throw_msg (status_text what r @ '': '' @ body))"

definition fail_caught :: "string \<Rightarrow> http_resp \<Rightarrow> json prog" where
  "fail_caught what r = bindP (tryP (resp_text r) (\<lambda>_. ret [])) (\<lambda>body. throw_msg (status_text what r @ '' '' @ body))"

text \<open>One request; a status the method does not accept becomes an error, else the body is decoded.\<close>

definition api_send ::
  "string \<Rightarrow> string \<Rightarrow> string option \<Rightarrow> json option \<Rightarrow> (http_resp \<Rightarrow> bool) \<Rightarrow> (http_resp \<Rightarrow> json prog) \<Rightarrow> json prog" where
  "api_send meth url auth body accepts fails =
     bindP (fetch \<lparr>rq_method = meth, rq_url = url, rq_auth = auth, rq_body = map_option json_stringify body\<rparr>) (\<lambda>res.
       if \<not> accepts res then fails res else resp_json res)"

definition status_is :: "nat \<Rightarrow> http_resp \<Rightarrow> bool" where
  "status_is n r \<longleftrightarrow> rs_status r = n"

definition ok_or_207 :: "http_resp \<Rightarrow> bool" where
  "ok_or_207 r \<longleftrightarrow> resp_ok r \<or> rs_status r = 207"

section \<open>The methods\<close>

definition authMode :: "client \<Rightarrow> json prog" where
  "authMode cl = api_send ''GET'' (cl_url cl @ ''/v1/auth/mode'') None None resp_ok (fail_plain ''auth.mode'')"

definition credentials :: "string \<Rightarrow> string \<Rightarrow> json" where
  "credentials username password = JObj [(''username'', JStr username), (''password'', JStr password)]"

text \<open>\<open>out.token\<close> throws on a \<open>null\<close> body; a missing or falsy token leaves the client without one.\<close>

definition authLogin :: "string \<Rightarrow> string \<Rightarrow> client \<Rightarrow> (json \<times> client) prog" where
  "authLogin username password cl =
     bindP (api_send ''POST'' (cl_url cl @ ''/v1/auth/login'') None (Some (credentials username password)) resp_ok
              (fail_body ''auth.login'')) (\<lambda>out.
     bindP (propP out ''token'') (\<lambda>t. ret (out, cl\<lparr>cl_token := (if truthy t then Some (js_string (the t)) else None)\<rparr>)))"

definition authBootstrap :: "string \<Rightarrow> string \<Rightarrow> client \<Rightarrow> json prog" where
  "authBootstrap username password cl =
     api_send ''POST'' (cl_url cl @ ''/v1/auth/bootstrap'') None (Some (credentials username password)) (status_is 201)
       (fail_body ''auth.bootstrap'')"

definition authLogout :: "client \<Rightarrow> client prog" where
  "authLogout cl =
     (if authHeaders cl = None then ret cl
      else bindP (tryP (bindP (fetch \<lparr>rq_method = ''POST'', rq_url = cl_url cl @ ''/v1/auth/logout'',
                                  rq_auth = authHeaders cl, rq_body = None\<rparr>) (\<lambda>_. ret ())) (\<lambda>_. ret ()))
             (\<lambda>_. ret (cl\<lparr>cl_token := None\<rparr>)))"

definition health :: "client \<Rightarrow> json prog" where
  "health cl = api_send ''GET'' (cl_url cl @ ''/v1/health'') None None resp_ok (fail_plain ''health'')"

definition createSession :: "json \<Rightarrow> client \<Rightarrow> json prog" where
  "createSession req cl =
     api_send ''POST'' (cl_url cl @ ''/v1/sessions'') (authHeaders cl) (Some req) (status_is 201) (fail_body ''sessions.create'')"

definition checkGate :: "json \<Rightarrow> client \<Rightarrow> json prog" where
  "checkGate req cl =
     api_send ''POST'' (cl_url cl @ ''/v1/gates/check'') (authHeaders cl) (Some req) (status_is 200) (fail_body ''gates.check'')"

definition endSession :: "string \<Rightarrow> client \<Rightarrow> unit prog" where
  "endSession sid cl =
     bindP (fetch \<lparr>rq_method = ''POST'', rq_url = cl_url cl @ ''/v1/sessions/'' @ encodeURIComponent sid @ ''/end'',
                  rq_auth = authHeaders cl, rq_body = None\<rparr>) (\<lambda>res.
       if rs_status res \<noteq> 204 then bindP (fail_body ''sessions.end'' res) (\<lambda>_. ret ()) else ret ())"

definition rotateSession :: "string \<Rightarrow> json \<Rightarrow> client \<Rightarrow> json prog" where
  "rotateSession sid req cl =
     api_send ''POST'' (cl_url cl @ ''/v1/sessions/'' @ encodeURIComponent sid @ ''/rotate'') (authHeaders cl) (Some req)
       (status_is 200) (fail_body ''sessions.rotate'')"

definition ledgerRoot :: "client \<Rightarrow> json prog" where
  "ledgerRoot cl = api_send ''GET'' (cl_url cl @ ''/v1/ledger/root'') (authHeaders cl) None resp_ok (fail_plain ''ledger.root'')"

definition ledgerVerify :: "client \<Rightarrow> json prog" where
  "ledgerVerify cl =
     api_send ''POST'' (cl_url cl @ ''/v1/ledger/verify'') (authHeaders cl) None resp_ok (fail_plain ''ledger.verify'')"

definition createUnattestedSession :: "client \<Rightarrow> json prog" where
  "createUnattestedSession cl =
     api_send ''POST'' (cl_url cl @ ''/v1/sessions/unattested'') (authHeaders cl) None (status_is 201) (fail_body ''sessions.unattested'')"

text \<open>The capabilities are fetched once per client; a falsy cache entry is fetched again.\<close>

definition installCapabilities :: "client \<Rightarrow> (json \<times> client) prog" where
  "installCapabilities cl =
     (if truthy (cl_caps cl) then ret (the (cl_caps cl), cl)
      else bindP (api_send ''GET'' (cl_url cl @ ''/v1/install/capabilities'') None None resp_ok (fail_plain ''install.capabilities''))
             (\<lambda>caps. ret (caps, cl\<lparr>cl_caps := Some caps\<rparr>)))"

definition installPlan :: "json \<Rightarrow> client \<Rightarrow> json prog" where
  "installPlan req cl =
     api_send ''POST'' (cl_url cl @ ''/v1/install/plan'') (authHeaders cl) (Some req) resp_ok (fail_body ''install.plan'')"

definition installApply :: "json \<Rightarrow> client \<Rightarrow> json prog" where
  "installApply req cl =
     api_send ''POST'' (cl_url cl @ ''/v1/install/apply'') (authHeaders cl) (Some req) resp_ok (fail_body ''install.apply'')"

definition installUninstall :: "json \<Rightarrow> client \<Rightarrow> json prog" where
  "installUninstall req cl =
     api_send ''POST'' (cl_url cl @ ''/v1/install/uninstall'') (authHeaders cl) (Some req) ok_or_207 (fail_body ''install.uninstall'')"

definition installUninstallHarnesses :: "json \<Rightarrow> client \<Rightarrow> json prog" where
  "installUninstallHarnesses req cl =
     api_send ''POST'' (cl_url cl @ ''/v1/install/uninstall-harnesses'') (authHeaders cl) (Some req) ok_or_207
       (fail_body ''install.uninstall_harnesses'')"

definition listSessions :: "client \<Rightarrow> json prog" where
  "listSessions cl = api_send ''GET'' (cl_url cl @ ''/v1/sessions'') (authHeaders cl) None resp_ok (fail_plain ''sessions.list'')"

definition getMode :: "client \<Rightarrow> json prog" where
  "getMode cl = api_send ''GET'' (cl_url cl @ ''/v1/mode'') (authHeaders cl) None resp_ok (fail_plain ''mode.get'')"

definition patchMode :: "string \<Rightarrow> client \<Rightarrow> json prog" where
  "patchMode mode cl =
     api_send ''PATCH'' (cl_url cl @ ''/v1/mode'') (authHeaders cl) (Some (JObj [(''mode'', JStr mode)])) resp_ok (fail_body ''mode.patch'')"

definition policyView :: "client \<Rightarrow> json prog" where
  "policyView cl = api_send ''GET'' (cl_url cl @ ''/v1/policy/view'') (authHeaders cl) None resp_ok (fail_plain ''policy.view'')"

definition installGateYAML :: "string \<Rightarrow> bool option \<Rightarrow> client \<Rightarrow> json prog" where
  "installGateYAML yaml replace cl =
     api_send ''POST'' (cl_url cl @ ''/v1/policy/gates/yaml'') (authHeaders cl)
       (Some (JObj [(''yaml'', JStr yaml), (''replace'', JBool (replace = Some True))])) resp_ok
       (fail_caught ''policy.install_gate_yaml'')"

definition deleteGate :: "string \<Rightarrow> client \<Rightarrow> json prog" where
  "deleteGate gid cl =
     api_send ''DELETE'' (cl_url cl @ ''/v1/policy/gates/'' @ encodeURIComponent gid) (authHeaders cl) None resp_ok
       (fail_caught ''policy.delete_gate'')"

definition addGate :: "json \<Rightarrow> client \<Rightarrow> json prog" where
  "addGate req cl =
     api_send ''POST'' (cl_url cl @ ''/v1/policy/gates'') (authHeaders cl) (Some req) resp_ok (fail_caught ''policy.add_gate'')"

definition patchGate :: "string \<Rightarrow> json \<Rightarrow> client \<Rightarrow> json prog" where
  "patchGate gid req cl =
     api_send ''PATCH'' (cl_url cl @ ''/v1/policy/gates/'' @ encodeURIComponent gid) (authHeaders cl) (Some req) resp_ok
       (fail_caught ''policy.patch_gate'')"

text \<open>The window is one of \<open>1h\<close>, \<open>24h\<close>, \<open>7d\<close>, \<open>all\<close>, which the query string leaves as it is.\<close>

definition ledgerInsights :: "string option \<Rightarrow> int option \<Rightarrow> client \<Rightarrow> json prog" where
  "ledgerInsights window topn cl =
     (let qs = ''window='' @ (case window of Some s \<Rightarrow> s | None \<Rightarrow> ''24h'')
               @ (case topn of Some n \<Rightarrow> ''&top='' @ int_str n | None \<Rightarrow> '''')
      in api_send ''GET'' (cl_url cl @ ''/v1/ledger/insights?'' @ qs) (authHeaders cl) None resp_ok (fail_caught ''ledger.insights''))"

definition falsePositiveCase :: "int \<Rightarrow> bool option \<Rightarrow> client \<Rightarrow> json prog" where
  "falsePositiveCase sq includeRaw cl =
     api_send ''GET'' (cl_url cl @ ''/v1/false-positives/cases/'' @ encodeURIComponent (int_str sq)
         @ (if includeRaw = Some True then ''?include_raw=true'' else '''')) (authHeaders cl) None resp_ok
       (fail_caught ''false_positive.case'')"

definition falsePositiveValidate :: "json \<Rightarrow> client \<Rightarrow> json prog" where
  "falsePositiveValidate req cl =
     api_send ''POST'' (cl_url cl @ ''/v1/false-positives/validate'') (authHeaders cl) (Some req) resp_ok
       (fail_caught ''false_positive.validate'')"

definition falsePositiveApply :: "json \<Rightarrow> client \<Rightarrow> json prog" where
  "falsePositiveApply req cl =
     api_send ''POST'' (cl_url cl @ ''/v1/false-positives/apply'') (authHeaders cl) (Some req) resp_ok
       (fail_caught ''false_positive.apply'')"

definition guardrailProviders :: "client \<Rightarrow> json prog" where
  "guardrailProviders cl =
     api_send ''GET'' (cl_url cl @ ''/v1/guardrails/providers'') (authHeaders cl) None resp_ok (fail_caught ''guardrails.providers'')"

definition guardrailCatalog :: "client \<Rightarrow> json prog" where
  "guardrailCatalog cl =
     api_send ''GET'' (cl_url cl @ ''/v1/guardrails/catalog'') (authHeaders cl) None resp_ok (fail_caught ''guardrails.catalog'')"

definition guardrailEnabled :: "client \<Rightarrow> json prog" where
  "guardrailEnabled cl =
     api_send ''GET'' (cl_url cl @ ''/v1/guardrails/enabled'') (authHeaders cl) None resp_ok (fail_caught ''guardrails.enabled'')"

definition saveGuardrailEnabled :: "json list \<Rightarrow> client \<Rightarrow> json prog" where
  "saveGuardrailEnabled entries cl =
     api_send ''PUT'' (cl_url cl @ ''/v1/guardrails/enabled'') (authHeaders cl) (Some (JObj [(''entries'', JArr entries)])) resp_ok
       (fail_caught ''guardrails.enabled.save'')"

definition guardrailTrace :: "int \<Rightarrow> client \<Rightarrow> json prog" where
  "guardrailTrace sq cl =
     api_send ''GET'' (cl_url cl @ ''/v1/guardrails/traces/'' @ encodeURIComponent (int_str sq)) (authHeaders cl) None resp_ok
       (fail_caught ''guardrails.trace'')"

section \<open>What a method does\<close>

lemma fail_throws:
  "fails \<in> {fail_plain m, fail_body m, fail_caught m} \<Longrightarrow> fails r w = (res, w') \<Longrightarrow>
     w' = w \<and> (\<exists>e. res = Err e \<or> (res = Pending \<and> rs_body r = None))"
  by (auto simp: fail_plain_def fail_body_def fail_caught_def throw_msg_def bindP_def tryP_def resp_text_def ret_def pendP_def
      split: option.splits)

definition well_failing :: "(http_resp \<Rightarrow> json prog) \<Rightarrow> bool" where
  "well_failing fails \<longleftrightarrow> (\<forall>r w. snd (fails r w) = w \<and> (\<forall>v. fst (fails r w) \<noteq> Val v))"

lemma well_failing_all [simp]: "well_failing (fail_plain m)" "well_failing (fail_body m)" "well_failing (fail_caught m)"
  by (auto simp: well_failing_def fail_plain_def fail_body_def fail_caught_def throw_msg_def bindP_def tryP_def resp_text_def
      ret_def pendP_def split: option.splits)

text \<open>What a request may change and send.\<close>

lemma emits_fails [emits_intros]: "emits P (fail_plain m r)" "emits P (fail_body m r)" "emits P (fail_caught m r)"
  unfolding fail_plain_def fail_body_def fail_caught_def by (intro emits_intros)+

lemma emits_api_send:
  assumes "P \<lparr>rq_method = meth, rq_url = url, rq_auth = auth, rq_body = map_option json_stringify body\<rparr>" "\<And>r. emits P (fails r)"
  shows "emits P (api_send meth url auth body acc fails)"
  unfolding api_send_def by (intro emits_intros emits_fetch assms)

lemma emits_apiClient [emits_intros]: "emits P (apiClient u t)"
  unfolding apiClient_def by (rule emits_basic)

lemma keeps_api_send: "keeps f (fetch rq) \<Longrightarrow> rq = \<lparr>rq_method = meth, rq_url = url, rq_auth = auth, rq_body = map_option json_stringify body\<rparr> \<Longrightarrow>
    (\<And>r. keeps f (fails r)) \<Longrightarrow> keeps f (api_send meth url auth body acc fails)"
  unfolding api_send_def by (auto intro!: keeps_intros)

lemma keeps_fails [keeps_intros]: "keeps f (fail_plain m r)" "keeps f (fail_body m r)" "keeps f (fail_caught m r)"
  unfolding fail_plain_def fail_body_def fail_caught_def by (intro keeps_intros)+

text \<open>A program that makes the one request \<open>rq\<close> and returns a value only from an accepted answer that decodes to it.\<close>

definition one_call :: "http_req \<Rightarrow> json prog \<Rightarrow> bool" where
  "one_call rq m \<longleftrightarrow> (\<forall>w. snd (m w) = w\<lparr>w_sent := w_sent w @ [rq]\<rparr> \<and>
     (\<forall>v. fst (m w) = Val v \<longrightarrow>
        (\<exists>r b. w_net w (w_sent w) rq = Answer r \<and> 200 \<le> rs_status r \<and> rs_status r < 300 \<and>
               rs_body r = Some b \<and> json_parse b = Some v)))"

definition accepts_2xx :: "(http_resp \<Rightarrow> bool) \<Rightarrow> bool" where
  "accepts_2xx f \<longleftrightarrow> (\<forall>r. f r \<longrightarrow> resp_ok r)"

lemma accepts_2xx_all [simp]: "accepts_2xx resp_ok" "accepts_2xx ok_or_207" "accepts_2xx (status_is 200)" "accepts_2xx (status_is 201)"
  by (auto simp: accepts_2xx_def ok_or_207_def status_is_def resp_ok_def)

lemma api_send_one_call:
  assumes "accepts_2xx acc" "well_failing fails"
  shows "one_call \<lparr>rq_method = meth, rq_url = url, rq_auth = auth, rq_body = map_option json_stringify body\<rparr>
           (api_send meth url auth body acc fails)"
proof -
  let ?rq = "\<lparr>rq_method = meth, rq_url = url, rq_auth = auth, rq_body = map_option json_stringify body\<rparr>"
  have "snd (api_send meth url auth body acc fails w) = w\<lparr>w_sent := w_sent w @ [?rq]\<rparr> \<and>
     (\<forall>v. fst (api_send meth url auth body acc fails w) = Val v \<longrightarrow>
        (\<exists>r b. w_net w (w_sent w) ?rq = Answer r \<and> 200 \<le> rs_status r \<and> rs_status r < 300 \<and>
               rs_body r = Some b \<and> json_parse b = Some v))" for w
  proof (cases "w_net w (w_sent w) ?rq")
    case (NetErr m)
    then show ?thesis by (simp add: api_send_def bindP_def fetch_def)
  next
    case (Answer r)
    show ?thesis
    proof (cases "acc r")
      case True
      with assms have "resp_ok r" by (simp add: accepts_2xx_def)
      with True Answer show ?thesis
        by (auto simp: api_send_def bindP_def fetch_def resp_json_def resp_text_def ret_def pendP_def parse_json_def resp_ok_def
            split: option.splits)
    next
      case False
      with Answer assms show ?thesis
        by (auto simp: api_send_def bindP_def fetch_def well_failing_def)
    qed
  qed
  then show ?thesis by (simp add: one_call_def)
qed

lemmas api_methods = createSession_def checkGate_def rotateSession_def ledgerRoot_def ledgerVerify_def createUnattestedSession_def
  installPlan_def installApply_def installUninstall_def installUninstallHarnesses_def listSessions_def getMode_def patchMode_def
  policyView_def installGateYAML_def deleteGate_def addGate_def patchGate_def ledgerInsights_def falsePositiveCase_def
  falsePositiveValidate_def falsePositiveApply_def guardrailProviders_def guardrailCatalog_def guardrailEnabled_def
  saveGuardrailEnabled_def guardrailTrace_def

text \<open>The gated methods of the client, at given arguments.\<close>

definition gated_calls :: "json \<Rightarrow> string \<Rightarrow> int \<Rightarrow> bool option \<Rightarrow> json list \<Rightarrow> client \<Rightarrow> json prog list" where
  "gated_calls req s n b js cl =
     [createSession req cl, checkGate req cl, rotateSession s req cl, ledgerRoot cl, ledgerVerify cl, createUnattestedSession cl,
      installPlan req cl, installApply req cl, installUninstall req cl, installUninstallHarnesses req cl, listSessions cl,
      getMode cl, patchMode s cl, policyView cl, installGateYAML s b cl, deleteGate s cl, addGate req cl, patchGate s req cl,
      ledgerInsights (Some s) (Some n) cl, falsePositiveCase n b cl, falsePositiveValidate req cl, falsePositiveApply req cl,
      guardrailProviders cl, guardrailCatalog cl, guardrailEnabled cl, saveGuardrailEnabled js cl, guardrailTrace n cl]"

text \<open>Every gated method of the daemon client makes exactly one request, under the client's base URL and with the bearer
  token exactly when the client has one, and returns a value only when the daemon answered 2xx (207 included) with a JSON body,
  which is that value: no status error and no malformed body is ever taken for a result.\<close>

theorem gated_call_contract:
  "list_all (\<lambda>m. \<exists>rq. one_call rq m \<and> rq_auth rq = authHeaders cl \<and> starts_with (cl_url cl) (rq_url rq))
     (gated_calls req s n b js cl)"
proof -
  have mk: "\<exists>rq. one_call rq (api_send meth (cl_url cl @ path) (authHeaders cl) body acc fails) \<and>
      rq_auth rq = authHeaders cl \<and> starts_with (cl_url cl) (rq_url rq)"
    if "accepts_2xx acc" "well_failing fails" for meth path body acc fails
    using api_send_one_call [OF that] by fastforce
  show ?thesis
    unfolding gated_calls_def api_methods Let_def list.pred_inject append_assoc
    by (intro conjI TrueI mk) simp_all
qed

section \<open>Identifiers in URLs\<close>

fun uri_decode :: "string \<Rightarrow> string" where
  "uri_decode (c # cs) =
     (if c = CHR ''%'' then (case cs of a # b # r \<Rightarrow> char_of (16 * hex_val a + hex_val b) # uri_decode r | _ \<Rightarrow> [])
      else c # uri_decode cs)"
| "uri_decode [] = []"

lemma hex_val_upper: "n < 16 \<Longrightarrow> hex_val (upper_hex n) = n"
  by (auto simp: hex_val_def upper_hex_def is_digit_def)

lemma uri_decode_encode_char: "uri_decode (encode_char c @ s) = c # uri_decode s"
proof (cases "uri_unreserved c")
  case True
  then have "c \<noteq> CHR ''%''"
    by (auto simp: uri_unreserved_def is_alnum_def is_digit_def is_lower_def is_upper_def code_of_def)
  with True show ?thesis by (simp add: encode_char_def)
next
  case False
  have "code_of c div 16 < 16" using code_of_less [of c] by linarith
  with False show ?thesis by (simp add: encode_char_def hex_val_upper)
qed

lemma uri_decode_encode: "uri_decode (encodeURIComponent s) = s"
  by (induction s) (simp_all add: encodeURIComponent_def uri_decode_encode_char)

lemma upper_hex_unreserved: "n < 16 \<Longrightarrow> uri_unreserved (upper_hex n)"
  by (auto simp: uri_unreserved_def upper_hex_def is_alnum_def is_digit_def is_upper_def)

lemma encode_char_safe: "list_all (\<lambda>x. uri_unreserved x \<or> x = CHR ''%'') (encode_char c)"
proof -
  have "code_of c div 16 < 16" using code_of_less [of c] by linarith
  then show ?thesis by (simp add: encode_char_def upper_hex_unreserved)
qed

lemma encode_safe: "list_all (\<lambda>x. uri_unreserved x \<or> x = CHR ''%'') (encodeURIComponent s)"
  using encode_char_safe by (simp add: encodeURIComponent_def list_all_iff)

lemma unreserved_no_delim: "uri_unreserved x \<or> x = CHR ''%'' \<Longrightarrow> x \<notin> {CHR ''/'', CHR ''?'', CHR ''#'', CHR ''&''}"
  by (auto simp: uri_unreserved_def is_alnum_def is_digit_def is_lower_def is_upper_def code_of_def)

lemma encode_no_delim: "set (encodeURIComponent s) \<inter> {CHR ''/'', CHR ''?'', CHR ''#'', CHR ''&''} = {}"
  using encode_safe [of s] unreserved_no_delim by (fastforce simp: list_all_iff)

text \<open>A gate id given by the user stays one path segment of the request that deletes it: the segment holds no delimiter,
  decodes to exactly the id, and the request is the only one.\<close>

theorem gate_delete_confined:
  "\<exists>seg. one_call \<lparr>rq_method = ''DELETE'', rq_url = cl_url cl @ ''/v1/policy/gates/'' @ seg, rq_auth = authHeaders cl, rq_body = None\<rparr>
           (deleteGate gid cl) \<and>
     set seg \<inter> {CHR ''/'', CHR ''?'', CHR ''#'', CHR ''&''} = {} \<and> uri_decode seg = gid"
proof (intro exI conjI)
  show "one_call \<lparr>rq_method = ''DELETE'', rq_url = cl_url cl @ ''/v1/policy/gates/'' @ encodeURIComponent gid,
      rq_auth = authHeaders cl, rq_body = None\<rparr> (deleteGate gid cl)"
    using api_send_one_call [of resp_ok "fail_caught ''policy.delete_gate''" "''DELETE''" _ "authHeaders cl" None]
    by (simp add: deleteGate_def)
qed (simp_all only: encode_no_delim uri_decode_encode)

text \<open>The install capabilities are asked for once per client: after a first call that returned an object, further calls
  return the same value without any request.\<close>

theorem capabilities_cached:
  assumes "installCapabilities cl w = (Val (caps, cl'), w')" and "is_object caps"
  shows "installCapabilities cl' w' = (Val (caps, cl'), w')"
proof -
  have t: "truthy (Some caps)" using assms(2) by (cases caps) simp_all
  from assms(1) have "cl_caps cl' = Some caps"
    by (cases "cl_caps cl") (auto simp: installCapabilities_def bindP_Val ret_def split: if_splits)
  with t show ?thesis by (simp add: installCapabilities_def ret_def)
qed

definition caps_world :: world where
  "caps_world = demo_world\<lparr>w_net := answer_with 200 (json_stringify (JObj [(''container'', JBool False)]))\<rparr>"

definition demo_client :: client where
  "demo_client = \<lparr>cl_url = ''http://d'', cl_token = Some ''t'', cl_caps = None\<rparr>"

theorem capabilities_cached_witness:
  "\<exists>cl' w'. installCapabilities demo_client caps_world = (Val (JObj [(''container'', JBool False)], cl'), w') \<and>
     installCapabilities cl' w' = (Val (JObj [(''container'', JBool False)], cl'), w')"
proof -
  let ?j = "JObj [(''container'', JBool False)]"
  have p: "json_parse (json_stringify ?j) = Some ?j" by (rule json_roundtrip) simp
  have "\<exists>cl' w'. installCapabilities demo_client caps_world = (Val (?j, cl'), w')"
    by (simp add: installCapabilities_def demo_client_def caps_world_def answer_with_def api_send_def bindP_def fetch_def
        resp_ok_def resp_json_def resp_text_def ret_def parse_json_def p del: json_stringify.simps)
  then obtain cl' w' where r: "installCapabilities demo_client caps_world = (Val (?j, cl'), w')" by blast
  from capabilities_cached [OF r] have "installCapabilities cl' w' = (Val (?j, cl'), w')" by simp
  with r show ?thesis by blast
qed

end
