(* ===== verification/Signers.thy ===== *)
theory Signers
  imports Totp ApiClient
begin

text \<open>
  The three signers (\<open>cli/src/signer/totp.ts\<close>, \<open>keychain.ts\<close>, \<open>software.ts\<close>): enrolment and load over
  the files of \<open>$AGENTLOCK_HOME\<close> and the macOS keychain. A signer is its kind, its public key and
  the signing function that closes over the seed. Key material in files is the byte string of the
  seed; file modes (\<open>0600\<close>, \<open>chmod\<close>) are not modelled.
\<close>

section \<open>Common parts\<close>

record key_signer =
  sg_kind :: signer_kind
  sg_pub :: "byte list"
  sg_sign :: "byte list \<Rightarrow> byte list"

definition toHex :: "byte list \<Rightarrow> string" where
  "toHex bs = concat (map byte_hex bs)"

text \<open>\<open>ed25519.getPublicKeyAsync\<close> rejects a seed the library does not take.\<close>

definition public_key :: "crypto \<Rightarrow> byte list \<Rightarrow> byte list prog" where
  "public_key c seed = (case c_pub c seed of Some p \<Rightarrow> ret p | None \<Rightarrow> throw_msg ''invalid private key'')"

definition make_signer :: "crypto \<Rightarrow> signer_kind \<Rightarrow> byte list \<Rightarrow> byte list \<Rightarrow> key_signer" where
  "make_signer c k pub seed = \<lparr>sg_kind = k, sg_pub = pub, sg_sign = (\<lambda>msg. c_sign c msg seed)\<rparr>"

definition read_bytes :: "string \<Rightarrow> byte list prog" where
  "read_bytes p = bindP (read_file p) (\<lambda>s. ret (bytes_of s))"

definition write_bytes :: "string \<Rightarrow> byte list \<Rightarrow> unit prog" where
  "write_bytes p bs = write_file p (string_of_bytes bs)"

section \<open>Software signer\<close>

definition loadOrCreateSoftwareSigner :: "crypto \<Rightarrow> string \<Rightarrow> key_signer prog" where
  "loadOrCreateSoftwareSigner c ahome =
     bindP (env_var ''AGENTLOCK_ALLOW_SOFTWARE_SIGNER'') (\<lambda>allow.
     if allow \<noteq> Some ''1'' then
       throw_msg ''software signer refused: set AGENTLOCK_ALLOW_SOFTWARE_SIGNER=1 (dev/CI only; see docs/guide/signers.md)''
     else
       thenP (mkdir_p ahome)
         (let keyPath = path_join [ahome, ''session.key''] in
          bindP (exists_sync keyPath) (\<lambda>ex.
          bindP (if ex then
                   bindP (read_bytes keyPath) (\<lambda>seed.
                   if length seed \<noteq> 32 then
                     throw_msg (keyPath @ '': expected 32-byte seed, got '' @ nat_str (length seed))
                   else ret seed)
                 else
                   bindP (random_bytes 32) (\<lambda>seed. thenP (write_bytes keyPath seed) (ret seed))) (\<lambda>seed.
          bindP (public_key c seed) (\<lambda>pub. ret (make_signer c Software pub seed))))))"

section \<open>TOTP signer\<close>

definition deriveKey :: "crypto \<Rightarrow> byte list \<Rightarrow> string \<Rightarrow> byte list \<Rightarrow> byte list prog" where
  "deriveKey c secret passphrase salt =
     bindP (env_var ''AGENTLOCK_ARGON2_FAST'') (\<lambda>f. ret (c_argon c (f = Some ''1'') (secret @ bytes_of passphrase) salt))"

record enroll_result =
  er_secret :: "byte list"
  er_base32 :: string
  er_pub :: "byte list"
  er_uri :: string

definition otpauth_uri :: "string \<Rightarrow> string \<Rightarrow> string \<Rightarrow> string" where
  "otpauth_uri issuer label base32 =
     ''otpauth://totp/'' @ encodeURIComponent issuer @ '':'' @ encodeURIComponent label @ ''?secret='' @ base32
       @ ''&issuer='' @ encodeURIComponent issuer @ ''&algorithm=SHA1&digits=6&period=30''"

definition enrollTOTPSigner :: "crypto \<Rightarrow> string \<Rightarrow> string \<Rightarrow> string option \<Rightarrow> string option \<Rightarrow> enroll_result prog" where
  "enrollTOTPSigner c ahome passphrase label issuer =
     thenP (mkdir_p ahome)
     (bindP (random_bytes 20) (\<lambda>secret.
      bindP (random_bytes 32) (\<lambda>seed.
      bindP (random_bytes 16) (\<lambda>salt.
      bindP (deriveKey c secret passphrase salt) (\<lambda>derived.
      thenP (write_bytes (path_join [ahome, ''totp-sealed.key'']) (salt @ xor_bytes seed derived))
     (thenP (write_bytes (path_join [ahome, ''totp.secret'']) secret)
     (bindP (public_key c seed) (\<lambda>pubAtEnroll.
      thenP (write_bytes (path_join [ahome, ''totp-checksum.bin'']) pubAtEnroll)
     (bindP (public_key c seed) (\<lambda>pub.
      ret \<lparr>er_secret = secret, er_base32 = base32Encode secret, er_pub = pub,
           er_uri = otpauth_uri (case issuer of Some s \<Rightarrow> s | None \<Rightarrow> ''OpenAgentLock'')
                      (case label of Some s \<Rightarrow> s | None \<Rightarrow> ''agentlock'') (base32Encode secret)\<rparr>))))))))))"

record load_opts =
  lo_passphrase :: string
  lo_code :: string
  lo_now :: "int option"

definition totp_now :: "load_opts \<Rightarrow> int prog" where
  "totp_now opts = getsP (\<lambda>w. case lo_now opts of Some n \<Rightarrow> n | None \<Rightarrow> w_now w div 1000)"

text \<open>From the verified code on: unseal and compare with the enrolled public key.\<close>

definition totp_unseal :: "crypto \<Rightarrow> string \<Rightarrow> load_opts \<Rightarrow> byte list \<Rightarrow> byte list \<Rightarrow> byte list \<Rightarrow> key_signer prog" where
  "totp_unseal c ahome opts secret salt sealed =
     bindP (deriveKey c secret (lo_passphrase opts) salt) (\<lambda>derived.
     let seed = xor_bytes sealed derived in
     bindP (public_key c seed) (\<lambda>pub.
     let checksumPath = path_join [ahome, ''totp-checksum.bin''] in
     bindP (exists_sync checksumPath) (\<lambda>ex.
     if \<not> ex then throw_msg (''TOTP enrollment is missing its checksum '' @ [CHR 0xE2, CHR 0x80, CHR 0x94] @ '' re-enroll'')
     else
       bindP (read_bytes checksumPath) (\<lambda>expected.
       if length expected \<noteq> 32 \<or> \<not> constantTimeBytesEqual expected pub then throw_msg ''TOTP unseal failed (wrong passphrase?)''
       else ret (make_signer c TotpBackedSoftware pub seed)))))"

definition loadTOTPSigner :: "crypto \<Rightarrow> string \<Rightarrow> load_opts \<Rightarrow> key_signer prog" where
  "loadTOTPSigner c ahome opts =
     (let sealedPath = path_join [ahome, ''totp-sealed.key'']; secretPath = path_join [ahome, ''totp.secret''] in
      bindP (exists_sync sealedPath) (\<lambda>e1.
      bindP (exists_sync secretPath) (\<lambda>e2.
      if \<not> e1 \<or> \<not> e2 then throw_msg ''TOTP signer not enrolled: run `agentlock signer enroll --tier totp` first''
      else
        bindP (read_bytes sealedPath) (\<lambda>blob.
        if length blob \<noteq> 16 + 32 then
          throw_msg (sealedPath @ '': corrupt sealed blob (length '' @ nat_str (length blob) @ '')'')
        else
          bindP (read_bytes secretPath) (\<lambda>secret.
          if length secret \<noteq> 20 then
            throw_msg (secretPath @ '': invalid TOTP secret length (got '' @ nat_str (length secret) @ '', want 20)'')
          else
            bindP (totp_now opts) (\<lambda>now.
            if \<not> verifyCode c secret (lo_code opts) now then throw_msg ''invalid TOTP code''
            else totp_unseal c ahome opts secret (take 16 blob) (drop 16 blob)))))))"

section \<open>Keychain signer\<close>

definition platform_str :: "platform \<Rightarrow> string" where
  "platform_str p = (case p of Darwin \<Rightarrow> ''darwin'' | Linux \<Rightarrow> ''linux'' | Win32 \<Rightarrow> ''win32'')"

definition ensureMac :: "unit prog" where
  "ensureMac = bindP (getsP w_platform) (\<lambda>p.
     if p \<noteq> Darwin then
       throw_msg (''os-keychain signer is macOS-only today (got platform='' @ platform_str p @ ''). ''
          @ ''Linux Secret Service / Windows DPAPI are on the roadmap.'')
     else ret ())"

definition accountFor :: "crypto \<Rightarrow> string \<Rightarrow> string" where
  "accountFor c h = ''agentlock:'' @ take 16 (toHex (c_sha256 c (bytes_of h)))"

definition keychainStore :: "string \<Rightarrow> string \<Rightarrow> unit prog" where
  "keychainStore account hexSeed =
     bindP (spawn_sync [''/usr/bin/security'', ''add-generic-password'', ''-U'', ''-s'', ''openagentlock-signer'', ''-a'', account, ''-w'', hexSeed])
       (\<lambda>r. case r of
          None \<Rightarrow> throwP (type_error ''r.stderr.trim'')
        | Some (status, out, err) \<Rightarrow>
            if status \<noteq> 0 then
              throw_msg (''security add-generic-password failed (exit '' @ int_str status @ ''): '' @ trim err)
            else ret ())"

fun hex_bytes :: "string \<Rightarrow> byte list" where
  "hex_bytes (a # b # r) = of_nat (16 * hex_val a + hex_val b) # hex_bytes r"
| "hex_bytes _ = []"

definition keychainFetch :: "string \<Rightarrow> byte list prog" where
  "keychainFetch account =
     bindP (spawn_sync [''/usr/bin/security'', ''find-generic-password'', ''-s'', ''openagentlock-signer'', ''-a'', account, ''-w''])
       (\<lambda>r. case r of
          None \<Rightarrow> throwP (type_error ''r.stderr.trim'')
        | Some (status, out, err) \<Rightarrow>
            if status \<noteq> 0 then
              throw_msg (''security find-generic-password failed (exit '' @ int_str status @ ''): '' @ trim err
                 @ ''. Re-enroll with: agentlock signer enroll --tier os-keychain'')
            else
              (let hex = trim out in
               if \<not> (length hex = 64 \<and> list_all is_hex hex) then
                 throw_msg (''keychain entry for '' @ account @ '' is not a 32-byte hex seed'')
               else ret (hex_bytes hex)))"

record keychain_result =
  kr_pub :: "byte list"
  kr_account :: string
  kr_expires :: "string option"

definition enrollOSKeychainSigner :: "crypto \<Rightarrow> string \<Rightarrow> int option \<Rightarrow> keychain_result prog" where
  "enrollOSKeychainSigner c ahome ttlSeconds =
     thenP ensureMac
     (thenP (mkdir_p ahome)
     (bindP (random_bytes 32) (\<lambda>seed.
      let account = accountFor c ahome in
      thenP (keychainStore account (toHex seed))
     (bindP (public_key c seed) (\<lambda>pub.
      bindP (getsP w_now) (\<lambda>enrolledAt.
      bindP (getsP w_date_str) (\<lambda>iso.
      let expires = (case ttlSeconds of Some t \<Rightarrow> if 0 < t then Some (iso (enrolledAt + t * 1000)) else None | None \<Rightarrow> None);
          meta = JObj [(''service'', JStr ''openagentlock-signer''), (''account'', JStr account), (''public_key_hex'', JStr (toHex pub)),
                       (''enrolled_at'', JStr (iso enrolledAt)), (''expires_at'', (case expires of Some e \<Rightarrow> JStr e | None \<Rightarrow> JNull))] in
      thenP (write_file (path_join [ahome, ''os-keychain.meta.json'']) (json_pretty 0 meta @ [chr_nl]))
        (ret \<lparr>kr_pub = pub, kr_account = account, kr_expires = expires\<rparr>))))))))"

definition check_expiry :: "string \<Rightarrow> json option \<Rightarrow> unit prog" where
  "check_expiry metaPath expires =
     (if \<not> truthy expires then ret ()
      else bindP (getsP (\<lambda>w. w_date_parse w (js_ostring expires))) (\<lambda>ex.
        case ex of
          None \<Rightarrow> throw_msg (metaPath @ '': invalid expires_at '' @ [chr_dq] @ js_ostring expires @ [chr_dq])
        | Some t \<Rightarrow>
            bindP (getsP w_now) (\<lambda>now.
            if t \<le> now then
              throw_msg (''os-keychain signer expired at '' @ js_ostring expires
                @ ''. Re-enroll with: agentlock signer enroll --tier os-keychain --ttl <duration>'')
            else ret ())))"

text \<open>\<open>spawnSync\<close> rejects an argument that is not a string.\<close>

definition loadOSKeychainSigner :: "crypto \<Rightarrow> string \<Rightarrow> key_signer prog" where
  "loadOSKeychainSigner c ahome =
     thenP ensureMac
     (let metaPath = path_join [ahome, ''os-keychain.meta.json''] in
      bindP (exists_sync metaPath) (\<lambda>ex.
      if \<not> ex then throw_msg ''os-keychain signer not enrolled: run `agentlock signer enroll --tier os-keychain` first''
      else
        bindP (read_file metaPath) (\<lambda>raw.
        bindP (parse_json raw) (\<lambda>meta.
        bindP (propP meta ''expires_at'') (\<lambda>expires.
        thenP (check_expiry metaPath expires)
       (case jprop meta ''account'' of
          Some (JStr account) \<Rightarrow>
            bindP (keychainFetch account) (\<lambda>seed.
            bindP (public_key c seed) (\<lambda>pub.
            if jprop meta ''public_key_hex'' \<noteq> Some (JStr (toHex pub)) then
              throw_msg (''os-keychain seed does not match enrolled pubkey checksum '' @ [CHR 0xE2, CHR 0x80, CHR 0x94]
                 @ '' re-enroll with `agentlock signer enroll --tier os-keychain`'')
            else ret (make_signer c OsKeychain pub seed)))
        | _ \<Rightarrow> throw_msg ''The args must be strings''))))))"

section \<open>Enrolment and load of the TOTP signer\<close>

lemma random_bytes_Val:
  "random_bytes n w = (Val x, w') \<longleftrightarrow> x = map (\<lambda>i. w_rand w (w_draws w + i)) [0..<n] \<and> w' = w\<lparr>w_draws := w_draws w + n\<rparr>"
  by (auto simp: random_bytes_def)

lemma public_key_Val: "public_key c seed w = (Val p, w') \<longleftrightarrow> c_pub c seed = Some p \<and> w' = w"
  by (auto simp: public_key_def ret_def throw_msg_def split: option.splits)

definition fast_argon :: "world \<Rightarrow> bool" where
  "fast_argon w \<longleftrightarrow> w_env w ''AGENTLOCK_ARGON2_FAST'' = Some ''1''"

lemma deriveKey_Val: "deriveKey c secret pp salt w = (Val d, w') \<longleftrightarrow> d = c_argon c (fast_argon w) (secret @ bytes_of pp) salt \<and> w' = w"
  by (auto simp: deriveKey_def bindP_def env_var_def getsP_def ret_def fast_argon_def)

definition sealed_file :: string where "sealed_file = ''totp-sealed.key''"
definition secret_file :: string where "secret_file = ''totp.secret''"
definition checksum_file :: string where "checksum_file = ''totp-checksum.bin''"

lemma totp_names: "plain_name sealed_file" "plain_name secret_file" "plain_name checksum_file"
  by (simp_all add: plain_name_def clean_seg_def sealed_file_def secret_file_def checksum_file_def)

lemma totp_distinct: "sealed_file \<noteq> secret_file" "sealed_file \<noteq> checksum_file" "secret_file \<noteq> checksum_file"
  by (simp_all add: sealed_file_def secret_file_def checksum_file_def)

lemma totp_paths:
  assumes "starts_with ''/'' h"
  shows "path_join [h, ''totp-sealed.key''] = in_dir h sealed_file" "path_join [h, ''totp.secret''] = in_dir h secret_file"
    "path_join [h, ''totp-checksum.bin''] = in_dir h checksum_file"
  using path_join_file [OF assms totp_names(1)] path_join_file [OF assms totp_names(2)] path_join_file [OF assms totp_names(3)]
  by (simp_all add: sealed_file_def secret_file_def checksum_file_def)

lemma write_bytes_Val:
  assumes "write_bytes (in_dir h f) bs w = (Val u, w')" "plain_name f"
  shows "w' = put_node (in_dir h f) (File (string_of_bytes bs)) w" and "w_denied w (in_dir h f) = None"
  using write_file_Val [OF assms(1) [unfolded write_bytes_def]] assms(2) by (simp_all add: fs_key_in_dir)

text \<open>The files a successful enrolment leaves.\<close>

definition enrolled :: "crypto \<Rightarrow> string \<Rightarrow> string \<Rightarrow> enroll_result \<Rightarrow> byte list \<Rightarrow> byte list \<Rightarrow> world \<Rightarrow> bool" where
  "enrolled c h pp r seed salt w \<longleftrightarrow>
     length (er_secret r) = 20 \<and> length seed = 32 \<and> length salt = 16 \<and> c_pub c seed = Some (er_pub r) \<and>
     file_at w (in_dir h sealed_file) =
       Some (string_of_bytes (salt @ xor_bytes seed (c_argon c (fast_argon w) (er_secret r @ bytes_of pp) salt))) \<and>
     file_at w (in_dir h secret_file) = Some (string_of_bytes (er_secret r)) \<and>
     file_at w (in_dir h checksum_file) = Some (string_of_bytes (er_pub r))"

lemma mkdir_p_Val:
  "mkdir_p p w = (Val u, w') \<Longrightarrow> w' = foldl (\<lambda>u k. put_node k Dir u) w (path_prefixes (path_segs (w_cwd w) p))"
  by (auto simp: mkdir_p_def Let_def split: option.splits if_splits)

lemma env_put [simp]: "w_env (put_node k n w) = w_env w"
  by (simp add: put_node_def)

lemma enroll_Val:
  assumes "enrollTOTPSigner c h pp l i w = (Val r, w')" and "starts_with ''/'' h"
  shows "\<exists>seed salt. enrolled c h pp r seed salt w' \<and> w_env w' = w_env w"
proof -
  let ?secret = "\<lambda>w. map (\<lambda>i. w_rand w (w_draws w + i)) [0..<20]"
  from assms(1) obtain w1 secret w2 seed w3 salt w4 w5 w6 pub where
    mk: "mkdir_p h w = (Val (), w1)" and se: "random_bytes 20 w1 = (Val secret, w2)" and sd: "random_bytes 32 w2 = (Val seed, w3)"
    and sa: "random_bytes 16 w3 = (Val salt, w4)"
    and wr1: "write_bytes (path_join [h, ''totp-sealed.key'']) (salt @ xor_bytes seed (c_argon c (fast_argon w4) (secret @ bytes_of pp) salt)) w4 = (Val (), w5)"
    and wr2: "write_bytes (path_join [h, ''totp.secret'']) secret w5 = (Val (), w6)"
    and pub: "c_pub c seed = Some pub"
    and wr3: "write_bytes (path_join [h, ''totp-checksum.bin'']) pub w6 = (Val (), w')"
    and r: "er_secret r = secret" "er_pub r = pub"
    unfolding enrollTOTPSigner_def by (auto simp: thenP_Val bindP_Val deriveKey_Val public_key_Val ret_Val)
  note W1 = write_bytes_Val [OF wr1 [unfolded totp_paths [OF assms(2)]] totp_names(1)]
  note W2 = write_bytes_Val [OF wr2 [unfolded totp_paths [OF assms(2)]] totp_names(2)]
  note W3 = write_bytes_Val [OF wr3 [unfolded totp_paths [OF assms(2)]] totp_names(3)]
  have len: "length secret = 20" "length seed = 32" "length salt = 16"
    using se sd sa by (auto simp: random_bytes_Val)
  have env: "w_env w4 = w_env w"
    using se sd sa mkdir_p_Val [OF mk] by (auto simp: random_bytes_Val foldl_put_fields)
  have env': "w_env w' = w_env w" using env W1(1) W2(1) W3(1) by simp
  have den: "w_denied w5 = w_denied w4" "w_denied w6 = w_denied w4" "w_denied w' = w_denied w4"
    using W1(1) W2(1) W3(1) by simp_all
  have nr: "in_dir h f \<noteq> ''/''" if "plain_name f" for f using that by (rule in_dir_not_root)
  have fast: "fast_argon w' = fast_argon w4" using env env' by (simp add: fast_argon_def)
  have "enrolled c h pp r seed salt w'"
    unfolding enrolled_def r fast
    using len pub W1 W2 W3 den totp_names totp_distinct
    by (simp add: file_at_def node_at_put fs_key_in_dir nr in_dir_inject)
  with env' show ?thesis by blast
qed

lemma read_bytes_file:
  assumes "file_at w p = Some (string_of_bytes bs)"
  shows "read_bytes p w = (Val bs, w)" and "exists_sync p w = (Val True, w)"
  using assms
  by (auto simp: read_bytes_def bindP_def read_file_def file_at_def ret_def exists_sync_def getsP_def split: option.splits node.splits if_splits)

lemma totp_unseal_run:
  assumes "file_at w (in_dir h checksum_file) = Some (string_of_bytes chk)" "starts_with ''/'' h"
  shows "totp_unseal c h opts secret salt sealed w =
    (case c_pub c (xor_bytes sealed (c_argon c (fast_argon w) (secret @ bytes_of (lo_passphrase opts)) salt)) of
       None \<Rightarrow> (Err (JsError ''invalid private key'' None), w)
     | Some pub \<Rightarrow>
         if length chk \<noteq> 32 \<or> chk \<noteq> pub then (Err (JsError ''TOTP unseal failed (wrong passphrase?)'' None), w)
         else (Val (make_signer c TotpBackedSoftware pub
                (xor_bytes sealed (c_argon c (fast_argon w) (secret @ bytes_of (lo_passphrase opts)) salt))), w))"
  using read_bytes_file [OF assms(1)]
  by (simp add: totp_unseal_def Let_def totp_paths [OF assms(2)] bindP_def deriveKey_def env_var_def getsP_def ret_def fast_argon_def
      public_key_def throw_msg_def split: option.splits)

definition load_time :: "load_opts \<Rightarrow> world \<Rightarrow> int" where
  "load_time opts w = (case lo_now opts of Some n \<Rightarrow> n | None \<Rightarrow> w_now w div 1000)"

lemma loadTOTP_run:
  assumes "file_at w (in_dir h sealed_file) = Some (string_of_bytes blob)" "length blob = 48"
    and "file_at w (in_dir h secret_file) = Some (string_of_bytes secret)" "length secret = 20" and "starts_with ''/'' h"
  shows "loadTOTPSigner c h opts w =
    (if verifyCode c secret (lo_code opts) (load_time opts w) then totp_unseal c h opts secret (take 16 blob) (drop 16 blob) w
     else (Err (JsError ''invalid TOTP code'' None), w))"
  using read_bytes_file [OF assms(1)] read_bytes_file [OF assms(3)] assms(2,4)
  by (simp add: loadTOTPSigner_def Let_def totp_paths [OF assms(5)] bindP_def totp_now_def getsP_def load_time_def throw_msg_def)

lemma enrolled_loads:
  assumes "enrolled c h pp r seed salt w" and "starts_with ''/'' h" and "\<forall>s p. c_pub c s = Some p \<longrightarrow> length p = 32"
    and "lo_passphrase opts = pp"
  shows "loadTOTPSigner c h opts w =
      (if verifyCode c (er_secret r) (lo_code opts) (load_time opts w)
       then (Val (make_signer c TotpBackedSoftware (er_pub r) seed), w)
       else (Err (JsError ''invalid TOTP code'' None), w))"
proof -
  note e = assms(1)
  let ?d = "c_argon c (fast_argon w) (er_secret r @ bytes_of pp) salt"
  have x: "xor_bytes (drop 16 (salt @ xor_bytes seed ?d)) ?d = seed" "take 16 (salt @ xor_bytes seed ?d) = salt"
    using e by (simp_all add: enrolled_def xor_bytes_twice)
  have "loadTOTPSigner c h opts w =
      (if verifyCode c (er_secret r) (lo_code opts) (load_time opts w)
       then totp_unseal c h opts (er_secret r) salt (drop 16 (salt @ xor_bytes seed ?d)) w
       else (Err (JsError ''invalid TOTP code'' None), w))"
    using e loadTOTP_run [of w h "salt @ xor_bytes seed ?d" "er_secret r" c opts] assms(2) x(2) by (simp add: enrolled_def)
  moreover have "length (er_pub r) = 32" using e assms(3) by (auto simp: enrolled_def)
  then have "totp_unseal c h opts (er_secret r) salt (drop 16 (salt @ xor_bytes seed ?d)) w =
      (Val (make_signer c TotpBackedSoftware (er_pub r) seed), w)"
    using e totp_unseal_run [of w h "er_pub r" c opts "er_secret r" salt "drop 16 (salt @ xor_bytes seed ?d)"]
      assms(2,4) x(1) by (simp add: enrolled_def)
  ultimately show ?thesis by simp
qed


text \<open>A toy instance of the cryptographic parameter.\<close>

definition demo_crypto :: crypto where
  "demo_crypto = \<lparr>c_pub = (\<lambda>s. if length s = 32 then Some s else None), c_sign = (\<lambda>m s. s @ m), c_hmac = (\<lambda>k m. replicate 20 0),
     c_argon = (\<lambda>f p s. replicate 32 7), c_sha256 = (\<lambda>m. replicate 32 0)\<rparr>"

definition demo_load :: load_opts where
  "demo_load = \<lparr>lo_passphrase = ''pp'', lo_code = ''000000'', lo_now = Some 0\<rparr>"

lemma demo_code: "verifyCode demo_crypto secret ''000000'' 0"
proof -
  have z: "byte_at (replicate 20 0) i = 0" for i by (simp add: byte_at_def)
  have "hotp_value (replicate 20 0) = 0" by (simp add: hotp_value_def z)
  then have "generateTOTPCode demo_crypto secret 0 = pad_start 6 CHR ''0'' ''0''"
    by (simp add: totp_code_eq demo_crypto_def nat_str_zero)
  also have "\<dots> = ''000000''" by (simp add: pad_start_def eval_nat_numeral)
  finally have "generateTOTPCode demo_crypto secret 0 = ''000000''" .
  then show ?thesis unfolding verifyCode_def timingSafeEqualStr_iff by simp
qed

lemma demo_enroll_succeeds: "\<exists>r w'. enrollTOTPSigner demo_crypto ''/h'' ''pp'' None None demo_world = (Val r, w')"
proof -
  have segs: "dir_segs ''/h'' = [''h'']" by (simp add: dir_segs_def norm_segs.simps)
  have dir: "path_dirname (in_dir ''/h'' f) = ''/h''" if "plain_name f" for f
  proof -
    have ns: "CHR ''/'' \<notin> set f" "f \<noteq> []" using that by (auto simp: plain_name_def clean_seg_def)
    have "strip_slashes (''/h/'' @ f) = ''/h/'' @ f"
      using ns by (cases f rule: rev_cases) (auto simp: strip_slashes_def)
    moreover have "dropWhile (\<lambda>c. c \<noteq> CHR ''/'') (rev f @ ''/h/'') = ''/h/''"
      using ns(1) by (subst dropWhile_append2) auto
    ultimately show ?thesis using ns(2) by (simp add: in_dir_def segs key_of_def path_dirname_def Let_def)
  qed
  have key: "fs_key w (in_dir ''/h'' f) = in_dir ''/h'' f" if "plain_name f" for w f by (rule fs_key_in_dir [OF that])
  have hk: "fs_key w ''/h'' = ''/h''" for w by (simp add: fs_key_abs starts_with_def segs key_of_def)
  have nr: "in_dir ''/h'' f \<noteq> ''/''" "in_dir ''/h'' f \<noteq> ''/h''" if "plain_name f" for f
    using in_dir_not_root [OF that] that by (auto simp: in_dir_def segs key_of_def plain_name_def clean_seg_def)
  define ready where "ready w \<longleftrightarrow> w_denied w = (\<lambda>_. None) \<and> node_at w ''/h'' = Some Dir \<and>
    (\<forall>f. plain_name f \<longrightarrow> node_at w (in_dir ''/h'' f) \<noteq> Some Dir)" for w
  have wr: "\<exists>w'. write_bytes (in_dir ''/h'' f) bs w = (Val (), w') \<and> ready w'" if "plain_name f" "ready w" for f bs w
  proof -
    have "write_bytes (in_dir ''/h'' f) bs w = (Val (), put_node (in_dir ''/h'' f) (File (string_of_bytes bs)) w)"
      using that by (simp add: write_bytes_def write_file_def key dir ready_def)
    moreover have "ready (put_node (in_dir ''/h'' f) (File (string_of_bytes bs)) w)"
      using that by (auto simp: ready_def node_at_put key hk nr)
    ultimately show ?thesis by blast
  qed
  have rb: "\<exists>x w'. random_bytes n w = (Val x, w') \<and> length x = n \<and> ready w'" if "ready w" for n w
    using that by (auto simp: random_bytes_def ready_def node_at_def fs_key_def)
  have r0: "ready (put_node ''/h'' Dir demo_world)"
  proof -
    have "w_tree demo_world = []" "w_denied demo_world = (\<lambda>_. None)" by (simp_all add: demo_world_def)
    then show ?thesis by (auto simp: ready_def node_at_put key hk nr) (simp add: node_at_def key nr)
  qed
  have mk: "mkdir_p ''/h'' demo_world = (Val (), put_node ''/h'' Dir demo_world)"
    by (simp add: mkdir_p_def Let_def path_segs_def starts_with_def norm_segs.simps path_prefixes_def demo_world_def)
  obtain secret w1 where s1: "random_bytes 20 (put_node ''/h'' Dir demo_world) = (Val secret, w1)" "ready w1" using rb [OF r0] by blast
  obtain seed w2 where s2: "random_bytes 32 w1 = (Val seed, w2)" "length seed = 32" "ready w2" using rb [OF s1(2)] by blast
  obtain salt w3 where s3: "random_bytes 16 w2 = (Val salt, w3)" "ready w3" using rb [OF s2(3)] by blast
  obtain d where d: "deriveKey demo_crypto secret ''pp'' salt w3 = (Val d, w3)" by (simp add: deriveKey_Val)
  obtain w4 where s4: "write_bytes (in_dir ''/h'' sealed_file) (salt @ xor_bytes seed d) w3 = (Val (), w4)" "ready w4"
    using wr [OF totp_names(1) s3(2)] by blast
  obtain w5 where s5: "write_bytes (in_dir ''/h'' secret_file) secret w4 = (Val (), w5)" "ready w5"
    using wr [OF totp_names(2) s4(2)] by blast
  have pub: "public_key demo_crypto seed u = (Val seed, u)" for u
    using s2(2) by (simp add: public_key_Val demo_crypto_def)
  obtain w6 where s6: "write_bytes (in_dir ''/h'' checksum_file) seed w5 = (Val (), w6)"
    using wr [OF totp_names(3) s5(2)] by blast
  have abs: "starts_with ''/'' ''/h''" by (simp add: starts_with_def)
  show ?thesis
    unfolding enrollTOTPSigner_def totp_paths [OF abs]
    by (simp add: run_thenP run_bindP mk s1(1) s2(1) s3(1) d s4(1) s5(1) pub s6 ret_def)
qed

lemma demo_pub: "\<forall>s p. c_pub demo_crypto s = Some p \<longrightarrow> length p = 32"
  by (simp add: demo_crypto_def split: if_splits)

lemma demo_verifies: "verifyCode demo_crypto secret (lo_code demo_load) (load_time demo_load w)" "lo_passphrase demo_load = ''pp''"
  using demo_code by (simp_all add: demo_load_def load_time_def)

lemma demo_h: "starts_with ''/'' ''/h''"
  by (simp add: starts_with_def)

lemma demo_loads: "\<exists>w s. loadTOTPSigner demo_crypto ''/h'' demo_load w = (Val s, w)"
proof -
  from demo_enroll_succeeds obtain r w' where "enrollTOTPSigner demo_crypto ''/h'' ''pp'' None None demo_world = (Val r, w')"
    by blast
  from enroll_Val [OF this demo_h] obtain seed salt where e: "enrolled demo_crypto ''/h'' ''pp'' r seed salt w'" by blast
  from enrolled_loads [OF e demo_h demo_pub demo_verifies(2)] demo_verifies(1) show ?thesis by auto
qed


lemma string_bytes_id [simp]: "string_of_bytes (bytes_of s) = s"
  by (simp add: string_of_bytes_def bytes_of_def o_def unsigned_of_nat take_bit_eq_mod)

lemma read_bytes_Val: "read_bytes p w = (Val bs, w') \<longleftrightarrow> file_at w p = Some (string_of_bytes bs) \<and> w' = w"
proof -
  have "read_bytes p w = (Val bs, w') \<longleftrightarrow> (\<exists>s. read_file p w = (Val s, w') \<and> bs = bytes_of s)"
    by (auto simp: read_bytes_def bindP_Val ret_Val)
  also have "\<dots> \<longleftrightarrow> (\<exists>s. file_at w p = Some s \<and> w' = w \<and> bs = bytes_of s)"
    by (auto simp: read_file_def file_at_def split: option.splits node.splits)
  also have "\<dots> \<longleftrightarrow> file_at w p = Some (string_of_bytes bs) \<and> w' = w" by auto
  finally show ?thesis .
qed

lemma if_throw_Val: "(if b then throw_msg m else k) w = (Val x, w') \<longleftrightarrow> \<not> b \<and> k w = (Val x, w')"
  by (simp add: throw_msg_def)

lemma exists_Val: "exists_sync p w = (Val b, w') \<longleftrightarrow> b = (node_at w p \<noteq> None) \<and> w' = w"
  by (auto simp: exists_sync_def getsP_def)

text \<open>No signer without the second factor: a TOTP load that returns a signer has read a 20-byte secret, was given a code of one
  of the three windows of that secret, and hands out exactly the public key stored at enrolment; it changes nothing.\<close>

theorem totp_load_sound:
  assumes "loadTOTPSigner c ahome opts w = (Val s, w')" and "starts_with ''/'' ahome"
  shows "w' = w \<and> sg_kind s = TotpBackedSoftware \<and>
    file_at w (in_dir ahome checksum_file) = Some (string_of_bytes (sg_pub s)) \<and> length (sg_pub s) = 32 \<and>
    (\<exists>secret. file_at w (in_dir ahome secret_file) = Some (string_of_bytes secret) \<and> length secret = 20 \<and>
       (\<exists>k \<in> {-1, 0, 1}. lo_code opts = generateTOTPCode c secret (load_time opts w + k * 30)))"
proof -
  from assms(1) obtain secret salt sealed where
    f: "file_at w (in_dir ahome secret_file) = Some (string_of_bytes secret)" "length secret = 20"
    and v: "verifyCode c secret (lo_code opts) (load_time opts w)"
    and u: "totp_unseal c ahome opts secret salt sealed w = (Val s, w')"
    by (auto simp: loadTOTPSigner_def totp_paths [OF assms(2)] Let_def bindP_Val if_throw_Val exists_Val read_bytes_Val totp_now_def
        getsP_def load_time_def)
  from u obtain pub seed where "w' = w" "s = make_signer c TotpBackedSoftware pub seed" "length pub = 32"
    "file_at w (in_dir ahome checksum_file) = Some (string_of_bytes pub)"
    by (auto simp: totp_unseal_def totp_paths [OF assms(2)] Let_def bindP_Val if_throw_Val exists_Val read_bytes_Val deriveKey_Val
        public_key_Val ret_Val)
  with f v show ?thesis
    unfolding verifyCode_def timingSafeEqualStr_iff by (auto simp: make_signer_def)
qed

theorem totp_load_sound_witness:
  "\<exists>w s. loadTOTPSigner demo_crypto ''/h'' demo_load w = (Val s, w) \<and> length (sg_pub s) = 32"
proof -
  from demo_loads obtain w s where l: "loadTOTPSigner demo_crypto ''/h'' demo_load w = (Val s, w)" by blast
  from totp_load_sound [OF l demo_h] l show ?thesis by blast
qed

section \<open>The software signer\<close>

lemma update_same: "map_of al k = Some v \<Longrightarrow> AList.update k v al = al"
  by (induction al) (auto split: if_splits)

lemma mkdir_again:
  assumes "\<And>k. k \<in> set (path_prefixes (path_segs (w_cwd w) p)) \<Longrightarrow> map_of (w_tree w) k = Some Dir"
  shows "mkdir_p p w = (Val (), w)"
proof -
  let ?ks = "path_prefixes (path_segs (w_cwd w) p)"
  have 1: "find (\<lambda>k. w_denied w k \<noteq> None \<and> map_of (w_tree w) k = None) ?ks = None"
    using assms by (auto simp: find_None_iff)
  have 2: "\<not> list_ex (\<lambda>k. case map_of (w_tree w) k of Some (File c) \<Rightarrow> True | _ \<Rightarrow> False) ?ks"
    using assms by (auto simp: list_ex_iff)
  have "foldl (\<lambda>u k. put_node k Dir u) w ks = w" if "set ks \<subseteq> set ?ks" for ks
    using that by (induction ks) (auto simp: put_node_def update_same assms)
  then have 3: "foldl (\<lambda>u k. put_node k Dir u) w ?ks = w" by simp
  show ?thesis unfolding mkdir_p_def Let_def 1 using 2 3 by simp
qed

definition key_file :: string where "key_file = ''session.key''"

lemma key_file_plain: "plain_name key_file"
  by (simp add: plain_name_def clean_seg_def key_file_def)

lemma mkdir_tree:
  assumes "mkdir_p p w = (Val (), w')"
  shows "w_cwd w' = w_cwd w" "\<And>k. k \<in> set (path_prefixes (path_segs (w_cwd w) p)) \<Longrightarrow> map_of (w_tree w') k = Some Dir"
proof -
  have F: "w_cwd (foldl (\<lambda>u k. put_node k Dir u) w ks) = w_cwd w \<and>
      map_of (w_tree (foldl (\<lambda>u k. put_node k Dir u) w ks)) k = (if k \<in> set ks then Some Dir else map_of (w_tree w) k)" for ks k
    by (induction ks arbitrary: w) (auto simp: put_node_def)
  with mkdir_p_Val [OF assms] show "w_cwd w' = w_cwd w"
    "\<And>k. k \<in> set (path_prefixes (path_segs (w_cwd w) p)) \<Longrightarrow> map_of (w_tree w') k = Some Dir" by simp_all
qed

lemma software_Val:
  assumes "loadOrCreateSoftwareSigner c h w = (Val s, w')" and "starts_with ''/'' h"
  shows "\<exists>seed pub w1. mkdir_p h w = (Val (), w1) \<and> w_env w' = w_env w \<and> w_env w ''AGENTLOCK_ALLOW_SOFTWARE_SIGNER'' = Some ''1'' \<and>
    length seed = 32 \<and> c_pub c seed = Some pub \<and> s = make_signer c Software pub seed \<and>
    file_at w' (in_dir h key_file) = Some (string_of_bytes seed) \<and>
    (w' = w1 \<or> (\<exists>n. w' = put_node (in_dir h key_file) (File (string_of_bytes seed)) (w1\<lparr>w_draws := n\<rparr>) \<and> node_at w1 (in_dir h key_file) = None))"
proof -
  have path: "path_join [h, ''session.key''] = in_dir h key_file"
    using path_join_file [OF assms(2) key_file_plain] by (simp add: key_file_def)
  from assms(1) obtain w1 ex seed w2 pub where allow: "w_env w ''AGENTLOCK_ALLOW_SOFTWARE_SIGNER'' = Some ''1''"
    and mk: "mkdir_p h w = (Val (), w1)" and ex: "ex = (node_at w1 (in_dir h key_file) \<noteq> None)"
    and get: "(if ex then bindP (read_bytes (in_dir h key_file)) (\<lambda>seed. if length seed \<noteq> 32 then
                     throw_msg (in_dir h key_file @ '': expected 32-byte seed, got '' @ nat_str (length seed)) else ret seed)
               else bindP (random_bytes 32) (\<lambda>seed. thenP (write_bytes (in_dir h key_file) seed) (ret seed))) w1 = (Val seed, w2)"
    and pub: "c_pub c seed = Some pub" "s = make_signer c Software pub seed" "w' = w2"
    unfolding loadOrCreateSoftwareSigner_def path Let_def
    by (auto simp: bindP_Val [of "if _ then _ else _"] bindP_Val [of "env_var _"] bindP_Val [of "exists_sync _"] bindP_Val [of "public_key _ _"]
        thenP_Val [of "mkdir_p _"] if_throw_Val exists_Val public_key_Val ret_Val run_env_var split del: if_split)
  have env1: "w_env w1 = w_env w" using mkdir_p_Val [OF mk] by (simp add: foldl_put_fields)
  show ?thesis
  proof (cases ex)
    case True
    with get have "file_at w1 (in_dir h key_file) = Some (string_of_bytes seed)" "length seed = 32" "w2 = w1"
      by (auto simp: bindP_Val if_throw_Val read_bytes_Val ret_Val)
    with mk allow pub env1 show ?thesis by auto
  next
    case False
    with get obtain w3 where rb: "random_bytes 32 w1 = (Val seed, w3)" and wr: "write_bytes (in_dir h key_file) seed w3 = (Val (), w2)"
      by (auto simp: bindP_Val thenP_Val ret_Val)
    note W = write_bytes_Val [OF wr key_file_plain]
    from rb have w3: "w3 = w1\<lparr>w_draws := w_draws w1 + 32\<rparr>" "length seed = 32" by (auto simp: random_bytes_Val)
    have "file_at w2 (in_dir h key_file) = Some (string_of_bytes seed)"
      using W by (simp add: file_at_def node_at_put fs_key_in_dir [OF key_file_plain] in_dir_not_root [OF key_file_plain])
    with mk allow pub env1 W(1) w3 False ex show ?thesis by auto
  qed
qed

text \<open>The software signer is opt-in and stable: without \<open>AGENTLOCK_ALLOW_SOFTWARE_SIGNER=1\<close> it is refused before anything is
  written; a load that succeeds persists its key, so a further load returns the same signer and changes nothing.\<close>

theorem software_signer_stable:
  assumes "loadOrCreateSoftwareSigner c ahome w = (Val s, w')" and "starts_with ''/'' ahome"
  shows "loadOrCreateSoftwareSigner c ahome w' = (Val s, w') \<and>
    (w_env u ''AGENTLOCK_ALLOW_SOFTWARE_SIGNER'' \<noteq> Some ''1'' \<longrightarrow> (\<exists>e. loadOrCreateSoftwareSigner c ahome u = (Err e, u)))"
proof
  from software_Val [OF assms] obtain seed pub w1 where mk: "mkdir_p ahome w = (Val (), w1)"
    and env: "w_env w' = w_env w" "w_env w ''AGENTLOCK_ALLOW_SOFTWARE_SIGNER'' = Some ''1''"
    and seed: "length seed = 32" "c_pub c seed = Some pub" "s = make_signer c Software pub seed"
    and kf: "file_at w' (in_dir ahome key_file) = Some (string_of_bytes seed)"
    and w': "w' = w1 \<or> (\<exists>n. w' = put_node (in_dir ahome key_file) (File (string_of_bytes seed)) (w1\<lparr>w_draws := n\<rparr>)
        \<and> node_at w1 (in_dir ahome key_file) = None)" by blast
  note T = mkdir_tree [OF mk]
  have "map_of (w_tree w') k = Some Dir" if k: "k \<in> set (path_prefixes (path_segs (w_cwd w) ahome))" for k
  proof -
    have "k \<noteq> in_dir ahome key_file" if "node_at w1 (in_dir ahome key_file) = None"
      using T(2) [OF k] that by (auto simp: node_at_def fs_key_in_dir [OF key_file_plain] split: if_splits)
    with w' T(2) [OF k] show ?thesis by (auto simp: put_node_def)
  qed
  moreover have "w_cwd w' = w_cwd w" using w' T(1) by (auto simp: put_node_def)
  ultimately have mk': "mkdir_p ahome w' = (Val (), w')" by (intro mkdir_again) simp
  have path: "path_join [ahome, ''session.key''] = in_dir ahome key_file"
    using path_join_file [OF assms(2) key_file_plain] by (simp add: key_file_def)
  show "loadOrCreateSoftwareSigner c ahome w' = (Val s, w')"
    using read_bytes_file [OF kf] seed env mk'
    by (simp add: loadOrCreateSoftwareSigner_def Let_def path run_bindP run_thenP run_env_var ret_def public_key_def)
next
  show "w_env u ''AGENTLOCK_ALLOW_SOFTWARE_SIGNER'' \<noteq> Some ''1'' \<longrightarrow> (\<exists>e. loadOrCreateSoftwareSigner c ahome u = (Err e, u))"
    by (simp add: loadOrCreateSoftwareSigner_def run_bindP run_env_var throw_msg_def)
qed

definition software_world :: world where
  "software_world = demo_world\<lparr>w_env := (\<lambda>k. if k = ''AGENTLOCK_ALLOW_SOFTWARE_SIGNER'' then Some ''1'' else None),
     w_tree := [(''/h'', Dir), (in_dir ''/h'' key_file, File (string_of_bytes (replicate 32 1)))]\<rparr>"

lemma software_world_loads: "\<exists>s. loadOrCreateSoftwareSigner demo_crypto ''/h'' software_world = (Val s, software_world)"
proof -
  have path: "path_join [''/h'', ''session.key''] = in_dir ''/h'' key_file"
    using path_join_file [OF demo_h key_file_plain] by (simp add: key_file_def)
  have ne: "in_dir ''/h'' key_file \<noteq> ''/h''" "in_dir ''/h'' key_file \<noteq> ''/''"
    by (simp_all add: in_dir_def dir_segs_def norm_segs.simps key_of_def key_file_def)
  have kf: "file_at software_world (in_dir ''/h'' key_file) = Some (string_of_bytes (replicate 32 1))"
    using ne by (simp add: file_at_def node_at_def fs_key_in_dir [OF key_file_plain] software_world_def demo_world_def)
  have mk: "mkdir_p ''/h'' software_world = (Val (), software_world)"
    by (rule mkdir_again) (simp add: path_segs_def starts_with_def norm_segs.simps path_prefixes_def software_world_def demo_world_def)
  have env: "w_env software_world ''AGENTLOCK_ALLOW_SOFTWARE_SIGNER'' = Some ''1''" by (simp add: software_world_def)
  have pub: "c_pub demo_crypto (replicate 32 1) = Some (replicate 32 1)" by (simp add: demo_crypto_def)
  show ?thesis
    using read_bytes_file [OF kf] mk env pub
    by (simp add: loadOrCreateSoftwareSigner_def Let_def path run_bindP run_thenP run_env_var ret_def public_key_def)
qed

theorem software_signer_stable_witness:
  "\<exists>s w'. loadOrCreateSoftwareSigner demo_crypto ''/h'' w' = (Val s, w') \<and>
     (\<exists>e. loadOrCreateSoftwareSigner demo_crypto ''/h'' demo_world = (Err e, demo_world))"
proof -
  from software_world_loads obtain s where l: "loadOrCreateSoftwareSigner demo_crypto ''/h'' software_world = (Val s, software_world)"
    by blast
  have "w_env demo_world ''AGENTLOCK_ALLOW_SOFTWARE_SIGNER'' \<noteq> Some ''1''" by (simp add: demo_world_def)
  with software_signer_stable [OF l demo_h, of demo_world] show ?thesis by blast
qed

section \<open>The keychain signer\<close>

text \<open>The metadata file of an enrolment, and whether it has run out.\<close>

definition keychain_meta :: "world \<Rightarrow> string \<Rightarrow> json option" where
  "keychain_meta w h = (case file_at w (path_join [h, ''os-keychain.meta.json'']) of Some s \<Rightarrow> json_parse s | None \<Rightarrow> None)"

definition unexpired :: "world \<Rightarrow> json \<Rightarrow> bool" where
  "unexpired w meta \<longleftrightarrow>
     (truthy (jprop meta ''expires_at'') \<longrightarrow>
        (\<exists>t. w_date_parse w (js_ostring (jprop meta ''expires_at'')) = Some t \<and> w_now w < t))"

definition find_password :: "string \<Rightarrow> string list" where
  "find_password account = [''/usr/bin/security'', ''find-generic-password'', ''-s'', ''openagentlock-signer'', ''-a'', account, ''-w'']"

lemma check_expiry_run: "check_expiry p v w =
    (if truthy v then
       (case w_date_parse w (js_ostring v) of
          None \<Rightarrow> (Err (JsError (p @ '': invalid expires_at '' @ [chr_dq] @ js_ostring v @ [chr_dq]) None), w)
        | Some t \<Rightarrow> if t \<le> w_now w then (Err (JsError (''os-keychain signer expired at '' @ js_ostring v
             @ ''. Re-enroll with: agentlock signer enroll --tier os-keychain --ttl <duration>'') None), w) else (Val (), w))
     else (Val (), w))"
  by (simp add: check_expiry_def bindP_def getsP_def throw_msg_def ret_def split: option.splits)

lemma keychainFetch_run:
  "snd (keychainFetch a w) = w\<lparr>w_ran := w_ran w @ [find_password a]\<rparr>"
  by (simp add: keychainFetch_def spawn_sync_def bindP_def throwP_def throw_msg_def ret_def Let_def find_password_def
      split: option.splits prod.splits)

text \<open>The keychain is opened last: a load that runs \<open>security\<close> does so once, on macOS, for the account of a readable metadata
  file whose expiry, when it has one, lies in the future; and a signer it returns carries the public key enrolment recorded.\<close>

theorem keychain_expiry_first:
  assumes "loadOSKeychainSigner c ahome w = (r, w')"
  shows "w' = w \<and> (\<forall>s. r \<noteq> Val s) \<or>
    (\<exists>meta account. w_platform w = Darwin \<and> keychain_meta w ahome = Some meta \<and> unexpired w meta \<and>
       jprop meta ''account'' = Some (JStr account) \<and> w' = w\<lparr>w_ran := w_ran w @ [find_password account]\<rparr> \<and>
       (\<forall>s. r = Val s \<longrightarrow> jprop meta ''public_key_hex'' = Some (JStr (toHex (sg_pub s)))))"
proof -
  let ?p = "path_join [ahome, ''os-keychain.meta.json'']"
  have mac: "ensureMac w = (if w_platform w = Darwin then (Val (), w) else (fst (ensureMac w), w)) \<and>
      (w_platform w \<noteq> Darwin \<longrightarrow> (\<exists>e. fst (ensureMac w) = Err e))"
    by (simp add: ensureMac_def bindP_def getsP_def throw_msg_def ret_def)
  show ?thesis
  proof (cases "w_platform w = Darwin \<and> keychain_meta w ahome \<noteq> None \<and> keychain_meta w ahome \<noteq> Some JNull")
    case False
    then have "w' = w \<and> (\<forall>s. r \<noteq> Val s)"
      using assms mac
      by (auto simp: loadOSKeychainSigner_def keychain_meta_def file_at_def Let_def thenP_def bindP_def exists_sync_def getsP_def
          read_file_def parse_json_def propP_def throwP_def ret_def throw_msg_def split: option.splits node.splits if_splits)
    then show ?thesis by blast
  next
    case True
    then obtain meta raw where m: "keychain_meta w ahome = Some meta" "file_at w ?p = Some raw" "json_parse raw = Some meta"
      "meta \<noteq> JNull" "w_platform w = Darwin"
      by (auto simp: keychain_meta_def split: option.splits)
    have rd: "exists_sync ?p w = (Val True, w)" "read_file ?p w = (Val raw, w)"
      using m(2) by (auto simp: exists_sync_def getsP_def file_at_def read_file_def split: option.splits node.splits if_splits)
    let ?tail = "(case jprop meta ''account'' of
          Some (JStr account) \<Rightarrow>
            bindP (keychainFetch account) (\<lambda>seed.
            bindP (public_key c seed) (\<lambda>pub.
            if jprop meta ''public_key_hex'' \<noteq> Some (JStr (toHex pub)) then
              throw_msg (''os-keychain seed does not match enrolled pubkey checksum '' @ [CHR 0xE2, CHR 0x80, CHR 0x94]
                 @ '' re-enroll with `agentlock signer enroll --tier os-keychain`'')
            else ret (make_signer c OsKeychain pub seed)))
        | _ \<Rightarrow> throw_msg ''The args must be strings'')"
    have run: "loadOSKeychainSigner c ahome w = thenP (check_expiry ?p (jprop meta ''expires_at'')) ?tail w"
      using mac m rd unfolding loadOSKeychainSigner_def Let_def
      by (simp add: run_thenP run_bindP parse_json_def propP_def ret_def)
    show ?thesis
    proof (cases "unexpired w meta")
      case False
      then have "w' = w \<and> (\<forall>s. r \<noteq> Val s)"
        using assms unfolding run by (auto simp: thenP_def bindP_def check_expiry_run unexpired_def split: option.splits if_splits)
      then show ?thesis by blast
    next
      case True
      then have "check_expiry ?p (jprop meta ''expires_at'') w = (Val (), w)"
        by (auto simp: check_expiry_run unexpired_def)
      with run assms have r: "?tail w = (r, w')" by (simp add: run_thenP)
      show ?thesis
      proof (cases "\<exists>a. jprop meta ''account'' = Some (JStr a)")
        case True
        then obtain a where a: "jprop meta ''account'' = Some (JStr a)" by blast
        obtain rr where k: "keychainFetch a w = (rr, w\<lparr>w_ran := w_ran w @ [find_password a]\<rparr>)"
          using keychainFetch_run [of a w] by (metis prod.collapse)
        from r have "w' = w\<lparr>w_ran := w_ran w @ [find_password a]\<rparr> \<and>
            (\<forall>s. r = Val s \<longrightarrow> jprop meta ''public_key_hex'' = Some (JStr (toHex (sg_pub s))))"
          by (cases rr) (auto simp: a bindP_def k public_key_def throw_msg_def ret_def make_signer_def split: option.splits if_splits)
        with a m \<open>unexpired w meta\<close> show ?thesis by blast
      next
        case False
        with r have "w' = w \<and> (\<forall>s. r \<noteq> Val s)"
          by (auto simp: throw_msg_def split: option.splits json.splits)
        then show ?thesis by blast
      qed
    qed
  qed
qed

definition keychain_world :: world where
  "keychain_world = demo_world\<lparr>w_platform := Darwin, w_run := (\<lambda>_ _. Some (0, replicate 64 CHR ''0'', [])),
     w_tree := [(in_dir ''/h'' ''os-keychain.meta.json'', File (json_stringify (JObj [(''account'', JStr ''a''),
       (''public_key_hex'', JStr (toHex (replicate 32 0))), (''expires_at'', JNull)])))]\<rparr>"

theorem keychain_expiry_first_witness:
  "w_ran (snd (loadOSKeychainSigner demo_crypto ''/h'' keychain_world)) = [] \<or>
   w_ran (snd (loadOSKeychainSigner demo_crypto ''/h'' keychain_world)) = [find_password ''a'']"
proof -
  let ?meta = "JObj [(''account'', JStr ''a''), (''public_key_hex'', JStr (toHex (replicate 32 0))), (''expires_at'', JNull)]"
  have pl: "plain_name ''os-keychain.meta.json''" by (simp add: plain_name_def clean_seg_def)
  have path: "path_join [''/h'', ''os-keychain.meta.json''] = in_dir ''/h'' ''os-keychain.meta.json''"
    by (rule path_join_file [OF demo_h pl])
  have "file_at keychain_world (in_dir ''/h'' ''os-keychain.meta.json'') = Some (json_stringify ?meta)"
    using in_dir_not_root [OF pl] by (simp add: file_at_def node_at_def fs_key_in_dir [OF pl] keychain_world_def demo_world_def)
  then have m: "keychain_meta keychain_world ''/h'' = Some ?meta"
    unfolding keychain_meta_def path using json_roundtrip [of ?meta] by simp
  have ran: "w_ran keychain_world = []" by (simp add: keychain_world_def demo_world_def)
  obtain r w' where l: "loadOSKeychainSigner demo_crypto ''/h'' keychain_world = (r, w')" by fastforce
  from keychain_expiry_first [OF l] m ran l show ?thesis by auto
qed

section \<open>What a session relies on\<close>

text \<open>
  The interface \<open>Signer\<close> of \<open>signer/types.ts\<close>: whichever loader made it, a signer has the loader's kind and signs
  with the secret key that belongs to the public key it shows.
\<close>

locale signer_loader =
  fixes c :: crypto and load :: "key_signer prog" and kind :: signer_kind
  assumes genuine: "load w = (Val s, w') \<Longrightarrow> \<exists>seed. c_pub c seed = Some (sg_pub s) \<and> s = make_signer c kind (sg_pub s) seed"
begin

lemma signs: "load w = (Val s, w') \<Longrightarrow>
    sg_kind s = kind \<and> (\<exists>seed. c_pub c seed = Some (sg_pub s) \<and> sg_sign s = (\<lambda>msg. c_sign c msg seed))"
proof -
  assume "load w = (Val s, w')"
  from genuine [OF this] obtain seed where "c_pub c seed = Some (sg_pub s)" and s: "s = make_signer c kind (sg_pub s) seed" by blast
  moreover have "sg_kind s = kind" "sg_sign s = (\<lambda>msg. c_sign c msg seed)"
    using arg_cong [OF s, of sg_kind] arg_cong [OF s, of sg_sign] by (simp_all add: make_signer_def)
  ultimately show ?thesis by blast
qed

text \<open>With a signature scheme whose signatures verify, every signature of a loaded signer does, under the key it shows.\<close>

lemma verifies:
  assumes "\<And>seed pub msg. c_pub c seed = Some pub \<Longrightarrow> verify pub msg (c_sign c msg seed)" "load w = (Val s, w')"
  shows "verify (sg_pub s) msg (sg_sign s msg)"
  using signs [OF assms(2)] assms(1) by auto

end

lemma case_str_Val:
  "(case x of Some (JStr a) \<Rightarrow> g a | _ \<Rightarrow> throw_msg m) w = (Val y, w') \<longleftrightarrow> (\<exists>a. x = Some (JStr a) \<and> g a w = (Val y, w'))"
  by (auto simp: throw_msg_def split: option.split json.split)

interpretation software: signer_loader c "loadOrCreateSoftwareSigner c h" Software
  by unfold_locales
    (auto simp: loadOrCreateSoftwareSigner_def Let_def bindP_Val thenP_Val if_throw_Val ret_Val make_signer_def public_key_Val split del: if_split)

interpretation totp: signer_loader c "loadTOTPSigner c h opts" TotpBackedSoftware
  by unfold_locales
    (auto simp: loadTOTPSigner_def totp_unseal_def Let_def bindP_Val thenP_Val if_throw_Val ret_Val make_signer_def public_key_Val split del: if_split)

interpretation keychain: signer_loader c "loadOSKeychainSigner c h" OsKeychain
  by unfold_locales
    (auto simp: loadOSKeychainSigner_def Let_def bindP_Val thenP_Val if_throw_Val ret_Val make_signer_def case_str_Val public_key_Val
      split del: if_split)

end
