(* ===== verification/Sessions.thy ===== *)
theory Sessions
  imports Signers
begin

text \<open>
  Sessions and enrolment commands (\<open>cli/src/commands/session.ts\<close>, \<open>cli/src/util/session-mint.ts\<close>,
  \<open>cli/src/commands/signer-enroll.ts\<close>): loading the signer of a tier, the session key file, the
  attested request, and creating, rotating and ending a session.
\<close>

section \<open>The attested request\<close>

record session_opts =
  so_tier :: string
  so_url :: "string option"
  so_json :: bool
  so_policy :: "string option"
  so_code :: "string option"
  so_pass :: "string option"
  so_user :: "string option"
  so_groups :: "string list option"

definition str_truthy :: "string option \<Rightarrow> bool" where
  "str_truthy s \<longleftrightarrow> s \<noteq> None \<and> s \<noteq> Some []"

definition tierSigner :: "crypto \<Rightarrow> string \<Rightarrow> string \<Rightarrow> string option \<Rightarrow> string option \<Rightarrow> (key_signer \<times> signer_kind) prog" where
  "tierSigner c h tier code passphrase =
     (if tier = ''software'' then bindP (loadOrCreateSoftwareSigner c h) (\<lambda>s. ret (s, Software))
      else if tier = ''os-keychain'' then bindP (loadOSKeychainSigner c h) (\<lambda>s. ret (s, OsKeychain))
      else if \<not> str_truthy code \<or> \<not> str_truthy passphrase then
        throw_msg (''--tier totp requires --code <6-digit> and --passphrase <pp>. ''
          @ ''Run `agentlock signer enroll --tier totp --passphrase <pp>` first.'')
      else bindP (loadTOTPSigner c h \<lparr>lo_passphrase = the passphrase, lo_code = the code, lo_now = None\<rparr>)
             (\<lambda>s. ret (s, TotpBackedSoftware)))"

definition readPolicyHash :: "string \<Rightarrow> string option prog" where
  "readPolicyHash h =
     (let p = path_join [h, ''policy.hash''] in
      bindP (exists_sync p) (\<lambda>ex. if \<not> ex then ret None else bindP (read_file p) (\<lambda>s. ret (Some (trim s)))))"

text \<open>\<open>opts.policyHash ?? readPolicyHash(home) ?? "sha256:0000"\<close>\<close>

definition policyHashOr :: "string option \<Rightarrow> string \<Rightarrow> string prog" where
  "policyHashOr given h =
     (case given of Some p \<Rightarrow> ret p
      | None \<Rightarrow> bindP (readPolicyHash h) (\<lambda>p. ret (case p of Some s \<Rightarrow> s | None \<Rightarrow> ''sha256:0000'')))"

text \<open>The key of the current session: kept when the file exists, else drawn and written.\<close>

definition sessionSeed :: "string \<Rightarrow> byte list prog" where
  "sessionSeed h =
     (let p = path_join [h, ''session-current.key''] in
      bindP (exists_sync p) (\<lambda>ex.
      if ex then read_bytes p
      else bindP (random_bytes 32) (\<lambda>seed. thenP (write_bytes p seed) (ret seed))))"

definition pubkey_text :: "byte list \<Rightarrow> string" where
  "pubkey_text bs = ''ed25519:'' @ toHex bs"

definition session_payload :: "string \<Rightarrow> byte list \<Rightarrow> signer_kind \<Rightarrow> key_signer \<Rightarrow> payload" where
  "session_payload ph sessionPub kind s =
     \<lparr>policy_hash = ph, session_pubkey = pubkey_text sessionPub, signer = kind, signer_pubkey = pubkey_text (sg_pub s)\<rparr>"

definition signPayload :: "payload \<Rightarrow> key_signer \<Rightarrow> byte list prog" where
  "signPayload p s = (case canonicalAttestation p of Inl e \<Rightarrow> throw_msg e | Inr canon \<Rightarrow> ret (sg_sign s (bytes_of canon)))"

definition session_request :: "payload \<Rightarrow> byte list \<Rightarrow> string option \<Rightarrow> string list option \<Rightarrow> json" where
  "session_request p attestation user groups =
     obj_of [(''policy_hash'', Some (JStr (policy_hash p))), (''session_pubkey'', Some (JStr (session_pubkey p))),
             (''signer'', Some (JStr (kind_str (signer p)))), (''signer_pubkey'', Some (JStr (signer_pubkey p))),
             (''attestation'', Some (JStr (pubkey_text attestation))),
             (''user_id'', ostr user), (''groups'', map_option (\<lambda>gs. JArr (map JStr gs)) groups)]"

section \<open>Commands\<close>

definition mintAttestedSession ::
  "crypto \<Rightarrow> string \<Rightarrow> string option \<Rightarrow> string option \<Rightarrow> string option \<Rightarrow> string option \<Rightarrow> json prog" where
  "mintAttestedSession c tier url policy code passphrase =
     bindP (getsP agentlockHome) (\<lambda>h.
     thenP (mkdir_p h)
     (bindP (tierSigner c h tier code passphrase) (\<lambda>(s, kind).
      bindP (sessionSeed h) (\<lambda>seed.
      bindP (public_key c seed) (\<lambda>sessionPub.
      bindP (policyHashOr policy h) (\<lambda>ph.
      let p = session_payload ph sessionPub kind s in
      bindP (signPayload p s) (\<lambda>attestation.
      bindP (apiClient url None) (\<lambda>client.
      createSession (session_request p attestation None None) client))))))))"

definition runSessionCreate :: "crypto \<Rightarrow> session_opts \<Rightarrow> unit prog" where
  "runSessionCreate c opts =
     bindP (getsP agentlockHome) (\<lambda>h.
     thenP (mkdir_p h)
     (bindP (tierSigner c h (so_tier opts) (so_code opts) (so_pass opts)) (\<lambda>(s, kind).
      bindP (sessionSeed h) (\<lambda>seed.
      bindP (public_key c seed) (\<lambda>sessionPub.
      bindP (policyHashOr (so_policy opts) h) (\<lambda>ph.
      let p = session_payload ph sessionPub kind s in
      bindP (signPayload p s) (\<lambda>attestation.
      bindP (apiClient (so_url opts) None) (\<lambda>client.
      bindP (createSession (session_request p attestation (so_user opts) (so_groups opts)) client) (\<lambda>res.
      if so_json opts then out_line (json_pretty 0 res)
      else
        bindP (propP res ''id'') (\<lambda>rid.
        stdout_write (''session: '' @ js_ostring rid @ [chr_nl] @
          ''  started:  '' @ js_ostring (jprop res ''started_at'') @ [chr_nl] @
          ''  expires:  '' @ js_ostring (jprop res ''expires_at'') @ [chr_nl] @
          ''  signer:   '' @ js_ostring (jprop res ''signer'') @ [chr_nl] @
          ''  policy:   '' @ js_ostring (jprop res ''policy_hash'') @ [chr_nl])))))))))))"

definition runSessionRotate :: "crypto \<Rightarrow> string \<Rightarrow> session_opts \<Rightarrow> unit prog" where
  "runSessionRotate c sid opts =
     bindP (getsP agentlockHome) (\<lambda>h.
     thenP (mkdir_p h)
     (bindP (tierSigner c h (so_tier opts) (so_code opts) (so_pass opts)) (\<lambda>(s, kind).
      bindP (random_bytes 32) (\<lambda>newSeed.
      bindP (public_key c newSeed) (\<lambda>newSessionPub.
      bindP (policyHashOr (so_policy opts) h) (\<lambda>ph.
      let p = session_payload ph newSessionPub kind s in
      bindP (signPayload p s) (\<lambda>attestation.
      bindP (apiClient (so_url opts) None) (\<lambda>client.
      bindP (rotateSession sid (session_request p attestation (so_user opts) (so_groups opts)) client) (\<lambda>res.
      thenP (write_bytes (path_join [h, ''session-current.key'']) newSeed)
     (if so_json opts then out_line (json_pretty 0 res)
      else
        bindP (propP res ''id'') (\<lambda>rid.
        stdout_write (''rotated: '' @ js_ostring rid @ [chr_nl] @
          ''  signer:   '' @ js_ostring (jprop res ''signer'') @ [chr_nl] @
          ''  expires:  '' @ js_ostring (jprop res ''expires_at'') @ [chr_nl]))))))))))))"

definition runSessionEnd :: "string \<Rightarrow> string option \<Rightarrow> bool \<Rightarrow> unit prog" where
  "runSessionEnd sid url jsn =
     bindP (apiClient url None) (\<lambda>client.
     thenP (endSession sid client)
       (if jsn then out_line (json_stringify (JObj [(''ended'', JBool True), (''id'', JStr sid)]))
        else out_line (''session ended: '' @ sid)))"

text \<open>\<open>qrcode-terminal\<close> prints the URI as a picture: \<open>qr\<close> is what it writes to standard output.\<close>

definition runSignerEnroll ::
  "crypto \<Rightarrow> (string \<Rightarrow> string) \<Rightarrow> string \<Rightarrow> string option \<Rightarrow> bool \<Rightarrow> string option \<Rightarrow> string option \<Rightarrow> int option \<Rightarrow> unit prog" where
  "runSignerEnroll c qr tier passphrase jsn label issuer ttlSeconds =
     bindP (getsP agentlockHome) (\<lambda>h.
     thenP (mkdir_p h)
     (if tier = ''os-keychain'' then
        bindP (enrollOSKeychainSigner c h ttlSeconds) (\<lambda>e.
        if jsn then
          out_line (json_pretty 0 (JObj [(''kind'', JStr ''os_keychain''), (''account'', JStr (kr_account e)),
            (''public_key'', JStr (pubkey_text (kr_pub e))), (''expires_at'', (case kr_expires e of Some x \<Rightarrow> JStr x | None \<Rightarrow> JNull))]))
        else
          stdout_write (''OS-keychain signer enrolled.'' @ [chr_nl, chr_nl] @
            ''  service: openagentlock-signer'' @ [chr_nl] @
            ''  account: '' @ kr_account e @ [chr_nl] @
            ''  public key: '' @ pubkey_text (kr_pub e) @ [chr_nl] @
            ''  expires:    '' @ (case kr_expires e of Some x \<Rightarrow> x | None \<Rightarrow> ''never (no --ttl set)'') @ [chr_nl, chr_nl] @
            ''Next steps:'' @ [chr_nl] @
            ''  agentlock session create --tier os-keychain'' @ [chr_nl]))
      else if tier \<noteq> ''totp'' then
        throw_msg (''tier '' @ tier @ '' is not supported by signer enroll. Currently supported: totp, os-keychain. ''
          @ ''Hardware-key (YubiKey) tiers are on the roadmap.'')
      else if \<not> str_truthy passphrase then throw_msg ''--passphrase <pp> is required for --tier totp''
      else
        bindP (enrollTOTPSigner c h (the passphrase) label issuer) (\<lambda>e.
        if jsn then
          out_line (json_pretty 0 (JObj [(''kind'', JStr ''totp_backed_software''), (''secret_base32'', JStr (er_base32 e)),
            (''otpauth_uri'', JStr (er_uri e)), (''public_key'', JStr (pubkey_text (er_pub e)))]))
        else
          thenP (stdout_write (''TOTP signer enrolled.'' @ [chr_nl, chr_nl] @
            ''  scan with your authenticator app (Google Authenticator / 1Password / Authy):'' @ [chr_nl, chr_nl]))
         (thenP (stdout_write (qr (er_uri e)))
           (stdout_write ([chr_nl] @ ''  manual setup (if your terminal mangles the QR):'' @ [chr_nl] @
            ''    secret: '' @ er_base32 e @ [chr_nl] @
            ''    type:   TOTP, SHA1, 6 digits, 30s'' @ [chr_nl] @
            ''    raw uri: '' @ er_uri e @ [chr_nl] @
            ''  signing public key:'' @ [chr_nl] @
            ''    '' @ pubkey_text (er_pub e) @ [chr_nl, chr_nl] @
            ''Next steps:'' @ [chr_nl] @
            ''  agentlock install --tier totp --code <6-digit> --passphrase <pp>'' @ [chr_nl] @
            ''or, for an explicit session:'' @ [chr_nl] @
            ''  agentlock session create --tier totp --code <6-digit> --passphrase <pp>'' @ [chr_nl]))))))"

section \<open>Frames\<close>

text \<open>The part of the world files are looked up in.\<close>

definition fs_view :: "world \<Rightarrow> (string \<times> node) list \<times> (string \<Rightarrow> string option) \<times> string" where
  "fs_view w = (w_tree w, w_denied w, w_cwd w)"

lemma file_at_view: "fs_view w = fs_view w' \<Longrightarrow> file_at w p = file_at w' p"
proof -
  assume v: "fs_view w = fs_view w'"
  then have "fs_key w p = fs_key w' p" by (simp add: fs_view_def fs_key_def)
  moreover from this v have "node_at w p = node_at w' p" by (simp add: fs_view_def node_at_def)
  ultimately show ?thesis using v by (simp add: fs_view_def file_at_def split: option.split node.split)
qed

lemma put_fields [simp]: "w_net (put_node k n w) = w_net w" "w_sent (put_node k n w) = w_sent w"
  by (simp_all add: put_node_def)

lemma keeps_file: "keeps fs_view m \<Longrightarrow> keeps (\<lambda>w. file_at w p) m"
  by (auto simp: keeps_def intro: file_at_view)

lemma keeps_fs_view [keeps_intros]:
  "keeps fs_view (stdout_write s)" "keeps fs_view (out_line s)" "keeps fs_view (env_var k)" "keeps fs_view (parse_json s)"
  "keeps fs_view (propP j k)" "keeps fs_view (resp_text r)" "keeps fs_view (fetch rq)" "keeps fs_view (exists_sync p)"
  "keeps fs_view (read_file p)" "keeps fs_view (random_bytes n)" "keeps fs_view (spawn_sync cmd)"
  by (auto simp: keeps_def fs_view_def prog_simps parse_json_def propP_def resp_text_def fetch_def read_file_def random_bytes_def
      spawn_sync_def split: option.splits http_out.splits node.splits)

lemma keeps_net [keeps_intros]:
  "keeps w_net (stdout_write s)" "keeps w_net (out_line s)" "keeps w_net (env_var k)" "keeps w_net (parse_json s)"
  "keeps w_net (propP j k)" "keeps w_net (resp_text r)" "keeps w_net (fetch rq)" "keeps w_net (exists_sync p)"
  "keeps w_net (read_file p)" "keeps w_net (random_bytes n)" "keeps w_net (spawn_sync cmd)" "keeps w_net (write_file p c)"
  "keeps w_net (mkdir_p p)"
  by (auto simp: keeps_def prog_simps parse_json_def propP_def resp_text_def fetch_def read_file_def random_bytes_def mkdir_p_def Let_def
      spawn_sync_def write_file_def foldl_put_fields split: option.splits http_out.splits node.splits)

lemma keeps_sent_more [keeps_intros]:
  "keeps w_sent (exists_sync p)" "keeps w_sent (read_file p)" "keeps w_sent (random_bytes n)" "keeps w_sent (spawn_sync cmd)"
  "keeps w_sent (write_file p c)" "keeps w_sent (mkdir_p p)"
  by (auto simp: keeps_def prog_simps read_file_def random_bytes_def spawn_sync_def write_file_def mkdir_p_def Let_def
      foldl_put_fields split: option.splits node.splits)

lemma keeps_read_bytes [keeps_intros]: "keeps f (read_file p) \<Longrightarrow> keeps f (read_bytes p)"
  unfolding read_bytes_def by (intro keeps_intros)

lemma keeps_write_bytes [keeps_intros]: "keeps f (write_file p (string_of_bytes bs)) \<Longrightarrow> keeps f (write_bytes p bs)"
  by (simp add: write_bytes_def)

lemma keeps_public_key [keeps_intros]: "keeps f (public_key c seed)"
  unfolding public_key_def by (cases "c_pub c seed") (simp_all add: keeps_basic)

lemma keeps_deriveKey [keeps_intros]: "keeps f (env_var ''AGENTLOCK_ARGON2_FAST'') \<Longrightarrow> keeps f (deriveKey c a b d)"
  unfolding deriveKey_def by (intro keeps_intros)

lemma keeps_loadTOTP:
  assumes "\<And>p. keeps f (exists_sync p)" "\<And>p. keeps f (read_file p)" "\<And>k. keeps f (env_var k)"
  shows "keeps f (loadTOTPSigner c h opts)"
  unfolding loadTOTPSigner_def totp_unseal_def totp_now_def Let_def
  by (intro keeps_intros assms)

lemma keeps_loadKeychain:
  assumes "\<And>p. keeps f (exists_sync p)" "\<And>p. keeps f (read_file p)" "\<And>k. keeps f (spawn_sync k)" "\<And>k. keeps f (parse_json k)"
    "\<And>j k. keeps f (propP j k)"
  shows "keeps f (loadOSKeychainSigner c h)"
proof -
  have 1: "keeps f ensureMac" unfolding ensureMac_def by (intro keeps_intros)
  have 2: "keeps f (check_expiry p v)" for p v
    unfolding check_expiry_def by (intro keeps_intros)
  have 3: "keeps f (keychainFetch a)" for a
    unfolding keychainFetch_def Let_def
    by (intro keeps_intros assms)
  have 4: "keeps f (case x of Some (JStr account) \<Rightarrow> g account | _ \<Rightarrow> throw_msg m)"
    if "\<And>a. keeps f (g a)" for x and g :: "string \<Rightarrow> key_signer prog" and m
    using that by (auto split: option.split json.split intro: keeps_basic)
  show ?thesis
    unfolding loadOSKeychainSigner_def Let_def by (intro 4 keeps_intros assms 1 2 3)
qed

lemma keeps_software:
  assumes "\<And>p. keeps f (exists_sync p)" "\<And>p. keeps f (read_file p)" "\<And>k. keeps f (env_var k)" "keeps f (mkdir_p h)"
    "\<And>n. keeps f (random_bytes n)" "\<And>c. keeps f (write_file (path_join [h, ''session.key'']) c)"
  shows "keeps f (loadOrCreateSoftwareSigner c h)"
  unfolding loadOrCreateSoftwareSigner_def Let_def by (intro keeps_intros assms)

lemma keeps_tierSigner:
  assumes "\<And>p. keeps f (exists_sync p)" "\<And>p. keeps f (read_file p)" "\<And>k. keeps f (env_var k)" "keeps f (mkdir_p h)"
    "\<And>n. keeps f (random_bytes n)" "\<And>c. keeps f (write_file (path_join [h, ''session.key'']) c)"
    "\<And>k. keeps f (spawn_sync k)" "\<And>k. keeps f (parse_json k)" "\<And>j k. keeps f (propP j k)"
  shows "keeps f (tierSigner c h tier code pp)"
  unfolding tierSigner_def by (intro keeps_intros keeps_software keeps_loadTOTP keeps_loadKeychain assms)

section \<open>The file of the session key\<close>

definition session_file :: string where "session_file = ''session-current.key''"

lemma session_file_plain: "plain_name session_file"
  by (simp add: plain_name_def clean_seg_def session_file_def)

lemma session_path: "starts_with ''/'' h \<Longrightarrow> path_join [h, ''session-current.key''] = in_dir h session_file"
  using path_join_file [OF _ session_file_plain] by (simp add: session_file_def)

abbreviation session_key :: "string \<Rightarrow> world \<Rightarrow> string option" where
  "session_key h w \<equiv> file_at w (in_dir h session_file)"

lemma prefix_not_file:
  assumes "starts_with ''/'' h" "plain_name f" shows "in_dir h f \<notin> set (path_prefixes (path_segs cwd h))"
proof
  assume "in_dir h f \<in> set (path_prefixes (path_segs cwd h))"
  moreover have ps: "path_segs cwd h = dir_segs h" using assms(1) by (simp add: path_segs_def dir_segs_def)
  ultimately obtain i where i: "in_dir h f = key_of (take i (dir_segs h))"
    by (auto simp: path_prefixes_def key_of_def)
  have "dir_segs (key_of (take i (dir_segs h))) = take i (dir_segs h)"
    by (rule key_of_segs) (use dir_segs_clean [of h] dir_segs_no_slash in \<open>auto simp: list_all_iff dest: in_set_takeD\<close>)
  with i in_dir_segs [OF assms(2), of h] have "dir_segs h @ [f] = take i (dir_segs h)" by simp
  then show False by (metis Suc_n_not_le_n length_append_singleton length_take min.cobounded1)
qed

lemma mkdir_session_key: "starts_with ''/'' h \<Longrightarrow> keeps (session_key h) (mkdir_p h)"
  unfolding keeps_def
proof (intro allI)
  fix w assume h: "starts_with ''/'' h"
  show "session_key h (snd (mkdir_p h w)) = session_key h w"
  proof (cases "fst (mkdir_p h w) = Val ()")
    case True
    then have "mkdir_p h w = (Val (), snd (mkdir_p h w))" by (metis prod.collapse)
    from mkdir_p_Val [OF this] have w': "snd (mkdir_p h w) = foldl (\<lambda>u k. put_node k Dir u) w (path_prefixes (path_segs (w_cwd w) h))" .
    show ?thesis
      unfolding w' using put_dirs [where w = w and q = "in_dir h session_file"] prefix_not_file [OF h session_file_plain]
        in_dir_not_root [OF session_file_plain]
      by (simp add: file_at_def fs_key_in_dir [OF session_file_plain] split: option.split node.split)
  next
    case False
    then have "snd (mkdir_p h w) = w" by (auto simp: mkdir_p_def Let_def split: option.splits if_splits)
    then show ?thesis by simp
  qed
qed

lemma write_other_key:
  assumes "starts_with ''/'' h" "plain_name f" "f \<noteq> session_file"
  shows "keeps (session_key h) (write_file (in_dir h f) c)"
  unfolding keeps_def
proof (intro allI)
  fix w
  have ne: "in_dir h session_file \<noteq> in_dir h f" using assms(2,3) session_file_plain by (simp add: in_dir_inject)
  show "session_key h (snd (write_file (in_dir h f) c w)) = session_key h w"
    using ne by (simp add: write_file_def file_at_def node_at_put fs_key_in_dir [OF assms(2)] fs_key_in_dir [OF session_file_plain]
        in_dir_not_root [OF session_file_plain] split: option.split node.split)
qed

lemma tierSigner_session_key:
  assumes "starts_with ''/'' h" shows "keeps (session_key h) (tierSigner c h tier code pp)"
proof -
  have path: "path_join [h, ''session.key''] = in_dir h key_file"
    using path_join_file [OF assms key_file_plain] by (simp add: key_file_def)
  have ne: "key_file \<noteq> session_file" by (simp add: key_file_def session_file_def)
  show ?thesis
    by (rule keeps_tierSigner)
      (simp_all only: path keeps_file keeps_fs_view mkdir_session_key [OF assms] write_other_key [OF assms key_file_plain ne])
qed

section \<open>Rotation\<close>

lemma api_keeps: "one_call rq m \<Longrightarrow> keeps fs_view m \<and> keeps w_net m"
  by (simp add: one_call_def keeps_def fs_view_def)

lemma rotate_one_call:
  "\<exists>rq. one_call rq (rotateSession sid req cl) \<and> rq_url rq = cl_url cl @ ''/v1/sessions/'' @ encodeURIComponent sid @ ''/rotate'' \<and>
     rq_body rq = Some (json_stringify req)"
proof -
  let ?rq = "\<lparr>rq_method = ''POST'', rq_url = cl_url cl @ ''/v1/sessions/'' @ encodeURIComponent sid @ ''/rotate'',
      rq_auth = authHeaders cl, rq_body = map_option json_stringify (Some req)\<rparr>"
  have "one_call ?rq (rotateSession sid req cl)"
    unfolding rotateSession_def by (rule api_send_one_call) simp_all
  then show ?thesis by (intro exI [of _ ?rq]) simp
qed

lemma keeps_policyHashOr [keeps_intros]:
  "(\<And>p. keeps f (exists_sync p)) \<Longrightarrow> (\<And>p. keeps f (read_file p)) \<Longrightarrow> keeps f (policyHashOr g h)"
  unfolding policyHashOr_def readPolicyHash_def Let_def
  by (auto split: option.split intro!: keeps_intros)

lemma keeps_signPayload [keeps_intros]: "keeps f (signPayload p s)"
  unfolding signPayload_def by (cases "canonicalAttestation p") (simp_all add: keeps_basic)

lemma keeps_apiClient [keeps_intros]: "keeps f (apiClient u t)"
  by (simp add: apiClient_def keeps_basic)

lemma keeps_prod [keeps_intros]: "(\<And>a b. keeps f (g a b)) \<Longrightarrow> keeps f (case x of (a, b) \<Rightarrow> g a b)"
  by (cases x) simp

text \<open>What \<open>runSessionRotate\<close> does before it calls the daemon.\<close>

definition rotate_prepare :: "crypto \<Rightarrow> session_opts \<Rightarrow> string \<Rightarrow> (byte list \<times> json \<times> client) prog" where
  "rotate_prepare c opts h =
     thenP (mkdir_p h)
     (bindP (tierSigner c h (so_tier opts) (so_code opts) (so_pass opts)) (\<lambda>(s, kind).
      bindP (random_bytes 32) (\<lambda>newSeed.
      bindP (public_key c newSeed) (\<lambda>newSessionPub.
      bindP (policyHashOr (so_policy opts) h) (\<lambda>ph.
      let p = session_payload ph newSessionPub kind s in
      bindP (signPayload p s) (\<lambda>attestation.
      bindP (apiClient (so_url opts) None) (\<lambda>client.
      ret (newSeed, session_request p attestation (so_user opts) (so_groups opts), client))))))))"

lemma bindP_prod: "bindP m (\<lambda>x. bindP (case x of (a, b) \<Rightarrow> g a b) k) = bindP m (\<lambda>(a, b). bindP (g a b) k)"
  by (rule arg_cong [of _ _ "bindP m"]) (auto simp: fun_eq_iff)

lemma rotate_split:
  "runSessionRotate c sid opts w =
    bindP (rotate_prepare c opts (agentlockHome w)) (\<lambda>(seed, req, client).
      bindP (rotateSession sid req client) (\<lambda>res.
      thenP (write_bytes (path_join [agentlockHome w, ''session-current.key'']) seed)
     (if so_json opts then out_line (json_pretty 0 res)
      else
        bindP (propP res ''id'') (\<lambda>rid.
        stdout_write (''rotated: '' @ js_ostring rid @ [chr_nl] @
          ''  signer:   '' @ js_ostring (jprop res ''signer'') @ [chr_nl] @
          ''  expires:  '' @ js_ostring (jprop res ''expires_at'') @ [chr_nl]))))) w"
  unfolding runSessionRotate_def rotate_prepare_def Let_def thenP_def bindP_assoc bindP_prod bindP_ret_left prod.case
  by (simp only: bindP_def [of "getsP _"] run_getsP prod.case res.case)


lemma toHex_no_ctrl: "no_ctrl (toHex bs)"
proof -
  have "\<not> ctrl_code (hex_chr n)" if "n < 16" for n
    using that by (auto simp: ctrl_code_def hex_chr_def)
  moreover have "unat b div 16 < 16" for b :: byte
    using unat_byte_less [of b] by linarith
  ultimately show ?thesis by (auto simp: toHex_def no_ctrl_def list_all_iff byte_hex_def)
qed

lemma pubkey_text_no_ctrl: "no_ctrl (pubkey_text bs)"
  using toHex_no_ctrl [of bs] by (simp add: pubkey_text_def no_ctrl_def ctrl_code_def code_of_def)

lemma session_payload_clean: "payload_clean (session_payload ph sp k s) = no_ctrl ph"
  by (simp add: payload_clean_def session_payload_def pubkey_text_no_ctrl)

lemma signPayload_run:
  "no_ctrl ph \<Longrightarrow> signPayload (session_payload ph sp k s) s w =
     (Val (sg_sign s (bytes_of (json_stringify (payload_json (session_payload ph sp k s))))), w)"
proof -
  assume "no_ctrl ph"
  then have "canonicalAttestation (session_payload ph sp k s) = Inr (json_stringify (payload_json (session_payload ph sp k s)))"
    by (simp add: canonical_Inr session_payload_clean)
  then show ?thesis by (simp add: signPayload_def ret_def)
qed

definition rotate_world :: world where
  "rotate_world = software_world\<lparr>w_env := (\<lambda>k. if k = ''AGENTLOCK_ALLOW_SOFTWARE_SIGNER'' then Some ''1''
       else if k = ''AGENTLOCK_HOME'' then Some ''/h'' else None), w_net := answer_with 200 ''{}''\<rparr>"

definition demo_session :: session_opts where
  "demo_session = \<lparr>so_tier = ''software'', so_url = None, so_json = True, so_policy = Some ''sha256:1'', so_code = None, so_pass = None,
     so_user = None, so_groups = None\<rparr>"

lemma rotate_world_loads: "\<exists>s. loadOrCreateSoftwareSigner demo_crypto ''/h'' rotate_world = (Val s, rotate_world)"
proof -
  have path: "path_join [''/h'', ''session.key''] = in_dir ''/h'' key_file"
    using path_join_file [OF demo_h key_file_plain] by (simp add: key_file_def)
  have ne: "in_dir ''/h'' key_file \<noteq> ''/h''" "in_dir ''/h'' key_file \<noteq> ''/''"
    by (simp_all add: in_dir_def dir_segs_def norm_segs.simps key_of_def key_file_def)
  have kf: "file_at rotate_world (in_dir ''/h'' key_file) = Some (string_of_bytes (replicate 32 1))"
    using ne by (simp add: file_at_def node_at_def fs_key_in_dir [OF key_file_plain] rotate_world_def software_world_def demo_world_def)
  have mk: "mkdir_p ''/h'' rotate_world = (Val (), rotate_world)"
    by (rule mkdir_again) (simp add: path_segs_def starts_with_def norm_segs.simps path_prefixes_def rotate_world_def software_world_def demo_world_def)
  have env: "w_env rotate_world ''AGENTLOCK_ALLOW_SOFTWARE_SIGNER'' = Some ''1''" by (simp add: rotate_world_def)
  have pub: "c_pub demo_crypto (replicate 32 1) = Some (replicate 32 1)" by (simp add: demo_crypto_def)
  show ?thesis
    using read_bytes_file [OF kf] mk env pub
    by (simp add: loadOrCreateSoftwareSigner_def Let_def path run_bindP run_thenP run_env_var ret_def public_key_def)
qed

lemma rotate_write:
  assumes "w_denied w = (\<lambda>_. None)" "map_of (w_tree w) ''/h'' = Some Dir" "map_of (w_tree w) (in_dir ''/h'' session_file) = None"
  shows "write_bytes (in_dir ''/h'' session_file) bs w = (Val (), put_node (in_dir ''/h'' session_file) (File (string_of_bytes bs)) w)"
proof -
  have d: "in_dir ''/h'' session_file = ''/h/session-current.key''"
    by (simp add: in_dir_def dir_segs_def norm_segs.simps key_of_def session_file_def)
  have "path_dirname (in_dir ''/h'' session_file) = ''/h''"
    unfolding d by (simp add: path_dirname_def strip_slashes_def)
  moreover have "fs_key w ''/h'' = ''/h''"
    by (simp add: fs_key_abs starts_with_def dir_segs_def norm_segs.simps key_of_def)
  ultimately show ?thesis
    using assms in_dir_not_root [OF session_file_plain, of "''/h''"]
    by (simp add: write_bytes_def write_file_def fs_key_in_dir [OF session_file_plain] node_at_def)
qed

lemma rotate_world_run:
  "\<exists>w' seed. runSessionRotate demo_crypto ''s1'' demo_session rotate_world = (Val (), w') \<and>
     session_key ''/h'' w' = Some (string_of_bytes seed) \<and> session_key ''/h'' rotate_world = None"
proof -
  have home: "agentlockHome rotate_world = ''/h''" by (simp add: agentlockHome_def rotate_world_def)
  obtain s where s: "loadOrCreateSoftwareSigner demo_crypto ''/h'' rotate_world = (Val s, rotate_world)"
    using rotate_world_loads by blast
  have mk: "mkdir_p ''/h'' rotate_world = (Val (), rotate_world)"
    by (rule mkdir_again) (simp add: path_segs_def starts_with_def norm_segs.simps path_prefixes_def rotate_world_def software_world_def demo_world_def)
  have tier: "tierSigner demo_crypto ''/h'' ''software'' None None rotate_world = (Val (s, Software), rotate_world)"
    by (simp add: tierSigner_def run_bindP s ret_def)
  define w1 where "w1 = rotate_world\<lparr>w_draws := w_draws rotate_world + 32\<rparr>"
  obtain seed where rb: "random_bytes 32 rotate_world = (Val seed, w1)" "length seed = 32"
    by (simp add: random_bytes_def w1_def)
  have pub: "public_key demo_crypto seed u = (Val seed, u)" for u
    using rb(2) by (simp add: public_key_Val demo_crypto_def)
  have ph: "no_ctrl ''sha256:1''" by (simp add: no_ctrl_def ctrl_code_def code_of_def)
  define cl where "cl = \<lparr>cl_url = ''http://127.0.0.1:7878'', cl_token = None, cl_caps = None\<rparr>"
  have api: "apiClient None None w1 = (Val cl, w1)"
    by (simp add: apiClient_def getsP_def cl_def w1_def rotate_world_def)
  have net: "w_net w1 = answer_with 200 ''{}''" by (simp add: w1_def rotate_world_def)
  obtain rq where rot: "rotateSession ''s1'' req cl w1 = (Val (JObj []), w1\<lparr>w_sent := w_sent w1 @ [rq req]\<rparr>)" for req
  proof -
    have br: "json_parse ''{}'' = Some (JObj [])" using json_roundtrip [of "JObj []"] by simp
    let ?rq = "\<lambda>req. \<lparr>rq_method = ''POST'', rq_url = cl_url cl @ ''/v1/sessions/'' @ encodeURIComponent ''s1'' @ ''/rotate'',
      rq_auth = authHeaders cl, rq_body = Some (json_stringify req)\<rparr>"
    have "rotateSession ''s1'' req cl w1 = (Val (JObj []), w1\<lparr>w_sent := w_sent w1 @ [?rq req]\<rparr>)" for req
      by (simp add: rotateSession_def api_send_def bindP_def fetch_def net answer_with_def status_is_def resp_json_def resp_text_def
          ret_def parse_json_def br)
    then show ?thesis by (rule that)
  qed
  have prep: "rotate_prepare demo_crypto demo_session ''/h'' rotate_world =
      (Val (seed, session_request (session_payload ''sha256:1'' seed Software s)
          (sg_sign s (bytes_of (json_stringify (payload_json (session_payload ''sha256:1'' seed Software s))))) None None, cl), w1)"
    by (simp add: rotate_prepare_def demo_session_def run_thenP run_bindP mk tier rb(1) pub policyHashOr_def ret_def Let_def
        signPayload_run [OF ph] api)
  let ?req = "session_request (session_payload ''sha256:1'' seed Software s)
          (sg_sign s (bytes_of (json_stringify (payload_json (session_payload ''sha256:1'' seed Software s))))) None None"
  let ?w2 = "w1\<lparr>w_sent := w_sent w1 @ [rq ?req]\<rparr>"
  have keyne: "in_dir ''/h'' session_file \<noteq> ''/h''" "in_dir ''/h'' session_file \<noteq> in_dir ''/h'' key_file"
    by (simp_all add: in_dir_def dir_segs_def norm_segs.simps key_of_def session_file_def key_file_def)
  have tree: "w_denied ?w2 = (\<lambda>_. None)" "map_of (w_tree ?w2) ''/h'' = Some Dir" "map_of (w_tree ?w2) (in_dir ''/h'' session_file) = None"
    using keyne by (simp_all add: w1_def rotate_world_def software_world_def demo_world_def)
  note wr = rotate_write [OF tree, of seed]
  let ?w3 = "put_node (in_dir ''/h'' session_file) (File (string_of_bytes seed)) ?w2"
  have run: "runSessionRotate demo_crypto ''s1'' demo_session rotate_world =
      (Val (), ?w3\<lparr>w_out := w_out ?w3 @ json_pretty 0 (JObj []) @ [chr_nl]\<rparr>)"
    unfolding rotate_split home session_path [OF demo_h]
    by (simp only: run_bindP(1) run_thenP(1) prep prod.case rot wr) (simp add: demo_session_def run_out_line)
  have "session_key ''/h'' (?w3\<lparr>w_out := w_out ?w3 @ json_pretty 0 (JObj []) @ [chr_nl]\<rparr>) = Some (string_of_bytes seed)"
    using in_dir_not_root [OF session_file_plain, of "''/h''"]
    by (simp add: file_at_def node_at_def fs_key_in_dir [OF session_file_plain] put_node_def w1_def rotate_world_def
        software_world_def demo_world_def)
  moreover have "session_key ''/h'' rotate_world = None"
    using in_dir_not_root [OF session_file_plain, of "''/h''"] keyne
    by (simp add: file_at_def node_at_def fs_key_in_dir [OF session_file_plain] rotate_world_def software_world_def demo_world_def)
  ultimately show ?thesis using run by blast
qed


section \<open>Creation\<close>

text \<open>What \<open>runSessionCreate\<close> and \<open>mintAttestedSession\<close> do before they call the daemon.\<close>

definition create_prepare :: "crypto \<Rightarrow> session_opts \<Rightarrow> string \<Rightarrow> (json \<times> client) prog" where
  "create_prepare c opts h =
     thenP (mkdir_p h)
     (bindP (tierSigner c h (so_tier opts) (so_code opts) (so_pass opts)) (\<lambda>(s, kind).
      bindP (sessionSeed h) (\<lambda>seed.
      bindP (public_key c seed) (\<lambda>sessionPub.
      bindP (policyHashOr (so_policy opts) h) (\<lambda>ph.
      let p = session_payload ph sessionPub kind s in
      bindP (signPayload p s) (\<lambda>attestation.
      bindP (apiClient (so_url opts) None) (\<lambda>client.
      ret (session_request p attestation (so_user opts) (so_groups opts), client))))))))"

lemma create_split:
  "runSessionCreate c opts w =
    bindP (create_prepare c opts (agentlockHome w)) (\<lambda>(req, client).
      bindP (createSession req client) (\<lambda>res.
      if so_json opts then out_line (json_pretty 0 res)
      else
        bindP (propP res ''id'') (\<lambda>rid.
        stdout_write (''session: '' @ js_ostring rid @ [chr_nl] @
          ''  started:  '' @ js_ostring (jprop res ''started_at'') @ [chr_nl] @
          ''  expires:  '' @ js_ostring (jprop res ''expires_at'') @ [chr_nl] @
          ''  signer:   '' @ js_ostring (jprop res ''signer'') @ [chr_nl] @
          ''  policy:   '' @ js_ostring (jprop res ''policy_hash'') @ [chr_nl])))) w"
  unfolding runSessionCreate_def create_prepare_def Let_def thenP_def bindP_assoc bindP_prod bindP_ret_left prod.case
  by (simp only: bindP_def [of "getsP _"] run_getsP prod.case res.case)

lemma mint_split:
  "mintAttestedSession c tier url policy code passphrase w =
    bindP (create_prepare c \<lparr>so_tier = tier, so_url = url, so_json = True, so_policy = policy, so_code = code, so_pass = passphrase,
        so_user = None, so_groups = None\<rparr> (agentlockHome w)) (\<lambda>(req, client). createSession req client) w"
  unfolding mintAttestedSession_def create_prepare_def Let_def thenP_def bindP_assoc bindP_prod bindP_ret_left prod.case
    session_opts.select_convs
  by (simp only: bindP_def [of "getsP _"] run_getsP prod.case res.case)

lemma create_one_call:
  "one_call \<lparr>rq_method = ''POST'', rq_url = cl_url cl @ ''/v1/sessions'', rq_auth = authHeaders cl, rq_body = Some (json_stringify req)\<rparr>
     (createSession req cl)"
  using api_send_one_call [of "status_is 201" "fail_body ''sessions.create''" "''POST''" _ _ "Some req"]
  by (simp add: createSession_def)

lemma create_prepare_sent: "keeps w_sent (create_prepare c opts h)"
  unfolding create_prepare_def sessionSeed_def Let_def by (intro keeps_intros keeps_tierSigner)

text \<open>The kind of signer a tier stands for, and what its signer is.\<close>

definition tier_kind :: "string \<Rightarrow> signer_kind" where
  "tier_kind tier = (if tier = ''software'' then Software else if tier = ''os-keychain'' then OsKeychain else TotpBackedSoftware)"

lemma tierSigner_genuine:
  assumes "tierSigner c h tier code pp w = (Val (s, k), w')"
  shows "k = tier_kind tier \<and> (\<exists>seed. c_pub c seed = Some (sg_pub s) \<and> sg_sign s = (\<lambda>msg. c_sign c msg seed))"
  using assms software.signs keychain.signs totp.signs
  by (fastforce simp: tierSigner_def tier_kind_def bindP_Val ret_Val throw_msg_def split: if_splits)

lemma sessionSeed_Val:
  assumes "sessionSeed h w = (Val seed, w')" "starts_with ''/'' h"
  shows "session_key h w' = Some (string_of_bytes seed)"
proof (cases "node_at w (in_dir h session_file) \<noteq> None")
  case True
  then show ?thesis
    using assms(1) by (auto simp: sessionSeed_def Let_def session_path [OF assms(2)] bindP_Val exists_Val read_bytes_Val)
next
  case False
  with assms(1) obtain w1 where "write_bytes (in_dir h session_file) seed w1 = (Val (), w')"
    by (auto simp: sessionSeed_def Let_def session_path [OF assms(2)] bindP_Val exists_Val thenP_Val ret_Val)
  from write_bytes_Val [OF this session_file_plain] show ?thesis
    by (simp add: file_at_def node_at_put fs_key_in_dir [OF session_file_plain] in_dir_not_root [OF session_file_plain])
qed

lemma signPayload_Val: "signPayload p s w = (Val a, w') \<longleftrightarrow> (\<exists>canon. canonicalAttestation p = Inr canon \<and> a = sg_sign s (bytes_of canon)) \<and> w' = w"
  by (auto simp: signPayload_def ret_def throw_msg_def split: sum.splits)

text \<open>
  The request that vouches for session key \<open>seed\<close>: it names a signer of the tier and carries the signature, by
  the secret key \<open>ks\<close> of the signer's public key, of the canonical text of its own fields, and the session
  key it names is the one on disk.
\<close>

definition attested :: "crypto \<Rightarrow> string \<Rightarrow> string option \<Rightarrow> string list option \<Rightarrow> string \<Rightarrow> world \<Rightarrow> json \<Rightarrow> bool" where
  "attested c tier user groups h w req \<longleftrightarrow>
     (\<exists>(p :: payload) ks pub seed sp canon. signer p = tier_kind tier \<and>
        c_pub c ks = Some pub \<and> signer_pubkey p = pubkey_text pub \<and>
        c_pub c seed = Some sp \<and> session_pubkey p = pubkey_text sp \<and> session_key h w = Some (string_of_bytes seed) \<and>
        canonicalAttestation p = Inr canon \<and> req = session_request p (c_sign c (bytes_of canon) ks) user groups)"

lemma create_prepare_Val:
  assumes "create_prepare c opts h w = (Val (req, client), w')" "starts_with ''/'' h"
  shows "attested c (so_tier opts) (so_user opts) (so_groups opts) h w' req"
proof -
  from assms(1) obtain s kind w1 w2 seed w3 sp ph w4 canon where
    t: "tierSigner c h (so_tier opts) (so_code opts) (so_pass opts) w1 = (Val (s, kind), w2)"
    and sd: "sessionSeed h w2 = (Val seed, w3)" and sp: "c_pub c seed = Some sp"
    and ph: "policyHashOr (so_policy opts) h w3 = (Val ph, w4)"
    and sg: "canonicalAttestation (session_payload ph sp kind s) = Inr canon"
    and req: "req = session_request (session_payload ph sp kind s) (sg_sign s (bytes_of canon)) (so_user opts) (so_groups opts)"
    and w': "w' = w4"
    unfolding create_prepare_def Let_def
    by (auto simp: thenP_Val bindP_Val public_key_Val signPayload_Val ret_Val apiClient_def getsP_def)
  from tierSigner_genuine [OF t] obtain ks
    where ks: "kind = tier_kind (so_tier opts)" "c_pub c ks = Some (sg_pub s)" "sg_sign s = (\<lambda>msg. c_sign c msg ks)" by blast
  have "keeps fs_view (policyHashOr (so_policy opts) h)" by (intro keeps_intros)
  from keepsD [OF keeps_file [OF this, of "in_dir h session_file"] ph] sessionSeed_Val [OF sd assms(2)] w'
  have "session_key h w' = Some (string_of_bytes seed)" by simp
  with ks sp sg req show ?thesis
    unfolding attested_def
    by (intro exI [of _ "session_payload ph sp kind s"] exI [of _ ks] exI [of _ "sg_pub s"] exI [of _ seed] exI [of _ sp] exI [of _ canon])
      (simp add: session_payload_def)
qed

text \<open>One request after the preparation, and then nothing that sends or changes a file.\<close>

definition one_attested :: "crypto \<Rightarrow> session_opts \<Rightarrow> string \<Rightarrow> world \<Rightarrow> world \<Rightarrow> bool" where
  "one_attested c opts h w w' \<longleftrightarrow> w_sent w' = w_sent w \<or>
     (\<exists>rq req. w_sent w' = w_sent w @ [rq] \<and> rq_body rq = Some (json_stringify req) \<and>
        attested c (so_tier opts) (so_user opts) (so_groups opts) h w' req)"

lemma prepared_call_attested:
  assumes run: "bindP (create_prepare c opts h) (\<lambda>(req, client). bindP (createSession req client) k) w = (r, w')"
    and h: "starts_with ''/'' h" and k: "\<And>res. keeps w_sent (k res)" "\<And>res. keeps fs_view (k res)"
  shows "one_attested c opts h w w'"
  using run
proof (cases rule: bindP_cases)
  case (val x w1)
  obtain req client where x: "x = (req, client)" by fastforce
  note at = create_prepare_Val [OF val(1) [unfolded x] h]
  have s1: "w_sent w1 = w_sent w" using keepsD [OF create_prepare_sent val(1)] .
  note oc = create_one_call [of client req]
  obtain rr w2 where cs: "createSession req client w1 = (rr, w2)" by fastforce
  let ?rq = "\<lparr>rq_method = ''POST'', rq_url = cl_url client @ ''/v1/sessions'', rq_auth = authHeaders client, rq_body = Some (json_stringify req)\<rparr>"
  have w2: "w2 = w1\<lparr>w_sent := w_sent w1 @ [?rq]\<rparr>" using oc cs by (simp add: one_call_def) (metis snd_conv)
  from val(2) [unfolded x prod.case] have e: "w_sent w' = w_sent w2 \<and> session_key h w' = session_key h w2"
  proof (cases rule: bindP_cases)
    case (val y w3)
    with cs have "w3 = w2" by simp
    with keepsD [OF k(1) val(2)] keepsD [OF keeps_file [OF k(2)] val(2)] show ?thesis by simp
  qed (use cs in auto)
  have "session_key h w2 = session_key h w1"
    by (rule file_at_view) (simp add: w2 fs_view_def)
  with at e have "attested c (so_tier opts) (so_user opts) (so_groups opts) h w' req" by (simp add: attested_def)
  with e w2 s1 show ?thesis by (auto simp: one_attested_def)
qed (use keepsD [OF create_prepare_sent] in \<open>auto simp: one_attested_def\<close>)

lemma mint_attested:
  assumes "mintAttestedSession c tier url policy code passphrase w = (r, w')" "starts_with ''/'' (agentlockHome w)"
  shows "one_attested c \<lparr>so_tier = tier, so_url = url, so_json = True, so_policy = policy, so_code = code, so_pass = passphrase,
    so_user = None, so_groups = None\<rparr> (agentlockHome w) w w'"
proof -
  have "(\<lambda>(req, client). createSession req client) = (\<lambda>(req, client). bindP (createSession req client) ret)"
    by (simp add: bindP_ret_right)
  note run = assms(1) [unfolded mint_split, unfolded this]
  show ?thesis by (rule prepared_call_attested [OF run assms(2)]) (intro keeps_intros)+
qed

text \<open>C9. Creating a session asks the daemon at most once, and what it asks is attested: the request names a signer of the chosen tier and
  carries the signature, made with the secret key of that signer's public key, of the canonical text of exactly the policy, session key
  and signer in it, and the session key is the one on disk, whatever else goes wrong.\<close>

theorem session_create_attested:
  assumes "runSessionCreate c opts w = (r, w')" and "starts_with ''/'' (agentlockHome w)"
  shows "w_sent w' = w_sent w \<or>
    (\<exists>rq req. w_sent w' = w_sent w @ [rq] \<and> rq_body rq = Some (json_stringify req) \<and>
       attested c (so_tier opts) (so_user opts) (so_groups opts) (agentlockHome w) w' req)"
  unfolding one_attested_def [symmetric]
  by (rule prepared_call_attested [OF assms(1) [unfolded create_split] assms(2)]) (intro keeps_intros)+

theorem session_create_attested_witness:
  "w_sent (snd (runSessionCreate demo_crypto demo_session rotate_world)) = [] \<or>
   (\<exists>rq req. w_sent (snd (runSessionCreate demo_crypto demo_session rotate_world)) = [rq] \<and>
      attested demo_crypto ''software'' None None ''/h'' (snd (runSessionCreate demo_crypto demo_session rotate_world)) req)"
proof -
  obtain r w' where l: "runSessionCreate demo_crypto demo_session rotate_world = (r, w')" by fastforce
  have home: "agentlockHome rotate_world = ''/h''" by (simp add: agentlockHome_def rotate_world_def)
  have "w_sent rotate_world = []" by (simp add: rotate_world_def software_world_def demo_world_def)
  with session_create_attested [OF l, unfolded home, OF demo_h] l show ?thesis by (auto simp: demo_session_def)
qed

end
