(* ===== verification/InstallFs.thy ===== *)
theory InstallFs
  imports Sessions
begin

text \<open>
  The host-side file operations of install and uninstall (\<open>cli/src/util/install-fs.ts\<close>): the check
  that a target lies under a harness' home, reading what exists, executing the daemon's plan with
  backups and rollback, and the strip and remove operations of an uninstall.
\<close>

section \<open>Safe targets\<close>

text \<open>The last branch of the list serves every platform that is neither macOS nor Windows.\<close>

definition safe_roots :: "world \<Rightarrow> string list" where
  "safe_roots w =
     map (\<lambda>d. path_resolve2 (w_cwd w) (w_home w) d) [''.claude'', ''.codex'', ''.cursor'', ''.gemini''] @
     (if w_platform w = Darwin then
        [path_resolve2 (w_cwd w) (path_resolve2 (w_cwd w) (path_resolve2 (w_cwd w) (w_home w) ''Library'') ''Application Support'') ''Claude'']
      else if w_platform w = Win32 then
        (case w_env w ''APPDATA'' of Some a \<Rightarrow> if a = [] then [] else [path_resolve2 (w_cwd w) a ''Claude''] | None \<Rightarrow> []) @
        [path_resolve2 (w_cwd w) (path_resolve2 (w_cwd w) (path_resolve2 (w_cwd w) (w_home w) ''AppData'') ''Roaming'') ''Claude'']
      else [path_resolve2 (w_cwd w) (path_resolve2 (w_cwd w) (w_home w) ''.config'') ''Claude''])"

definition checkSafeTarget :: "string \<Rightarrow> bool \<Rightarrow> unit prog" where
  "checkSafeTarget absPath bypass w =
     (if bypass then (Val (), w)
      else
        (let target = path_resolve (w_cwd w) absPath in
         if list_ex (\<lambda>root. target = root \<or> starts_with (root @ ''/'') target) (safe_roots w) then (Val (), w)
         else (Err (JsError (''unsafe target: '' @ absPath
           @ '' does not resolve under ~/.claude, ~/.codex, ~/.cursor, ~/.gemini, or the Claude Desktop config dir'') None), w)))"

section \<open>Reading\<close>

definition code_in :: "js_error \<Rightarrow> string list \<Rightarrow> bool" where
  "code_in e codes \<longleftrightarrow> (case err_code e of Some c \<Rightarrow> c \<in> set codes | None \<Rightarrow> False)"

definition missing_dir_ok :: "js_error \<Rightarrow> (string \<times> node) list prog" where
  "missing_dir_ok e = (if code_in e [''ENOENT'', ''ENOTDIR''] then ret [] else throwP e)"

definition listJsonFiles :: "string \<Rightarrow> string list prog" where
  "listJsonFiles dir =
     bindP (tryP (read_dir dir) missing_dir_ok) (\<lambda>entries.
     getsP (\<lambda>w. map (\<lambda>(n, k). path_resolve2 (w_cwd w) dir n)
       (filter (\<lambda>(n, k). (case k of File c \<Rightarrow> True | Dir \<Rightarrow> False) \<and> ends_with ''.json'' n) entries)))"

definition listExtensionBundleManifests :: "string \<Rightarrow> string list prog" where
  "listExtensionBundleManifests bundlesDir =
     bindP (tryP (read_dir bundlesDir) missing_dir_ok) (\<lambda>entries.
     getsP (\<lambda>w.
       filter (\<lambda>p. case node_at w p of Some (File c) \<Rightarrow> w_denied w (fs_key w p) = None | _ \<Rightarrow> False)
         (map (\<lambda>(n, k). path_resolve2 (w_cwd w) (path_resolve2 (w_cwd w) bundlesDir n) ''manifest.json'')
           (filter (\<lambda>(n, k). k = Dir) entries))))"

text \<open>A record keyed by path: assigning a key again replaces its value.\<close>

fun readExistingFiles :: "string list \<Rightarrow> (string \<times> string) list \<Rightarrow> (string \<times> string) list prog" where
  "readExistingFiles [] out = ret out"
| "readExistingFiles (p # ps) out =
     bindP (tryP (bindP (read_file p) (\<lambda>s. ret (AList.update p s out)))
              (\<lambda>e. if code_in e [''ENOENT''] then ret out else throwP e))
       (readExistingFiles ps)"

section \<open>Executing a plan\<close>

record file_op =
  op_kind :: string
  op_path :: string
  op_content :: "string option"
  op_backup :: "string option"

record executed_write =
  ew_path :: string
  ew_backup :: "string option"
  ew_existing :: bool

definition ignore_enoent :: "'a \<Rightarrow> js_error \<Rightarrow> 'a prog" where
  "ignore_enoent x e = (if code_in e [''ENOENT''] then ret x else throwP e)"

text \<open>The copy of the current bytes, when a backup path is given: whether there was a file.\<close>

definition backup_current :: "file_op \<Rightarrow> bool prog" where
  "backup_current x =
     (if str_truthy (op_backup x) then
        tryP (bindP (read_file (op_path x)) (\<lambda>cur. thenP (write_file (the (op_backup x)) cur) (ret True))) (ignore_enoent False)
      else ret False)"

definition tmp_of :: "string \<Rightarrow> string" where
  "tmp_of p = p @ ''.agentlock-tmp''"

definition write_op :: "file_op \<Rightarrow> executed_write prog" where
  "write_op x =
     thenP (mkdir_p (path_dirname (op_path x)))
     (bindP (backup_current x) (\<lambda>had.
      thenP (write_file (tmp_of (op_path x)) (case op_content x of Some c \<Rightarrow> c | None \<Rightarrow> ''''))
     (thenP (rename_file (tmp_of (op_path x)) (op_path x))
      (ret \<lparr>ew_path = op_path x, ew_backup = op_backup x, ew_existing = had\<rparr>))))"

text \<open>
  One operation, then the rest. The completed writes are carried along, so that a failure anywhere
  below rolls back exactly the writes done so far, newest first, and is thrown on.
\<close>

definition restore_write :: "executed_write \<Rightarrow> unit prog" where
  "restore_write x =
     tryP (if ew_existing x \<and> str_truthy (ew_backup x) then
             bindP (read_file (the (ew_backup x))) (write_file (ew_path x))
           else if \<not> ew_existing x then unlink (ew_path x)
           else ret ()) (\<lambda>_. ret ())"

definition rollback :: "executed_write list \<Rightarrow> js_error \<Rightarrow> unit prog" where
  "rollback completed e = thenP (eachP restore_write (rev completed)) (throwP e)"

definition step_op :: "file_op \<Rightarrow> executed_write list \<Rightarrow> executed_write list prog" where
  "step_op x completed =
     (if op_kind x = ''skip'' then ret completed
      else if op_kind x = ''remove'' then thenP (tryP (unlink (op_path x)) (ignore_enoent ())) (ret completed)
      else if op_kind x = ''write'' then bindP (write_op x) (\<lambda>ew. ret (completed @ [ew]))
      else throw_msg (''unsupported op kind: '' @ op_kind x))"

text \<open>The loop stops at the first operation that throws, with the writes completed before it.\<close>

fun run_ops :: "file_op list \<Rightarrow> executed_write list \<Rightarrow> (executed_write list \<times> js_error option) prog" where
  "run_ops [] completed = ret (completed, None)"
| "run_ops (x # xs) completed =
     bindP (tryP (bindP (step_op x completed) (\<lambda>done. ret (Inr done))) (\<lambda>e. ret (Inl e))) (\<lambda>r.
       case r of Inr done \<Rightarrow> run_ops xs done | Inl e \<Rightarrow> ret (completed, Some e))"

definition executeFileOps :: "file_op list \<Rightarrow> unit prog" where
  "executeFileOps ops =
     bindP (run_ops ops []) (\<lambda>(completed, e). case e of None \<Rightarrow> ret () | Some err \<Rightarrow> rollback completed err)"

section \<open>Uninstall\<close>

record uninstall_op =
  un_kind :: string
  un_path :: string
  un_content :: "string option"
  un_error :: "string option"

definition uninstall_step :: "uninstall_op \<Rightarrow> unit prog" where
  "uninstall_step x =
     (if str_truthy (un_error x) then ret ()
      else if un_kind x = ''skip'' then ret ()
      else if un_kind x = ''remove'' then tryP (unlink (un_path x)) (ignore_enoent ())
      else if un_kind x = ''strip'' then
        (if \<not> str_truthy (un_content x) then ret ()
         else thenP (write_file (tmp_of (un_path x)) (the (un_content x))) (rename_file (tmp_of (un_path x)) (un_path x)))
      else ret ())"

definition executeUninstallOps :: "uninstall_op list \<Rightarrow> unit prog" where
  "executeUninstallOps ops = eachP uninstall_step ops"

section \<open>The safety check decides containment\<close>

lemma key_of_append: "a \<noteq> [] \<Longrightarrow> b \<noteq> [] \<Longrightarrow> key_of (a @ b) = key_of a @ ''/'' @ join ''/'' b"
proof (induction a)
  case (Cons x a)
  then show ?case by (cases "a = []") (auto simp: key_of_def join_Cons)
qed simp

definition good_segs :: "string list \<Rightarrow> bool" where
  "good_segs a \<longleftrightarrow> list_all clean_seg a \<and> (\<forall>s \<in> set a. CHR ''/'' \<notin> set s)"

lemma good_path_segs: "good_segs (path_segs cwd p)"
  using path_segs_clean by (fastforce simp: good_segs_def list_all_iff clean_seg_def)

lemma split_key_of: "good_segs a \<Longrightarrow> a \<noteq> [] \<Longrightarrow> split_on CHR ''/'' (key_of a) = [] # a"
  using split_join [of a "CHR ''/''"] by (simp add: key_of_def good_segs_def)

text \<open>On resolved paths the string test is the prefix test on components.\<close>

lemma under_root_iff:
  assumes "good_segs a" "a \<noteq> []" "good_segs b"
  shows "key_of b = key_of a \<or> starts_with (key_of a @ ''/'') (key_of b) \<longleftrightarrow> (\<exists>rest. b = a @ rest)"
proof
  assume "key_of b = key_of a \<or> starts_with (key_of a @ ''/'') (key_of b)"
  then show "\<exists>rest. b = a @ rest"
  proof
    assume "key_of b = key_of a"
    then have "b = a"
      using assms by (metis good_segs_def key_of_inject)
    then show ?thesis by simp
  next
    assume "starts_with (key_of a @ ''/'') (key_of b)"
    then obtain t where t: "key_of b = key_of a @ CHR ''/'' # t" by (auto simp: starts_with_iff)
    have "b \<noteq> []"
    proof
      assume "b = []"
      with t show False by (simp add: key_of_def)
    qed
    with t split_key_of [OF assms(3)] split_key_of [OF assms(1,2)]
    have "[] # b = [] # a @ split_on CHR ''/'' t" by (simp add: split_on_append)
    then show ?thesis by simp
  qed
next
  assume "\<exists>rest. b = a @ rest"
  then obtain rest where b: "b = a @ rest" by blast
  show "key_of b = key_of a \<or> starts_with (key_of a @ ''/'') (key_of b)"
  proof (cases "rest = []")
    case False
    have "key_of b = (key_of a @ ''/'') @ join ''/'' rest" using b assms(2) False by (simp add: key_of_append)
    then show ?thesis by (metis starts_with_append)
  qed (simp add: b)
qed

lemma path_resolve_key: "path_resolve cwd p = key_of (path_segs cwd p)"
  by (simp add: path_resolve_def key_of_def)

lemma segs_of_key: "good_segs a \<Longrightarrow> path_segs cwd (key_of a) = a"
  using key_of_segs [of a] by (simp add: good_segs_def path_segs_def starts_with_def key_of_def dir_segs_def)

lemma path_segs_rel:
  assumes "clean_seg d" "CHR ''/'' \<notin> set d" "good_segs a"
  shows "path_segs (key_of a) d = a @ [d]"
proof -
  have "\<not> starts_with ''/'' d" using assms(1,2) by (cases d) (auto simp: starts_with_def clean_seg_def)
  then have "path_segs (key_of a) d = norm_segs True [] (split_on CHR ''/'' (key_of a @ ''/'' @ d))" by (simp add: path_segs_def)
  also have "\<dots> = dir_segs (key_of a) @ [d]"
    using assms(1,2) by (simp add: split_on_append split_on_no_sep norm_segs_append norm_segs_name dir_segs_def)
  also have "dir_segs (key_of a) = a" using assms(3) key_of_segs [of a] by (simp add: good_segs_def)
  finally show ?thesis .
qed

lemma resolve2_key:
  assumes "clean_seg d" "CHR ''/'' \<notin> set d"
  shows "path_resolve2 cwd h d = key_of (path_segs cwd h @ [d])" and "good_segs (path_segs cwd h @ [d])"
proof -
  show "path_resolve2 cwd h d = key_of (path_segs cwd h @ [d])"
    using path_segs_rel [OF assms good_path_segs] by (simp add: path_resolve2_def path_resolve_key)
  show "good_segs (path_segs cwd h @ [d])"
    using good_path_segs [of cwd h] assms by (simp add: good_segs_def)
qed

text \<open>The directories, as components, under which a target is safe.\<close>

definition safe_dirs :: "world \<Rightarrow> string list list" where
  "safe_dirs w =
     (let h = path_segs (w_cwd w) (w_home w) in
      [h @ [''.claude''], h @ [''.codex''], h @ [''.cursor''], h @ [''.gemini'']] @
      (if w_platform w = Darwin then [h @ [''Library'', ''Application Support'', ''Claude'']]
       else if w_platform w = Win32 then
         (case w_env w ''APPDATA'' of Some a \<Rightarrow> if a = [] then [] else [path_segs (w_cwd w) a @ [''Claude'']] | None \<Rightarrow> []) @
         [h @ [''AppData'', ''Roaming'', ''Claude'']]
       else [h @ [''.config'', ''Claude'']]))"

definition name_ok :: "string \<Rightarrow> bool" where
  "name_ok d \<longleftrightarrow> clean_seg d \<and> CHR ''/'' \<notin> set d"

lemma resolve_one: "name_ok d \<Longrightarrow> path_resolve2 cwd h d = key_of (path_segs cwd h @ [d])"
  by (rule resolve2_key(1)) (simp_all add: name_ok_def)

lemma segs_one: "name_ok d \<Longrightarrow> path_segs cwd (path_resolve2 c h d) = path_segs c h @ [d]"
  using segs_of_key resolve2_key [of d c h] by (simp add: name_ok_def)

lemma resolve_two: "name_ok d \<Longrightarrow> name_ok e \<Longrightarrow> path_resolve2 cwd (path_resolve2 cwd h d) e = key_of (path_segs cwd h @ [d, e])"
  by (simp add: resolve_one [of e] segs_one)

lemma segs_two: "name_ok d \<Longrightarrow> name_ok e \<Longrightarrow> path_segs cwd (path_resolve2 c (path_resolve2 c h d) e) = path_segs c h @ [d, e]"
  by (simp add: segs_one)

lemma resolve_three:
  "name_ok d \<Longrightarrow> name_ok e \<Longrightarrow> name_ok f \<Longrightarrow>
     path_resolve2 cwd (path_resolve2 cwd (path_resolve2 cwd h d) e) f = key_of (path_segs cwd h @ [d, e, f])"
  by (simp add: resolve_one [of f] segs_two)

lemma names_ok:
  "name_ok ''.claude''" "name_ok ''.codex''" "name_ok ''.cursor''" "name_ok ''.gemini''" "name_ok ''Library''"
  "name_ok ''Application Support''" "name_ok ''Claude''" "name_ok ''AppData''" "name_ok ''Roaming''" "name_ok ''.config''"
  by (simp_all add: name_ok_def clean_seg_def)

lemma safe_roots_dirs: "safe_roots w = map key_of (safe_dirs w)"
proof -
  have app: "(case x of Some a \<Rightarrow> if a = [] then [] else [path_resolve2 (w_cwd w) a ''Claude''] | None \<Rightarrow> []) =
      map key_of (case x of Some a \<Rightarrow> if a = [] then [] else [path_segs (w_cwd w) a @ [''Claude'']] | None \<Rightarrow> [])" for x
    by (simp add: resolve_one [OF names_ok(7)] split: option.split)
  show ?thesis
    unfolding safe_roots_def safe_dirs_def Let_def app
    unfolding resolve_three [OF names_ok(5,6,7)] resolve_three [OF names_ok(8,9,7)] resolve_two [OF names_ok(10,7)]
    by (simp add: resolve_one [OF names_ok(1)] resolve_one [OF names_ok(2)] resolve_one [OF names_ok(3)] resolve_one [OF names_ok(4)])
qed

lemma safe_dirs_good: "d \<in> set (safe_dirs w) \<Longrightarrow> good_segs d \<and> d \<noteq> []"
  using good_path_segs
  by (auto simp: safe_dirs_def Let_def good_segs_def clean_seg_def split: if_splits option.splits)

lemma safe_target_dirs:
  "snd (checkSafeTarget p False w) = w \<and>
   (fst (checkSafeTarget p False w) = Val () \<longleftrightarrow> (\<exists>d \<in> set (safe_dirs w). \<exists>rest. path_segs (w_cwd w) p = d @ rest))"
proof -
  have each: "(path_resolve (w_cwd w) p = key_of d \<or> starts_with (key_of d @ ''/'') (path_resolve (w_cwd w) p))
      = (\<exists>rest. path_segs (w_cwd w) p = d @ rest)" if "d \<in> set (safe_dirs w)" for d
    unfolding path_resolve_key using safe_dirs_good [OF that] good_path_segs by (intro under_root_iff) auto
  have "list_ex (\<lambda>root. path_resolve (w_cwd w) p = root \<or> starts_with (root @ ''/'') (path_resolve (w_cwd w) p)) (safe_roots w)
      \<longleftrightarrow> (\<exists>d \<in> set (safe_dirs w). path_resolve (w_cwd w) p = key_of d \<or> starts_with (key_of d @ ''/'') (path_resolve (w_cwd w) p))"
    by (simp only: safe_roots_dirs list_ex_iff set_map bex_simps)
  also have "\<dots> \<longleftrightarrow> (\<exists>d \<in> set (safe_dirs w). \<exists>rest. path_segs (w_cwd w) p = d @ rest)"
    by (rule bex_cong [OF refl each])
  finally have "list_ex (\<lambda>root. path_resolve (w_cwd w) p = root \<or> starts_with (root @ ''/'') (path_resolve (w_cwd w) p)) (safe_roots w)
      \<longleftrightarrow> (\<exists>d \<in> set (safe_dirs w). \<exists>rest. path_segs (w_cwd w) p = d @ rest)" .
  then show ?thesis by (simp add: checkSafeTarget_def Let_def)
qed

text \<open>C10. The safety check accepts exactly the targets that lie, after resolving every dot segment, in or below one of the harness
  directories of the home directory (or Claude Desktop's): no prefix of a directory name, no detour through \<open>..\<close> and no relative
  path gets past it; and it changes nothing.\<close>

theorem safe_target_iff:
  "snd (checkSafeTarget p False w) = w \<and>
   (fst (checkSafeTarget p False w) = Val () \<longleftrightarrow> (\<exists>d \<in> set (safe_dirs w). \<exists>rest. path_segs (w_cwd w) p = d @ rest))"
  by (rule safe_target_dirs)

section \<open>The files an operation touches\<close>

definition kfile :: "world \<Rightarrow> string \<Rightarrow> string option" where
  "kfile w k = (case map_of (w_tree w) k of Some (File c) \<Rightarrow> Some c | _ \<Rightarrow> None)"

text \<open>A program that changes files of \<open>ks\<close> only, and neither the working directory nor the permissions.\<close>

definition touches :: "string set \<Rightarrow> world \<Rightarrow> world \<Rightarrow> bool" where
  "touches ks w w' \<longleftrightarrow> w_cwd w' = w_cwd w \<and> w_denied w' = w_denied w \<and> (\<forall>k. k \<notin> ks \<longrightarrow> kfile w' k = kfile w k) \<and>
     (\<forall>k. map_of (w_tree w) k = Some Dir \<longrightarrow> map_of (w_tree w') k = Some Dir)"

lemma touches_refl [simp]: "touches ks w w"
  by (simp add: touches_def)

lemma touches_trans: "touches a w w1 \<Longrightarrow> touches b w1 w2 \<Longrightarrow> a \<union> b \<subseteq> ks \<Longrightarrow> touches ks w w2"
  unfolding touches_def by (simp add: subset_iff) metis

lemma touches_mono: "touches a w w' \<Longrightarrow> a \<subseteq> b \<Longrightarrow> touches b w w'"
  by (auto simp: touches_def)

lemma touches_key: "touches ks w w' \<Longrightarrow> fs_key w' p = fs_key w p"
  by (simp add: touches_def fs_key_def)

lemma kfile_put: "kfile (put_node k (File c) w) q = (if q = k then Some c else kfile w q)"
  by (simp add: kfile_def put_node_def)

lemma kfile_del: "kfile (del_node k w) q = (if q = k then None else kfile w q)"
  by (simp add: kfile_def del_node_def)

lemma kfile_dir: "map_of (w_tree w) k = None \<or> map_of (w_tree w) k = Some Dir \<Longrightarrow> kfile (put_node k Dir w) q = kfile w q"
  by (auto simp: kfile_def put_node_def)

lemma write_touches:
  "write_file p c w = (r, w') \<Longrightarrow>
     touches {fs_key w p} w w' \<and> (r = Val () \<longrightarrow> kfile w' (fs_key w p) = Some c) \<and> (r \<noteq> Val () \<longrightarrow> w' = w)"
  by (auto simp: write_file_def touches_def put_node_def kfile_def node_at_def split: option.splits if_splits node.splits)

lemma unlink_touches:
  "unlink p w = (r, w') \<Longrightarrow>
     touches {fs_key w p} w w' \<and> (r = Val () \<longrightarrow> kfile w' (fs_key w p) = None) \<and> (r \<noteq> Val () \<longrightarrow> w' = w)"
  by (auto simp: unlink_def touches_def del_node_def kfile_def node_at_def split: option.splits if_splits node.splits)

lemma rename_touches:
  "rename_file p q w = (r, w') \<Longrightarrow>
     touches {fs_key w p, fs_key w q} w w' \<and> (r = Val () \<longrightarrow> kfile w' (fs_key w q) = kfile w (fs_key w p)) \<and> (r \<noteq> Val () \<longrightarrow> w' = w)"
  by (auto simp: rename_file_def touches_def del_node_def put_node_def kfile_def node_at_def split: option.splits if_splits node.splits)

lemma read_same: "read_file p w = (r, w') \<Longrightarrow> w' = w"
  by (auto simp: read_file_def split: option.splits node.splits)

lemma read_kfile: "read_file p w = (Val c, w') \<Longrightarrow> kfile w (fs_key w p) = Some c"
  by (auto simp: read_file_def kfile_def node_at_def split: option.splits node.splits if_splits)

lemma puts_touch:
  "(\<forall>k \<in> set ks. \<forall>c. map_of (w_tree w) k \<noteq> Some (File c)) \<Longrightarrow> touches {} w (foldl (\<lambda>u k. put_node k Dir u) w ks)"
proof (induction ks arbitrary: w)
  case (Cons k ks)
  have nf: "map_of (w_tree w) k = None \<or> map_of (w_tree w) k = Some Dir"
    using Cons.prems by (cases "map_of (w_tree w) k") (auto, metis node.exhaust)
  have "touches {} w (put_node k Dir w)"
    using kfile_dir [OF nf] by (auto simp: touches_def) (simp_all add: put_node_def)
  moreover have "touches {} (put_node k Dir w) (foldl (\<lambda>u k. put_node k Dir u) (put_node k Dir w) ks)"
    by (rule Cons.IH) (use Cons.prems in \<open>auto simp: put_node_def\<close>)
  ultimately show ?case using touches_trans [of "{}" _ _ "{}"] by simp
qed simp

lemma mkdir_touches: "mkdir_p p w = (r, w') \<Longrightarrow> touches {} w w' \<and> (r \<noteq> Val () \<longrightarrow> w' = w)"
proof -
  assume m: "mkdir_p p w = (r, w')"
  show ?thesis
  proof (cases "r = Val ()")
    case True
    with m have "\<not> list_ex (\<lambda>k. case map_of (w_tree w) k of Some (File c) \<Rightarrow> True | _ \<Rightarrow> False) (path_prefixes (path_segs (w_cwd w) p))"
      by (auto simp: mkdir_p_def Let_def split: option.splits if_splits)
    then have "\<forall>k \<in> set (path_prefixes (path_segs (w_cwd w) p)). \<forall>c. map_of (w_tree w) k \<noteq> Some (File c)"
      by (force simp: list_ex_iff)
    from puts_touch [OF this] mkdir_p_Val [of p w "()" w'] m True show ?thesis by simp
  next
    case False
    with m show ?thesis by (auto simp: mkdir_p_def Let_def split: option.splits if_splits)
  qed
qed

text \<open>The keys of an operation: its target, its temporary, its backup.\<close>

definition op_keys :: "world \<Rightarrow> file_op \<Rightarrow> string set" where
  "op_keys w x = {fs_key w (op_path x), fs_key w (tmp_of (op_path x))} \<union> (if str_truthy (op_backup x) then {fs_key w (the (op_backup x))} else {})"

lemma touches_op_keys: "touches ks w w' \<Longrightarrow> op_keys w' x = op_keys w x"
  by (simp add: op_keys_def touches_key)

lemma backup_touches:
  assumes "backup_current x w = (r, w')"
  shows "touches (if str_truthy (op_backup x) then {fs_key w (the (op_backup x))} else {}) w w'"
    and "r = Val True \<Longrightarrow> str_truthy (op_backup x) \<and> kfile w (fs_key w (op_path x)) \<noteq> None \<and>
           kfile w' (fs_key w (the (op_backup x))) = kfile w (fs_key w (op_path x))"
proof -
  obtain r1 w1 where rd: "read_file (op_path x) w = (r1, w1)" by fastforce
  note [simp] = read_same [OF rd]
  define r2 where "r2 c = fst (write_file (the (op_backup x)) c w)" for c
  define w2 where "w2 c = snd (write_file (the (op_backup x)) c w)" for c
  have wr: "write_file (the (op_backup x)) c w = (r2 c, w2 c)" for c by (simp add: r2_def w2_def)
  show "touches (if str_truthy (op_backup x) then {fs_key w (the (op_backup x))} else {}) w w'"
    using assms rd write_touches [OF wr]
    by (cases r1) (auto simp: backup_current_def tryP_def bindP_def thenP_def ret_def throwP_def ignore_enoent_def wr
        split: res.splits if_splits prod.splits)
  assume "r = Val True"
  with assms rd obtain cur where c: "r1 = Val cur" "str_truthy (op_backup x)" "r2 cur = Val ()" "w' = w2 cur"
    by (cases r1) (auto simp: backup_current_def tryP_def bindP_def thenP_def ret_def throwP_def ignore_enoent_def wr
        split: res.splits if_splits prod.splits)
  with rd write_touches [OF wr, of cur] read_kfile [of "op_path x" w cur] show "str_truthy (op_backup x) \<and> kfile w (fs_key w (op_path x)) \<noteq> None \<and>
           kfile w' (fs_key w (the (op_backup x))) = kfile w (fs_key w (op_path x))" by simp
qed

text \<open>Programs all of whose runs touch the keys of a world only.\<close>

definition touching :: "(world \<Rightarrow> string set) \<Rightarrow> 'a prog \<Rightarrow> bool" where
  "touching K m \<longleftrightarrow> (\<forall>w. touches (K w) w (snd (m w)))"

definition stable_keys :: "(world \<Rightarrow> string set) \<Rightarrow> bool" where
  "stable_keys K \<longleftrightarrow> (\<forall>w w' ks. touches ks w w' \<longrightarrow> K w' = K w)"

lemma stableD: "stable_keys K \<Longrightarrow> touches ks w w' \<Longrightarrow> K w' = K w"
  unfolding stable_keys_def by blast

lemma touchingD: "touching K m \<Longrightarrow> m w = (r, w') \<Longrightarrow> touches (K w) w w'"
  by (metis touching_def snd_conv)

lemma touchingI: "(\<And>w r w'. m w = (r, w') \<Longrightarrow> touches (K w) w w') \<Longrightarrow> touching K m"
  by (metis touching_def prod.collapse)

lemma touching_bind:
  assumes "touching K m" "\<And>x. touching K (f x)" "stable_keys K"
  shows "touching K (bindP m f)"
proof (rule touchingI)
  fix w r w' assume "bindP m f w = (r, w')"
  then show "touches (K w) w w'"
  proof (cases rule: bindP_cases)
    case (val x w1)
    have t1: "touches (K w) w w1" by (rule touchingD [OF assms(1) val(1)])
    have t2: "touches (K w1) w1 w'" by (rule touchingD [OF assms(2) val(2)])
    have "K w1 = K w" by (rule stableD [OF assms(3) t1])
    with t1 t2 show ?thesis using touches_trans [OF t1 t2] by simp
  qed (use touchingD [OF assms(1)] in auto)
qed

lemma touching_then: "touching K m \<Longrightarrow> touching K n \<Longrightarrow> stable_keys K \<Longrightarrow> touching K (thenP m n)"
  by (simp add: thenP_def touching_bind)

lemma touching_try:
  assumes "touching K m" "\<And>e. touching K (h e)" "stable_keys K"
  shows "touching K (tryP m h)"
proof (rule touchingI)
  fix w r w' assume t: "tryP m h w = (r, w')"
  obtain r1 w1 where m: "m w = (r1, w1)" by fastforce
  have t1: "touches (K w) w w1" by (rule touchingD [OF assms(1) m])
  have k: "K w1 = K w" by (rule stableD [OF assms(3) t1])
  show "touches (K w) w w'"
  proof (cases r1)
    case (Err e)
    with t m have h: "h e w1 = (r, w')" by (simp add: tryP_def)
    show ?thesis using touches_trans [OF t1 touchingD [OF assms(2) h]] k by simp
  qed (use t m t1 in \<open>simp_all add: tryP_def\<close>)
qed

lemma touching_basic: "touching K (ret x)" "touching K (throwP e)" "touching K (throw_msg m)" "touching K (read_file p)"
  by (auto intro!: touchingI simp: ret_def throwP_def throw_msg_def dest: read_same)

lemma touching_each: "(\<And>x. x \<in> set xs \<Longrightarrow> touching K (f x)) \<Longrightarrow> stable_keys K \<Longrightarrow> touching K (eachP f xs)"
  by (induction xs) (simp_all add: touching_basic touching_then)

lemma stable_op_keys: "stable_keys (\<lambda>w. op_keys w x)"
  by (simp add: stable_keys_def touches_op_keys)

lemma stable_Union: "(\<And>x. x \<in> S \<Longrightarrow> stable_keys (K x)) \<Longrightarrow> stable_keys (\<lambda>w. \<Union>x\<in>S. K x w)"
  by (auto simp: stable_keys_def)

lemma touching_mono: "touching K m \<Longrightarrow> (\<And>w. K w \<subseteq> L w) \<Longrightarrow> touching L m"
  by (auto simp: touching_def intro: touches_mono)

definition plan_keys :: "file_op list \<Rightarrow> world \<Rightarrow> string set" where
  "plan_keys ops w = (\<Union>x\<in>set ops. op_keys w x)"

lemma stable_plan: "stable_keys (plan_keys ops)"
  unfolding plan_keys_def by (rule stable_Union) (rule stable_op_keys)

lemma touching_if: "(b \<Longrightarrow> touching K m) \<Longrightarrow> (\<not> b \<Longrightarrow> touching K n) \<Longrightarrow> touching K (if b then m else n)"
  by simp

lemma touching_files:
  "touching (\<lambda>w. {fs_key w p}) (write_file p c)" "touching (\<lambda>w. {fs_key w p}) (unlink p)"
  "touching (\<lambda>w. {fs_key w p, fs_key w q}) (rename_file p q)" "touching (\<lambda>w. {}) (mkdir_p p)"
  by (rule touchingI, drule write_touches unlink_touches rename_touches mkdir_touches, simp)+

lemma touching_prims:
  "touching (\<lambda>w. op_keys w x) (write_file (tmp_of (op_path x)) c)"
  "touching (\<lambda>w. op_keys w x) (write_file (op_path x) c)"
  "str_truthy (op_backup x) \<Longrightarrow> touching (\<lambda>w. op_keys w x) (write_file (the (op_backup x)) c)"
  "touching (\<lambda>w. op_keys w x) (rename_file (tmp_of (op_path x)) (op_path x))"
  "touching (\<lambda>w. op_keys w x) (unlink (op_path x))"
  "touching (\<lambda>w. op_keys w x) (mkdir_p d)"
  by (rule touching_mono [OF touching_files(1)] touching_mono [OF touching_files(2)] touching_mono [OF touching_files(3)]
      touching_mono [OF touching_files(4)]; simp add: op_keys_def)+

lemmas touching_intros = touching_bind touching_then touching_try touching_if touching_basic touching_prims stable_op_keys

lemma touching_write_op: "touching (\<lambda>w. op_keys w x) (write_op x)"
  unfolding write_op_def backup_current_def ignore_enoent_def by (intro touching_intros)

lemma touching_step: "touching (\<lambda>w. op_keys w x) (step_op x c)"
  unfolding step_op_def ignore_enoent_def by (intro touching_intros touching_write_op)

lemma plan_keys_mem: "x \<in> set ops \<Longrightarrow> op_keys w x \<subseteq> plan_keys ops w"
  by (auto simp: plan_keys_def)

lemma touching_run: "touching (plan_keys ops) (run_ops xs c)" if "set xs \<subseteq> set ops"
  using that
proof (induction xs arbitrary: c)
  case Nil
  then show ?case by (simp add: touching_basic)
next
  case (Cons x xs)
  have st: "touching (plan_keys ops) (step_op x c)"
    by (rule touching_mono [OF touching_step]) (use Cons.prems plan_keys_mem in auto)
  have rest: "touching (plan_keys ops) (case r of Inr ds \<Rightarrow> run_ops xs ds | Inl e \<Rightarrow> ret (c, Some e))" for r
    using Cons by (cases r) (simp_all add: touching_basic)
  show ?case
    unfolding run_ops.simps by (intro touching_bind touching_try touching_basic stable_plan st rest)
qed

text \<open>The writes a run reports as completed are those of its operations.\<close>

definition reports :: "file_op list \<Rightarrow> executed_write list \<Rightarrow> bool" where
  "reports ops c \<longleftrightarrow> (\<forall>ew \<in> set c. \<exists>x \<in> set ops. ew_path ew = op_path x \<and> ew_backup ew = op_backup x)"

lemma step_reports: "step_op x c w = (Val d, w') \<Longrightarrow> reports ops c \<Longrightarrow> x \<in> set ops \<Longrightarrow> reports ops d"
proof -
  assume st: "step_op x c w = (Val d, w')" and rep: "reports ops c" and x: "x \<in> set ops"
  from st have "d = c \<or> (\<exists>ew. d = c @ [ew] \<and> ew_path ew = op_path x \<and> ew_backup ew = op_backup x)"
    by (auto simp: step_op_def write_op_def bindP_Val thenP_Val ret_Val throw_msg_def split: if_splits)
  with rep x show ?thesis unfolding reports_def by auto
qed

lemma run_reports:
  "run_ops xs c w = (Val (d, e), w') \<Longrightarrow> reports ops c \<Longrightarrow> set xs \<subseteq> set ops \<Longrightarrow> reports ops d"
proof (induction xs arbitrary: c w)
  case (Cons x xs)
  obtain r w1 where st: "step_op x c w = (r, w1)" by fastforce
  show ?case
  proof (cases r)
    case (Val ds)
    with st Cons.prems(1) have "run_ops xs ds w1 = (Val (d, e), w')"
      by (simp add: bindP_def tryP_def ret_def)
    with Cons st Val step_reports show ?thesis by simp
  qed (use st Cons.prems in \<open>auto simp: bindP_def tryP_def ret_def\<close>)
qed (simp add: ret_def)

lemma touching_restore:
  assumes "ew_path ew = op_path x" "ew_backup ew = op_backup x" "x \<in> set ops"
  shows "touching (plan_keys ops) (restore_write ew)"
proof -
  have "touching (\<lambda>w. op_keys w x) (restore_write ew)"
    unfolding restore_write_def assms(1,2) by (intro touching_intros)
  then show ?thesis by (rule touching_mono) (use assms(3) plan_keys_mem in auto)
qed

lemma touching_restores: "reports ops c \<Longrightarrow> ew \<in> set c \<Longrightarrow> touching (plan_keys ops) (restore_write ew)"
  unfolding reports_def using touching_restore by blast

lemma executeFileOps_touches: "executeFileOps ops w = (r, w') \<Longrightarrow> touches (plan_keys ops w) w w'"
proof -
  assume "executeFileOps ops w = (r, w')"
  then show ?thesis
    unfolding executeFileOps_def
  proof (cases rule: bindP_cases)
    case (val x w1)
    obtain c e where x: "x = (c, e)" by fastforce
    have t1: "touches (plan_keys ops w) w w1" by (rule touchingD [OF touching_run val(1)]) simp
    have rep: "reports ops c" using run_reports [OF val(1) [unfolded x]] by (simp add: reports_def)
    have "touching (plan_keys ops) (case e of None \<Rightarrow> ret () | Some err \<Rightarrow> rollback c err)"
      unfolding rollback_def
      by (cases e) (auto intro!: touching_then touching_each touching_basic stable_plan touching_restores [OF rep])
    from touchingD [OF this] val(2) x have "touches (plan_keys ops w1) w1 w'" by auto
    moreover have "plan_keys ops w1 = plan_keys ops w" by (rule stableD [OF stable_plan t1])
    ultimately show ?thesis using touches_trans [OF t1] by simp
  qed (use touchingD [OF touching_run [of ops ops]] in auto)
qed

section \<open>What a plan leaves behind\<close>

lemma touches_file_at: "touches ks w w' \<Longrightarrow> fs_key w q \<notin> ks \<Longrightarrow> file_at w' q = file_at w q"
proof -
  assume t: "touches ks w w'" and q: "fs_key w q \<notin> ks"
  have v: "file_at u q = (if fs_key u q = ''/'' \<or> w_denied u (fs_key u q) \<noteq> None then None else kfile u (fs_key u q))" for u
    by (simp add: file_at_def node_at_def kfile_def split: option.split node.split)
  have "kfile w' (fs_key w q) = kfile w (fs_key w q)" using t q by (simp add: touches_def)
  then show ?thesis using t by (auto simp add: v touches_key [OF t]) (auto simp: touches_def)
qed

text \<open>C11. An install touches only what the plan names: whatever the outcome (success, failure with rollback), every file outside the
  plan's targets, their temporaries and their backups is as it was.\<close>

theorem install_frame:
  assumes "executeFileOps ops w = (r, w')" and "\<forall>x \<in> set ops. fs_key w q \<notin> op_keys w x"
  shows "file_at w' q = file_at w q"
  using touches_file_at [OF executeFileOps_touches [OF assms(1)]] assms(2) by (simp add: plan_keys_def)

abbreviation pkey :: "world \<Rightarrow> file_op \<Rightarrow> string" where "pkey w x \<equiv> fs_key w (op_path x)"

abbreviation bkey :: "world \<Rightarrow> file_op \<Rightarrow> string" where "bkey w x \<equiv> fs_key w (the (op_backup x))"

text \<open>Targets, temporaries and backups of the plan are pairwise different files.\<close>

definition op_key_list :: "world \<Rightarrow> file_op \<Rightarrow> string list" where
  "op_key_list w x = [pkey w x, fs_key w (tmp_of (op_path x))] @ (if str_truthy (op_backup x) then [bkey w x] else [])"

definition separate :: "world \<Rightarrow> file_op list \<Rightarrow> bool" where
  "separate w ops \<longleftrightarrow> distinct (concat (map (op_key_list w) ops))"

lemma op_key_list_set: "set (op_key_list w x) = op_keys w x"
  by (auto simp: op_key_list_def op_keys_def)

lemma separate_Cons: "separate w (x # xs) \<longleftrightarrow> distinct (op_key_list w x) \<and> separate w xs \<and> op_keys w x \<inter> plan_keys xs w = {}"
  by (auto simp: separate_def plan_keys_def op_key_list_set [symmetric])

text \<open>What a completed write left, relative to the world \<open>w0\<close> before the plan.\<close>

definition op_text :: "file_op \<Rightarrow> string" where
  "op_text x = (case op_content x of Some c \<Rightarrow> c | None \<Rightarrow> '''')"

definition recoverable :: "world \<Rightarrow> file_op \<Rightarrow> bool" where
  "recoverable w x \<longleftrightarrow>
     pkey w x \<noteq> ''/'' \<and> w_denied w (pkey w x) = None \<and>
     (if str_truthy (op_backup x) then bkey w x \<noteq> ''/'' \<and> w_denied w (bkey w x) = None \<and> node_at w (path_dirname (bkey w x)) = Some Dir
      else kfile w (pkey w x) = None)"

definition written :: "world \<Rightarrow> world \<Rightarrow> file_op \<Rightarrow> executed_write \<Rightarrow> bool" where
  "written w0 w x ew \<longleftrightarrow>
     ew_path ew = op_path x \<and> ew_backup ew = op_backup x \<and> kfile w (pkey w0 x) = Some (op_text x) \<and>
     (if ew_existing ew then str_truthy (op_backup x) \<and> kfile w0 (pkey w0 x) \<noteq> None \<and> kfile w (bkey w0 x) = kfile w0 (pkey w0 x)
      else recoverable w0 x \<longrightarrow> kfile w0 (pkey w0 x) = None)"

lemma write_op_Val:
  assumes "write_op x w = (Val ew, w')"
  obtains w1 w2 w3 where "mkdir_p (path_dirname (op_path x)) w = (Val (), w1)" "backup_current x w1 = (Val (ew_existing ew), w2)"
    "write_file (tmp_of (op_path x)) (op_text x) w2 = (Val (), w3)" "rename_file (tmp_of (op_path x)) (op_path x) w3 = (Val (), w')"
    "ew_path ew = op_path x" "ew_backup ew = op_backup x"
  using assms unfolding write_op_def op_text_def by (auto simp: thenP_Val bindP_Val ret_Val)

lemma node_dir_touch: "touches ks w w' \<Longrightarrow> node_at w q = Some Dir \<Longrightarrow> node_at w' q = Some Dir"
  by (auto simp: node_at_def touches_key touches_def fs_key_def split: if_splits)

lemma backup_False:
  assumes "backup_current x w = (Val False, w')" "str_truthy (op_backup x)" "w_denied w (pkey w x) = None"
    "w_denied w (bkey w x) = None" "node_at w (path_dirname (bkey w x)) = Some Dir"
  shows "kfile w (pkey w x) = None"
proof (cases "node_at w (op_path x)")
  case None
  then show ?thesis by (auto simp: kfile_def node_at_def split: if_splits)
next
  case (Some n)
  show ?thesis
  proof (cases n)
    case Dir
    with Some show ?thesis
      using assms(1,2,3)
      by (auto simp: backup_current_def tryP_def bindP_def read_file_def ignore_enoent_def code_in_def fs_err_def throwP_def)
  next
    case (File c)
    with Some have rd: "read_file (op_path x) w = (Val c, w)" using assms(3) by (simp add: read_file_def)
    have "fst (write_file (the (op_backup x)) c w) = Val () \<or> (\<exists>e. fst (write_file (the (op_backup x)) c w) = Err e \<and> \<not> code_in e [''ENOENT''])"
      using assms(4,5) by (simp add: write_file_def code_in_def fs_err_def)
    then show ?thesis
      using assms(1,2) rd
      by (cases "write_file (the (op_backup x)) c w")
        (auto simp: backup_current_def tryP_def bindP_def thenP_def ret_def ignore_enoent_def throwP_def)
  qed
qed

lemma write_op_written:
  assumes "write_op x w = (Val ew, w')" "distinct (op_key_list w x)"
  shows "written w w' x ew"
  using assms(1)
proof (rule write_op_Val)
  fix w1 w2 w3
  assume m: "mkdir_p (path_dirname (op_path x)) w = (Val (), w1)" and b: "backup_current x w1 = (Val (ew_existing ew), w2)"
    and wr: "write_file (tmp_of (op_path x)) (op_text x) w2 = (Val (), w3)"
    and rn: "rename_file (tmp_of (op_path x)) (op_path x) w3 = (Val (), w')"
    and ew: "ew_path ew = op_path x" "ew_backup ew = op_backup x"
  note T1 = mkdir_touches [OF m, THEN conjunct1] and B = backup_touches [OF b] and W = write_touches [OF wr] and R = rename_touches [OF rn]
  have K1: "fs_key w1 q = fs_key w q" and K2: "fs_key w2 q = fs_key w q" and K3: "fs_key w3 q = fs_key w q" for q
    using touches_key [OF T1] touches_key [OF B(1)] touches_key [OF W [THEN conjunct1]] by simp_all
  have P: "kfile w' (pkey w x) = Some (op_text x)" using W R by (simp add: K2 K3)
  have same1: "kfile w1 k = kfile w k" for k using T1 by (simp add: touches_def)
  show ?thesis
  proof (cases "ew_existing ew")
    case True
    with B(2) have "str_truthy (op_backup x)" "kfile w (pkey w x) \<noteq> None" "kfile w2 (bkey w x) = kfile w (pkey w x)"
      by (simp_all add: K1 same1)
    moreover have "kfile w' (bkey w x) = kfile w2 (bkey w x)"
      using W R assms(2) \<open>str_truthy (op_backup x)\<close> by (auto simp: touches_def K2 K3 op_key_list_def)
    ultimately show ?thesis using P ew True by (simp add: written_def)
  next
    case False
    have "kfile w (pkey w x) = None" if r: "recoverable w x"
    proof (cases "str_truthy (op_backup x)")
      case True
      have den: "w_denied w1 = w_denied w" using T1 by (simp add: touches_def)
      show ?thesis
        using backup_False [of x w1 w2] b False True r node_dir_touch [OF T1]
        by (simp add: recoverable_def K1 den same1)
    qed (use r in \<open>simp add: recoverable_def\<close>)
    with P ew False show ?thesis by (simp add: written_def)
  qed
qed

text \<open>A write that fails leaves its target alone.\<close>

lemma write_op_fails:
  assumes "write_op x w = (r, w')" "\<forall>ew. r \<noteq> Val ew" "distinct (op_key_list w x)"
  shows "kfile w' (pkey w x) = kfile w (pkey w x)"
proof -
  obtain r1 w1 where m: "mkdir_p (path_dirname (op_path x)) w = (r1, w1)" by fastforce
  note T1 = mkdir_touches [OF m, THEN conjunct1]
  obtain r2 w2 where b: "backup_current x w1 = (r2, w2)" by fastforce
  note B = backup_touches(1) [OF b]
  obtain r3 w3 where wr: "write_file (tmp_of (op_path x)) (op_text x) w2 = (r3, w3)" by fastforce
  obtain r4 w4 where rn: "rename_file (tmp_of (op_path x)) (op_path x) w3 = (r4, w4)" by fastforce
  note W = write_touches [OF wr] and R = rename_touches [OF rn]
  have K: "fs_key w1 q = fs_key w q" "fs_key w2 q = fs_key w q" "fs_key w3 q = fs_key w q" for q
    using touches_key [OF T1] touches_key [OF B] touches_key [OF W [THEN conjunct1]] by simp_all
  have e1: "kfile w1 (pkey w x) = kfile w (pkey w x)" using T1 by (simp add: touches_def)
  have e2: "kfile w2 (pkey w x) = kfile w1 (pkey w x)" using B assms(3) by (auto simp: touches_def K op_key_list_def split: if_splits)
  have e3: "kfile w3 (pkey w x) = kfile w2 (pkey w x)" using W assms(3) by (auto simp: touches_def K op_key_list_def)
  have e4: "r4 \<noteq> Val () \<Longrightarrow> w4 = w3" using R by simp
  have "w' \<in> {w1, w2, w3} \<or> (w' = w4 \<and> r4 \<noteq> Val ())"
    using assms(1,2) m b wr rn unfolding write_op_def op_text_def
    by (cases r1; cases r2; cases r3; cases r4) (auto simp: thenP_def bindP_def ret_def)
  with e1 e2 e3 e4 show ?thesis by auto
qed

subsection \<open>All or nothing\<close>

definition writes :: "file_op list \<Rightarrow> file_op list" where
  "writes ops = filter (\<lambda>x. op_kind x = ''write'') ops"

definition done_writes :: "world \<Rightarrow> world \<Rightarrow> file_op list \<Rightarrow> executed_write list \<Rightarrow> bool" where
  "done_writes w0 w xs ews \<longleftrightarrow> list_all2 (written w0 w) (writes xs) ews"

lemma written_later:
  assumes "written w0 w x ew" "touches ks w w'" "op_keys w0 x \<inter> ks = {}"
  shows "written w0 w' x ew"
proof -
  have P: "kfile w' (pkey w0 x) = kfile w (pkey w0 x)" using assms(2,3) by (auto simp: touches_def op_keys_def)
  have B: "kfile w' (bkey w0 x) = kfile w (bkey w0 x)" if "str_truthy (op_backup x)"
    using assms(2,3) that by (auto simp: touches_def op_keys_def)
  show ?thesis using assms(1) P B by (auto simp: written_def split: if_splits)
qed

lemma recoverable_touch:
  assumes "recoverable w x" "touches ks w w'" "op_keys w x \<inter> ks = {}"
  shows "recoverable w' x"
proof -
  have "kfile w' (pkey w x) = kfile w (pkey w x)" using assms(2,3) by (auto simp: touches_def op_keys_def)
  then show ?thesis
    using assms(1) node_dir_touch [OF assms(2)] assms(2) by (auto simp: recoverable_def touches_key [OF assms(2)] touches_def split: if_splits)
qed

lemma written_earlier:
  assumes "written w1 w' x ew" "touches ks w w1" "op_keys w x \<inter> ks = {}"
  shows "written w w' x ew"
proof -
  have P: "kfile w1 (pkey w x) = kfile w (pkey w x)" using assms(2,3) by (auto simp: touches_def op_keys_def)
  show ?thesis
    using assms(1) P recoverable_touch [OF _ assms(2,3)] by (auto simp: written_def touches_key [OF assms(2)] split: if_splits)
qed

lemma separate_touch: "touches ks w w' \<Longrightarrow> separate w' xs = separate w xs"
proof -
  assume "touches ks w w'"
  then have "op_key_list w' = op_key_list w" by (intro ext) (simp add: op_key_list_def touches_key)
  then show ?thesis by (simp add: separate_def)
qed

lemma plan_keys_Cons: "plan_keys (x # xs) w = op_keys w x \<union> plan_keys xs w"
  by (simp add: plan_keys_def)

text \<open>Where a run stops: the completed writes are those of a prefix, and every target after it is untouched.\<close>

lemma run_state:
  assumes "run_ops xs c w = (Val (d, e), w')" "separate w xs" "\<forall>x \<in> set xs. op_kind x \<noteq> ''remove''"
  shows "\<exists>ds ys zs. d = c @ ds \<and> xs = ys @ zs \<and> done_writes w w' ys ds \<and> (e = None \<longrightarrow> zs = []) \<and>
    (\<forall>x \<in> set zs. kfile w' (pkey w x) = kfile w (pkey w x))"
  using assms
proof (induction xs arbitrary: c w)
  case Nil
  then show ?case by (simp add: ret_def done_writes_def writes_def)
next
  case (Cons x xs)
  obtain r w1 where st: "step_op x c w = (r, w1)" by fastforce
  note T = touchingD [OF touching_step st]
  have sep: "distinct (op_key_list w x)" "separate w xs" "op_keys w x \<inter> plan_keys xs w = {}"
    using Cons.prems(2) by (simp_all add: separate_Cons)
  have disj: "op_keys w y \<inter> op_keys w x = {}" if "y \<in> set xs" for y
    using sep(3) plan_keys_mem [OF that, of w] by blast
  show ?case
  proof (cases r)
    case (Val cs)
    with st Cons.prems(1) have run: "run_ops xs cs w1 = (Val (d, e), w')" by (simp add: bindP_def tryP_def ret_def)
    have "separate w1 xs" using sep(2) by (simp add: separate_touch [OF T])
    from Cons.IH [OF run this] Cons.prems(3) obtain ds ys zs where ih: "d = cs @ ds" "xs = ys @ zs" "done_writes w1 w' ys ds"
      "e = None \<longrightarrow> zs = []" "\<forall>y \<in> set zs. kfile w' (pkey w1 y) = kfile w1 (pkey w1 y)" by auto
    have T2: "touches (plan_keys xs w) w1 w'"
      using touchingD [OF touching_run [of xs xs] run] stableD [OF stable_plan T, of xs] by simp
    have tail: "done_writes w w' ys ds"
      using ih(3) unfolding done_writes_def
      by (rule list.rel_mono_strong) (use disj ih(2) in \<open>auto simp: writes_def intro!: written_earlier [OF _ T]\<close>)
    have rest: "\<forall>y \<in> set zs. kfile w' (pkey w y) = kfile w (pkey w y)"
    proof
      fix y assume y: "y \<in> set zs"
      have "kfile w1 (pkey w y) = kfile w (pkey w y)"
        using T disj [of y] y ih(2) by (auto simp: touches_def op_keys_def)
      with ih(5) y show "kfile w' (pkey w y) = kfile w (pkey w y)" by (simp add: touches_key [OF T])
    qed
    show ?thesis
    proof (cases "op_kind x = ''write''")
      case True
      with st Val obtain ew where ew: "write_op x w = (Val ew, w1)" "cs = c @ [ew]"
        by (auto simp: step_op_def bindP_Val ret_Val)
      have "written w w' x ew"
        using written_later [OF write_op_written [OF ew(1) sep(1)] T2] sep(3) by simp
      with tail True have "done_writes w w' (x # ys) (ew # ds)" by (simp add: done_writes_def writes_def)
      then show ?thesis using ih(1,2,4) ew(2) rest by (intro exI [of _ "ew # ds"] exI [of _ "x # ys"] exI [of _ zs]) simp
    next
      case False
      with st Val Cons.prems(3) have "cs = c" by (auto simp: step_op_def ret_Val throw_msg_def split: if_splits)
      with tail False have "done_writes w w' (x # ys) ds" by (simp add: done_writes_def writes_def)
      then show ?thesis using ih(1,2,4) \<open>cs = c\<close> rest by (intro exI [of _ ds] exI [of _ "x # ys"] exI [of _ zs]) simp
    qed
  next
    case (Err err)
    with st Cons.prems(1) have d: "d = c" "e = Some err" "w' = w1" by (auto simp: bindP_def tryP_def ret_def)
    have "kfile w1 (pkey w x) = kfile w (pkey w x)"
    proof (cases "op_kind x = ''write''")
      case True
      with st Err have "\<exists>r. write_op x w = (r, w1) \<and> (\<forall>ew. r \<noteq> Val ew)"
        by (cases "write_op x w") (auto simp: step_op_def bindP_def ret_def split: res.splits)
      then show ?thesis using write_op_fails sep(1) by blast
    next
      case False
      with st Err Cons.prems(3) show ?thesis by (auto simp: step_op_def ret_def throw_msg_def split: if_splits)
    qed
    moreover have "kfile w1 (pkey w y) = kfile w (pkey w y)" if "y \<in> set xs" for y
      using T disj [OF that] by (auto simp: touches_def op_keys_def)
    ultimately show ?thesis using d by (intro exI [of _ "[]"] exI [of _ "x # xs"]) (auto simp: done_writes_def writes_def)
  qed (use st Cons.prems(1) in \<open>auto simp: bindP_def tryP_def ret_def\<close>)
qed

text \<open>Every file lies in a directory.\<close>

definition tree_ok :: "world \<Rightarrow> bool" where
  "tree_ok w \<longleftrightarrow> (\<forall>k c. map_of (w_tree w) k = Some (File c) \<longrightarrow> k \<noteq> ''/'' \<and> node_at w (path_dirname k) = Some Dir)"

lemma kfile_Some: "kfile w k = Some c \<longleftrightarrow> map_of (w_tree w) k = Some (File c)"
  by (auto simp: kfile_def split: option.splits node.splits)

lemma restore_one:
  assumes "written w0 w x ew" "recoverable w0 x" "tree_ok w0" "touches ks w0 w"
  shows "\<exists>w'. restore_write ew w = (Val (), w') \<and> touches {pkey w0 x} w w' \<and> kfile w' (pkey w0 x) = kfile w0 (pkey w0 x)"
proof -
  have K: "fs_key w q = fs_key w0 q" for q by (rule touches_key [OF assms(4)])
  have den: "w_denied w = w_denied w0" using assms(4) by (simp add: touches_def)
  have path: "ew_path ew = op_path x" "ew_backup ew = op_backup x" and P: "map_of (w_tree w) (pkey w0 x) = Some (File (op_text x))"
    using assms(1) by (simp_all add: written_def kfile_Some [symmetric])
  have dP: "w_denied w0 (pkey w0 x) = None" and nr: "pkey w0 x \<noteq> ''/''" using assms(2) by (simp_all add: recoverable_def)
  show ?thesis
  proof (cases "ew_existing ew")
    case True
    with assms(1) obtain old where b: "str_truthy (op_backup x)" "kfile w0 (pkey w0 x) = Some old" "kfile w (bkey w0 x) = Some old"
      by (auto simp: written_def)
    from b(1) assms(2) have dB: "w_denied w0 (bkey w0 x) = None" "bkey w0 x \<noteq> ''/''" "node_at w0 (path_dirname (bkey w0 x)) = Some Dir"
      by (simp_all add: recoverable_def)
    from b(3) have mB: "map_of (w_tree w) (bkey w0 x) = Some (File old)" by (simp add: kfile_Some)
    have par: "node_at w (path_dirname (pkey w0 x)) = Some Dir"
      using assms(3) b(2) node_dir_touch [OF assms(4)] by (auto simp: tree_ok_def kfile_Some)
    have rd: "bkey w0 x \<noteq> ''/'' \<Longrightarrow> read_file (the (op_backup x)) w = (Val old, w)"
      using mB dB by (simp add: read_file_def node_at_def K den)
    have wr: "write_file (op_path x) old w = (Val (), put_node (pkey w0 x) (File old) w)"
      using P dP par nr by (simp add: write_file_def node_at_def [of w "op_path x"] K den)
    have "restore_write ew w = (Val (), put_node (pkey w0 x) (File old) w)"
      using True b(1) rd wr dB(2) by (simp add: restore_write_def path tryP_def bindP_def)
    then show ?thesis using write_touches [OF wr] b(2) by (simp add: K)
  next
    case False
    with assms(1,2) have none: "kfile w0 (pkey w0 x) = None" by (simp add: written_def)
    have un: "unlink (op_path x) w = (Val (), del_node (pkey w0 x) w)"
      using P dP nr by (simp add: unlink_def node_at_def K den)
    have "restore_write ew w = (Val (), del_node (pkey w0 x) w)"
      using False un by (simp add: restore_write_def path tryP_def)
    then show ?thesis using unlink_touches [OF un] none by (simp add: K)
  qed
qed

lemma separate_snoc: "separate w (xs @ [x]) \<longleftrightarrow> distinct (op_key_list w x) \<and> separate w xs \<and> op_keys w x \<inter> plan_keys xs w = {}"
  by (auto simp: separate_def plan_keys_def op_key_list_set [symmetric])

lemma eachP_append: "eachP f (xs @ ys) = thenP (eachP f xs) (eachP f ys)"
  by (induction xs) (simp_all add: thenP_def bindP_assoc)

text \<open>Rolling back newest first restores every completed target.\<close>

lemma rollback_restores:
  assumes "list_all2 (written w0 w) xs ews" "\<forall>x \<in> set xs. recoverable w0 x" "tree_ok w0" "touches ks w0 w" "separate w0 xs"
  shows "\<exists>w'. eachP restore_write (rev ews) w = (Val (), w') \<and> touches (\<Union>x \<in> set xs. {pkey w0 x}) w w' \<and>
    (\<forall>x \<in> set xs. kfile w' (pkey w0 x) = kfile w0 (pkey w0 x))"
  using assms
proof (induction xs arbitrary: ews w ks rule: rev_induct)
  case Nil
  then show ?case by (simp add: ret_def)
next
  case (snoc x xs)
  from snoc.prems(1) obtain es ew where e: "ews = es @ [ew]" "list_all2 (written w0 w) xs es" "written w0 w x ew"
    by (auto simp: list_all2_append1 list_all2_Cons1)
  have rx: "recoverable w0 x" using snoc.prems(2) by simp
  from restore_one [OF e(3) rx snoc.prems(3,4)] obtain w1 where
    r1: "restore_write ew w = (Val (), w1)" "touches {pkey w0 x} w w1" "kfile w1 (pkey w0 x) = kfile w0 (pkey w0 x)" by blast
  have sep: "separate w0 xs" "op_keys w0 x \<inter> plan_keys xs w0 = {}" using snoc.prems(5) by (simp_all add: separate_snoc)
  have disj: "op_keys w0 y \<inter> {pkey w0 x} = {}" if "y \<in> set xs" for y
    using sep(2) plan_keys_mem [OF that, of w0] by (auto simp: op_keys_def)
  have l1: "list_all2 (written w0 w1) xs es"
    using e(2) by (rule list.rel_mono_strong) (use disj in \<open>auto intro!: written_later [OF _ r1(2)]\<close>)
  have t1: "touches (ks \<union> {pkey w0 x}) w0 w1" by (rule touches_trans [OF snoc.prems(4) r1(2)]) simp
  from snoc.IH [OF l1 _ snoc.prems(3) t1 sep(1)] snoc.prems(2) obtain w2 where
    r2: "eachP restore_write (rev es) w1 = (Val (), w2)" "touches (\<Union>x \<in> set xs. {pkey w0 x}) w1 w2"
    "\<forall>x \<in> set xs. kfile w2 (pkey w0 x) = kfile w0 (pkey w0 x)" by auto
  have "pkey w0 x \<notin> (\<Union>x \<in> set xs. {pkey w0 x})" using disj by (auto simp: op_keys_def)
  then have "kfile w2 (pkey w0 x) = kfile w0 (pkey w0 x)" using r2(2) r1(3) by (simp add: touches_def)
  moreover have "touches (\<Union>y \<in> set (xs @ [x]). {pkey w0 y}) w w2" by (rule touches_trans [OF r1(2) r2(2)]) auto
  moreover have "eachP restore_write (rev ews) w = (Val (), w2)" using r1(1) r2(1) by (simp add: e(1) run_thenP)
  ultimately show ?case using r2(3) by (intro exI [of _ w2]) auto
qed

lemma separate_writes: "separate w xs \<Longrightarrow> separate w (writes xs)"
proof (induction xs)
  case (Cons x xs)
  have "plan_keys (writes xs) w \<subseteq> plan_keys xs w" by (auto simp: plan_keys_def writes_def)
  with Cons show ?case by (auto simp: separate_Cons writes_def)
qed (simp add: writes_def)

lemma separate_prefix: "separate w (xs @ ys) \<Longrightarrow> separate w xs"
  by (simp add: separate_def)

text \<open>Programs that end with a value or a thrown error.\<close>

definition settles :: "'a prog \<Rightarrow> bool" where
  "settles m \<longleftrightarrow> (\<forall>w. (\<exists>x. fst (m w) = Val x) \<or> (\<exists>e. fst (m w) = Err e))"

lemma settlesE:
  assumes "settles m"
  obtains (val) x w' where "m w = (Val x, w')" | (err) e w' where "m w = (Err e, w')"
  using assms unfolding settles_def by (metis prod.collapse)

lemma settlesI: "(\<And>w. (\<exists>x. fst (m w) = Val x) \<or> (\<exists>e. fst (m w) = Err e)) \<Longrightarrow> settles m"
  by (simp add: settles_def)

lemma settlesD: "settles m \<Longrightarrow> (\<exists>x. fst (m w) = Val x) \<or> (\<exists>e. fst (m w) = Err e)"
  by (simp add: settles_def)

lemma settles_bind:
  assumes "settles m" "\<And>x. settles (f x)"
  shows "settles (bindP m f)"
proof (rule settlesI)
  show "(\<exists>x. fst (bindP m f w) = Val x) \<or> (\<exists>e. fst (bindP m f w) = Err e)" for w
    using assms(1) by (rule settlesE [of m w]) (use settlesD [OF assms(2)] in \<open>simp_all add: bindP_def\<close>)
qed

lemma settles_then: "settles m \<Longrightarrow> settles n \<Longrightarrow> settles (thenP m n)"
  by (simp add: thenP_def settles_bind)

lemma settles_try:
  assumes "settles m" "\<And>e. settles (h e)"
  shows "settles (tryP m h)"
proof (rule settlesI)
  show "(\<exists>x. fst (tryP m h w) = Val x) \<or> (\<exists>e. fst (tryP m h w) = Err e)" for w
    using assms(1) by (rule settlesE [of m w]) (use settlesD [OF assms(2)] in \<open>simp_all add: tryP_def\<close>)
qed

lemma settles_if: "(b \<Longrightarrow> settles m) \<Longrightarrow> (\<not> b \<Longrightarrow> settles n) \<Longrightarrow> settles (if b then m else n)"
  by simp

lemma settles_basic:
  "settles (ret x)" "settles (throwP e)" "settles (throw_msg t)" "settles (read_file p)" "settles (write_file p c)"
  "settles (unlink p)" "settles (rename_file p q)" "settles (mkdir_p p)"
  by (auto simp: settles_def ret_def throwP_def throw_msg_def read_file_def write_file_def unlink_def rename_file_def mkdir_p_def Let_def
      split: option.splits node.splits if_splits)

lemmas settles_intros = settles_bind settles_then settles_try settles_if settles_basic

lemma settles_step_op: "settles (step_op x c)"
  unfolding step_op_def write_op_def backup_current_def ignore_enoent_def by (intro settles_intros)

lemma run_ops_Val: "\<exists>d e w1. run_ops xs c w = (Val (d, e), w1)"
proof (induction xs arbitrary: c w)
  case (Cons x xs)
  obtain r w1 where st: "step_op x c w = (r, w1)" by fastforce
  from settles_step_op [of x c] st have "(\<exists>d. r = Val d) \<or> (\<exists>e. r = Err e)"
    unfolding settles_def by (metis fst_conv)
  with st Cons.IH show ?case by (auto simp: bindP_def tryP_def ret_def)
qed (simp add: ret_def)

lemma done_plan:
  assumes "done_writes w w' xs ds" "x \<in> set xs" "op_kind x = ''write''" "recoverable w x"
  shows "kfile w' (pkey w x) = Some (op_text x) \<and> (kfile w (pkey w x) \<noteq> None \<longrightarrow> kfile w' (bkey w x) = kfile w (pkey w x))"
proof -
  from assms(2,3) have "x \<in> set (writes xs)" by (simp add: writes_def)
  with assms(1) obtain ew where "written w w' x ew"
    unfolding done_writes_def by (metis in_set_conv_nth list_all2_conv_all_nth)
  with assms(4) show ?thesis by (auto simp: written_def split: if_splits)
qed

lemma skipped_target:
  assumes "run_ops ops [] w = (Val (d, e), w')" "separate w ops" "x \<in> set ops" "op_kind x \<noteq> ''write''" "op_kind x \<noteq> ''remove''"
  shows "kfile w' (pkey w x) = kfile w (pkey w x)"
proof -
  have "kfile u' (pkey u x) = kfile u (pkey u x)"
    if "run_ops xs c u = (Val (d, e), u')" "separate u xs" "x \<in> set xs" for xs c u u'
    using that
  proof (induction xs arbitrary: c u)
    case (Cons y ys)
    obtain r u1 where st: "step_op y c u = (r, u1)" by fastforce
    note T = touchingD [OF touching_step st]
    have sep: "op_keys u y \<inter> plan_keys ys u = {}" "separate u1 ys"
      using Cons.prems(2) by (simp_all add: separate_Cons separate_touch [OF T])
    have head: "kfile u1 (pkey u x) = kfile u (pkey u x)"
    proof (cases "x = y")
      case True
      with st assms(4,5) show ?thesis by (auto simp: step_op_def ret_def throw_msg_def split: if_splits)
    next
      case False
      with Cons.prems(3) have "x \<in> set ys" by simp
      then have "pkey u x \<in> plan_keys ys u" by (auto simp: plan_keys_def op_keys_def)
      with sep(1) T show ?thesis by (auto simp: touches_def)
    qed
    show ?case
    proof (cases r)
      case (Val cs)
      with st Cons.prems(1) have run: "run_ops ys cs u1 = (Val (d, e), u')" by (simp add: bindP_def tryP_def ret_def)
      note K = touches_key [OF T]
      show ?thesis
      proof (cases "x \<in> set ys")
        case True
        with Cons.IH [OF run sep(2)] head K show ?thesis by simp
      next
        case False
        with Cons.prems(3) have "pkey u x \<in> op_keys u y" by (auto simp: op_keys_def)
        with sep(1) have "pkey u x \<notin> plan_keys ys u" by blast
        with touchingD [OF touching_run [of ys ys] run] stableD [OF stable_plan T, of ys] head
        show ?thesis by (simp add: touches_def)
      qed
    qed (use st Cons.prems(1) head in \<open>auto simp: bindP_def tryP_def ret_def\<close>)
  qed simp
  with assms(1-3) show ?thesis by blast
qed

text \<open>After a failing run the rollback brings back every target of the plan.\<close>

lemma rollback_state:
  assumes run: "run_ops ops [] w = (Val (d, Some e), w1)" and sep: "separate w ops" and ok: "tree_ok w"
    and plan: "\<forall>x \<in> set ops. op_kind x \<noteq> ''remove'' \<and> (op_kind x = ''write'' \<longrightarrow> recoverable w x)"
  shows "\<exists>w'. rollback d e w1 = (Err e, w') \<and> (\<forall>x \<in> set ops. kfile w' (pkey w x) = kfile w (pkey w x))"
proof -
  have nr: "\<forall>x \<in> set ops. op_kind x \<noteq> ''remove''" using plan by blast
  from run_state [OF run sep nr] obtain ys zs where ys: "ops = ys @ zs" "done_writes w w1 ys d"
    "\<forall>x \<in> set zs. kfile w1 (pkey w x) = kfile w (pkey w x)" by auto
  note T = touchingD [OF touching_run [of ops ops, simplified] run]
  have rec: "\<forall>x \<in> set (writes ys). recoverable w x" using plan ys(1) by (simp add: writes_def)
  have sep_ys: "separate w (writes ys)" using sep ys(1) separate_prefix separate_writes by metis
  from rollback_restores [OF ys(2) [unfolded done_writes_def] rec ok T sep_ys] obtain w' where
    r: "eachP restore_write (rev d) w1 = (Val (), w')" "touches (\<Union>x \<in> set (writes ys). {pkey w x}) w1 w'"
    "\<forall>x \<in> set (writes ys). kfile w' (pkey w x) = kfile w (pkey w x)" by blast
  have "kfile w' (pkey w x) = kfile w (pkey w x)" if x: "x \<in> set ops" for x
  proof (cases "pkey w x \<in> pkey w ` set (writes ys)")
    case True
    with r(3) show ?thesis by auto
  next
    case False
    then have "kfile w' (pkey w x) = kfile w1 (pkey w x)" using r(2) by (auto simp: touches_def)
    moreover have "kfile w1 (pkey w x) = kfile w (pkey w x)"
    proof (cases "x \<in> set zs")
      case True
      with ys(3) show ?thesis by blast
    next
      case out: False
      with False x ys(1) have "op_kind x \<noteq> ''write''" by (auto simp: writes_def)
      with skipped_target [OF run sep x] nr x show ?thesis by blast
    qed
    ultimately show ?thesis by simp
  qed
  moreover have "rollback d e w1 = (Err e, w')" using r(1) by (simp add: rollback_def run_thenP throwP_def)
  ultimately show ?thesis by blast
qed


section \<open>The plan theorems on a concrete plan\<close>

text \<open>One file to replace with a backup, one to create, then an operation of an unknown kind: everything is rolled back.\<close>

definition plan_world :: world where
  "plan_world = demo_world\<lparr>w_home := ''/h'', w_cwd := ''/h'', w_tree := [(''/h'', Dir), (''/h/a'', File ''old''), (''/h/z'', File ''z'')]\<rparr>"

definition demo_plan :: "file_op list" where
  "demo_plan =
     [\<lparr>op_kind = ''write'', op_path = ''/h/a'', op_content = Some ''new'', op_backup = Some ''/h/b''\<rparr>,
      \<lparr>op_kind = ''write'', op_path = ''/h/c'', op_content = Some ''c'', op_backup = None\<rparr>]"

definition bad_op :: file_op where
  "bad_op = \<lparr>op_kind = ''chmod'', op_path = ''/h/d'', op_content = None, op_backup = None\<rparr>"

lemma plan_world_run:
  "separate plan_world (demo_plan @ [bad_op])" "separate plan_world demo_plan"
  "\<forall>x \<in> set (demo_plan @ [bad_op]). op_kind x \<noteq> ''remove'' \<and> (op_kind x = ''write'' \<longrightarrow> recoverable plan_world x)"
  "kfile plan_world ''/h/a'' = Some ''old''" "kfile plan_world ''/h/c'' = None" "file_at plan_world ''/h/z'' = Some ''z''"
  "fst (executeFileOps demo_plan plan_world) = Val ()"
  "fst (executeFileOps (demo_plan @ [bad_op]) plan_world) = Err (JsError ''unsupported op kind: chmod'' None)"
  by code_simp+

lemma plan_world_keys:
  "map (pkey plan_world) (demo_plan @ [bad_op]) = [''/h/a'', ''/h/c'', ''/h/d'']" "bkey plan_world (hd demo_plan) = ''/h/b''"
  by code_simp+

lemma plan_world_ok: "tree_ok plan_world"
proof -
  have "node_at plan_world (path_dirname ''/h/a'') = Some Dir" "node_at plan_world (path_dirname ''/h/z'') = Some Dir" by code_simp+
  then show ?thesis by (auto simp: tree_ok_def plan_world_def split: if_splits)
qed

theorem install_frame_witness:
  "file_at (snd (executeFileOps (demo_plan @ [bad_op]) plan_world)) ''/h/z'' = Some ''z''"
proof -
  have "list_all (\<lambda>x. fs_key plan_world ''/h/z'' \<notin> op_keys plan_world x) (demo_plan @ [bad_op])" by code_simp
  then have k: "\<forall>x \<in> set (demo_plan @ [bad_op]). fs_key plan_world ''/h/z'' \<notin> op_keys plan_world x" by (simp add: list_all_iff)
  show ?thesis using install_frame [OF prod.collapse [symmetric] k] plan_world_run(6) by simp
qed


text \<open>The hypothesis of the theorem is needed: the rollback of a write without a backup path deletes the file that was there.\<close>

lemma rollback_without_backup_deletes:
  "kfile plan_world ''/h/z'' = Some ''z'' \<and>
   kfile (snd (executeFileOps [\<lparr>op_kind = ''write'', op_path = ''/h/z'', op_content = Some ''new'', op_backup = None\<rparr>, bad_op] plan_world)) ''/h/z'' = None"
  by code_simp

text \<open>A backup path in a missing directory is no error either: the file is replaced and no copy is left.\<close>

lemma missing_backup_dir_loses_bytes:
  "fst (executeFileOps [\<lparr>op_kind = ''write'', op_path = ''/h/z'', op_content = Some ''new'', op_backup = Some ''/h/no/z''\<rparr>] plan_world) = Val () \<and>
   kfile (snd (executeFileOps [\<lparr>op_kind = ''write'', op_path = ''/h/z'', op_content = Some ''new'', op_backup = Some ''/h/no/z''\<rparr>] plan_world)) ''/h/no/z'' = None"
  by code_simp

end
