(* ===== verification/Framing.thy ===== *)
theory Framing
  imports Node
begin

text \<open>
  Byte streams cut into messages: the line buffer of the MCP proxy (\<open>cli/src/commands/mcp-proxy.ts\<close>),
  the line loop of the MCP server and the Server-Sent-Events reader of the API client
  (\<open>readSSE\<close> and \<open>tailLedger\<close>, \<open>cli/src/util/api.ts\<close>). The locale \<open>framing\<close> states what makes such a
  reader independent of how the stream arrives, and the four readers are its interpretations.

  Not modelled: the byte order mark \<open>TextDecoder\<close> drops at the start of a body.
\<close>

section \<open>Bytes to text\<close>

text \<open>
  \<open>Buffer.toString("utf8")\<close> on the bytes of a chunk: every maximal invalid sequence becomes the
  replacement character. First the continuation bytes a lead byte needs and the range of the first.
\<close>

definition utf8_lead :: "nat \<Rightarrow> (nat \<times> nat \<times> nat) option" where
  "utf8_lead b =
     (if b < 128 then Some (0, 128, 191)
      else if 194 \<le> b \<and> b \<le> 223 then Some (1, 128, 191)
      else if 224 \<le> b \<and> b \<le> 239 then Some (2, if b = 224 then 160 else 128, if b = 237 then 159 else 191)
      else if 240 \<le> b \<and> b \<le> 244 then Some (3, if b = 240 then 144 else 128, if b = 244 then 143 else 191)
      else None)"

fun cont_len :: "nat \<Rightarrow> nat \<Rightarrow> nat \<Rightarrow> string \<Rightarrow> nat" where
  "cont_len (Suc n) lo hi (c # cs) = (if lo \<le> code_of c \<and> code_of c \<le> hi then Suc (cont_len n 128 191 cs) else 0)"
| "cont_len n lo hi cs = 0"

definition replacement :: string where
  "replacement = [CHR 0xEF, CHR 0xBF, CHR 0xBD]"

function utf8_decode :: "string \<Rightarrow> string" where
  "utf8_decode [] = []"
| "utf8_decode (c # cs) =
     (case utf8_lead (code_of c) of
        None \<Rightarrow> replacement @ utf8_decode cs
      | Some (n, lo, hi) \<Rightarrow>
          (let k = cont_len n lo hi cs in
           if k = n then (c # take n cs) @ utf8_decode (drop n cs)
           else replacement @ utf8_decode (drop k cs)))"
  by pat_completeness auto
termination by (relation "measure length") auto

text \<open>
  \<open>TextDecoder.decode(bytes, {stream: true})\<close>: the same decoding, but an incomplete sequence at the end
  stays in the decoder.
\<close>

function utf8_stream :: "string \<Rightarrow> string \<times> string" where
  "utf8_stream [] = ([], [])"
| "utf8_stream (c # cs) =
     (case utf8_lead (code_of c) of
        None \<Rightarrow> (let (out, rest) = utf8_stream cs in (replacement @ out, rest))
      | Some (n, lo, hi) \<Rightarrow>
          (let k = cont_len n lo hi cs in
           if k = n then (let (out, rest) = utf8_stream (drop n cs) in (c # take n cs @ out, rest))
           else if k = length cs then ([], c # cs)
           else (let (out, rest) = utf8_stream (drop k cs) in (replacement @ out, rest))))"
  by pat_completeness auto
termination by (relation "measure length") auto

section \<open>Lines and frames\<close>

text \<open>\<open>LineBuffer.push\<close>: the loop over the newlines of the buffer.\<close>

function drain_lines :: "string \<Rightarrow> string list \<times> string" where
  "drain_lines buf =
     (let line = takeWhile (\<lambda>c. c \<noteq> chr_nl) buf in
      if length line = length buf then ([], buf)
      else (let (out, rest) = drain_lines (drop (Suc (length line)) buf)
            in (if line \<noteq> [] then line # out else out, rest)))"
  by pat_completeness auto
termination
proof (relation "measure length", simp)
  fix buf :: string and line
  assume "line = takeWhile (\<lambda>c. c \<noteq> chr_nl) buf" "length line \<noteq> length buf"
  then have "buf \<noteq> []" by auto
  then show "(drop (Suc (length line)) buf, buf) \<in> measure length" by simp
qed

declare drain_lines.simps [simp del]

definition lb_push :: "string \<Rightarrow> string \<Rightarrow> string list \<times> string" where
  "lb_push buf chunk = drain_lines (buf @ utf8_decode chunk)"

text \<open>The line loop of \<open>runMcpServer\<close>: lines are trimmed and blank ones skipped.\<close>

function drain_trimmed :: "string \<Rightarrow> string list \<times> string" where
  "drain_trimmed buf =
     (let line = takeWhile (\<lambda>c. c \<noteq> chr_nl) buf in
      if length line = length buf then ([], buf)
      else (let (out, rest) = drain_trimmed (drop (Suc (length line)) buf)
            in (if trim line \<noteq> [] then trim line # out else out, rest)))"
  by pat_completeness auto
termination
proof (relation "measure length", simp)
  fix buf :: string and line
  assume "line = takeWhile (\<lambda>c. c \<noteq> chr_nl) buf" "length line \<noteq> length buf"
  then have "buf \<noteq> []" by auto
  then show "(drop (Suc (length line)) buf, buf) \<in> measure length" by simp
qed

declare drain_trimmed.simps [simp del]

text \<open>\<open>buf.indexOf("\n\n")\<close> and the frames before the last of them.\<close>

fun blank_line_at :: "string \<Rightarrow> nat option" where
  "blank_line_at (a # b # s) = (if a = chr_nl \<and> b = chr_nl then Some 0 else map_option Suc (blank_line_at (b # s)))"
| "blank_line_at s = None"

lemma blank_line_at_bound: "blank_line_at s = Some i \<Longrightarrow> i + 2 \<le> length s"
  by (induction s arbitrary: i rule: blank_line_at.induct) (fastforce split: if_splits)+

function drain_frames :: "string \<Rightarrow> string list \<times> string" where
  "drain_frames buf =
     (case blank_line_at buf of
        None \<Rightarrow> ([], buf)
      | Some idx \<Rightarrow> (let (frames, rest) = drain_frames (drop (idx + 2) buf) in (take idx buf # frames, rest)))"
  by pat_completeness auto
termination by (relation "measure length") (auto dest: blank_line_at_bound)

declare drain_frames.simps [simp del]

definition strip_space :: "string \<Rightarrow> string" where
  "strip_space s = (case s of c # cs \<Rightarrow> if c = CHR '' '' then cs else s | [] \<Rightarrow> [])"

definition sse_data :: "string \<Rightarrow> string" where
  "sse_data frame =
     join [chr_nl] (map (\<lambda>l. strip_space (drop 5 l)) (filter (starts_with ''data:'') (split_on chr_nl frame)))"

text \<open>The entry of a frame: none without data, none when the data is not JSON.\<close>

definition sse_entry :: "string \<Rightarrow> json list" where
  "sse_entry frame = (if sse_data frame = [] then [] else case json_parse (sse_data frame) of None \<Rightarrow> [] | Some j \<Rightarrow> [j])"

text \<open>A reader fed one chunk after another: the messages so far and what it keeps.\<close>

fun feed :: "(string \<Rightarrow> 'm list \<times> string) \<Rightarrow> string \<Rightarrow> string list \<Rightarrow> 'm list \<times> string" where
  "feed drain buf [] = ([], buf)"
| "feed drain buf (c # cs) =
     (let (ms, rest) = drain (buf @ c); (ms', rest') = feed drain rest cs in (ms @ ms', rest'))"

text \<open>\<open>readSSE\<close> on the chunks of a body: decoder state and buffer are carried from chunk to chunk.\<close>

fun readSSE :: "string \<Rightarrow> string \<Rightarrow> string list \<Rightarrow> json list" where
  "readSSE pend buf [] = []"
| "readSSE pend buf (chunk # chunks) =
     (let (text, pend') = utf8_stream (pend @ chunk); (frames, buf') = drain_frames (buf @ text)
      in concat (map sse_entry frames) @ readSSE pend' buf' chunks)"

section \<open>The tail of the ledger\<close>

text \<open>
  How one connection of \<open>tailLedger\<close> ends: refused (or failing before its headers), answered without a
  readable body, read to the end of its body, broken off, or aborted by the caller, after some chunks
  (which rejects the pending read) or before the headers.
\<close>

datatype attempt = Refused | Unreadable | Completed "string list" | Broken "string list" | Aborted "string list" | AbortedEarly

datatype tail_event = Status string | Entry json

fun tail_attempt :: "attempt \<Rightarrow> tail_event list" where
  "tail_attempt Refused = [Status ''connecting'', Status ''closed'']"
| "tail_attempt Unreadable = [Status ''connecting'', Status ''closed'']"
| "tail_attempt (Completed chunks) = [Status ''connecting'', Status ''open''] @ map Entry (readSSE [] [] chunks) @ [Status ''closed'']"
| "tail_attempt (Broken chunks) = [Status ''connecting'', Status ''open''] @ map Entry (readSSE [] [] chunks) @ [Status ''closed'']"
| "tail_attempt AbortedEarly = [Status ''connecting'']"
| "tail_attempt (Aborted chunks) = [Status ''connecting'', Status ''open''] @ map Entry (readSSE [] [] chunks)"

text \<open>\<open>tailLedger\<close>: attempts two seconds apart until one is aborted.\<close>

fun tailLedger :: "attempt list \<Rightarrow> tail_event list" where
  "tailLedger [] = []"
| "tailLedger (a # as) = tail_attempt a @ (case a of Aborted chunks \<Rightarrow> [] | AbortedEarly \<Rightarrow> [] | _ \<Rightarrow> tailLedger as)"

section \<open>The framing contract\<close>

text \<open>
  A reader turns a text into its messages and the part it keeps. It is a framing when reading in two
  parts is the same as reading at once.
\<close>

locale framing =
  fixes drain :: "string \<Rightarrow> 'm list \<times> string"
  assumes drain_nil: "drain [] = ([], [])"
    and drain_append: "\<forall>s t. drain (s @ t) = (fst (drain s) @ fst (drain (snd (drain s) @ t)), snd (drain (snd (drain s) @ t)))"
begin

lemma drain_rest: "drain (snd (drain s)) = ([], snd (drain s))"
  using drain_append [rule_format, of s "[]"] by (metis append.right_neutral prod.collapse prod.inject self_append_conv)

lemma feed_concat: "drain buf = ([], buf) \<Longrightarrow> feed drain buf cs = drain (buf @ concat cs)"
proof (induction cs arbitrary: buf)
  case (Cons c cs)
  show ?case
    using Cons.IH [OF drain_rest [of "buf @ c"]] drain_append [rule_format, of "buf @ c" "concat cs"]
    by (simp add: case_prod_beta)
qed simp

lemma chunking: "feed drain [] cs = drain (concat cs)"
  using feed_concat [of "[]" cs] drain_nil by simp

end

text \<open>The three line and frame readers and the streaming decoder are framings.\<close>

lemma takeWhile_until: "takeWhile P s \<noteq> s \<Longrightarrow> takeWhile P (s @ t) = takeWhile P s"
  by (induction s) auto

lemma takeWhile_cut: "takeWhile P s \<noteq> s \<Longrightarrow> Suc (length (takeWhile P s)) \<le> length s"
  by (induction s) auto

lemma takeWhile_short: "length (takeWhile P s) = length s \<longleftrightarrow> takeWhile P s = s"
  by (induction s) auto

lemma drain_lines_append:
  "drain_lines (s @ t) = (fst (drain_lines s) @ fst (drain_lines (snd (drain_lines s) @ t)), snd (drain_lines (snd (drain_lines s) @ t)))"
proof (induction s rule: drain_lines.induct)
  case (1 s)
  let ?l = "takeWhile (\<lambda>c. c \<noteq> chr_nl) s"
  show ?case
  proof (cases "?l = s")
    case True
    have "drain_lines s = ([], s)" by (subst drain_lines.simps) (simp add: True Let_def)
    then show ?thesis by simp
  next
    case False
    have "length ?l \<noteq> length s" using False takeWhile_short by blast
    with 1 [OF refl] have IH: "drain_lines (drop (Suc (length ?l)) s @ t) =
      (fst (drain_lines (drop (Suc (length ?l)) s)) @ fst (drain_lines (snd (drain_lines (drop (Suc (length ?l)) s)) @ t)),
       snd (drain_lines (snd (drain_lines (drop (Suc (length ?l)) s)) @ t)))" by simp
    have d: "drain_lines s = (let (out, rest) = drain_lines (drop (Suc (length ?l)) s) in (if ?l \<noteq> [] then ?l # out else out, rest))"
      using \<open>length ?l \<noteq> length s\<close> by (subst drain_lines.simps) (simp add: Let_def del: takeWhile_eq_all_conv)
    have "drain_lines (s @ t) = (let (out, rest) = drain_lines (drop (Suc (length ?l)) s @ t) in (if ?l \<noteq> [] then ?l # out else out, rest))"
      using takeWhile_cut [OF False] by (subst drain_lines.simps) (simp add: takeWhile_until [OF False] Let_def)
    then show ?thesis by (simp add: d IH case_prod_beta)
  qed
qed

lemma drain_trimmed_append:
  "drain_trimmed (s @ t) =
     (fst (drain_trimmed s) @ fst (drain_trimmed (snd (drain_trimmed s) @ t)), snd (drain_trimmed (snd (drain_trimmed s) @ t)))"
proof (induction s rule: drain_trimmed.induct)
  case (1 s)
  let ?l = "takeWhile (\<lambda>c. c \<noteq> chr_nl) s"
  show ?case
  proof (cases "?l = s")
    case True
    have "drain_trimmed s = ([], s)" by (subst drain_trimmed.simps) (simp add: True Let_def)
    then show ?thesis by simp
  next
    case False
    have "length ?l \<noteq> length s" using False takeWhile_short by blast
    with 1 [OF refl] have IH: "drain_trimmed (drop (Suc (length ?l)) s @ t) =
      (fst (drain_trimmed (drop (Suc (length ?l)) s)) @ fst (drain_trimmed (snd (drain_trimmed (drop (Suc (length ?l)) s)) @ t)),
       snd (drain_trimmed (snd (drain_trimmed (drop (Suc (length ?l)) s)) @ t)))" by simp
    have d: "drain_trimmed s =
      (let (out, rest) = drain_trimmed (drop (Suc (length ?l)) s) in (if trim ?l \<noteq> [] then trim ?l # out else out, rest))"
      using \<open>length ?l \<noteq> length s\<close> by (subst drain_trimmed.simps) (simp add: Let_def del: takeWhile_eq_all_conv)
    have "drain_trimmed (s @ t) =
      (let (out, rest) = drain_trimmed (drop (Suc (length ?l)) s @ t) in (if trim ?l \<noteq> [] then trim ?l # out else out, rest))"
      using takeWhile_cut [OF False] by (subst drain_trimmed.simps) (simp add: takeWhile_until [OF False] Let_def)
    then show ?thesis by (simp add: d IH case_prod_beta)
  qed
qed

lemma blank_line_at_append: "blank_line_at s = Some i \<Longrightarrow> blank_line_at (s @ t) = Some i"
  by (induction s arbitrary: i rule: blank_line_at.induct) (auto split: if_splits)

lemma drain_frames_append:
  "drain_frames (s @ t) =
     (fst (drain_frames s) @ fst (drain_frames (snd (drain_frames s) @ t)), snd (drain_frames (snd (drain_frames s) @ t)))"
proof (induction s rule: drain_frames.induct)
  case (1 s)
  show ?case
  proof (cases "blank_line_at s")
    case None
    then show ?thesis by (simp add: drain_frames.simps [of s])
  next
    case (Some i)
    note IH = 1 [OF Some]
    have "drain_frames (s @ t) = (let (frames, rest) = drain_frames (drop (i + 2) s @ t) in (take i s # frames, rest))"
      using blank_line_at_bound [OF Some] by (subst drain_frames.simps) (simp add: blank_line_at_append [OF Some])
    then show ?thesis using Some IH by (simp add: drain_frames.simps [of s] case_prod_beta)
  qed
qed

lemma cont_len_le: "cont_len n lo hi cs \<le> n \<and> cont_len n lo hi cs \<le> length cs"
  by (induction n lo hi cs rule: cont_len.induct) auto

text \<open>The bytes after the first that does not continue the sequence do not matter.\<close>

lemma cont_len_append:
  "cont_len n lo hi cs = n \<or> cont_len n lo hi cs \<noteq> length cs \<Longrightarrow> cont_len n lo hi (cs @ t) = cont_len n lo hi cs"
  by (induction n lo hi cs rule: cont_len.induct) auto

lemma utf8_stream_append:
  "utf8_stream (s @ t) =
     (fst (utf8_stream s) @ fst (utf8_stream (snd (utf8_stream s) @ t)), snd (utf8_stream (snd (utf8_stream s) @ t)))"
proof (induction s rule: utf8_stream.induct)
  case (2 c cs)
  show ?case
  proof (cases "utf8_lead (code_of c)")
    case None
    with 2(1) [OF None] show ?thesis by (simp add: case_prod_beta)
  next
    case (Some q)
    obtain n lo hi where q: "q = (n, lo, hi)" by (cases q)
    let ?k = "cont_len n lo hi cs"
    have le: "?k \<le> length cs" using cont_len_le by blast
    consider (full) "?k = n" | (cut) "?k \<noteq> n" "?k = length cs" | (bad) "?k \<noteq> n" "?k \<noteq> length cs" by blast
    then show ?thesis
    proof cases
      case full
      then have "cont_len n lo hi (cs @ t) = n" "n \<le> length cs" using cont_len_append le by simp_all
      with full Some q 2(2) [OF Some [unfolded q] refl refl refl] show ?thesis by (simp add: case_prod_beta Let_def)
    next
      case cut
      with Some q show ?thesis by simp
    next
      case bad
      then have "cont_len n lo hi (cs @ t) = ?k" using cont_len_append by simp
      with bad le Some q 2(3) [OF Some [unfolded q] refl refl refl] show ?thesis by (simp add: case_prod_beta Let_def)
    qed
  qed
qed simp

interpretation lines: framing drain_lines
  by unfold_locales (simp add: drain_lines.simps, use drain_lines_append in blast)

interpretation trimmed: framing drain_trimmed
  by unfold_locales (simp add: drain_trimmed.simps, use drain_trimmed_append in blast)

interpretation frames: framing drain_frames
  by unfold_locales (simp add: drain_frames.simps, use drain_frames_append in blast)

interpretation text8: framing utf8_stream
  by unfold_locales (simp, use utf8_stream_append in blast)

section \<open>What the readers deliver\<close>

lemma drain_lines_no_nl: "chr_nl \<notin> set s \<Longrightarrow> drain_lines s = ([], s)"
proof -
  assume "chr_nl \<notin> set s"
  then have "takeWhile (\<lambda>c. c \<noteq> chr_nl) s = s" by auto
  then show ?thesis by (subst drain_lines.simps) (simp add: Let_def del: takeWhile_eq_all_conv)
qed

lemma drain_lines_nl:
  "chr_nl \<notin> set l \<Longrightarrow> drain_lines (l @ chr_nl # s) = (if l = [] then fst (drain_lines s) else l # fst (drain_lines s), snd (drain_lines s))"
proof -
  assume l: "chr_nl \<notin> set l"
  then have "takeWhile (\<lambda>c. c \<noteq> chr_nl) (l @ chr_nl # s) = l" by (induction l) auto
  then show ?thesis by (subst drain_lines.simps) (simp add: Let_def case_prod_beta)
qed

lemma first_line: "chr_nl \<in> set s \<Longrightarrow> \<exists>l r. s = l @ chr_nl # r \<and> chr_nl \<notin> set l"
  using split_list_first by fastforce

lemma drain_lines_split: "drain_lines s = (filter (\<lambda>l. l \<noteq> []) (butlast (split_on chr_nl s)), last (split_on chr_nl s))"
proof (induction s rule: measure_induct_rule [of length])
  case (less s)
  show ?case
  proof (cases "chr_nl \<in> set s")
    case True
    with first_line obtain l r where s: "s = l @ chr_nl # r" "chr_nl \<notin> set l" by blast
    with less [of r] show ?thesis by (simp add: drain_lines_nl split_on_append_sep)
  qed (simp add: drain_lines_no_nl split_on_no_sep)
qed

text \<open>A line buffer over a sequence of chunks.\<close>

fun lb_pushes :: "string \<Rightarrow> string list \<Rightarrow> string list \<times> string" where
  "lb_pushes buf [] = ([], buf)"
| "lb_pushes buf (c # cs) = (let (ls, rest) = lb_push buf c; (ls', rest') = lb_pushes rest cs in (ls @ ls', rest'))"

lemma lb_pushes_feed: "lb_pushes buf cs = feed drain_lines buf (map utf8_decode cs)"
  by (induction cs arbitrary: buf) (simp_all add: lb_push_def)


text \<open>Decoding is the identity on valid text, and only there can a chunk end without loss.\<close>

lemma cont_len_take: "cont_len n lo hi cs = n \<Longrightarrow> cont_len n lo hi (cs @ t) = n \<and> n \<le> length cs"
  using cont_len_append [of n lo hi cs t] cont_len_le [of n lo hi cs] by simp

lemma utf8_lead_ef: "utf8_lead (code_of CHR 0xEF) = Some (2, 128, 191)"
  by (simp add: utf8_lead_def code_of_def)

lemma cont_len_bfbd: "cont_len 2 128 191 (CHR 0xBF # CHR 0xBD # s) = 2"
  by (simp add: numeral_2_eq_2 code_of_def)

lemma utf8_decode_replacement: "utf8_decode (replacement @ s) = replacement @ utf8_decode s"
  using utf8_lead_ef cont_len_bfbd [of s] by (simp add: replacement_def Let_def numeral_2_eq_2)

lemma utf8_decode_append: "utf8_decode a = a \<Longrightarrow> utf8_decode (a @ b) = a @ utf8_decode b"
proof (induction a rule: utf8_decode.induct)
  case (2 c cs)
  have no_repl: "replacement @ x \<noteq> c # cs" if "utf8_lead (code_of c) \<noteq> Some (2, 128, 191) \<or> cont_len 2 128 191 cs \<noteq> 2" for x
    using that utf8_lead_ef cont_len_bfbd by (auto simp: replacement_def)
  show ?case
  proof (cases "utf8_lead (code_of c)")
    case None
    with 2(4) no_repl show ?thesis by auto
  next
    case (Some q)
    obtain n lo hi where q: "q = (n, lo, hi)" by (cases q)
    show ?thesis
    proof (cases "cont_len n lo hi cs = n")
      case True
      with Some q 2(4) have "take n cs @ utf8_decode (drop n cs) = cs" by (simp add: Let_def)
      then have tail: "utf8_decode (drop n cs) = drop n cs" by (metis append_take_drop_id same_append_eq)
      have "utf8_decode (drop n cs @ b) = drop n cs @ utf8_decode b"
        by (rule 2(2) [OF Some [unfolded q] refl refl refl True tail])
      with Some q True cont_len_take [OF True, of b] show ?thesis
        by (simp add: Let_def)
    next
      case False
      with Some q 2(4) have "replacement @ utf8_decode (drop (cont_len n lo hi cs) cs) = c # cs" by (simp add: Let_def)
      with no_repl have "utf8_lead (code_of c) = Some (2, 128, 191) \<and> cont_len 2 128 191 cs = 2" by blast
      with Some q False show ?thesis by simp
    qed
  qed
qed simp

lemma utf8_decode_valid: "utf8_decode (utf8_decode s) = utf8_decode s"
proof (induction s rule: utf8_decode.induct)
  case (2 c cs)
  show ?case
  proof (cases "utf8_lead (code_of c)")
    case None
    with 2(1) show ?thesis by (simp add: utf8_decode_replacement)
  next
    case (Some q)
    obtain n lo hi where q: "q = (n, lo, hi)" by (cases q)
    show ?thesis
    proof (cases "cont_len n lo hi cs = n")
      case True
      have pre: "cont_len n lo hi (take n cs @ t) = n" for t
        using True by (induction n lo hi cs rule: cont_len.induct) (auto split: if_splits)
      have len: "length (take n cs) = n" using cont_len_take [OF True] by simp
      have "utf8_decode (utf8_decode (c # cs)) = utf8_decode (c # take n cs @ utf8_decode (drop n cs))"
        using Some q True by (simp add: Let_def)
      also have "\<dots> = c # take n cs @ utf8_decode (utf8_decode (drop n cs))"
        using Some q pre len by (simp add: Let_def)
      finally show ?thesis using 2(2) [OF Some [unfolded q] refl refl refl True] Some q True by (simp add: Let_def)
    next
      case False
      have "utf8_decode (c # cs) = replacement @ utf8_decode (drop (cont_len n lo hi cs) cs)"
        using Some q False by (simp add: Let_def)
      then show ?thesis using 2(3) [OF Some [unfolded q] refl refl refl False] by (simp add: utf8_decode_replacement)
    qed
  qed
qed simp

text \<open>A character split between two chunks is lost: the two bytes of a small letter e with an acute accent.\<close>

lemma split_character_lost:
  "lb_pushes [] [[CHR 0xC3], [CHR 0xA9, chr_nl]] = ([replacement @ replacement], []) \<and>
   lb_pushes [] [[CHR 0xC3, CHR 0xA9, chr_nl]] = ([[CHR 0xC3, CHR 0xA9]], [])"
  by code_simp

subsection \<open>Server-sent events\<close>

lemma readSSE_chunks:
  "utf8_stream pend = ([], pend) \<Longrightarrow> drain_frames buf = ([], buf) \<Longrightarrow>
     readSSE pend buf cs = concat (map sse_entry (fst (drain_frames (buf @ fst (utf8_stream (pend @ concat cs))))))"
proof (induction cs arbitrary: pend buf)
  case (Cons c cs)
  let ?u = "utf8_stream (pend @ c)"
  have "readSSE (snd ?u) (snd (drain_frames (buf @ fst ?u))) cs =
      concat (map sse_entry (fst (drain_frames (snd (drain_frames (buf @ fst ?u)) @ fst (utf8_stream (snd ?u @ concat cs))))))"
    by (rule Cons.IH [OF text8.drain_rest frames.drain_rest])
  then show ?case
    using utf8_stream_append [of "pend @ c" "concat cs"]
      drain_frames_append [of "buf @ fst ?u" "fst (utf8_stream (snd ?u @ concat cs))"]
    by (simp add: case_prod_beta)
qed simp

text \<open>What the daemon writes on the stream: an entry, or a keep-alive comment.\<close>

datatype sse_item = Data json | Comment string

fun sse_write :: "sse_item \<Rightarrow> string" where
  "sse_write (Data j) = ''data: '' @ json_stringify j @ [chr_nl, chr_nl]"
| "sse_write (Comment c) = '':'' @ c @ [chr_nl, chr_nl]"

fun sse_item_ok :: "sse_item \<Rightarrow> bool" where
  "sse_item_ok (Data j) = json_ok j"
| "sse_item_ok (Comment c) = (chr_nl \<notin> set c)"

definition sse_items :: "sse_item list \<Rightarrow> json list" where
  "sse_items is = concat (map (\<lambda>i. case i of Data j \<Rightarrow> [j] | Comment c \<Rightarrow> []) is)"

lemma blank_line_at_line: "chr_nl \<notin> set l \<Longrightarrow> blank_line_at (l @ chr_nl # chr_nl # r) = Some (length l)"
proof (induction l)
  case (Cons a l)
  then show ?case by (cases l) auto
qed simp

lemma drain_frames_line:
  "chr_nl \<notin> set l \<Longrightarrow> drain_frames (l @ chr_nl # chr_nl # r) = (l # fst (drain_frames r), snd (drain_frames r))"
  by (subst drain_frames.simps) (simp add: blank_line_at_line case_prod_beta)

lemma sse_data_line: "chr_nl \<notin> set d \<Longrightarrow> sse_data (''data: '' @ d) = d"
proof -
  assume d: "chr_nl \<notin> set d"
  then have "split_on chr_nl (''data: '' @ d) = [''data: '' @ d]" by (intro split_on_no_sep) auto
  then show ?thesis by (simp add: sse_data_def starts_with_def strip_space_def)
qed

lemma sse_data_comment: "chr_nl \<notin> set c \<Longrightarrow> sse_data (CHR '':'' # c) = []"
proof -
  assume c: "chr_nl \<notin> set c"
  then have "split_on chr_nl (CHR '':'' # c) = [CHR '':'' # c]" by (intro split_on_no_sep) auto
  then show ?thesis by (simp add: sse_data_def starts_with_def)
qed

lemma sse_entry_data: "json_ok j \<Longrightarrow> sse_entry (''data: '' @ json_stringify j) = [j]"
  using stringify_hd [of j] json_roundtrip [of j] sse_data_line [OF json_stringify_one_line, of j] by (auto simp: sse_entry_def)

lemma frames_written:
  "list_all sse_item_ok is \<Longrightarrow> concat (map sse_entry (fst (drain_frames (concat (map sse_write is))))) = sse_items is"
proof (induction "is")
  case Nil
  then show ?case using frames.drain_nil by (simp add: sse_items_def)
next
  case (Cons i "is")
  show ?case
  proof (cases i)
    case (Data j)
    have "drain_frames (sse_write i @ t) = ((''data: '' @ json_stringify j) # fst (drain_frames t), snd (drain_frames t))" for t
      using drain_frames_line [of "''data: '' @ json_stringify j" t] json_stringify_one_line [of j] Data by simp
    with Cons Data sse_entry_data [of j] show ?thesis by (simp add: sse_items_def)
  next
    case (Comment c)
    have "drain_frames (sse_write i @ t) = ((CHR '':'' # c) # fst (drain_frames t), snd (drain_frames t))" for t
      using drain_frames_line [of "CHR '':'' # c" t] Comment Cons.prems by simp
    with Cons Comment show ?thesis by (simp add: sse_items_def sse_entry_def sse_data_comment)
  qed
qed

text \<open>C14. The event stream is read back exactly: however the bytes a daemon writes (entries as \<open>data:\<close> frames, keep-alive comments
  between them) are cut into chunks, even inside a character, \<open>readSSE\<close> delivers those entries, all of them, in order.\<close>

theorem sse_stream_roundtrip:
  assumes "concat chunks = concat (map sse_write is)" and "list_all sse_item_ok is"
    and "utf8_stream (concat chunks) = (concat chunks, [])"
  shows "readSSE [] [] chunks = sse_items is"
  using readSSE_chunks [of "[]" "[]" chunks] frames_written [OF assms(2)] assms(1,3) frames.drain_nil by simp

theorem sse_stream_roundtrip_witness:
  "readSSE [] [] [''data: [{}'', '',true]'' @ [chr_nl], [chr_nl] @ '':'', ''keepalive'' @ [chr_nl, chr_nl] @ ''data: 7'', [chr_nl, chr_nl]] =
     [JArr [JObj [], JBool True], jint 7]"
proof -
  have "concat [''data: [{}'', '',true]'' @ [chr_nl], [chr_nl] @ '':'', ''keepalive'' @ [chr_nl, chr_nl] @ ''data: 7'', [chr_nl, chr_nl]]
      = concat (map sse_write [Data (JArr [JObj [], JBool True]), Comment ''keepalive'', Data (jint 7)])" by code_simp
  moreover have "list_all sse_item_ok [Data (JArr [JObj [], JBool True]), Comment ''keepalive'', Data (jint 7)]" by code_simp
  moreover have "utf8_stream (concat [''data: [{}'', '',true]'' @ [chr_nl], [chr_nl] @ '':'', ''keepalive'' @ [chr_nl, chr_nl] @ ''data: 7'', [chr_nl, chr_nl]])
      = (concat [''data: [{}'', '',true]'' @ [chr_nl], [chr_nl] @ '':'', ''keepalive'' @ [chr_nl, chr_nl] @ ''data: 7'', [chr_nl, chr_nl]], [])"
    by code_simp
  ultimately have "readSSE [] [] [''data: [{}'', '',true]'' @ [chr_nl], [chr_nl] @ '':'', ''keepalive'' @ [chr_nl, chr_nl] @ ''data: 7'', [chr_nl, chr_nl]]
      = sse_items [Data (JArr [JObj [], JBool True]), Comment ''keepalive'', Data (jint 7)]"
    by (rule sse_stream_roundtrip)
  then show ?thesis by (simp add: sse_items_def)
qed

text \<open>The events of a tail: what a subscriber sees of the statuses, and that entries come only while the stream is open.\<close>

fun tail_ok :: "string \<Rightarrow> tail_event list \<Rightarrow> bool" where
  "tail_ok st [] = True"
| "tail_ok st (Entry j # es) = (st = ''open'' \<and> tail_ok st es)"
| "tail_ok st (Status s # es) = ((if s = ''connecting'' then st = ''closed'' else if s = ''open'' then st = ''connecting''
     else s = ''closed'' \<and> st \<noteq> ''closed'') \<and> tail_ok s es)"

fun attempt_chunks :: "attempt \<Rightarrow> string list" where
  "attempt_chunks (Completed cs) = cs"
| "attempt_chunks (Broken cs) = cs"
| "attempt_chunks (Aborted cs) = cs"
| "attempt_chunks _ = []"

definition aborts :: "attempt \<Rightarrow> bool" where
  "aborts a \<longleftrightarrow> (case a of Aborted cs \<Rightarrow> True | AbortedEarly \<Rightarrow> True | _ \<Rightarrow> False)"

lemma tail_ok_entries: "tail_ok ''open'' (map Entry js @ es) = tail_ok ''open'' es"
  by (induction js) simp_all

fun entries_of :: "tail_event list \<Rightarrow> json list" where
  "entries_of [] = []"
| "entries_of (Entry j # es) = j # entries_of es"
| "entries_of (Status s # es) = entries_of es"

lemma entries_of_append: "entries_of (a @ b) = entries_of a @ entries_of b"
  by (induction a rule: entries_of.induct) simp_all

lemma entries_of_map: "entries_of (map Entry js) = js"
  by (induction js) simp_all


end
