(* ===== verification/McpProxy.thy ===== *)
theory McpProxy
  imports Framing "HOL-Library.Sublist"
begin

text \<open>
  The stdio proxy between Claude Desktop and an MCP server (\<open>cli/src/commands/mcp-proxy.ts\<close>). The
  event handlers are functions on the state of the process and the interleaving of their events is
  the step relation \<open>proxy_step\<close>: chunks from the host, the serial promise chain with the one
  outstanding daemon call it may wait for, chunks from the child, the child's end. The main theorem
  relates every run to a log of the host's lines and the daemon's answers.

  Not modelled: back pressure and errors of the pipes themselves, and \<open>String(v)\<close> of an object with a
  \<open>toString\<close> key of its own.
\<close>

section \<open>Arguments\<close>

record proxy_args =
  pa_server :: string
  pa_cmd :: string
  pa_args :: "string list"

fun proxy_args_loop :: "string list \<Rightarrow> string \<Rightarrow> string + (string \<times> string list)" where
  "proxy_args_loop [] name = Inr (name, [])"
| "proxy_args_loop (a # as) name =
     (if a = ''--'' then Inr (name, as)
      else if a = ''--name'' then (case as of [] \<Rightarrow> Inr ('''', []) | v # vs \<Rightarrow> proxy_args_loop vs v)
      else if starts_with ''--name='' a then proxy_args_loop as (drop 7 a)
      else Inl (''unrecognized arg: '' @ a))"

definition parseProxyArgs :: "string list \<Rightarrow> string + proxy_args" where
  "parseProxyArgs argv =
     (case proxy_args_loop argv '''' of
        Inl e \<Rightarrow> Inl e
      | Inr (serverName, rest) \<Rightarrow>
          if serverName = [] then Inl ''missing --name <id>''
          else (case rest of
             [] \<Rightarrow> Inl ''missing -- <child-cmd> ...''
           | c # cs \<Rightarrow> Inr \<lparr>pa_server = serverName, pa_cmd = c, pa_args = cs\<rparr>))"

section \<open>The daemon's verdict\<close>

record proxy_cfg =
  pc_url :: string
  pc_server :: string
  pc_session :: string
  pc_cwd :: string
  pc_cmd :: string
  pc_win :: bool

definition mcp_daemon_url :: "world \<Rightarrow> string" where
  "mcp_daemon_url w =
     (case w_env w ''AGENTLOCK_DAEMON_URL'' of Some u \<Rightarrow> u
      | None \<Rightarrow> (case w_env w ''AGENTLOCK_CONTROL_PLANE_URL'' of Some u \<Rightarrow> u | None \<Rightarrow> ''http://127.0.0.1:7878''))"

definition sessionIdFor :: "string \<Rightarrow> string" where
  "sessionIdFor serverName = take 128 (''claude-desktop-'' @ serverName)"

definition mcpToolName :: "string \<Rightarrow> string \<Rightarrow> string" where
  "mcpToolName serverName toolName = ''mcp__'' @ serverName @ ''__'' @ toolName"

definition call_params :: "json \<Rightarrow> json option" where
  "call_params msg = nullish (jprop msg ''params'') (Some (JObj []))"

definition call_name :: "json \<Rightarrow> string" where
  "call_name msg = js_ostring (nullish (oprop (call_params msg) ''name'') (Some (JStr ''<unknown>'')))"

definition pre_tool_body :: "proxy_cfg \<Rightarrow> json \<Rightarrow> json" where
  "pre_tool_body cfg msg = JObj
     [(''session_id'', JStr (pc_session cfg)),
      (''hook_event_name'', JStr ''PreToolUse''),
      (''tool_name'', JStr (mcpToolName (pc_server cfg) (call_name msg))),
      (''tool_input'', the (nullish (oprop (call_params msg) ''arguments'') (Some (JObj [])))),
      (''tool_use_id'', JStr (js_ostring (nullish (jprop msg ''id'') (Some (JStr ''0''))))),
      (''cwd'', JStr (pc_cwd cfg))]"

definition mcp_post :: "proxy_cfg \<Rightarrow> string \<Rightarrow> json \<Rightarrow> http_req" where
  "mcp_post cfg event body =
     \<lparr>rq_method = ''POST'', rq_url = strip_slashes (pc_url cfg) @ ''/v1/hooks/claude-desktop/'' @ event,
      rq_auth = None, rq_body = Some (json_stringify body)\<rparr>"

text \<open>
  The rest of \<open>callPreToolUse\<close>, from the answer of the daemon to decision and reason; \<open>None\<close> when
  the body of the answer never ends.
\<close>

definition callPreToolUse :: "http_out \<Rightarrow> (json \<times> json) option" where
  "callPreToolUse out =
     (case out of
        NetErr m \<Rightarrow> Some (JStr ''allow'', JStr '''')
      | Answer res \<Rightarrow>
          if \<not> resp_ok res then Some (JStr ''allow'', JStr '''')
          else (case rs_body res of
             None \<Rightarrow> None
           | Some body \<Rightarrow>
               (case json_parse body of
                  None \<Rightarrow> Some (JStr ''allow'', JStr '''')
                | Some JNull \<Rightarrow> Some (JStr ''allow'', JStr '''')
                | Some parsed \<Rightarrow>
                    Some (the (nullish (oprop (jprop parsed ''hookSpecificOutput'') ''permissionDecision'') (Some (JStr ''allow''))),
                          the (nullish (oprop (jprop parsed ''hookSpecificOutput'') ''permissionDecisionReason'')
                                 (nullish (jprop parsed ''stopReason'') (Some (JStr ''''))))))))"

definition denyResponseFor :: "json \<Rightarrow> json \<Rightarrow> json" where
  "denyResponseFor i reason = JObj
     [(''jsonrpc'', JStr ''2.0''), (''id'', i),
      (''result'', JObj [(''isError'', JBool True),
        (''content'', JArr [JObj [(''type'', JStr ''text''),
          (''text'', JStr (''blocked by OpenAgentLock policy: '' @ (if truthy (Some reason) then js_string reason else ''denied'')))]])])]"

text \<open>A recorded completion and the request it becomes.\<close>

record post_call =
  pt_name :: string
  pt_id :: string
  pt_response :: "json option"

definition recordPostToolUse :: "proxy_cfg \<Rightarrow> post_call \<Rightarrow> http_req" where
  "recordPostToolUse cfg p = mcp_post cfg ''post-tool-use'' (obj_of
     [(''session_id'', Some (JStr (pc_session cfg))),
      (''hook_event_name'', Some (JStr ''PostToolUse'')),
      (''tool_name'', Some (JStr (mcpToolName (pc_server cfg) (pt_name p)))),
      (''tool_input'', Some (JObj [])),
      (''tool_use_id'', Some (JStr (pt_id p))),
      (''tool_response'', pt_response p)])"

section \<open>The process\<close>

datatype chain_item = QLine string | QEnd

datatype proxy_exit = ExitCode int | KilledBy string

text \<open>
  \<open>px_wait\<close> is the line whose daemon call is outstanding; \<open>px_child_in\<close> and \<open>px_out\<close> are the lines
  written to the child and to the host, \<open>px_asked\<close> and \<open>px_posts\<close> the calls to the daemon.
\<close>

record proxy =
  px_buf :: string
  px_ended :: bool
  px_chain :: "chain_item list"
  px_wait :: "(string \<times> json) option"
  px_pending :: "string \<Rightarrow> (string \<times> string) option"
  px_child_in :: "string list"
  px_child_closed :: bool
  px_cbuf :: string
  px_out :: "string list"
  px_err :: "string list"
  px_asked :: "http_req list"
  px_posts :: "post_call list"
  px_exit :: "proxy_exit option"

definition proxy_start :: proxy where
  "proxy_start = \<lparr>px_buf = [], px_ended = False, px_chain = [], px_wait = None, px_pending = Map.empty, px_child_in = [],
     px_child_closed = False, px_cbuf = [], px_out = [], px_err = [], px_asked = [], px_posts = [], px_exit = None\<rparr>"

definition gated_call :: "json \<Rightarrow> bool" where
  "gated_call msg \<longleftrightarrow> jprop msg ''method'' = Some (JStr ''tools/call'') \<and> jprop msg ''id'' \<noteq> None \<and> jprop msg ''id'' \<noteq> Some JNull"

definition to_child :: "string \<Rightarrow> proxy \<Rightarrow> proxy" where
  "to_child line s = s\<lparr>px_child_in := px_child_in s @ [line]\<rparr>"

text \<open>\<open>processLine\<close> up to the call of the daemon; a line \<open>null\<close> throws, which the chain reports.\<close>

definition processLine :: "proxy_cfg \<Rightarrow> string \<Rightarrow> proxy \<Rightarrow> proxy" where
  "processLine cfg line s =
     (case json_parse line of
        None \<Rightarrow> to_child line s
      | Some msg \<Rightarrow>
          if msg = JNull then
            s\<lparr>px_err := px_err s @ [''agentlock mcp-proxy: processing error: '' @ err_msg (type_error ''msg.method'')]\<rparr>
          else if gated_call msg then
            s\<lparr>px_wait := Some (line, msg), px_asked := px_asked s @ [mcp_post cfg ''pre-tool-use'' (pre_tool_body cfg msg)]\<rparr>
          else to_child line s)"

text \<open>\<open>processLine\<close> from the answer on.\<close>

definition afterVerdict :: "http_out \<Rightarrow> string \<Rightarrow> json \<Rightarrow> proxy \<Rightarrow> proxy" where
  "afterVerdict out line msg s =
     (case callPreToolUse out of
        None \<Rightarrow> s
      | Some (decision, reason) \<Rightarrow>
          if decision = JStr ''deny'' then
            s\<lparr>px_wait := None, px_out := px_out s @ [json_stringify (denyResponseFor (the (jprop msg ''id'')) reason)]\<rparr>
          else
            to_child line
              (s\<lparr>px_wait := None,
                px_pending := (px_pending s)(js_ostring (jprop msg ''id'') \<mapsto> (call_name msg, js_ostring (jprop msg ''id'')))\<rparr>))"

definition hostData :: "string \<Rightarrow> proxy \<Rightarrow> proxy" where
  "hostData chunk s =
     (let (lines, rest) = lb_push (px_buf s) chunk in s\<lparr>px_buf := rest, px_chain := px_chain s @ map QLine lines\<rparr>)"

definition hostEnd :: "proxy \<Rightarrow> proxy" where
  "hostEnd s = s\<lparr>px_ended := True, px_chain := px_chain s @ [QEnd]\<rparr>"

text \<open>The next link of the promise chain.\<close>

fun chainNext :: "proxy_cfg \<Rightarrow> chain_item \<Rightarrow> proxy \<Rightarrow> proxy" where
  "chainNext cfg (QLine line) s = processLine cfg line s"
| "chainNext cfg QEnd s = s\<lparr>px_child_closed := True\<rparr>"

definition childLine :: "string \<Rightarrow> proxy \<Rightarrow> proxy" where
  "childLine line s0 =
     (let s = s0\<lparr>px_out := px_out s0 @ [line]\<rparr> in
      case json_parse line of
        None \<Rightarrow> s
      | Some msg \<Rightarrow>
          if msg = JNull then s\<lparr>px_exit := Some (ExitCode 1)\<rparr>
          else if jprop msg ''id'' = None \<or> jprop msg ''id'' = Some JNull then s
          else (case px_pending s (js_ostring (jprop msg ''id'')) of
             None \<Rightarrow> s
           | Some (name, useId) \<Rightarrow>
               s\<lparr>px_pending := (px_pending s)(js_ostring (jprop msg ''id'') := None),
                 px_posts := px_posts s @ [\<lparr>pt_name = name, pt_id = useId, pt_response = nullish (jprop msg ''result'') (jprop msg ''error'')\<rparr>]\<rparr>))"

text \<open>An exception in the handler ends the process, and the loop with it.\<close>

fun childLines :: "string list \<Rightarrow> proxy \<Rightarrow> proxy" where
  "childLines [] s = s"
| "childLines (line # ls) s = (let s' = childLine line s in if px_exit s' \<noteq> None then s' else childLines ls s')"

definition childData :: "string \<Rightarrow> proxy \<Rightarrow> proxy" where
  "childData chunk s = (let (lines, rest) = lb_push (px_cbuf s) chunk in childLines lines (s\<lparr>px_cbuf := rest\<rparr>))"

definition childError :: "proxy_cfg \<Rightarrow> string \<Rightarrow> proxy \<Rightarrow> proxy" where
  "childError cfg m s =
     s\<lparr>px_err := px_err s @ [''agentlock mcp-proxy: failed to spawn '' @ pc_cmd cfg @ '': '' @ m], px_exit := Some (ExitCode 2)\<rparr>"

definition childExit :: "proxy_cfg \<Rightarrow> int option \<Rightarrow> string option \<Rightarrow> proxy \<Rightarrow> proxy" where
  "childExit cfg code sig s =
     s\<lparr>px_exit := Some (case sig of
         Some g \<Rightarrow> if g = [] then ExitCode (case code of Some c \<Rightarrow> c | None \<Rightarrow> 0) else if pc_win cfg then ExitCode 1 else KilledBy g
       | None \<Rightarrow> ExitCode (case code of Some c \<Rightarrow> c | None \<Rightarrow> 0))\<rparr>"

text \<open>\<open>runMcpProxy\<close> before its first event: the configuration, or the usage message and exit code 2.\<close>

definition runMcpProxy :: "string list \<Rightarrow> proxy_cfg prog" where
  "runMcpProxy argv =
     (case parseProxyArgs argv of
        Inl e \<Rightarrow> thenP (stderr_write (''agentlock mcp-proxy: '' @ e @ [chr_nl] @
                   ''usage: agentlock mcp-proxy --name <id> -- <child-cmd> [args...]'' @ [chr_nl])) (exitP 2)
      | Inr p \<Rightarrow> getsP (\<lambda>w. \<lparr>pc_url = mcp_daemon_url w, pc_server = pa_server p, pc_session = sessionIdFor (pa_server p),
                   pc_cwd = w_cwd w, pc_cmd = pa_cmd p, pc_win = (w_platform w = Win32)\<rparr>))"

section \<open>Steps and runs\<close>

datatype proxy_event =
  HostData string | HostEnd | Proceed | Verdict http_out | ChildData string | ChildError string
| ChildExit "int option" "string option"

inductive proxy_step :: "proxy_cfg \<Rightarrow> proxy \<Rightarrow> proxy_event \<Rightarrow> proxy \<Rightarrow> bool" for cfg where
  host_data: "px_exit s = None \<Longrightarrow> \<not> px_ended s \<Longrightarrow> proxy_step cfg s (HostData chunk) (hostData chunk s)"
| host_end: "px_exit s = None \<Longrightarrow> \<not> px_ended s \<Longrightarrow> proxy_step cfg s HostEnd (hostEnd s)"
| proceed: "px_exit s = None \<Longrightarrow> px_wait s = None \<Longrightarrow> px_chain s = i # rest \<Longrightarrow>
    proxy_step cfg s Proceed (chainNext cfg i (s\<lparr>px_chain := rest\<rparr>))"
| verdict: "px_exit s = None \<Longrightarrow> px_wait s = Some (line, msg) \<Longrightarrow> proxy_step cfg s (Verdict out) (afterVerdict out line msg s)"
| child_data: "px_exit s = None \<Longrightarrow> proxy_step cfg s (ChildData chunk) (childData chunk s)"
| child_error: "px_exit s = None \<Longrightarrow> proxy_step cfg s (ChildError m) (childError cfg m s)"
| child_exit: "px_exit s = None \<Longrightarrow> proxy_step cfg s (ChildExit code sig) (childExit cfg code sig s)"

inductive proxy_run :: "proxy_cfg \<Rightarrow> proxy_event list \<Rightarrow> proxy \<Rightarrow> bool" for cfg where
  run_nil: "proxy_run cfg [] proxy_start"
| run_snoc: "proxy_run cfg evs s \<Longrightarrow> proxy_step cfg s ev s' \<Longrightarrow> proxy_run cfg (evs @ [ev]) s'"

inductive_simps step_HostData: "proxy_step cfg s (HostData chunk) s'"
inductive_simps step_HostEnd: "proxy_step cfg s HostEnd s'"
inductive_simps step_Proceed: "proxy_step cfg s Proceed s'"
inductive_simps step_Verdict: "proxy_step cfg s (Verdict out) s'"
inductive_simps step_ChildData: "proxy_step cfg s (ChildData chunk) s'"


section \<open>What a run amounts to\<close>

text \<open>
  The specification: a log of the host's lines the proxy is done with, each with the daemon's answer
  when the line was a call that is gated. The log determines what the child and the daemon get and
  which replies the proxy makes itself.
\<close>

definition gated_line :: "string \<Rightarrow> bool" where
  "gated_line l \<longleftrightarrow> (case json_parse l of Some msg \<Rightarrow> gated_call msg | None \<Rightarrow> False)"

definition line_msg :: "string \<Rightarrow> json" where
  "line_msg l = the (json_parse l)"

definition denied :: "http_out \<Rightarrow> bool" where
  "denied out \<longleftrightarrow> (case callPreToolUse out of Some (d, r) \<Rightarrow> d = JStr ''deny'' | None \<Rightarrow> False)"

type_synonym log_entry = "string \<times> http_out option"

fun entry_ok :: "log_entry \<Rightarrow> bool" where
  "entry_ok (l, None) = (\<not> gated_line l)"
| "entry_ok (l, Some out) = (gated_line l \<and> callPreToolUse out \<noteq> None)"

fun child_part :: "log_entry \<Rightarrow> string list" where
  "child_part (l, None) = (if json_parse l = Some JNull then [] else [l])"
| "child_part (l, Some out) = (if denied out then [] else [l])"

fun reply_part :: "log_entry \<Rightarrow> string list" where
  "reply_part (l, None) = []"
| "reply_part (l, Some out) =
     (if denied out then [json_stringify (denyResponseFor (the (jprop (line_msg l) ''id'')) (snd (the (callPreToolUse out))))] else [])"

definition ask :: "proxy_cfg \<Rightarrow> string \<Rightarrow> http_req" where
  "ask cfg l = mcp_post cfg ''pre-tool-use'' (pre_tool_body cfg (line_msg l))"

fun ask_part :: "proxy_cfg \<Rightarrow> log_entry \<Rightarrow> http_req list" where
  "ask_part cfg (l, None) = []"
| "ask_part cfg (l, Some out) = [ask cfg l]"

fun answer_part :: "log_entry \<Rightarrow> http_out list" where
  "answer_part (l, None) = []"
| "answer_part (l, Some out) = [out]"

fun answer_of :: "proxy_event \<Rightarrow> http_out list" where
  "answer_of (Verdict out) = (if callPreToolUse out = None then [] else [out])"
| "answer_of _ = []"

fun host_part :: "proxy_event \<Rightarrow> string" where
  "host_part (HostData c) = utf8_decode c"
| "host_part _ = []"

fun child_text_part :: "proxy_event \<Rightarrow> string" where
  "child_text_part (ChildData c) = utf8_decode c"
| "child_text_part _ = []"

definition host_lines :: "proxy_event list \<Rightarrow> string list \<times> string" where
  "host_lines evs = drain_lines (concat (map host_part evs))"

definition child_lines :: "proxy_event list \<Rightarrow> string list \<times> string" where
  "child_lines evs = drain_lines (concat (map child_text_part evs))"

fun chain_lines :: "chain_item list \<Rightarrow> string list" where
  "chain_lines [] = []"
| "chain_lines (QLine l # cs) = l # chain_lines cs"
| "chain_lines (QEnd # cs) = chain_lines cs"

definition wait_lines :: "proxy \<Rightarrow> string list" where
  "wait_lines s = (case px_wait s of Some (l, m) \<Rightarrow> [l] | None \<Rightarrow> [])"

definition host_inv :: "proxy_cfg \<Rightarrow> proxy_event list \<Rightarrow> proxy \<Rightarrow> log_entry list \<Rightarrow> bool" where
  "host_inv cfg evs s log \<longleftrightarrow>
     list_all entry_ok log \<and>
     host_lines evs = (map fst log @ wait_lines s @ chain_lines (px_chain s), px_buf s) \<and>
     px_child_in s = concat (map child_part log) \<and>
     px_asked s = concat (map (ask_part cfg) log) @ map (ask cfg) (wait_lines s) \<and>
     concat (map answer_part log) = concat (map answer_of evs) \<and>
     (\<forall>l m. px_wait s = Some (l, m) \<longrightarrow> json_parse l = Some m \<and> gated_call m)"

definition child_inv :: "proxy_event list \<Rightarrow> proxy \<Rightarrow> log_entry list \<Rightarrow> bool" where
  "child_inv evs s log \<longleftrightarrow>
     (\<exists>seen. px_out s \<in> shuffles seen (concat (map reply_part log)) \<and> prefix seen (fst (child_lines evs)) \<and>
        (px_exit s = None \<longrightarrow> child_lines evs = (seen, px_cbuf s)))"

lemma chain_lines_append: "chain_lines (a @ b) = chain_lines a @ chain_lines b"
  by (induction a rule: chain_lines.induct) simp_all

lemma chain_lines_map: "chain_lines (map QLine ls) = ls"
  by (induction ls) simp_all

lemma shuffles_snoc: "zs \<in> shuffles xs ys \<Longrightarrow> zs @ [z] \<in> shuffles (xs @ [z]) ys"
proof (induction zs arbitrary: xs ys)
  case (Cons w zs)
  then show ?case by (auto simp: Cons_in_shuffles_iff neq_Nil_conv)
qed simp

lemma shuffles_append: "zs \<in> shuffles xs ys \<Longrightarrow> zs @ ws \<in> shuffles (xs @ ws) ys"
proof (induction ws arbitrary: zs xs)
  case (Cons w ws)
  from Cons.IH [OF shuffles_snoc [OF Cons.prems, of w]] show ?case by simp
qed simp

lemma shuffles_snoc2: "zs \<in> shuffles xs ys \<Longrightarrow> zs @ [z] \<in> shuffles xs (ys @ [z])"
  using shuffles_snoc shuffles_commutes by metis

lemma host_lines_other: "host_part ev = [] \<Longrightarrow> host_lines (evs @ [ev]) = host_lines evs"
  by (simp add: host_lines_def)

lemma child_lines_other: "child_text_part ev = [] \<Longrightarrow> child_lines (evs @ [ev]) = child_lines evs"
  by (simp add: child_lines_def)

lemma host_lines_data:
  "host_lines (evs @ [HostData c]) =
     (fst (host_lines evs) @ fst (lb_push (snd (host_lines evs)) c), snd (lb_push (snd (host_lines evs)) c))"
  by (simp add: host_lines_def lb_push_def drain_lines_append [of "concat (map host_part evs)"])

lemma child_lines_data:
  "child_lines (evs @ [ChildData c]) =
     (fst (child_lines evs) @ fst (lb_push (snd (child_lines evs)) c), snd (lb_push (snd (child_lines evs)) c))"
  by (simp add: child_lines_def lb_push_def drain_lines_append [of "concat (map child_text_part evs)"])

subsection \<open>The child's side\<close>

lemma childLine_frame:
  "px_buf (childLine l s) = px_buf s \<and> px_chain (childLine l s) = px_chain s \<and> px_wait (childLine l s) = px_wait s \<and>
   px_child_in (childLine l s) = px_child_in s \<and> px_asked (childLine l s) = px_asked s \<and> px_cbuf (childLine l s) = px_cbuf s \<and>
   px_out (childLine l s) = px_out s @ [l]"
  by (auto simp: childLine_def Let_def split: option.split)

lemma childLines_frame:
  "px_buf (childLines ls s) = px_buf s \<and> px_chain (childLines ls s) = px_chain s \<and> px_wait (childLines ls s) = px_wait s \<and>
   px_child_in (childLines ls s) = px_child_in s \<and> px_asked (childLines ls s) = px_asked s \<and> px_cbuf (childLines ls s) = px_cbuf s"
  by (induction ls s rule: childLines.induct) (simp_all add: Let_def childLine_frame)

lemma childLines_out:
  "px_exit s = None \<Longrightarrow>
     \<exists>seen. prefix seen ls \<and> px_out (childLines ls s) = px_out s @ seen \<and> (px_exit (childLines ls s) = None \<longrightarrow> seen = ls)"
proof (induction ls s rule: childLines.induct)
  case (2 l ls s)
  show ?case
  proof (cases "px_exit (childLine l s) = None")
    case True
    with 2(1) [OF refl] obtain seen where "prefix seen ls" "px_out (childLines ls (childLine l s)) = px_out (childLine l s) @ seen"
      "px_exit (childLines ls (childLine l s)) = None \<longrightarrow> seen = ls" by auto
    with True show ?thesis by (intro exI [of _ "l # seen"]) (simp add: childLine_frame)
  next
    case False
    then show ?thesis by (intro exI [of _ "[l]"]) (auto simp: childLine_frame Let_def)
  qed
qed simp

lemma host_inv_child:
  "host_inv cfg evs s log \<Longrightarrow> host_part ev = [] \<Longrightarrow> answer_of ev = [] \<Longrightarrow>
     px_buf s' = px_buf s \<Longrightarrow> px_chain s' = px_chain s \<Longrightarrow> px_wait s' = px_wait s \<Longrightarrow> px_child_in s' = px_child_in s \<Longrightarrow>
     px_asked s' = px_asked s \<Longrightarrow> host_inv cfg (evs @ [ev]) s' log"
  by (simp add: host_inv_def host_lines_other wait_lines_def)

lemma child_inv_host:
  "child_inv evs s log \<Longrightarrow> child_text_part ev = [] \<Longrightarrow> px_out s' = px_out s \<Longrightarrow> px_cbuf s' = px_cbuf s \<Longrightarrow> px_exit s = None \<Longrightarrow>
     concat (map reply_part log') = concat (map reply_part log) \<Longrightarrow> child_inv (evs @ [ev]) s' log'"
  by (auto simp: child_inv_def child_lines_other)

lemma child_inv_data:
  assumes "child_inv evs s log" "px_exit s = None"
  shows "child_inv (evs @ [ChildData c]) (childData c s) log"
proof -
  from assms obtain seen where s: "px_out s \<in> shuffles seen (concat (map reply_part log))" "child_lines evs = (seen, px_cbuf s)"
    by (auto simp: child_inv_def)
  obtain ls rest where lb: "lb_push (px_cbuf s) c = (ls, rest)" by fastforce
  have new: "child_lines (evs @ [ChildData c]) = (seen @ ls, rest)" using s(2) lb by (simp add: child_lines_data)
  from childLines_out [of "s\<lparr>px_cbuf := rest\<rparr>" ls] assms(2) obtain more where
    m: "prefix more ls" "px_out (childData c s) = px_out s @ more" "px_exit (childData c s) = None \<longrightarrow> more = ls"
    by (auto simp: childData_def lb)
  have cb: "px_cbuf (childData c s) = rest" by (simp add: childData_def lb childLines_frame)
  show ?thesis
    unfolding child_inv_def
    by (intro exI [of _ "seen @ more"]) (use new m cb shuffles_append [OF s(1), of more] in auto)
qed

subsection \<open>The host's side\<close>

lemma host_inv_data:
  assumes "host_inv cfg evs s log"
  shows "host_inv cfg (evs @ [HostData c]) (hostData c s) log"
proof -
  obtain ls rest where lb: "lb_push (px_buf s) c = (ls, rest)" by fastforce
  with assms show ?thesis
    by (auto simp: host_inv_def hostData_def host_lines_data wait_lines_def chain_lines_append chain_lines_map)
qed

lemma processLine_inv:
  assumes inv: "host_inv cfg evs s log" and s: "px_wait s = None" "px_chain s = QLine l # rest" and ev: "ev = Proceed"
  shows "\<exists>log'. host_inv cfg (evs @ [ev]) (processLine cfg l (s\<lparr>px_chain := rest\<rparr>)) log' \<and>
    concat (map reply_part log') = concat (map reply_part log)"
proof (cases "gated_line l")
  case True
  then obtain m where m: "json_parse l = Some m" "gated_call m" by (auto simp: gated_line_def split: option.splits)
  then have "m \<noteq> JNull" by (auto simp: gated_call_def)
  with m inv s ev show ?thesis
    by (intro exI [of _ log]) (auto simp: host_inv_def processLine_def host_lines_other wait_lines_def ask_def line_msg_def)
next
  case False
  then have c: "json_parse l = None \<or> json_parse l = Some JNull \<or> (\<exists>m. json_parse l = Some m \<and> m \<noteq> JNull \<and> \<not> gated_call m)"
    by (auto simp: gated_line_def split: option.splits)
  with False inv s ev show ?thesis
    by (intro exI [of _ "log @ [(l, None)]"])
      (auto simp: host_inv_def processLine_def to_child_def host_lines_other wait_lines_def)
qed

lemma chainEnd_inv:
  "host_inv cfg evs s log \<Longrightarrow> px_wait s = None \<Longrightarrow> px_chain s = QEnd # rest \<Longrightarrow>
     host_inv cfg (evs @ [Proceed]) (s\<lparr>px_chain := rest, px_child_closed := True\<rparr>) log"
  by (simp add: host_inv_def host_lines_other wait_lines_def)

lemma verdict_inv:
  assumes inv: "host_inv cfg evs s log" and cinv: "child_inv evs s log" and s: "px_wait s = Some (l, m)" "px_exit s = None"
  shows "\<exists>log'. host_inv cfg (evs @ [Verdict out]) (afterVerdict out l m s) log' \<and>
    child_inv (evs @ [Verdict out]) (afterVerdict out l m s) log'"
proof -
  have m: "json_parse l = Some m" "gated_call m" using inv s by (auto simp: host_inv_def)
  then have g: "gated_line l" "line_msg l = m" by (simp_all add: gated_line_def line_msg_def)
  show ?thesis
  proof (cases "callPreToolUse out")
    case None
    with inv cinv s show ?thesis
      by (intro exI [of _ log]) (auto simp: afterVerdict_def host_inv_def host_lines_other child_inv_def child_lines_other)
  next
    case (Some dr)
    obtain d r where dr: "dr = (d, r)" by fastforce
    let ?log = "log @ [(l, Some out)]"
    have "host_inv cfg (evs @ [Verdict out]) (afterVerdict out l m s) ?log"
      using inv s m g Some dr
      by (auto simp: afterVerdict_def host_inv_def host_lines_other wait_lines_def to_child_def denied_def)
    moreover have "child_inv (evs @ [Verdict out]) (afterVerdict out l m s) ?log"
      using cinv s m g Some dr
      by (auto simp: afterVerdict_def child_inv_def child_lines_other to_child_def denied_def intro: shuffles_snoc2)
    ultimately show ?thesis by blast
  qed
qed

lemma step_inv:
  assumes "host_inv cfg evs s log" "child_inv evs s log" "proxy_step cfg s ev s'"
  shows "\<exists>log'. host_inv cfg (evs @ [ev]) s' log' \<and> child_inv (evs @ [ev]) s' log'"
  using assms(3)
proof (cases rule: proxy_step.cases)
  case (host_data chunk)
  have "child_inv (evs @ [HostData chunk]) (hostData chunk s) log"
    using host_data by (intro child_inv_host [OF assms(2)]) (auto simp: hostData_def split: prod.split)
  with host_data host_inv_data [OF assms(1)] show ?thesis by blast
next
  case host_end
  have "host_inv cfg (evs @ [HostEnd]) (hostEnd s) log"
    using assms(1) by (simp add: host_inv_def hostEnd_def host_lines_other wait_lines_def chain_lines_append)
  with host_end show ?thesis
    using child_inv_host [OF assms(2), of HostEnd "hostEnd s" log] by (auto simp: hostEnd_def)
next
  case (proceed i rest)
  show ?thesis
  proof (cases i)
    case (QLine l)
    from processLine_inv [OF assms(1), of l rest Proceed] proceed QLine obtain log' where
      l: "host_inv cfg (evs @ [Proceed]) s' log'" "concat (map reply_part log') = concat (map reply_part log)" by auto
    have "child_inv (evs @ [Proceed]) s' log'"
      using proceed QLine l(2) by (intro child_inv_host [OF assms(2)]) (auto simp: processLine_def to_child_def split: option.split)
    with l(1) proceed show ?thesis by blast
  next
    case QEnd
    with proceed chainEnd_inv [OF assms(1), of rest] child_inv_host [OF assms(2), of Proceed s' log] show ?thesis
      by auto
  qed
next
  case (verdict line msg out)
  with verdict_inv [OF assms(1,2)] show ?thesis by blast
next
  case (child_data chunk)
  have "host_inv cfg (evs @ [ev]) s' log"
    using child_data by (intro host_inv_child [OF assms(1)]) (auto simp: childData_def childLines_frame split: prod.split)
  with child_data child_inv_data [OF assms(2)] show ?thesis by blast
next
  case (child_error m)
  then show ?thesis
    using host_inv_child [OF assms(1), of ev s'] assms(2)
    by (intro exI [of _ log]) (auto simp: childError_def child_inv_def child_lines_other)
next
  case (child_exit code sig)
  then show ?thesis
    using host_inv_child [OF assms(1), of ev s'] assms(2)
    by (intro exI [of _ log]) (auto simp: childExit_def child_inv_def child_lines_other)
qed

lemma run_inv: "proxy_run cfg evs s \<Longrightarrow> \<exists>log. host_inv cfg evs s log \<and> child_inv evs s log"
proof (induction rule: proxy_run.induct)
  case run_nil
  have "drain_lines [] = ([], [])" by (rule lines.drain_nil)
  then show ?case
    by (intro exI [of _ "[]"]) (simp add: host_inv_def child_inv_def proxy_start_def host_lines_def child_lines_def wait_lines_def)
next
  case (run_snoc evs s ev s')
  then show ?case using step_inv by blast
qed

subsection \<open>The properties of a run\<close>

text \<open>C16. The proxy refines its specification. For every interleaving of chunks, daemon answers and child output there is a log of the
  host's lines, in arrival order and each with the daemon's answer exactly when it is a gated \<open>tools/call\<close>, such that the lines not yet in it
  are the one waiting for a verdict and the queue; the child received exactly the log's ungated and not denied lines, verbatim and in
  order; the daemon was asked exactly about the gated ones; and the answers were consumed in order.\<close>

theorem proxy_refines_log:
  assumes "proxy_run cfg evs s"
  shows "\<exists>log. list_all entry_ok log \<and>
     fst (host_lines evs) = map fst log @ wait_lines s @ chain_lines (px_chain s) \<and>
     px_child_in s = concat (map child_part log) \<and>
     px_asked s = concat (map (ask_part cfg) log) @ map (ask cfg) (wait_lines s) \<and>
     concat (map answer_part log) = concat (map answer_of evs)"
  using run_inv [OF assms] by (auto simp: host_inv_def)

text \<open>C18. What the host reads is a fair merge: at any time the proxy's output is an interleaving of an initial part of the child's lines,
  verbatim (all of them, while the proxy lives), with the proxy's own replies, one per denied call and in the order of the calls.\<close>

theorem proxy_output_merge:
  assumes "proxy_run cfg evs s"
  shows "\<exists>log seen. list_all entry_ok log \<and> map fst log @ wait_lines s @ chain_lines (px_chain s) = fst (host_lines evs) \<and>
     concat (map answer_part log) = concat (map answer_of evs) \<and>
     px_out s \<in> shuffles seen (concat (map reply_part log)) \<and> prefix seen (fst (child_lines evs)) \<and>
     (px_exit s = None \<longrightarrow> seen = fst (child_lines evs))"
proof -
  from run_inv [OF assms] obtain log seen where h: "host_inv cfg evs s log"
    and c: "px_out s \<in> shuffles seen (concat (map reply_part log))" "prefix seen (fst (child_lines evs))"
      "px_exit s = None \<longrightarrow> child_lines evs = (seen, px_cbuf s)" by (auto simp: child_inv_def)
  show ?thesis
    by (rule exI [of _ log], rule exI [of _ seen]) (use h c in \<open>auto simp: host_inv_def\<close>)
qed

lemma child_part_gated:
  assumes "l \<in> set (concat (map child_part log))" "list_all entry_ok log" "gated_line l"
  shows "\<exists>out. (l, Some out) \<in> set log \<and> \<not> denied out"
proof -
  from assms(1) obtain e where e: "e \<in> set log" "l \<in> set (child_part e)" by auto
  with assms(2,3) show ?thesis by (cases e rule: child_part.cases) (auto simp: list_all_iff split: if_splits)
qed

lemma answer_mem: "(l, Some out) \<in> set log \<Longrightarrow> out \<in> set (concat (map answer_part log))"
  by force

lemma answer_event: "out \<in> set (concat (map answer_of evs)) \<Longrightarrow> Verdict out \<in> set evs"
proof -
  have "out \<in> set (answer_of e) \<Longrightarrow> e = Verdict out" for e by (cases e) (auto split: if_splits)
  then show "out \<in> set (concat (map answer_of evs)) \<Longrightarrow> Verdict out \<in> set evs" by fastforce
qed


text \<open>An outage: the daemon cannot be reached, answers with an error status or with something that is not JSON.\<close>

fun outage :: "http_out \<Rightarrow> bool" where
  "outage (NetErr m) = True"
| "outage (Answer res) = (\<not> resp_ok res \<or> (\<exists>body. rs_body res = Some body \<and> (json_parse body = None \<or> json_parse body = Some JNull)))"

lemma outage_allows: "outage out \<Longrightarrow> callPreToolUse out = Some (JStr ''allow'', JStr '''')"
  by (cases out) (auto simp: callPreToolUse_def)

lemma not_denied_forwards:
  "list_all entry_ok log \<Longrightarrow> \<forall>out \<in> set (concat (map answer_part log)). \<not> denied out \<Longrightarrow>
     concat (map child_part log) = filter (\<lambda>l. json_parse l \<noteq> Some JNull) (map fst log) \<and> concat (map reply_part log) = []"
proof (induction log)
  case (Cons e log)
  then show ?case
    by (cases e rule: child_part.cases) (auto simp: gated_line_def gated_call_def split: option.splits)
qed simp

text \<open>C19. Fail open: if no answer of the daemon is a denial (in particular if it is down throughout) and the proxy has caught up, the child
  has received every line of the host, in order, but for lines that are the JSON value \<open>null\<close>; and the host has been sent nothing but the
  child's own lines.\<close>

theorem proxy_fail_open:
  assumes "proxy_run cfg evs s" and "px_wait s = None" and "px_chain s = []"
    and "\<forall>out. Verdict out \<in> set evs \<longrightarrow> outage out \<or> \<not> denied out"
  shows "px_child_in s = filter (\<lambda>l. json_parse l \<noteq> Some JNull) (fst (host_lines evs)) \<and> prefix (px_out s) (fst (child_lines evs))"
proof -
  from run_inv [OF assms(1)] obtain log where h: "host_inv cfg evs s log" and c: "child_inv evs s log" by blast
  have nd: "\<forall>out \<in> set (concat (map answer_part log)). \<not> denied out"
    using h assms(4) answer_event outage_allows by (force simp: host_inv_def denied_def split: option.splits)
  have lines: "fst (host_lines evs) = map fst log" using h assms(2,3) by (simp add: host_inv_def wait_lines_def)
  from h have ok: "list_all entry_ok log" by (simp add: host_inv_def)
  have "px_out s \<in> shuffles seen [] \<Longrightarrow> px_out s = seen" for seen
    by (cases seen) auto
  with c not_denied_forwards [OF ok nd] have "prefix (px_out s) (fst (child_lines evs))" by (auto simp: child_inv_def)
  moreover have "px_child_in s = concat (map child_part log)" using h by (simp add: host_inv_def)
  ultimately show ?thesis using not_denied_forwards [OF ok nd] lines by simp
qed

subsection \<open>Completions\<close>

definition call_id :: "string \<Rightarrow> string" where
  "call_id l = js_ostring (jprop (line_msg l) ''id'')"

definition forwarded_calls :: "string \<Rightarrow> proxy \<Rightarrow> nat" where
  "forwarded_calls k s = length (filter (\<lambda>l. gated_line l \<and> call_id l = k) (px_child_in s))"

definition recorded :: "string \<Rightarrow> proxy \<Rightarrow> nat" where
  "recorded k s = length (filter (\<lambda>p. pt_id p = k) (px_posts s))"

definition post_inv :: "proxy \<Rightarrow> bool" where
  "post_inv s \<longleftrightarrow> (\<forall>k. recorded k s + (if px_pending s k = None then 0 else 1) \<le> forwarded_calls k s \<and>
     (\<forall>n u. px_pending s k = Some (n, u) \<longrightarrow> u = k))"

lemma childLine_posts: "post_inv s \<Longrightarrow> post_inv (childLine l s)"
proof -
  assume inv: "post_inv s"
  show "post_inv (childLine l s)"
  proof (cases "px_posts (childLine l s) = px_posts s")
    case True
    then have "px_pending (childLine l s) = px_pending s" by (auto simp: childLine_def Let_def split: option.splits if_splits)
    with True inv show ?thesis by (simp add: post_inv_def recorded_def forwarded_calls_def childLine_frame)
  next
    case False
    then obtain m where m: "json_parse l = Some m" by (cases "json_parse l") (auto simp: childLine_def)
    define k where "k = js_ostring (jprop m ''id'')"
    from False m have g: "m \<noteq> JNull" "jprop m ''id'' \<noteq> None" "jprop m ''id'' \<noteq> Some JNull" "px_pending s k \<noteq> None"
      by (auto simp: childLine_def Let_def k_def split: if_splits option.splits)
    then obtain n u where nu: "px_pending s k = Some (n, u)" by auto
    define r where "r = nullish (jprop m ''result'') (jprop m ''error'')"
    have c: "px_pending s k = Some (n, u)" "childLine l s = s\<lparr>px_out := px_out s @ [l], px_pending := (px_pending s)(k := None),
        px_posts := px_posts s @ [\<lparr>pt_name = n, pt_id = u, pt_response = r\<rparr>]\<rparr>"
      using m g nu by (auto simp: childLine_def Let_def k_def r_def)
    have "u = k" using inv c(1) by (auto simp: post_inv_def)
    show ?thesis unfolding post_inv_def
    proof
      fix j
      from inv have "recorded j s + (if px_pending s j = None then 0 else 1) \<le> forwarded_calls j s \<and>
          (\<forall>n u. px_pending s j = Some (n, u) \<longrightarrow> u = j)" by (simp add: post_inv_def)
      then show "recorded j (childLine l s) + (if px_pending (childLine l s) j = None then 0 else 1) \<le> forwarded_calls j (childLine l s) \<and>
          (\<forall>n u. px_pending (childLine l s) j = Some (n, u) \<longrightarrow> u = j)"
        using c(1) \<open>u = k\<close> by (cases "j = k") (auto simp: c(2) recorded_def forwarded_calls_def split: if_splits)
    qed
  qed
qed

lemma childLines_posts: "post_inv s \<Longrightarrow> post_inv (childLines ls s)"
  by (induction ls s rule: childLines.induct) (simp_all add: Let_def childLine_posts)

lemma to_child_posts: "post_inv s \<Longrightarrow> post_inv (to_child l s)"
proof -
  have "forwarded_calls k s \<le> forwarded_calls k (to_child l s)" "recorded k (to_child l s) = recorded k s"
    "px_pending (to_child l s) = px_pending s" for k by (simp_all add: forwarded_calls_def recorded_def to_child_def)
  then show "post_inv s \<Longrightarrow> post_inv (to_child l s)" unfolding post_inv_def by (metis order_trans)
qed

lemma post_inv_frame: "post_inv s \<Longrightarrow> px_posts s' = px_posts s \<Longrightarrow> px_pending s' = px_pending s \<Longrightarrow> px_child_in s' = px_child_in s \<Longrightarrow> post_inv s'"
  by (simp add: post_inv_def recorded_def forwarded_calls_def)

lemma processLine_posts: "post_inv s \<Longrightarrow> post_inv (processLine cfg l s)"
  using to_child_posts [of s l] by (auto simp: processLine_def split: option.split elim: post_inv_frame)

lemma afterVerdict_posts:
  assumes "post_inv s" "gated_line l" "line_msg l = m"
  shows "post_inv (afterVerdict out l m s)"
proof -
  have "post_inv (to_child l (s\<lparr>px_wait := None, px_pending := (px_pending s)(js_ostring (jprop m ''id'') \<mapsto> (call_name m, js_ostring (jprop m ''id'')))\<rparr>))"
    unfolding post_inv_def
  proof
    fix k
    from assms(1) have "recorded k s + (if px_pending s k = None then 0 else 1) \<le> forwarded_calls k s \<and>
        (\<forall>n u. px_pending s k = Some (n, u) \<longrightarrow> u = k)" by (simp add: post_inv_def)
    then show "recorded k (to_child l (s\<lparr>px_wait := None, px_pending := (px_pending s)(js_ostring (jprop m ''id'') \<mapsto> (call_name m, js_ostring (jprop m ''id'')))\<rparr>))
        + (if px_pending (to_child l (s\<lparr>px_wait := None, px_pending := (px_pending s)(js_ostring (jprop m ''id'') \<mapsto> (call_name m, js_ostring (jprop m ''id'')))\<rparr>)) k = None then 0 else 1)
        \<le> forwarded_calls k (to_child l (s\<lparr>px_wait := None, px_pending := (px_pending s)(js_ostring (jprop m ''id'') \<mapsto> (call_name m, js_ostring (jprop m ''id'')))\<rparr>)) \<and>
        (\<forall>n u. px_pending (to_child l (s\<lparr>px_wait := None, px_pending := (px_pending s)(js_ostring (jprop m ''id'') \<mapsto> (call_name m, js_ostring (jprop m ''id'')))\<rparr>)) k = Some (n, u) \<longrightarrow> u = k)"
      using assms(2,3) by (auto simp: to_child_def recorded_def forwarded_calls_def call_id_def split: if_splits)
  qed
  with assms(1) show ?thesis by (auto simp: afterVerdict_def elim: post_inv_frame split: option.split)
qed

lemma run_post_inv: "proxy_run cfg evs s \<Longrightarrow> post_inv s"
proof (induction rule: proxy_run.induct)
  case run_nil
  show ?case by (simp add: post_inv_def proxy_start_def recorded_def)
next
  case (run_snoc evs s ev s')
  from run_snoc.hyps(2) show ?case
  proof (cases rule: proxy_step.cases)
    case (proceed i rest)
    have "post_inv (s\<lparr>px_chain := rest\<rparr>)" by (rule post_inv_frame [OF run_snoc.IH]) simp_all
    with proceed processLine_posts show ?thesis by (cases i) (auto elim: post_inv_frame)
  next
    case (verdict line msg out)
    from run_inv [OF run_snoc.hyps(1)] verdict obtain log where "host_inv cfg evs s log" by blast
    with verdict have "json_parse line = Some msg" "gated_call msg" by (auto simp: host_inv_def)
    with afterVerdict_posts [OF run_snoc.IH] verdict show ?thesis by (simp add: gated_line_def line_msg_def)
  next
    case (child_data chunk)
    obtain ls rest where lb: "lb_push (px_cbuf s) chunk = (ls, rest)" by fastforce
    have "post_inv (s\<lparr>px_cbuf := rest\<rparr>)" by (rule post_inv_frame [OF run_snoc.IH]) simp_all
    with child_data childLines_posts lb show ?thesis by (simp add: childData_def)
  qed (use run_snoc.IH in \<open>auto simp: hostData_def hostEnd_def childError_def childExit_def elim: post_inv_frame split: prod.split\<close>)
qed

text \<open>A completion is recorded at most once per call that ran: for every JSON-RPC id, never more post-tool-use records than gated calls
  with that id the child was sent; in particular a denied call leaves none.\<close>

theorem proxy_posts_bounded:
  assumes "proxy_run cfg evs s"
  shows "recorded k s \<le> forwarded_calls k s"
  using run_post_inv [OF assms] unfolding post_inv_def by (metis add_leD1)

subsection \<open>Progress\<close>

lemma afterVerdict_clears:
  "callPreToolUse out \<noteq> None \<Longrightarrow> px_wait (afterVerdict out l m s) = None \<and> px_chain (afterVerdict out l m s) = px_chain s \<and>
     px_exit (afterVerdict out l m s) = px_exit s"
  by (auto simp: afterVerdict_def to_child_def)

lemma chainNext_frame: "px_chain (chainNext cfg i s) = px_chain s \<and> px_exit (chainNext cfg i s) = px_exit s"
  by (cases i) (auto simp: processLine_def to_child_def split: option.split)

lemma answer_pending:
  fixes f :: "string \<Rightarrow> http_out"
  assumes "proxy_run cfg evs s" "px_exit s = None" "\<forall>l. callPreToolUse (f l) \<noteq> None"
  shows "\<exists>evs' s'. proxy_run cfg (evs @ evs') s' \<and> length evs' \<le> 1 \<and> px_wait s' = None \<and> px_chain s' = px_chain s \<and> px_exit s' = None \<and>
     (\<forall>e \<in> set evs'. \<exists>l. e = Verdict (f l))"
proof (cases "px_wait s")
  case None
  then show ?thesis using assms by (intro exI [of _ "[]"] exI [of _ s]) simp
next
  case (Some lm)
  obtain l m where lm: "lm = (l, m)" by fastforce
  have "proxy_run cfg (evs @ [Verdict (f l)]) (afterVerdict (f l) l m s)"
    by (rule run_snoc [OF assms(1) proxy_step.verdict [OF assms(2) Some [unfolded lm]]])
  then show ?thesis using afterVerdict_clears [of "f l" l m s] assms(2,3) by (intro exI [of _ "[Verdict (f l)]"] exI) auto
qed

text \<open>C20. The proxy is never stuck: as long as the process lives and the daemon answers at all (with whatever answer), every queued line
  is dealt with after at most two further events per line and one for the call already outstanding.\<close>

theorem proxy_drains:
  fixes f :: "string \<Rightarrow> http_out"
  assumes "proxy_run cfg evs s" and "px_exit s = None" and "\<forall>l. callPreToolUse (f l) \<noteq> None"
  shows "\<exists>evs' s'. proxy_run cfg (evs @ evs') s' \<and> length evs' \<le> 2 * length (px_chain s) + 1 \<and>
     px_wait s' = None \<and> px_chain s' = [] \<and> px_exit s' = None \<and> (\<forall>e \<in> set evs'. e = Proceed \<or> (\<exists>l. e = Verdict (f l)))"
  using assms(1,2)
proof (induction "length (px_chain s)" arbitrary: evs s)
  case 0
  from answer_pending [OF 0(2,3) assms(3)] obtain e1 s1 where "proxy_run cfg (evs @ e1) s1" "length e1 \<le> 1" "px_wait s1 = None"
    "px_chain s1 = px_chain s" "px_exit s1 = None" "\<forall>e \<in> set e1. \<exists>l. e = Verdict (f l)" by blast
  with 0(1) show ?case by (intro exI [of _ e1] exI [of _ s1]) auto
next
  case (Suc n)
  from answer_pending [OF Suc(3,4) assms(3)] obtain e1 s1 where s1: "proxy_run cfg (evs @ e1) s1" "length e1 \<le> 1" "px_wait s1 = None"
    "px_chain s1 = px_chain s" "px_exit s1 = None" "\<forall>e \<in> set e1. \<exists>l. e = Verdict (f l)" by blast
  from Suc(2) s1(4) obtain i rest where c: "px_chain s1 = i # rest" "length rest = n" by (metis length_Suc_conv)
  let ?s2 = "chainNext cfg i (s1\<lparr>px_chain := rest\<rparr>)"
  have "proxy_run cfg ((evs @ e1) @ [Proceed]) ?s2" using s1(5,3) c(1) by (intro run_snoc [OF s1(1)] proceed)
  moreover have "px_chain ?s2 = rest" "px_exit ?s2 = None" using chainNext_frame [of cfg i "s1\<lparr>px_chain := rest\<rparr>"] s1(5) by simp_all
  ultimately obtain e2 s' where s': "proxy_run cfg (((evs @ e1) @ [Proceed]) @ e2) s'" "length e2 \<le> 2 * n + 1"
    "px_wait s' = None" "px_chain s' = []" "px_exit s' = None" "\<forall>e \<in> set e2. e = Proceed \<or> (\<exists>l. e = Verdict (f l))"
    using Suc(1) [of ?s2 "(evs @ e1) @ [Proceed]"] c(2) by auto
  show ?case
    by (rule exI [of _ "e1 @ Proceed # e2"], rule exI [of _ s']) (use s1(2,6) s' c(2) s1(4) Suc(2) in auto)
qed

subsection \<open>Starting\<close>

lemma proxy_args_loop_rest:
  "proxy_args_loop argv n0 = Inr (n, c # cs) \<Longrightarrow>
     \<exists>pre. argv = pre @ ''--'' # c # cs \<and>
       (pre = [] \<and> n = n0 \<or> (\<exists>q. pre = q @ [''--name'', n] \<or> pre = q @ [''--name='' @ n]))"
proof (induction argv n0 rule: proxy_args_loop.induct)
  case (2 a as n0)
  consider (dd) "a = ''--''" | (name) "a = ''--name''" | (eq) "a \<noteq> ''--''" "a \<noteq> ''--name''" "starts_with ''--name='' a"
    | (bad) "a \<noteq> ''--''" "a \<noteq> ''--name''" "\<not> starts_with ''--name='' a" by blast
  then show ?case
  proof cases
    case dd
    with 2(3) show ?thesis by (intro exI [of _ "[]"]) auto
  next
    case name
    with 2(3) obtain v vs where v: "as = v # vs" "proxy_args_loop vs v = Inr (n, c # cs)" by (auto split: list.splits)
    from 2(1) [OF _ name v] name obtain pre where pre: "vs = pre @ ''--'' # c # cs"
      "pre = [] \<and> n = v \<or> (\<exists>q. pre = q @ [''--name'', n] \<or> pre = q @ [''--name='' @ n])" by auto
    show ?thesis
      by (rule exI [of _ "''--name'' # v # pre"])
        (use name v(1) pre in \<open>auto intro: exI [of _ "''--name'' # v # _"] exI [of _ "[]"]\<close>)
  next
    case eq
    with 2(3) have "proxy_args_loop as (drop 7 a) = Inr (n, c # cs)" by simp
    from 2(2) [OF eq this] obtain pre where pre: "as = pre @ ''--'' # c # cs"
      "pre = [] \<and> n = drop 7 a \<or> (\<exists>q. pre = q @ [''--name'', n] \<or> pre = q @ [''--name='' @ n])" by auto
    have "a = ''--name='' @ drop 7 a" using eq(3) by (auto simp: starts_with_iff)
    with pre show ?thesis
      by (intro exI [of _ "a # pre"]) (auto intro: exI [of _ "a # _"] exI [of _ "[]"])
  next
    case bad
    with 2(3) show ?thesis by simp
  qed
qed simp

text \<open>The proxy starts only on a complete command line: either the words before the first separator end with the name of the server and
  a command follows, and the configuration is that name, that command and the daemon of the environment; or it prints a diagnostic with the
  usage on stderr, nothing on stdout, and exits with code 2 before anything is spawned.\<close>

theorem mcp_proxy_start:
  "(\<exists>cfg pre args. runMcpProxy argv w = (Val cfg, w) \<and> argv = pre @ ''--'' # pc_cmd cfg # args \<and> pc_server cfg \<noteq> [] \<and>
      (\<exists>q. pre = q @ [''--name'', pc_server cfg] \<or> pre = q @ [''--name='' @ pc_server cfg]) \<and>
      pc_url cfg = mcp_daemon_url w \<and> length (pc_session cfg) \<le> 128) \<or>
   (\<exists>e. parseProxyArgs argv = Inl e \<and> runMcpProxy argv w = (Exited 2,
      w\<lparr>w_err := w_err w @ ''agentlock mcp-proxy: '' @ e @ [chr_nl] @ ''usage: agentlock mcp-proxy --name <id> -- <child-cmd> [args...]'' @ [chr_nl]\<rparr>))"
proof (cases "parseProxyArgs argv")
  case (Inl e)
  then show ?thesis by (simp add: runMcpProxy_def stderr_write_def thenP_def bindP_def updP_def exitP_def)
next
  case (Inr p)
  then obtain n c cs where p: "proxy_args_loop argv '''' = Inr (n, c # cs)" "n \<noteq> []" "p = \<lparr>pa_server = n, pa_cmd = c, pa_args = cs\<rparr>"
    by (auto simp: parseProxyArgs_def split: sum.splits if_splits list.splits)
  from proxy_args_loop_rest [OF p(1)] p(2) obtain pre where pre: "argv = pre @ ''--'' # c # cs"
    "\<exists>q. pre = q @ [''--name'', n] \<or> pre = q @ [''--name='' @ n]" by blast
  have "runMcpProxy argv w = (Val \<lparr>pc_url = mcp_daemon_url w, pc_server = n, pc_session = sessionIdFor n, pc_cwd = w_cwd w, pc_cmd = c,
      pc_win = (w_platform w = Win32)\<rparr>, w)" using Inr p(3) by (simp add: runMcpProxy_def getsP_def)
  then show ?thesis
    by (intro disjI1 exI, intro conjI, assumption) (use pre p(2) in \<open>auto simp: sessionIdFor_def\<close>)
qed

section \<open>A concrete run\<close>

text \<open>The steps as a function, to build runs by evaluation.\<close>

fun exec_step :: "proxy_cfg \<Rightarrow> proxy_event \<Rightarrow> proxy \<Rightarrow> proxy option" where
  "exec_step cfg (HostData c) s = (if px_ended s then None else Some (hostData c s))"
| "exec_step cfg HostEnd s = (if px_ended s then None else Some (hostEnd s))"
| "exec_step cfg Proceed s =
     (case (px_wait s, px_chain s) of (None, i # rest) \<Rightarrow> Some (chainNext cfg i (s\<lparr>px_chain := rest\<rparr>)) | _ \<Rightarrow> None)"
| "exec_step cfg (Verdict out) s = (case px_wait s of Some (l, m) \<Rightarrow> Some (afterVerdict out l m s) | None \<Rightarrow> None)"
| "exec_step cfg (ChildData c) s = Some (childData c s)"
| "exec_step cfg (ChildError m) s = Some (childError cfg m s)"
| "exec_step cfg (ChildExit code sig) s = Some (childExit cfg code sig s)"

fun exec_run :: "proxy_cfg \<Rightarrow> proxy_event list \<Rightarrow> proxy \<Rightarrow> proxy option" where
  "exec_run cfg [] s = Some s"
| "exec_run cfg (e # es) s =
     (if px_exit s = None then case exec_step cfg e s of Some s' \<Rightarrow> exec_run cfg es s' | None \<Rightarrow> None else None)"

lemma exec_step_sound: "exec_step cfg e s = Some s' \<Longrightarrow> px_exit s = None \<Longrightarrow> proxy_step cfg s e s'"
  by (cases e) (auto intro: proxy_step.intros split: option.splits list.splits if_splits)

lemma exec_run_sound: "proxy_run cfg evs0 s \<Longrightarrow> exec_run cfg evs s = Some s' \<Longrightarrow> proxy_run cfg (evs0 @ evs) s'"
proof (induction evs arbitrary: evs0 s)
  case (Cons e es)
  then obtain s1 where s1: "exec_step cfg e s = Some s1" "exec_run cfg es s1 = Some s'" "px_exit s = None"
    by (auto split: if_splits option.splits)
  have "proxy_run cfg (evs0 @ [e]) s1" by (rule run_snoc [OF Cons.prems(1) exec_step_sound [OF s1(1,3)]])
  from Cons.IH [OF this s1(2)] show ?case by simp
qed simp

definition demo_cfg :: proxy_cfg where
  "demo_cfg = \<lparr>pc_url = ''http://d/'', pc_server = ''fs'', pc_session = ''claude-desktop-fs'', pc_cwd = ''/h'', pc_cmd = ''c'', pc_win = False\<rparr>"

definition demo_call :: "int \<Rightarrow> string" where
  "demo_call i = json_stringify (JObj [(''method'', JStr ''tools/call''), (''id'', jint i), (''params'', JObj [(''name'', JStr ''t'')])])"

definition demo_deny :: http_out where
  "demo_deny = Answer \<lparr>rs_status = 200, rs_text = '''',
     rs_body = Some (json_stringify (JObj [(''hookSpecificOutput'', JObj [(''permissionDecision'', JStr ''deny'')])]))\<rparr>"

text \<open>Two calls: the first is denied, for the second the daemon is down; then the child answers the second.\<close>

definition demo_events :: "proxy_event list" where
  "demo_events =
     [HostData (demo_call 1 @ [chr_nl] @ demo_call 2 @ [chr_nl]), Proceed, Verdict demo_deny, Proceed, Verdict (NetErr ''down''),
      ChildData (json_stringify (JObj [(''id'', jint 2), (''result'', JObj [])]) @ [chr_nl])]"

definition demo_end :: proxy where
  "demo_end = the (exec_run demo_cfg demo_events proxy_start)"

definition demo_view :: "proxy \<Rightarrow> string list \<times> bool \<times> bool \<times> nat \<times> nat \<times> bool" where
  "demo_view s = (px_child_in s, px_wait s = None, px_chain s = [], length (px_out s), recorded ''2'' s, px_exit s = None)"

lemma demo_end_view: "map_option demo_view (exec_run demo_cfg demo_events proxy_start) = Some ([demo_call 2], True, True, 2, 1, True)"
  by code_simp

lemma demo_end_state:
  "exec_run demo_cfg demo_events proxy_start = Some demo_end" "px_child_in demo_end = [demo_call 2]" "px_wait demo_end = None"
  "px_chain demo_end = []" "length (px_out demo_end) = 2" "recorded ''2'' demo_end = 1" "px_exit demo_end = None"
  using demo_end_view by (auto simp: demo_end_def demo_view_def)

lemma demo_call_gated: "gated_line (demo_call 2)"
  by code_simp

lemma demo_run: "proxy_run demo_cfg demo_events demo_end"
  using exec_run_sound [OF run_nil demo_end_state(1)] by simp

theorem proxy_refines_log_witness:
  "\<exists>log. list_all entry_ok log \<and> fst (host_lines demo_events) = map fst log \<and> [demo_call 2] = concat (map child_part log)"
  using proxy_refines_log [OF demo_run] demo_end_state(2,3,4) by (auto simp: wait_lines_def)

theorem proxy_output_merge_witness:
  "\<exists>log seen. list_all entry_ok log \<and> px_out demo_end \<in> shuffles seen (concat (map reply_part log)) \<and> seen = fst (child_lines demo_events)"
  using proxy_output_merge [OF demo_run] demo_end_state(7) by metis


definition down_events :: "proxy_event list" where
  "down_events = [HostData (demo_call 1 @ [chr_nl] @ ''x'' @ [chr_nl]), Proceed, Verdict (NetErr ''down''), Proceed]"

lemma down_run:
  "\<exists>s. exec_run demo_cfg down_events proxy_start = Some s \<and> px_wait s = None \<and> px_chain s = []"
proof -
  have "map_option (\<lambda>s. (px_wait s = None, px_chain s = [])) (exec_run demo_cfg down_events proxy_start) = Some (True, True)" by code_simp
  then show ?thesis by auto
qed

theorem proxy_fail_open_witness:
  "\<exists>s. proxy_run demo_cfg down_events s \<and> px_child_in s = filter (\<lambda>l. json_parse l \<noteq> Some JNull) (fst (host_lines down_events))"
proof -
  from down_run obtain s where s: "exec_run demo_cfg down_events proxy_start = Some s" "px_wait s = None" "px_chain s = []" by blast
  have r: "proxy_run demo_cfg down_events s" using exec_run_sound [OF run_nil s(1)] by simp
  have "\<forall>out. Verdict out \<in> set down_events \<longrightarrow> outage out \<or> \<not> denied out" by (simp add: down_events_def)
  from proxy_fail_open [OF r s(2,3) this] r show ?thesis by blast
qed

theorem proxy_posts_bounded_witness: "(1::nat) \<le> forwarded_calls ''2'' demo_end"
  using proxy_posts_bounded [OF demo_run, of "''2''"] demo_end_state(6) by simp

theorem proxy_drains_witness:
  "\<exists>evs' s'. proxy_run demo_cfg ([HostData (demo_call 1 @ [chr_nl])] @ evs') s' \<and> px_wait s' = None \<and> px_chain s' = []"
proof -
  let ?s = "hostData (demo_call 1 @ [chr_nl]) proxy_start"
  have "proxy_run demo_cfg ([] @ [HostData (demo_call 1 @ [chr_nl])]) ?s"
    by (intro run_snoc [OF run_nil] host_data) (simp_all add: proxy_start_def)
  then have r: "proxy_run demo_cfg [HostData (demo_call 1 @ [chr_nl])] ?s" by simp
  have x: "px_exit ?s = None" by (simp add: hostData_def proxy_start_def split: prod.split)
  have "callPreToolUse demo_deny \<noteq> None" by code_simp
  with proxy_drains [OF r x, of "\<lambda>_. demo_deny"] show ?thesis by blast
qed

section \<open>Edges of the gate\<close>

text \<open>The line \<open>null\<close>: dropped on the way to the child, the end of the proxy on the way back.\<close>

lemma null_parses: "json_parse ''null'' = Some JNull"
  by code_simp

lemma null_line_dropped: "px_child_in (processLine cfg ''null'' s) = px_child_in s"
  by (simp add: processLine_def null_parses)

lemma null_line_crashes: "px_exit (childLine ''null'' s) = Some (ExitCode 1)"
  by (simp add: childLine_def null_parses)

text \<open>A batch, and a call without an id, go to the child ungated.\<close>

lemma batch_ungated: "json_parse l = Some (JArr xs) \<Longrightarrow> px_child_in (processLine cfg l s) = px_child_in s @ [l]"
  by (simp add: processLine_def gated_call_def to_child_def)

lemma no_id_ungated:
  "json_parse l = Some m \<Longrightarrow> m \<noteq> JNull \<Longrightarrow> jprop m ''id'' = None \<Longrightarrow> px_child_in (processLine cfg l s) = px_child_in s @ [l]"
  by (simp add: processLine_def gated_call_def to_child_def)

text \<open>The pending calls are keyed by text: the ids \<open>1\<close> and \<open>"1"\<close> are one key.\<close>

lemma ids_conflated: "js_ostring (Some (jint 1)) = js_ostring (Some (JStr ''1''))"
  by code_simp

end
