(* ===== verification/McpServer.thy ===== *)
theory McpServer
  imports Framing
begin

text \<open>
  The read-only MCP stdio server (\<open>cli/src/commands/mcp-server.ts\<close>): its tool table, the two tools
  over the daemon's HTTP interface, the JSON-RPC dispatcher and the loop over the lines of standard
  input, whose chunks are a parameter of \<open>runMcpServer\<close>.
\<close>

section \<open>Tools\<close>

definition PROTOCOL_VERSION :: json where
  "PROTOCOL_VERSION = JStr ''2024-11-05''"

definition SERVER_INFO :: json where
  "SERVER_INFO = JObj [(''name'', JStr ''agentlock''), (''version'', JStr ''0.1.0'')]"

definition server_daemon_url :: "string prog" where
  "server_daemon_url = env_or ''AGENTLOCK_DAEMON_URL'' (env_or ''AGENTLOCK_CONTROL_PLANE_URL'' (ret ''http://127.0.0.1:7878''))"

definition TOOLS :: json where
  "TOOLS = JArr
     [JObj [(''name'', JStr ''agentlock_status''),
        (''description'', JStr ''Probe the OpenAgentLock daemon. Returns reachable=true/false plus the daemon's reported status. Read-only.''),
        (''inputSchema'', JObj [(''type'', JStr ''object''), (''properties'', JObj []), (''required'', JArr [])])],
      JObj [(''name'', JStr ''agentlock_recent_decisions''),
        (''description'', JStr ''Return the last N entries from the OpenAgentLock ledger (verdicts, signers, tool names). Read-only. Defaults to 20, max 100.''),
        (''inputSchema'', JObj [(''type'', JStr ''object''),
           (''properties'', JObj [(''limit'', JObj [(''type'', JStr ''integer''), (''minimum'', jint 1), (''maximum'', jint 100), (''default'', jint 20)])]),
           (''required'', JArr [])])]]"

definition mcpText :: "string \<Rightarrow> json" where
  "mcpText text = JObj [(''content'', JArr [JObj [(''type'', JStr ''text''), (''text'', JStr text)]])]"

definition get_request :: "string \<Rightarrow> http_req" where
  "get_request url = \<lparr>rq_method = ''GET'', rq_url = url, rq_auth = None, rq_body = None\<rparr>"

definition callStatus :: "json prog" where
  "callStatus =
     bindP server_daemon_url (\<lambda>base.
     let url = strip_slashes base @ ''/v1/health'' in
     tryP
       (bindP (fetch (get_request url)) (\<lambda>res.
        if \<not> resp_ok res then ret (mcpText (''daemon '' @ url @ '' returned '' @ nat_str (rs_status res)))
        else
          bindP (resp_json res) (\<lambda>body.
          bindP (propP body ''status'') (\<lambda>st.
          ret (mcpText (''daemon reachable at '' @ base @ '' (status='' @ js_ostring (nullish st (Some (JStr ''unknown''))) @ '')''))))))
       (\<lambda>e. ret (mcpText (''daemon unreachable at '' @ base @ '': '' @ err_msg e))))"

text \<open>\<open>Number.isFinite\<close>: below the decimal that rounds to infinity.\<close>

definition dec_finite :: "dec \<Rightarrow> bool" where
  "dec_finite d \<longleftrightarrow>
     (if 0 \<le> expo d then \<bar>mant d\<bar> * 10 ^ nat (expo d) < 2 ^ 1024 - 2 ^ 970
      else \<bar>mant d\<bar> < (2 ^ 1024 - 2 ^ 970) * 10 ^ nat (- expo d))"

definition decision_limit :: "json option \<Rightarrow> int" where
  "decision_limit args =
     (case oprop args ''limit'' of
        Some (JNum d) \<Rightarrow> if dec_finite d then max 1 (min 100 (dec_floor d)) else 20
      | _ \<Rightarrow> 20)"

definition callRecentDecisions :: "json option \<Rightarrow> json prog" where
  "callRecentDecisions args =
     bindP server_daemon_url (\<lambda>base.
     let url = strip_slashes base @ ''/v1/ledger/tail?limit='' @ int_str (decision_limit args) in
     tryP
       (bindP (fetch (get_request url)) (\<lambda>res.
        if \<not> resp_ok res then ret (mcpText (''daemon '' @ url @ '' returned '' @ nat_str (rs_status res)))
        else bindP (resp_text res) (\<lambda>body. ret (mcpText body))))
       (\<lambda>e. ret (mcpText (''daemon unreachable: '' @ err_msg e))))"

section \<open>Dispatch\<close>

definition send :: "json \<Rightarrow> unit prog" where
  "send res = out_line (json_stringify res)"

definition rpc_reply :: "json \<Rightarrow> json \<Rightarrow> unit prog" where
  "rpc_reply i result = send (JObj [(''jsonrpc'', JStr ''2.0''), (''id'', i), (''result'', result)])"

definition rpc_fail :: "json \<Rightarrow> int \<Rightarrow> string \<Rightarrow> unit prog" where
  "rpc_fail i code message =
     send (JObj [(''jsonrpc'', JStr ''2.0''), (''id'', i), (''error'', JObj [(''code'', jint code), (''message'', JStr message)])])"

definition has_id :: "json \<Rightarrow> bool" where
  "has_id req \<longleftrightarrow> jprop req ''id'' \<noteq> None \<and> jprop req ''id'' \<noteq> Some JNull"

definition req_id :: "json \<Rightarrow> json" where
  "req_id req = the (nullish (jprop req ''id'') (Some JNull))"

definition dispatch :: "json \<Rightarrow> unit prog" where
  "dispatch req =
     bindP (propP req ''id'') (\<lambda>_.
     let i = req_id req; m = jprop req ''method'' in
     if m = Some (JStr ''initialize'') then
       rpc_reply i (JObj [(''protocolVersion'', PROTOCOL_VERSION), (''capabilities'', JObj [(''tools'', JObj [])]), (''serverInfo'', SERVER_INFO)])
     else if m = Some (JStr ''notifications/initialized'') \<or> m = Some (JStr ''initialized'') then ret ()
     else if m = Some (JStr ''tools/list'') then rpc_reply i (JObj [(''tools'', TOOLS)])
     else if m = Some (JStr ''tools/call'') then
       (let params = nullish (jprop req ''params'') (Some (JObj [])); name = oprop params ''name'' in
        if name = Some (JStr ''agentlock_status'') then bindP callStatus (rpc_reply i)
        else if name = Some (JStr ''agentlock_recent_decisions'') then bindP (callRecentDecisions (oprop params ''arguments'')) (rpc_reply i)
        else rpc_fail i (-32602) (''unknown tool: '' @ js_ostring (nullish name (Some (JStr ''<missing>'')))))
     else if m = Some (JStr ''shutdown'') then rpc_reply i JNull
     else if m = Some (JStr ''exit'') then exitP 0
     else if has_id req then rpc_fail i (-32601) (''method not found: '' @ js_ostring m)
     else ret ())"

text \<open>One line of the loop: the handler of an error reads \<open>req.id\<close> again, which throws for \<open>null\<close>.\<close>

definition serve_line :: "string \<Rightarrow> unit prog" where
  "serve_line line =
     (case json_parse line of
        None \<Rightarrow> ret ()
      | Some req \<Rightarrow>
          tryP (dispatch req) (\<lambda>e. bindP (propP req ''req.id'') (\<lambda>_.
            if has_id req then rpc_fail (the (jprop req ''id'')) (-32603) (err_msg e) else ret ())))"

fun serve_chunks :: "string \<Rightarrow> string list \<Rightarrow> unit prog" where
  "serve_chunks buf [] = ret ()"
| "serve_chunks buf (chunk # chunks) =
     (let (lines, rest) = drain_trimmed (buf @ utf8_decode chunk) in thenP (eachP serve_line lines) (serve_chunks rest chunks))"

definition runMcpServer :: "string list \<Rightarrow> unit prog" where
  "runMcpServer chunks = serve_chunks [] chunks"

section \<open>The server only reads\<close>

text \<open>A request of the server: the health check, or the tail with a limit from 1 to 100.\<close>

definition read_only :: "http_req \<Rightarrow> bool" where
  "read_only rq \<longleftrightarrow> rq_method rq = ''GET'' \<and> rq_body rq = None \<and> rq_auth rq = None \<and>
     (ends_with ''/v1/health'' (rq_url rq) \<or> (\<exists>n. 1 \<le> n \<and> n \<le> 100 \<and> ends_with (''/v1/ledger/tail?limit='' @ int_str n) (rq_url rq)))"

lemma decision_limit_bounds: "1 \<le> decision_limit args \<and> decision_limit args \<le> 100"
  by (auto simp: decision_limit_def split: option.split json.split)

lemma ends_with_append: "ends_with b (a @ b)"
  by (simp add: ends_with_def starts_with_def)

lemma health_read_only: "read_only (get_request (a @ ''/v1/health''))"
  by (simp add: read_only_def get_request_def ends_with_append del: append.simps)

lemma tail_read_only: "read_only (get_request (a @ ''/v1/ledger/tail?limit='' @ int_str (decision_limit args)))"
proof -
  have "ends_with (''/v1/ledger/tail?limit='' @ int_str (decision_limit args)) (a @ ''/v1/ledger/tail?limit='' @ int_str (decision_limit args))"
    by (rule ends_with_append)
  then show ?thesis using decision_limit_bounds by (auto simp: read_only_def get_request_def simp del: append.simps)
qed

lemma server_url_emits [emits_intros]: "emits P server_daemon_url"
  unfolding server_daemon_url_def by (intro emits_intros)

lemma rpc_emits [emits_intros]: "emits P (rpc_reply i r)" "emits P (rpc_fail i c m)"
  unfolding rpc_reply_def rpc_fail_def send_def by (intro emits_intros)+

lemma callStatus_emits [emits_intros]: "emits read_only callStatus"
  unfolding callStatus_def Let_def by (intro emits_intros emits_fetch health_read_only)

lemma callRecentDecisions_emits [emits_intros]: "emits read_only (callRecentDecisions args)"
  unfolding callRecentDecisions_def Let_def by (intro emits_intros emits_fetch tail_read_only)

lemma dispatch_emits [emits_intros]: "emits read_only (dispatch req)"
  unfolding dispatch_def Let_def by (intro emits_intros)

lemma serve_line_emits: "emits read_only (serve_line l)"
  unfolding serve_line_def by (cases "json_parse l") (auto intro!: emits_intros)

lemma serve_chunks_emits: "emits read_only (serve_chunks buf chunks)"
proof (induction buf chunks rule: serve_chunks.induct)
  case (2 buf chunk chunks)
  obtain ls rest where "drain_trimmed (buf @ utf8_decode chunk) = (ls, rest)" by fastforce
  with 2 show ?case by (auto intro: emits_intros serve_line_emits)
qed (simp add: emits_intros)

text \<open>C21. The server cannot change anything: whatever its input, every request it sends is a \<open>GET\<close> without a body, of the health endpoint or
  of the ledger's tail with a limit between 1 and 100.\<close>

theorem mcp_server_read_only:
  "\<exists>rqs. w_sent (snd (runMcpServer chunks w)) = w_sent w @ rqs \<and> list_all read_only rqs"
  using serve_chunks_emits unfolding runMcpServer_def emits_def by blast

section \<open>Replies\<close>

definition method_is :: "json \<Rightarrow> string list \<Rightarrow> bool" where
  "method_is req ms \<longleftrightarrow> (\<exists>m \<in> set ms. jprop req ''method'' = Some (JStr m))"

definition answered :: "json \<Rightarrow> bool" where
  "answered req \<longleftrightarrow> method_is req [''initialize'', ''tools/list'', ''tools/call'', ''shutdown''] \<or>
     (\<not> method_is req [''notifications/initialized'', ''initialized'', ''exit''] \<and> has_id req)"

text \<open>Programs that never exit, and whose values satisfy \<open>Q\<close>.\<close>

definition ends :: "('a \<Rightarrow> bool) \<Rightarrow> 'a prog \<Rightarrow> bool" where
  "ends Q m \<longleftrightarrow> (\<forall>w. (\<forall>c. fst (m w) \<noteq> Exited c) \<and> (\<forall>x. fst (m w) = Val x \<longrightarrow> Q x))"

lemma ends_bind:
  assumes "ends (\<lambda>_. True) m" "\<And>x. ends Q (f x)"
  shows "ends Q (bindP m f)"
  unfolding ends_def
proof
  fix w
  obtain r w1 where m: "m w = (r, w1)" by fastforce
  have "\<forall>c. r \<noteq> Exited c" using assms(1) m by (metis ends_def fst_conv)
  then show "(\<forall>c. fst (bindP m f w) \<noteq> Exited c) \<and> (\<forall>x. fst (bindP m f w) = Val x \<longrightarrow> Q x)"
    using m assms(2) by (cases r) (auto simp: bindP_def ends_def)
qed

text \<open>A handler that makes a value of any error.\<close>

lemma ends_caught:
  assumes "ends Q m" "\<And>e. Q (g e)"
  shows "ends Q (tryP m (\<lambda>e. ret (g e)))" and "fst (tryP m (\<lambda>e. ret (g e)) w) \<noteq> Err e'"
proof -
  show "ends Q (tryP m (\<lambda>e. ret (g e)))"
    unfolding ends_def
  proof
    fix w
    obtain r w1 where m: "m w = (r, w1)" by fastforce
    then have "\<forall>c. r \<noteq> Exited c" "\<forall>x. r = Val x \<longrightarrow> Q x" using assms(1) unfolding ends_def by (metis fst_conv)+
    then show "(\<forall>c. fst (tryP m (\<lambda>e. ret (g e)) w) \<noteq> Exited c) \<and> (\<forall>x. fst (tryP m (\<lambda>e. ret (g e)) w) = Val x \<longrightarrow> Q x)"
      using m assms(2) by (cases r) (auto simp: tryP_def ret_def)
  qed
  obtain r w1 where "m w = (r, w1)" by fastforce
  then show "fst (tryP m (\<lambda>e. ret (g e)) w) \<noteq> Err e'" by (cases r) (auto simp: tryP_def ret_def)
qed

lemma ends_basic:
  "Q x \<Longrightarrow> ends Q (ret x)" "ends (\<lambda>_. True) (fetch rq)" "ends (\<lambda>_. True) (resp_text r)" "ends (\<lambda>_. True) (resp_json r)"
  "ends (\<lambda>_. True) (propP j k)"
  by (auto simp: ends_def ret_def fetch_def resp_text_def resp_json_def bindP_def pendP_def parse_json_def propP_def throwP_def
      split: option.split http_out.split res.split prod.split)

lemma ends_if: "(b \<Longrightarrow> ends Q m) \<Longrightarrow> (\<not> b \<Longrightarrow> ends Q n) \<Longrightarrow> ends Q (if b then m else n)"
  by simp

lemma keeps_out [keeps_intros]:
  "keeps w_out (fetch rq)" "keeps w_out (resp_text r)" "keeps w_out (parse_json t)" "keeps w_out (propP j k)" "keeps w_out (env_var k)"
  by (auto simp: keeps_def fetch_def resp_text_def ret_def pendP_def parse_json_def propP_def throwP_def env_var_def getsP_def
      split: option.split http_out.split)

lemma keeps_out_json [keeps_intros]: "keeps w_out (resp_json r)"
  unfolding resp_json_def by (intro keeps_intros)

text \<open>A tool call ends with a text, or hangs on the daemon's answer; it prints nothing.\<close>

definition is_text :: "json \<Rightarrow> bool" where
  "is_text j \<longleftrightarrow> (\<exists>t. j = mcpText t)"

lemma is_text [simp]: "is_text (mcpText t)"
  by (auto simp: is_text_def)

lemma server_url_run: "\<exists>u. server_daemon_url w = (Val u, w)"
  by (auto simp: server_daemon_url_def env_or_def env_var_def getsP_def bindP_def ret_def split: option.split)

lemma tool_end:
  assumes "m = bindP server_daemon_url k" "\<And>u. keeps w_out (k u)" "\<And>u. ends is_text (k u)" "\<And>u e w. fst (k u w) \<noteq> Err e"
  shows "\<exists>r w'. m w = (r, w') \<and> w_out w' = w_out w \<and> (r = Pending \<or> (\<exists>t. r = Val (mcpText t)))"
proof -
  obtain u where "server_daemon_url w = (Val u, w)" using server_url_run by blast
  then have m: "m w = k u w" by (simp add: assms(1) run_bindP)
  obtain r w' where k: "k u w = (r, w')" by fastforce
  have "w_out w' = w_out w" by (rule keepsD [OF assms(2) k])
  moreover have "r = Pending \<or> (\<exists>t. r = Val (mcpText t))"
    using assms(3) [of u] assms(4) [of u w] k by (cases r) (auto simp: ends_def is_text_def, (metis fst_conv)+)
  ultimately show ?thesis using m k by simp
qed

lemma callStatus_end:
  "\<exists>r w'. callStatus w = (r, w') \<and> w_out w' = w_out w \<and> (r = Pending \<or> (\<exists>t. r = Val (mcpText t)))"
  by (rule tool_end [OF callStatus_def]; unfold Let_def; intro keeps_intros ends_caught(1) ends_caught(2) [where Q = is_text] ends_bind ends_if ends_basic is_text)

lemma callRecentDecisions_end:
  "\<exists>r w'. callRecentDecisions args w = (r, w') \<and> w_out w' = w_out w \<and> (r = Pending \<or> (\<exists>t. r = Val (mcpText t)))"
  by (rule tool_end [OF callRecentDecisions_def]; unfold Let_def; intro keeps_intros ends_caught(1) ends_caught(2) [where Q = is_text] ends_bind ends_if ends_basic is_text)

text \<open>What a reply line says: the request's id, and a result or an error.\<close>

definition reply_line :: "json \<Rightarrow> string \<Rightarrow> bool" where
  "reply_line req l \<longleftrightarrow> (\<exists>k v. k \<in> {''result'', ''error''} \<and>
     l = json_stringify (JObj [(''jsonrpc'', JStr ''2.0''), (''id'', req_id req), (k, v)]))"

lemma result_line: "req_id req = i \<Longrightarrow> \<exists>l. reply_line req l \<and> rpc_reply i v w = (Val (), w\<lparr>w_out := w_out w @ l @ [chr_nl]\<rparr>)"
  unfolding reply_line_def rpc_reply_def send_def out_line_def stdout_write_def updP_def by blast

lemma fail_line: "req_id req = i \<Longrightarrow> \<exists>l. reply_line req l \<and> rpc_fail i c m w = (Val (), w\<lparr>w_out := w_out w @ l @ [chr_nl]\<rparr>)"
  unfolding reply_line_def rpc_fail_def send_def out_line_def stdout_write_def updP_def by blast

lemma tool_line:
  assumes "\<exists>r w'. m w = (r, w') \<and> w_out w' = w_out w \<and> (r = Pending \<or> (\<exists>t. r = Val (mcpText t)))"
  shows "fst (bindP m (rpc_reply (req_id req)) w) = Pending \<or>
    (\<exists>l w'. reply_line req l \<and> bindP m (rpc_reply (req_id req)) w = (Val (), w') \<and> w_out w' = w_out w @ l @ [chr_nl])"
proof -
  from assms obtain r w1 where m: "m w = (r, w1)" "w_out w1 = w_out w" "r = Pending \<or> (\<exists>t. r = Val (mcpText t))" by blast
  from m(3) show ?thesis
  proof
    assume "r = Pending"
    with m(1) show ?thesis by (simp add: bindP_def)
  next
    assume "\<exists>t. r = Val (mcpText t)"
    then obtain t where "r = Val (mcpText t)" by blast
    with m(1,2) result_line [of req "req_id req" "mcpText t" w1] show ?thesis by (auto simp: bindP_def)
  qed
qed

text \<open>The JSON-RPC discipline: a message other than \<open>null\<close> and \<open>exit\<close> gets exactly one line, which carries its id (or \<open>null\<close>) and a
  result or an error, when it is one of the requests served or any other message with an id; every other message gets none. The
  one exception is a tool call whose answer from the daemon never ends, which gets none either and blocks.\<close>

theorem mcp_server_one_reply:
  assumes "req \<noteq> JNull" and "\<not> method_is req [''exit'']"
  shows "(fst (dispatch req w) = Pending \<and> method_is req [''tools/call'']) \<or>
     (\<exists>w'. dispatch req w = (Val (), w') \<and>
        (if answered req then \<exists>l. reply_line req l \<and> w_out w' = w_out w @ l @ [chr_nl] else w_out w' = w_out w))"
proof -
  have p: "propP req ''id'' w = (Val (jprop req ''id''), w)" using assms(1) by (simp add: propP_def ret_def)
  let ?m = "jprop req ''method''"
  consider (init) "?m = Some (JStr ''initialize'')" | (notif) "method_is req [''notifications/initialized'', ''initialized'']"
    | (list) "?m = Some (JStr ''tools/list'')" | (call) "?m = Some (JStr ''tools/call'')" | (down) "?m = Some (JStr ''shutdown'')"
    | (other) "\<not> method_is req [''initialize'', ''notifications/initialized'', ''initialized'', ''tools/list'', ''tools/call'', ''shutdown'']"
    by (auto simp: method_is_def)
  then show ?thesis
  proof cases
    case notif
    then have "dispatch req w = (Val (), w)" "\<not> answered req"
      using p by (auto simp: dispatch_def run_bindP Let_def method_is_def answered_def ret_def)
    then show ?thesis by simp
  next
    case call
    let ?name = "oprop (nullish (jprop req ''params'') (Some (JObj []))) ''name''"
    have a: "answered req" "method_is req [''tools/call'']" using call by (auto simp: answered_def method_is_def)
    consider (st) "?name = Some (JStr ''agentlock_status'')" | (rd) "?name = Some (JStr ''agentlock_recent_decisions'')"
      | (un) "?name \<noteq> Some (JStr ''agentlock_status'')" "?name \<noteq> Some (JStr ''agentlock_recent_decisions'')" by blast
    then show ?thesis
    proof cases
      case st
      then have "dispatch req w = bindP callStatus (rpc_reply (req_id req)) w"
        using p call by (simp add: dispatch_def run_bindP Let_def)
      with tool_line [of callStatus w req, OF callStatus_end] a show ?thesis by auto
    next
      case rd
      then have "dispatch req w =
          bindP (callRecentDecisions (oprop (nullish (jprop req ''params'') (Some (JObj []))) ''arguments'')) (rpc_reply (req_id req)) w"
        using p call by (simp add: dispatch_def run_bindP Let_def)
      with tool_line [of "callRecentDecisions (oprop (nullish (jprop req ''params'') (Some (JObj []))) ''arguments'')" w req, OF callRecentDecisions_end] a show ?thesis by auto
    next
      case un
      then have "dispatch req w = rpc_fail (req_id req) (-32602) (''unknown tool: '' @ js_ostring (nullish ?name (Some (JStr ''<missing>'')))) w"
        using p call by (simp add: dispatch_def run_bindP Let_def)
      with fail_line [of req, OF refl] a show ?thesis by fastforce
    qed
  next
    case other
    with assms(2) have d: "dispatch req w =
        (if has_id req then rpc_fail (req_id req) (-32601) (''method not found: '' @ js_ostring ?m) w else (Val (), w))"
      using p by (simp add: dispatch_def run_bindP Let_def method_is_def ret_def)
    have "answered req = has_id req" using other assms(2) by (auto simp: answered_def method_is_def)
    with d fail_line [of req, OF refl] show ?thesis by (cases "has_id req") fastforce+
  qed (use p result_line [of req, OF refl] in \<open>fastforce simp: dispatch_def run_bindP Let_def answered_def method_is_def\<close>)+
qed

text \<open>C1 witness: an unknown method with an id.\<close>

theorem mcp_server_one_reply_witness:
  "\<exists>w'. dispatch (JObj [(''id'', jint 7), (''method'', JStr ''ping'')]) demo_world = (Val (), w') \<and> w_out w' \<noteq> []"
proof -
  let ?req = "JObj [(''id'', jint 7), (''method'', JStr ''ping'')]"
  have "\<not> method_is ?req [''exit'']" "\<not> method_is ?req [''tools/call'']" "answered ?req"
    by (auto simp: method_is_def answered_def has_id_def jint_def)
  with mcp_server_one_reply [of ?req demo_world] show ?thesis by auto
qed

text \<open>The line \<open>null\<close> ends the server: the handler of the error throws itself.\<close>

lemma null_line_ends_server: "\<exists>e. fst (serve_line ''null'' w) = Err e"
proof -
  have "json_parse ''null'' = Some JNull" by code_simp
  then show ?thesis by (simp add: serve_line_def dispatch_def propP_def bindP_def throwP_def tryP_def)
qed

text \<open>The daemon's tail is a stream without an end: a call of \<open>agentlock_recent_decisions\<close> that is answered by it never returns.\<close>

lemma recent_decisions_hangs:
  assumes "\<forall>sent rq. w_net w sent rq = Answer \<lparr>rs_status = 200, rs_text = t, rs_body = None\<rparr>"
  shows "fst (callRecentDecisions args w) = Pending"
proof -
  obtain u where "server_daemon_url w = (Val u, w)" using server_url_run by blast
  with assms show ?thesis
    by (simp add: callRecentDecisions_def run_bindP Let_def bindP_def tryP_def fetch_def resp_ok_def resp_text_def pendP_def)
qed

end
