(* ===== verification/Detect.thy ===== *)
theory Detect
  imports ApiClient
begin

text \<open>
  Detection of the installed harnesses (\<open>cli/src/detect/\<close>): the state an existing wiring records, one
  detector per harness and the registry. Detection only reads, so a detector is a function of the
  world; the sum type carries the one exception it can throw.
\<close>

section \<open>Types\<close>

datatype harness_id =
  Claude_code | Claude_desktop | Codex_cli | Codex_desktop | Opencode | Cursor_ide | Vscode_copilot | Cline | Continue_dev | Gemini_cli

datatype hook_surface = Lifecycle_hooks | Mcp_stdio | Mcp_http | Extension_only

record detected_scope =
  sc_kind :: string
  sc_path :: string
  sc_exists :: bool

record detection =
  det_id :: harness_id
  det_name :: string
  det_installed :: bool
  det_evidence :: "string list"
  det_scopes :: "detected_scope list"
  det_surfaces :: "hook_surface list"
  det_notes :: "string list"
  det_wired :: bool
  det_url :: "string option"

fun id_str :: "harness_id \<Rightarrow> string" where
  "id_str Claude_code = ''claude-code''"
| "id_str Claude_desktop = ''claude-desktop''"
| "id_str Codex_cli = ''codex''"
| "id_str Codex_desktop = ''codex-desktop''"
| "id_str Opencode = ''opencode''"
| "id_str Cursor_ide = ''cursor''"
| "id_str Vscode_copilot = ''vscode-copilot''"
| "id_str Cline = ''cline''"
| "id_str Continue_dev = ''continue''"
| "id_str Gemini_cli = ''gemini''"

section \<open>Existing wirings\<close>

record agentlock_state =
  as_installed :: bool
  as_url :: "string option"

definition NOT_INSTALLED :: agentlock_state where
  "NOT_INSTALLED = \<lparr>as_installed = False, as_url = None\<rparr>"

definition wired_to :: "string option \<Rightarrow> agentlock_state" where
  "wired_to u = \<lparr>as_installed = True, as_url = u\<rparr>"

definition originOf :: "world \<Rightarrow> string \<Rightarrow> string" where
  "originOf w u = (case w_url_origin w u of Some r \<Rightarrow> r | None \<Rightarrow> u)"

definition exists_at :: "world \<Rightarrow> string \<Rightarrow> bool" where
  "exists_at w p \<longleftrightarrow> node_at w p \<noteq> None"

text \<open>The common head of the probes: the file's JSON, when it exists, can be read and parses.\<close>

definition read_json_at :: "world \<Rightarrow> string \<Rightarrow> json option" where
  "read_json_at w p = (case file_at w p of Some raw \<Rightarrow> json_parse raw | None \<Rightarrow> None)"

text \<open>\<open>Object.values\<close> of an object or array.\<close>

fun values_of :: "json \<Rightarrow> json list" where
  "values_of (JObj kvs) = map snd kvs"
| "values_of (JArr xs) = xs"
| "values_of _ = []"

fun elements :: "json option \<Rightarrow> json list" where
  "elements (Some (JArr xs)) = xs"
| "elements _ = []"

definition object_prop :: "json option \<Rightarrow> bool" where
  "object_prop v \<longleftrightarrow> (case v of Some j \<Rightarrow> is_object j | None \<Rightarrow> False)"

definition marked :: "json \<Rightarrow> bool" where
  "marked e \<longleftrightarrow> is_object e \<and> jprop e ''_agentlock'' = Some (JBool True)"

text \<open>The first marked entry of the lists an object of hooks holds.\<close>

definition marked_entry :: "json \<Rightarrow> json option" where
  "marked_entry hooks = find marked (concat (map (\<lambda>v. elements (Some v)) (values_of hooks)))"

definition nonempty_string :: "json option \<Rightarrow> string option" where
  "nonempty_string v = (case v of Some (JStr s) \<Rightarrow> if s = [] then None else Some s | _ \<Rightarrow> None)"

text \<open>The first value of a list.\<close>

fun first_some :: "'a option list \<Rightarrow> 'a option" where
  "first_some [] = None"
| "first_some (Some x # xs) = Some x"
| "first_some (None # xs) = first_some xs"

definition claudeAgentlockState :: "world \<Rightarrow> string \<Rightarrow> js_error + agentlock_state" where
  "claudeAgentlockState w p =
     (case read_json_at w p of
        None \<Rightarrow> Inr NOT_INSTALLED
      | Some parsed \<Rightarrow>
          if parsed = JNull then Inl (type_error ''parsed.hooks'')
          else if \<not> object_prop (jprop parsed ''hooks'') then Inr NOT_INSTALLED
          else (case marked_entry (the (jprop parsed ''hooks'')) of
             None \<Rightarrow> Inr NOT_INSTALLED
           | Some e \<Rightarrow>
               Inr (wired_to (map_option (originOf w)
                 (first_some (map (\<lambda>h. if is_object h then nonempty_string (jprop h ''url'') else None) (elements (jprop e ''hooks''))))))))"

definition claudeDesktopAgentlockState :: "world \<Rightarrow> string \<Rightarrow> js_error + agentlock_state" where
  "claudeDesktopAgentlockState w p =
     (case read_json_at w p of
        None \<Rightarrow> Inr NOT_INSTALLED
      | Some parsed \<Rightarrow>
          if parsed = JNull then Inl (type_error ''parsed.mcpServers'')
          else if \<not> object_prop (jprop parsed ''mcpServers'') then Inr NOT_INSTALLED
          else (case find marked (values_of (the (jprop parsed ''mcpServers''))) of
             None \<Rightarrow> Inr NOT_INSTALLED
           | Some e \<Rightarrow> Inr (wired_to (map_option (originOf w) (nonempty_string (oprop (jprop e ''env'') ''AGENTLOCK_DAEMON_URL''))))))"

text \<open>The object that holds the hook lists: under \<open>hooks\<close>, or the root itself.\<close>

definition hooks_root :: "json \<Rightarrow> json" where
  "hooks_root parsed =
     (let root = (case parsed of JObj kvs \<Rightarrow> parsed | _ \<Rightarrow> JObj [])
      in if object_prop (jprop root ''hooks'') then the (jprop root ''hooks'') else root)"

definition env_url :: "json \<Rightarrow> string option" where
  "env_url h = (if object_prop (jprop h ''env'') then nonempty_string (oprop (jprop h ''env'') ''AGENTLOCK_DAEMON_URL'') else None)"

definition inner_urls :: "json \<Rightarrow> string option" where
  "inner_urls e = first_some (map (\<lambda>h. if is_object h then env_url h else None) (elements (jprop e ''hooks'')))"

definition codexAgentlockState :: "world \<Rightarrow> string \<Rightarrow> agentlock_state" where
  "codexAgentlockState w p =
     (case read_json_at w p of
        None \<Rightarrow> NOT_INSTALLED
      | Some parsed \<Rightarrow>
          (case marked_entry (hooks_root parsed) of
             None \<Rightarrow> NOT_INSTALLED
           | Some e \<Rightarrow> wired_to (map_option (originOf w) (inner_urls e))))"

definition daemonURLFromHookEntry :: "json \<Rightarrow> string option" where
  "daemonURLFromHookEntry e = (case env_url e of Some u \<Rightarrow> Some u | None \<Rightarrow> inner_urls e)"

definition agentlockHookState :: "world \<Rightarrow> string \<Rightarrow> agentlock_state" where
  "agentlockHookState w p =
     (case read_json_at w p of
        None \<Rightarrow> NOT_INSTALLED
      | Some parsed \<Rightarrow>
          (case marked_entry (hooks_root parsed) of
             None \<Rightarrow> NOT_INSTALLED
           | Some e \<Rightarrow> wired_to (map_option (originOf w) (daemonURLFromHookEntry e))))"

definition cursorAgentlockState :: "world \<Rightarrow> string \<Rightarrow> agentlock_state" where
  "cursorAgentlockState w p = agentlockHookState w p"

definition geminiAgentlockState :: "world \<Rightarrow> string \<Rightarrow> agentlock_state" where
  "geminiAgentlockState w p = agentlockHookState w p"

text \<open>A marker that cannot be read or parsed, or is \<open>null\<close>, counts as installed.\<close>

definition devStubAgentlockState :: "world \<Rightarrow> string \<Rightarrow> agentlock_state" where
  "devStubAgentlockState w harnessDir =
     (let marker = path_join [harnessDir, ''.agentlock-dev.json''] in
      if \<not> exists_at w marker then NOT_INSTALLED
      else (case read_json_at w marker of
         None \<Rightarrow> wired_to None
       | Some parsed \<Rightarrow>
           if parsed = JNull then wired_to None
           else if jprop parsed ''agentlock_dev'' \<noteq> Some (JBool True) then NOT_INSTALLED
           else wired_to (case jprop parsed ''daemon_url'' of Some (JStr u) \<Rightarrow> Some u | _ \<Rightarrow> None)))"

definition devStubStateForHarness :: "world \<Rightarrow> harness_id \<Rightarrow> agentlock_state" where
  "devStubStateForHarness w h = devStubAgentlockState w (path_join [home w, ''.'' @ id_str h])"

section \<open>Detectors\<close>

text \<open>Characters outside ASCII, in UTF-8.\<close>

definition em_dash :: string where "em_dash = [CHR 0xE2, CHR 0x80, CHR 0x94]"
definition right_arrow :: string where "right_arrow = [CHR 0xE2, CHR 0x86, CHR 0x92]"
definition at_least :: string where "at_least = [CHR 0xE2, CHR 0x89, CHR 0xA5]"

definition found_if :: "bool \<Rightarrow> string \<Rightarrow> string list" where
  "found_if b p = (if b then [''found '' @ p] else [])"

definition global_scope :: "string \<Rightarrow> bool \<Rightarrow> detected_scope" where
  "global_scope p b = \<lparr>sc_kind = ''global'', sc_path = p, sc_exists = b\<rparr>"

definition detect_claudeCode :: "world \<Rightarrow> js_error + detection" where
  "detect_claudeCode w =
     (let globalDir = path_join [home w, ''.claude'']; settings = path_join [globalDir, ''settings.json''];
          dirExists = exists_at w globalDir; settingsExists = exists_at w settings in
      case claudeAgentlockState w settings of
        Inl e \<Rightarrow> Inl e
      | Inr al \<Rightarrow> Inr
          \<lparr>det_id = Claude_code, det_name = ''Claude Code'', det_installed = dirExists,
           det_evidence = found_if dirExists globalDir @ found_if settingsExists settings,
           det_scopes = [global_scope settings settingsExists],
           det_surfaces = [Lifecycle_hooks, Mcp_stdio],
           det_notes = (if dirExists then [] else [''Claude Code not detected. Selecting it will create the config dir on install.'']),
           det_wired = as_installed al, det_url = as_url al\<rparr>)"

definition claudeDesktopConfigPath :: "world \<Rightarrow> string" where
  "claudeDesktopConfigPath w = path_join [appSupport w, ''Claude'', ''claude_desktop_config.json'']"

definition countInstalledExtensions :: "world \<Rightarrow> string \<Rightarrow> nat" where
  "countInstalledExtensions w registryPath =
     (case read_json_at w registryPath of
        Some parsed \<Rightarrow>
          (case nullish (jprop parsed ''extensions'') (Some (JObj [])) of
             Some (JStr s) \<Rightarrow> length s
           | Some v \<Rightarrow> length (values_of v)
           | None \<Rightarrow> 0)
      | None \<Rightarrow> 0)"

definition desktop_notes :: "bool \<Rightarrow> string list" where
  "desktop_notes dirExists =
     (if dirExists then
        [''Install wraps every MCP server entry (manual mcpServers + Desktop Extensions installed via Settings '' @ right_arrow
           @ '' Extensions UI) with `agentlock mcp-proxy` so each tools/call is gated by daemon policy. Manual mcpServers entries preserve originals under _agentlock_original; Desktop Extension bundle manifests stash originals under _meta.agentlock (MCPB v0.3+ schema slot).'',
         ''Anthropic auto-updates may overwrite the wrap on extension version bumps '' @ em_dash
           @ '' re-run `agentlock install` after extension updates.'',
         ''Coverage is the MCP slice only: not gated are Computer Use, integrated terminal, native connectors (Slack/GCal), Cowork's non-MCP paths, and Anthropic cloud features. For full local enforcement, use Claude Code.'']
      else
        [''Claude Desktop not detected. Selecting it will create the config dir on install.'',
         ''When Claude Desktop is in use, install wraps each MCP server (mcpServers + Desktop Extensions) '' @ em_dash
           @ '' coverage is MCP-slice only (not Computer Use, terminal, connectors, or cloud features).''])"

definition detect_claudeDesktop :: "world \<Rightarrow> js_error + detection" where
  "detect_claudeDesktop w =
     (let configPath = claudeDesktopConfigPath w; dir = path_join [configPath, ''..''];
          extensionsRegistry = path_join [dir, ''extensions-installations.json''];
          dirExists = exists_at w dir; configExists = exists_at w configPath;
          extensionCount = countInstalledExtensions w extensionsRegistry in
      case claudeDesktopAgentlockState w configPath of
        Inl e \<Rightarrow> Inl e
      | Inr al \<Rightarrow> Inr
          \<lparr>det_id = Claude_desktop, det_name = ''Claude Desktop'', det_installed = dirExists,
           det_evidence = found_if dirExists dir @ found_if configExists configPath @
             (if extensionCount > 0 then
                [''found '' @ nat_str extensionCount @ '' Desktop Extension'' @ (if extensionCount = 1 then '''' else ''s'')
                  @ '' ('' @ extensionsRegistry @ '')''] else []),
           det_scopes = [global_scope configPath configExists],
           det_surfaces = [Mcp_stdio],
           det_notes = desktop_notes dirExists,
           det_wired = as_installed al, det_url = as_url al\<rparr>)"

text \<open>
  \<open>codexHooksFlagEnabled\<close>: a section-aware scan of the lines. \<open>match_flag k line\<close> is the regular
  expression \<open>^k\s*=\s*(true|false)\b\<close> and its group.
\<close>

definition word_char :: "char \<Rightarrow> bool" where
  "word_char c \<longleftrightarrow> is_alnum c \<or> c = CHR ''_''"

definition word_end :: "string \<Rightarrow> bool" where
  "word_end s \<longleftrightarrow> (case s of [] \<Rightarrow> True | c # cs \<Rightarrow> \<not> word_char c)"

definition match_flag :: "string \<Rightarrow> string \<Rightarrow> bool option" where
  "match_flag k line =
     (if starts_with k line then
        (case dropWhile is_space (drop (length k) line) of
           c # rest \<Rightarrow>
             if c = CHR ''='' then
               (let v = dropWhile is_space rest in
                if starts_with ''true'' v \<and> word_end (drop 4 v) then Some True
                else if starts_with ''false'' v \<and> word_end (drop 5 v) then Some False
                else None)
             else None
         | [] \<Rightarrow> None)
      else None)"

definition section_name :: "string \<Rightarrow> string" where
  "section_name line =
     (let header = trim (takeWhile (\<lambda>c. c \<noteq> CHR ''#'') line) in
      if starts_with ''['' header \<and> ends_with '']'' header then trim (butlast (tl header)) else [])"

fun scan_flag :: "bool \<Rightarrow> bool \<Rightarrow> string list \<Rightarrow> bool" where
  "scan_flag inFeatures seenSection [] = False"
| "scan_flag inFeatures seenSection (raw # rest) =
     (let line = trim raw in
      if line = [] \<or> starts_with ''#'' line then scan_flag inFeatures seenSection rest
      else if starts_with ''['' line then scan_flag (section_name line = ''features'') True rest
      else if inFeatures then (case match_flag ''hooks'' line of Some b \<Rightarrow> b | None \<Rightarrow> scan_flag inFeatures seenSection rest)
      else if \<not> seenSection then (case match_flag ''codex_hooks'' line of Some b \<Rightarrow> b | None \<Rightarrow> scan_flag inFeatures seenSection rest)
      else scan_flag inFeatures seenSection rest)"

definition codexHooksFlagEnabled :: "world \<Rightarrow> string \<Rightarrow> bool" where
  "codexHooksFlagEnabled w p =
     (case file_at w p of None \<Rightarrow> False | Some body \<Rightarrow> scan_flag False False (split_on chr_nl body))"

definition detect_codex :: "world \<Rightarrow> detection" where
  "detect_codex w =
     (let dir = path_join [home w, ''.codex'']; configToml = path_join [dir, ''config.toml''];
          authJson = path_join [dir, ''auth.json'']; hooksJson = path_join [dir, ''hooks.json''];
          al = codexAgentlockState w hooksJson in
      \<lparr>det_id = Codex_cli, det_name = ''Codex CLI (OpenAI)'', det_installed = exists_at w dir,
       det_evidence = found_if (exists_at w dir) dir @ found_if (exists_at w configToml) configToml @
         found_if (exists_at w authJson) authJson @ found_if (exists_at w hooksJson) hooksJson @
         (if exists_at w configToml then
            [if codexHooksFlagEnabled w configToml then ''config.toml: [features].hooks = true''
             else ''config.toml: [features].hooks not set (install will enable it)''] else []),
       det_scopes = [global_scope configToml (exists_at w configToml)],
       det_surfaces = [Lifecycle_hooks, Mcp_stdio],
       det_notes = [''Codex hooks require `[features].hooks = true` in ~/.codex/config.toml.'',
         ''Bash-only today: PreToolUse does not fire for MCP tool calls (tracked upstream).''],
       det_wired = as_installed al, det_url = as_url al\<rparr>)"

definition desktopAppCandidates :: "world \<Rightarrow> string list" where
  "desktopAppCandidates w =
     (case w_env w ''AGENTLOCK_CODEX_DESKTOP_PATHS'' of
        Some (c # cs) \<Rightarrow> filter (\<lambda>p. p \<noteq> []) (map trim (split_on (if isWin w then CHR '';'' else CHR '':'') (c # cs)))
      | _ \<Rightarrow>
          if isMac w then
            [''/Applications/Codex.app'', path_join [home w, ''Applications'', ''Codex.app''], path_join [appSupport w, ''Codex'']]
          else if isWin w then
            [path_join [case w_env w ''LOCALAPPDATA'' of Some d \<Rightarrow> d | None \<Rightarrow> path_join [home w, ''AppData'', ''Local''], ''Programs'', ''Codex''],
             path_join [appSupport w, ''Codex'']]
          else [path_join [xdgConfigHome w, ''Codex''], path_join [home w, ''.local'', ''share'', ''Codex'']])"

definition detect_codexDesktop :: "world \<Rightarrow> detection" where
  "detect_codexDesktop w =
     (let desktopEvidence = map (\<lambda>p. ''found '' @ p) (filter (exists_at w) (desktopAppCandidates w));
          codexDir = path_join [home w, ''.codex'']; configToml = path_join [codexDir, ''config.toml''];
          hooksJson = path_join [codexDir, ''hooks.json'']; al = codexAgentlockState w hooksJson in
      \<lparr>det_id = Codex_desktop, det_name = ''Codex Desktop (OpenAI)'', det_installed = (desktopEvidence \<noteq> []),
       det_evidence = desktopEvidence @ (if exists_at w configToml then [''found shared '' @ configToml] else []) @
         (if exists_at w hooksJson then [''found shared '' @ hooksJson] else []),
       det_scopes = [global_scope configToml (exists_at w configToml)],
       det_surfaces = [Lifecycle_hooks, Mcp_stdio],
       det_notes = [''Codex Desktop is detected separately from Codex CLI.'',
         ''Codex Desktop shares ~/.codex/hooks.json with Codex CLI; selecting both installs a shared routing shim.''],
       det_wired = as_installed al, det_url = as_url al\<rparr>)"

definition detect_opencode :: "world \<Rightarrow> detection" where
  "detect_opencode w =
     (let candidates = [path_join [xdgConfigHome w, ''opencode''], path_join [home w, ''.opencode'']];
          present = filter (exists_at w) candidates; al = devStubStateForHarness w Opencode in
      \<lparr>det_id = Opencode, det_name = ''OpenCode'', det_installed = (present \<noteq> []),
       det_evidence = map (\<lambda>p. ''found '' @ p) present,
       det_scopes = map (\<lambda>p. global_scope (path_join [p, ''config.json'']) (exists_at w (path_join [p, ''config.json'']))) present,
       det_surfaces = [Mcp_stdio], det_notes = [],
       det_wired = as_installed al, det_url = as_url al\<rparr>)"

definition editorUserDir :: "world \<Rightarrow> string" where
  "editorUserDir w = path_join [appSupport w, ''Cursor'', ''User'']"

definition detect_cursor :: "world \<Rightarrow> detection" where
  "detect_cursor w =
     (let cursorDir = path_join [home w, ''.cursor'']; globalMcp = path_join [cursorDir, ''mcp.json''];
          globalHooks = path_join [cursorDir, ''hooks.json'']; userDir = editorUserDir w;
          al = cursorAgentlockState w globalHooks in
      \<lparr>det_id = Cursor_ide, det_name = ''Cursor'', det_installed = (exists_at w cursorDir \<or> exists_at w userDir),
       det_evidence = found_if (exists_at w cursorDir) cursorDir @ found_if (exists_at w userDir) userDir @
         found_if (exists_at w globalMcp) globalMcp @ found_if (exists_at w globalHooks) globalHooks,
       det_scopes = [global_scope globalMcp (exists_at w globalMcp)],
       det_surfaces = [Lifecycle_hooks, Mcp_stdio, Extension_only],
       det_notes = [''Cursor '' @ at_least @ ''1.7 hooks live at ~/.cursor/hooks.json (camelCase event keys).'',
         ''Cursor must be relaunched after hook config changes.''],
       det_wired = as_installed al, det_url = as_url al\<rparr>)"

definition extension_absent :: "harness_id \<Rightarrow> string \<Rightarrow> string list \<Rightarrow> detection" where
  "extension_absent i n ev =
     \<lparr>det_id = i, det_name = n, det_installed = False, det_evidence = ev, det_scopes = [], det_surfaces = [Extension_only], det_notes = [],
      det_wired = False, det_url = None\<rparr>"

definition detect_vscodeCopilot :: "world \<Rightarrow> detection" where
  "detect_vscodeCopilot w =
     (case vscodeUserDir w of
        None \<Rightarrow> extension_absent Vscode_copilot ''GitHub Copilot (VS Code)'' []
      | Some userDir \<Rightarrow>
          (let copilotStorage = path_join [userDir, ''globalStorage'', ''github.copilot''];
               chatStorage = path_join [userDir, ''globalStorage'', ''github.copilot-chat''];
               settings = path_join [userDir, ''settings.json''];
               installed = (exists_at w copilotStorage \<or> exists_at w chatStorage);
               al = devStubStateForHarness w Vscode_copilot in
           \<lparr>det_id = Vscode_copilot, det_name = ''GitHub Copilot (VS Code)'', det_installed = installed,
            det_evidence = found_if (exists_at w copilotStorage) copilotStorage @ found_if (exists_at w chatStorage) chatStorage @
              found_if (exists_at w settings) settings,
            det_scopes = (if exists_at w settings then [global_scope settings True] else []),
            det_surfaces = [Mcp_stdio, Extension_only],
            det_notes = (if installed then [''VS Code must be reloaded after Copilot Chat MCP changes.''] else []),
            det_wired = as_installed al, det_url = as_url al\<rparr>))"

definition detect_cline :: "world \<Rightarrow> detection" where
  "detect_cline w =
     (case vscodeUserDir w of
        None \<Rightarrow> extension_absent Cline ''Cline (VSCode)'' [''VSCode user dir not found'']
      | Some userDir \<Rightarrow>
          (let storage = path_join [userDir, ''globalStorage'', ''saoudrizwan.claude-dev''];
               mcpSettings = path_join [storage, ''settings'', ''cline_mcp_settings.json''];
               installed = exists_at w storage; al = devStubStateForHarness w Cline in
           \<lparr>det_id = Cline, det_name = ''Cline (VSCode)'', det_installed = installed,
            det_evidence = found_if installed storage @ found_if (exists_at w mcpSettings) mcpSettings,
            det_scopes = (if exists_at w mcpSettings then [global_scope mcpSettings True] else []),
            det_surfaces = [Mcp_stdio, Extension_only],
            det_notes = (if installed then [''VSCode must be reloaded after Cline MCP changes.''] else []),
            det_wired = as_installed al, det_url = as_url al\<rparr>))"

definition detect_continueDev :: "world \<Rightarrow> detection" where
  "detect_continueDev w =
     (let dir = path_join [home w, ''.continue'']; config = path_join [dir, ''config.json'']; al = devStubStateForHarness w Continue_dev in
      \<lparr>det_id = Continue_dev, det_name = ''Continue.dev'', det_installed = exists_at w dir,
       det_evidence = found_if (exists_at w dir) dir @ found_if (exists_at w config) config,
       det_scopes = [global_scope config (exists_at w config)],
       det_surfaces = [Mcp_stdio, Extension_only], det_notes = [],
       det_wired = as_installed al, det_url = as_url al\<rparr>)"

definition detect_gemini :: "world \<Rightarrow> detection" where
  "detect_gemini w =
     (let dir = path_join [home w, ''.gemini'']; settingsPath = path_join [dir, ''settings.json''];
          al = geminiAgentlockState w settingsPath in
      \<lparr>det_id = Gemini_cli, det_name = ''Gemini CLI'', det_installed = exists_at w dir,
       det_evidence = found_if (exists_at w dir) dir @ found_if (exists_at w settingsPath) settingsPath,
       det_scopes = [global_scope dir (exists_at w dir)],
       det_surfaces = [Mcp_stdio], det_notes = [],
       det_wired = as_installed al, det_url = as_url al\<rparr>)"

section \<open>The registry\<close>

definition ALL_DETECTORS :: "(world \<Rightarrow> js_error + detection) list" where
  "ALL_DETECTORS =
     [detect_claudeCode, detect_claudeDesktop, \<lambda>w. Inr (detect_codex w), \<lambda>w. Inr (detect_codexDesktop w), \<lambda>w. Inr (detect_opencode w),
      \<lambda>w. Inr (detect_cursor w), \<lambda>w. Inr (detect_vscodeCopilot w), \<lambda>w. Inr (detect_cline w), \<lambda>w. Inr (detect_continueDev w),
      \<lambda>w. Inr (detect_gemini w)]"

text \<open>\<open>Promise.all\<close>: the values in order, or the first rejection.\<close>

fun all_or_first :: "('e + 'a) list \<Rightarrow> 'e + 'a list" where
  "all_or_first [] = Inr []"
| "all_or_first (Inl e # xs) = Inl e"
| "all_or_first (Inr x # xs) = (case all_or_first xs of Inl e \<Rightarrow> Inl e | Inr ys \<Rightarrow> Inr (x # ys))"

definition detectAll :: "world \<Rightarrow> js_error + detection list" where
  "detectAll w = all_or_first (map (\<lambda>d. d w) ALL_DETECTORS)"

section \<open>Registry order\<close>

text \<open>The position of a harness in the registry orders the identifiers.\<close>

fun id_rank :: "harness_id \<Rightarrow> nat" where
  "id_rank Claude_code = 0"
| "id_rank Claude_desktop = 1"
| "id_rank Codex_cli = 2"
| "id_rank Codex_desktop = 3"
| "id_rank Opencode = 4"
| "id_rank Cursor_ide = 5"
| "id_rank Vscode_copilot = 6"
| "id_rank Cline = 7"
| "id_rank Continue_dev = 8"
| "id_rank Gemini_cli = 9"

lemma id_rank_inj: "id_rank a = id_rank b \<longleftrightarrow> a = b"
  by (cases a; cases b) simp_all

instantiation harness_id :: linorder
begin

definition less_eq_harness_id :: "harness_id \<Rightarrow> harness_id \<Rightarrow> bool" where
  "less_eq_harness_id a b \<longleftrightarrow> id_rank a \<le> id_rank b"

definition less_harness_id :: "harness_id \<Rightarrow> harness_id \<Rightarrow> bool" where
  "less_harness_id a b \<longleftrightarrow> id_rank a < id_rank b"

instance
  by standard (auto simp: less_eq_harness_id_def less_harness_id_def id_rank_inj [symmetric])

end

lemma id_str_inj: "id_str a = id_str b \<longleftrightarrow> a = b"
  by (cases a; cases b) simp_all

section \<open>What detection reports\<close>

text \<open>The entries a configuration marks as agentlock's, where the probes look for them.\<close>

definition hook_marks :: "json \<Rightarrow> json list" where
  "hook_marks j = filter marked (concat (map (\<lambda>v. elements (Some v)) (values_of (hooks_root j))))"

definition claude_marks :: "json \<Rightarrow> json list" where
  "claude_marks j = (if object_prop (jprop j ''hooks'') then hook_marks j else [])"

definition server_marks :: "json \<Rightarrow> json list" where
  "server_marks j = (if object_prop (jprop j ''mcpServers'') then filter marked (values_of (the (jprop j ''mcpServers''))) else [])"

lemma find_filter: "find P xs = (case filter P xs of [] \<Rightarrow> None | x # _ \<Rightarrow> Some x)"
  by (induction xs) auto

lemma marked_entry_root: "marked_entry (hooks_root j) = (case hook_marks j of [] \<Rightarrow> None | e # _ \<Rightarrow> Some e)"
  by (simp add: marked_entry_def hook_marks_def find_filter)

lemma hooks_root_hooks: "object_prop (jprop j ''hooks'') \<Longrightarrow> the (jprop j ''hooks'') = hooks_root j"
  by (cases j) (auto simp: hooks_root_def Let_def object_prop_def)

lemma state_simps [simp]:
  "as_installed (wired_to u)" "\<not> as_installed NOT_INSTALLED" "as_url (wired_to u) = u" "as_url NOT_INSTALLED = None"
  by (simp_all add: wired_to_def NOT_INSTALLED_def)

lemma hook_states:
  "codexAgentlockState w p = (case read_json_at w p of None \<Rightarrow> NOT_INSTALLED | Some j \<Rightarrow>
     case hook_marks j of [] \<Rightarrow> NOT_INSTALLED | e # _ \<Rightarrow> wired_to (map_option (originOf w) (inner_urls e)))"
  "agentlockHookState w p = (case read_json_at w p of None \<Rightarrow> NOT_INSTALLED | Some j \<Rightarrow>
     case hook_marks j of [] \<Rightarrow> NOT_INSTALLED | e # _ \<Rightarrow> wired_to (map_option (originOf w) (daemonURLFromHookEntry e)))"
  by (auto simp: codexAgentlockState_def agentlockHookState_def marked_entry_root split: option.split list.split)

lemma claude_state:
  "claudeAgentlockState w p = Inr s \<Longrightarrow> as_installed s \<longleftrightarrow> (\<exists>j. read_json_at w p = Some j \<and> claude_marks j \<noteq> [])"
proof -
  have r: "object_prop (jprop j ''hooks'') \<Longrightarrow> marked_entry (the (jprop j ''hooks'')) = (case hook_marks j of [] \<Rightarrow> None | e # _ \<Rightarrow> Some e)" for j
    by (simp add: hooks_root_hooks marked_entry_root)
  assume "claudeAgentlockState w p = Inr s"
  then show ?thesis
    unfolding claudeAgentlockState_def
    by (cases "read_json_at w p") (auto simp: claude_marks_def r split: if_splits list.splits option.splits)
qed

lemma desktop_state:
  "claudeDesktopAgentlockState w p = Inr s \<Longrightarrow> as_installed s \<longleftrightarrow> (\<exists>j. read_json_at w p = Some j \<and> server_marks j \<noteq> [])"
  by (cases "read_json_at w p")
    (auto simp: claudeDesktopAgentlockState_def server_marks_def find_filter split: if_splits list.splits option.splits)

text \<open>The file whose contents decide whether a harness of the hook or server kind is wired.\<close>

definition wiring_file :: "world \<Rightarrow> harness_id \<Rightarrow> string" where
  "wiring_file w h =
     (case h of
        Claude_code \<Rightarrow> path_join [path_join [home w, ''.claude''], ''settings.json'']
      | Claude_desktop \<Rightarrow> claudeDesktopConfigPath w
      | Cursor_ide \<Rightarrow> path_join [path_join [home w, ''.cursor''], ''hooks.json'']
      | Gemini_cli \<Rightarrow> path_join [path_join [home w, ''.gemini''], ''settings.json'']
      | _ \<Rightarrow> path_join [path_join [home w, ''.codex''], ''hooks.json''])"

definition wiring_marks :: "harness_id \<Rightarrow> json \<Rightarrow> json list" where
  "wiring_marks h = (case h of Claude_code \<Rightarrow> claude_marks | Claude_desktop \<Rightarrow> server_marks | _ \<Rightarrow> hook_marks)"

definition hook_harnesses :: "harness_id list" where
  "hook_harnesses = [Claude_code, Claude_desktop, Codex_cli, Codex_desktop, Cursor_ide, Gemini_cli]"

lemma all_or_first_Inr: "all_or_first xs = Inr ys \<longleftrightarrow> xs = map Inr ys"
proof (induction xs arbitrary: ys rule: all_or_first.induct)
  case (3 x xs)
  from 3 [of "tl ys"] show ?case by (cases ys; cases "all_or_first xs") auto
qed auto

lemma all_or_first_Inl: "all_or_first xs = Inl e \<Longrightarrow> Inl e \<in> set xs"
  by (induction xs rule: all_or_first.induct) (auto split: sum.splits)

lemma detectAll_Inr:
  "detectAll w = Inr ds \<longleftrightarrow> (\<exists>a b. detect_claudeCode w = Inr a \<and> detect_claudeDesktop w = Inr b \<and>
     ds = [a, b, detect_codex w, detect_codexDesktop w, detect_opencode w, detect_cursor w, detect_vscodeCopilot w, detect_cline w,
           detect_continueDev w, detect_gemini w])"
  unfolding detectAll_def ALL_DETECTORS_def all_or_first_Inr by auto

lemma detect_ids:
  "detect_claudeCode w = Inr a \<Longrightarrow> det_id a = Claude_code" "detect_claudeDesktop w = Inr a \<Longrightarrow> det_id a = Claude_desktop"
  "det_id (detect_codex w) = Codex_cli" "det_id (detect_codexDesktop w) = Codex_desktop" "det_id (detect_opencode w) = Opencode"
  "det_id (detect_cursor w) = Cursor_ide" "det_id (detect_vscodeCopilot w) = Vscode_copilot" "det_id (detect_cline w) = Cline"
  "det_id (detect_continueDev w) = Continue_dev" "det_id (detect_gemini w) = Gemini_cli"
  by (auto simp: detect_claudeCode_def detect_claudeDesktop_def detect_codex_def detect_codexDesktop_def detect_opencode_def
      detect_cursor_def detect_vscodeCopilot_def detect_cline_def detect_continueDev_def detect_gemini_def extension_absent_def Let_def
      split: sum.splits option.split)

lemma probe_errors:
  "(\<exists>e. detect_claudeCode w = Inl e) \<longleftrightarrow> read_json_at w (wiring_file w Claude_code) = Some JNull"
  "(\<exists>e. detect_claudeDesktop w = Inl e) \<longleftrightarrow> read_json_at w (wiring_file w Claude_desktop) = Some JNull"
  by (auto simp: detect_claudeCode_def detect_claudeDesktop_def claudeAgentlockState_def claudeDesktopAgentlockState_def wiring_file_def
      Let_def split: option.split sum.split)

lemma ids_UNIV:
  "set [Claude_code, Claude_desktop, Codex_cli, Codex_desktop, Opencode, Cursor_ide, Vscode_copilot, Cline, Continue_dev, Gemini_cli] = UNIV"
proof (rule UNIV_eq_I [symmetric])
  show "x \<in> set [Claude_code, Claude_desktop, Codex_cli, Codex_desktop, Opencode, Cursor_ide, Vscode_copilot, Cline, Continue_dev, Gemini_cli]"
    for x by (cases x) simp_all
qed

text \<open>Detection reports every harness exactly once and in the order of the registry, and it fails in exactly one situation: Claude Code's
  settings or Claude Desktop's configuration is a readable file whose JSON value is \<open>null\<close>.\<close>

theorem detect_total:
  "case detectAll w of
     Inl e \<Rightarrow> read_json_at w (wiring_file w Claude_code) = Some JNull \<or> read_json_at w (wiring_file w Claude_desktop) = Some JNull
   | Inr ds \<Rightarrow> sorted_wrt (<) (map det_id ds) \<and> set (map det_id ds) = UNIV \<and>
       read_json_at w (wiring_file w Claude_code) \<noteq> Some JNull \<and> read_json_at w (wiring_file w Claude_desktop) \<noteq> Some JNull"
proof (cases "detectAll w")
  case (Inl e)
  then have "Inl e \<in> set (map (\<lambda>d. d w) ALL_DETECTORS)" unfolding detectAll_def by (rule all_or_first_Inl)
  then have "detect_claudeCode w = Inl e \<or> detect_claudeDesktop w = Inl e" by (auto simp: ALL_DETECTORS_def)
  with probe_errors [of w] Inl show ?thesis by auto
next
  case (Inr ds)
  then obtain a b where ab: "detect_claudeCode w = Inr a" "detect_claudeDesktop w = Inr b"
    "ds = [a, b, detect_codex w, detect_codexDesktop w, detect_opencode w, detect_cursor w, detect_vscodeCopilot w, detect_cline w,
      detect_continueDev w, detect_gemini w]" by (auto simp: detectAll_Inr)
  then have ids: "map det_id ds =
      [Claude_code, Claude_desktop, Codex_cli, Codex_desktop, Opencode, Cursor_ide, Vscode_copilot, Cline, Continue_dev, Gemini_cli]"
    using detect_ids by simp
  have "sorted_wrt (<) (map det_id ds)" unfolding ids by (simp add: less_harness_id_def)
  moreover have "set (map det_id ds) = UNIV" unfolding ids by (rule ids_UNIV)
  ultimately show ?thesis using ab(1,2) probe_errors [of w] Inr by auto
qed


text \<open>A home where Codex' hooks carry one entry of agentlock's.\<close>

definition wired_json :: json where
  "wired_json = JObj [(''hooks'', JObj [(''Stop'', JArr [JObj [(''_agentlock'', JBool True)]])])]"

definition wired_world :: world where
  "wired_world = demo_world\<lparr>w_tree := [(''/home/u/.codex/hooks.json'', File (json_stringify wired_json))]\<rparr>"

lemma wired_world_reads:
  "read_json_at wired_world (wiring_file wired_world Codex_cli) = Some wired_json" "hook_marks wired_json \<noteq> []"
  "read_json_at wired_world (wiring_file wired_world Claude_code) = None"
  "read_json_at wired_world (wiring_file wired_world Claude_desktop) = None"
proof -
  have k: "fs_key wired_world (wiring_file wired_world Codex_cli) = ''/home/u/.codex/hooks.json''" by code_simp
  have "json_ok wired_json" by code_simp
  then have "json_parse (json_stringify wired_json) = Some wired_json" by (rule json_roundtrip)
  with k show "read_json_at wired_world (wiring_file wired_world Codex_cli) = Some wired_json"
    by (simp add: read_json_at_def file_at_def node_at_def del: json_stringify.simps) (simp add: wired_world_def demo_world_def)
qed code_simp+


end
