(* ===== verification/Doctor.thy ===== *)
theory Doctor
  imports Detect
begin

text \<open>
  The diagnostics command (\<open>cli/src/commands/doctor.ts\<close>): the checks of the wrapper, the harnesses and
  the daemon, the report with its summary, and its two renderings. Values the daemon returns are
  JSON; the wording of the engine's own type errors is abbreviated.
\<close>

section \<open>Checks and report\<close>

datatype check_status = Ok_check | Warn_check | Error_check

record doctor_check =
  ck_code :: string
  ck_status :: check_status
  ck_message :: string
  ck_detail :: "json option"

record doctor_harness =
  dh_id :: string
  dh_name :: string
  dh_detected :: bool
  dh_wired :: bool
  dh_url :: "string option"
  dh_evidence :: "string list"
  dh_notes :: "string list"

record doctor_report =
  rp_version :: string
  rp_base :: string
  rp_reachable :: bool
  rp_status :: "json option"
  rp_error :: "string option"
  rp_ledger :: "json option"
  rp_mode :: "json option"
  rp_policy :: "json option"
  rp_sessions :: "json option"
  rp_harnesses :: "doctor_harness list"
  rp_checks :: "doctor_check list"
  rp_ok :: nat
  rp_warn :: nat
  rp_error_count :: nat

fun status_str :: "check_status \<Rightarrow> string" where
  "status_str Ok_check = ''ok''"
| "status_str Warn_check = ''warn''"
| "status_str Error_check = ''error''"

definition check :: "string \<Rightarrow> check_status \<Rightarrow> string \<Rightarrow> json option \<Rightarrow> doctor_check" where
  "check code st msg detail = \<lparr>ck_code = code, ck_status = st, ck_message = msg, ck_detail = detail\<rparr>"

definition SUPPORTED_HARNESSES :: "harness_id list" where
  "SUPPORTED_HARNESSES = [Claude_code, Claude_desktop, Codex_cli, Codex_desktop, Cursor_ide, Gemini_cli]"

definition toDoctorHarness :: "detection \<Rightarrow> doctor_harness" where
  "toDoctorHarness d =
     \<lparr>dh_id = id_str (det_id d), dh_name = det_name d, dh_detected = det_installed d, dh_wired = det_wired d, dh_url = det_url d,
      dh_evidence = det_evidence d, dh_notes = det_notes d\<rparr>"

definition wrapper_check :: "world \<Rightarrow> doctor_check" where
  "wrapper_check w =
     (let wrapper = path_join [binDir w, ''agentlock''] in
      if exists_at w wrapper then check ''wrapper.installed'' Ok_check ''stable hook wrapper exists'' (Some (JStr wrapper))
      else check ''wrapper.missing'' Warn_check ''stable hook wrapper is missing; run agentlock install to create it'' (Some (JStr wrapper)))"

definition truthy_str :: "string option \<Rightarrow> bool" where
  "truthy_str s \<longleftrightarrow> (case s of Some (c # cs) \<Rightarrow> True | _ \<Rightarrow> False)"

definition harness_checks :: "world \<Rightarrow> string \<Rightarrow> detection \<Rightarrow> doctor_check list" where
  "harness_checks w base h =
     (if det_id h \<notin> set SUPPORTED_HARNESSES then []
      else if det_wired h then
        (let wiredURL = (if truthy_str (det_url h) then Some (originOf w (the (det_url h))) else None) in
         [check (''harness.'' @ id_str (det_id h) @ ''.wired'') Ok_check (det_name h @ '' is wired to OpenAgentLock'') (ostr wiredURL)] @
         (if truthy_str wiredURL \<and> the wiredURL \<noteq> originOf w base then
            [check (''harness.'' @ id_str (det_id h) @ ''.daemon_mismatch'') Warn_check
               (det_name h @ '' is wired to a different daemon than doctor is checking'')
               (Some (JStr (''wired='' @ the wiredURL @ '' checked='' @ originOf w base)))]
          else []))
      else
        [check (''harness.'' @ id_str (det_id h) @ ''.not_wired'') Warn_check
           (det_name h @ '' is installed but not wired to OpenAgentLock'') (Some (JStr ''run agentlock install''))])"

definition local_checks :: "world \<Rightarrow> string \<Rightarrow> detection list \<Rightarrow> doctor_check list" where
  "local_checks w base ds =
     (let installedHarnesses = filter det_installed ds in
      [wrapper_check w] @
      (if installedHarnesses = [] then [check ''harness.none_detected'' Warn_check ''no installed agent harnesses detected'' None] else []) @
      concat (map (harness_checks w base) installedHarnesses))"

section \<open>Probing the daemon\<close>

text \<open>The health probe: reachable, status, error and check. A \<open>null\<close> body is both reachable and an error.\<close>

definition health_probe :: "client \<Rightarrow> (bool \<times> json option \<times> string option \<times> doctor_check) prog" where
  "health_probe cl =
     (let down = (\<lambda>m. check ''daemon.unreachable'' Error_check (''daemon unreachable at '' @ cl_url cl) (Some (JStr m))) in
      tryP
        (bindP (health cl) (\<lambda>h.
         if h = JNull then (let m = err_msg (type_error ''health.status'') in ret (True, None, Some m, down m))
         else ret (True, jprop h ''status'', None,
                check ''daemon.reachable'' Ok_check (''daemon reachable at '' @ cl_url cl) (jprop h ''status''))))
        (\<lambda>e. ret (False, None, Some (err_msg e), down (err_msg e))))"

text \<open>One section of the report: the call, what is made of its value, and the check when either throws.\<close>

definition probe_section ::
  "json prog \<Rightarrow> (json \<Rightarrow> (json \<times> doctor_check) prog) \<Rightarrow> string \<Rightarrow> check_status \<Rightarrow> string \<Rightarrow> (json option \<times> doctor_check) prog" where
  "probe_section call use code st msg =
     tryP (bindP call (\<lambda>v. bindP (use v) (\<lambda>(sec, ck). ret (Some sec, ck))))
       (\<lambda>e. ret (None, check code st msg (Some (JStr (err_msg e)))))"

definition ledger_section :: "json \<Rightarrow> (json \<times> doctor_check) prog" where
  "ledger_section result =
     bindP (propP result ''ok'') (\<lambda>ok.
     ret (obj_of [(''ok'', ok), (''count'', jprop result ''count''), (''root'', jprop result ''root''),
                  (''first_bad_at'', jprop result ''first_bad_at''), (''reason'', jprop result ''reason'')],
          check ''ledger.verify'' (if truthy ok then Ok_check else Error_check)
            (if truthy ok then ''ledger verifies ('' @ js_ostring (jprop result ''count'') @ '' entries)'' else ''ledger verification failed'')
            (jprop result ''reason'')))"

definition mode_section :: "json \<Rightarrow> (json \<times> doctor_check) prog" where
  "mode_section gotMode =
     bindP (propP gotMode ''mode'') (\<lambda>m.
     ret (obj_of [(''mode'', m)], check ''daemon.mode'' Ok_check (''daemon mode is '' @ js_ostring m) None))"

text \<open>\<open>v.length\<close>, which throws for \<open>undefined\<close> and \<open>null\<close>.\<close>

definition length_prop :: "string \<Rightarrow> json option \<Rightarrow> json option prog" where
  "length_prop expr v =
     (case v of
        None \<Rightarrow> throw_msg (''undefined is not an object (evaluating '' @ [chr_sq] @ expr @ [chr_sq] @ '')'')
      | Some JNull \<Rightarrow> throwP (type_error expr)
      | Some (JArr xs) \<Rightarrow> ret (Some (jint (int (length xs))))
      | Some (JStr s) \<Rightarrow> ret (Some (jint (int (length s))))
      | Some j \<Rightarrow> ret (jprop j ''length''))"

definition policy_section :: "json \<Rightarrow> (json \<times> doctor_check) prog" where
  "policy_section view =
     bindP (propP view ''hash'') (\<lambda>hash.
     bindP (length_prop ''view.gates.length'' (jprop view ''gates'')) (\<lambda>n.
     ret (obj_of [(''hash'', hash), (''gates'', n), (''daemon_mode'', jprop view ''daemon_mode''), (''policy_mode'', jprop view ''policy_mode'')],
          check ''policy.loaded'' Ok_check (''policy loaded ('' @ js_ostring n @ '' gates)'') hash)))"

fun count_active :: "json list \<Rightarrow> nat prog" where
  "count_active [] = ret 0"
| "count_active (s # ss) =
     bindP (propP s ''s.active'') (\<lambda>_. bindP (count_active ss) (\<lambda>n. ret (if truthy (jprop s ''active'') then Suc n else n)))"

definition sessions_section :: "json \<Rightarrow> (json \<times> doctor_check) prog" where
  "sessions_section list =
     bindP (propP list ''list.sessions'') (\<lambda>_.
     case jprop list ''sessions'' of
       Some (JArr ss) \<Rightarrow>
         bindP (count_active ss) (\<lambda>active.
         ret (obj_of [(''total'', Some (jint (int (length ss)))), (''active'', Some (jint (int active))),
                      (''live_policy_hash'', jprop list ''live_policy_hash'')],
              check ''sessions.list'' Ok_check (nat_str active @ '' active session(s), '' @ nat_str (length ss) @ '' total'') None))
     | _ \<Rightarrow> throw_msg ''list.sessions.filter is not a function'')"

section \<open>The report\<close>

definition count_status :: "check_status \<Rightarrow> doctor_check list \<Rightarrow> nat" where
  "count_status st cks = length (filter (\<lambda>c. ck_status c = st) cks)"

definition make_report ::
  "string \<Rightarrow> string \<Rightarrow> bool \<Rightarrow> json option \<Rightarrow> string option \<Rightarrow> json option list \<Rightarrow> doctor_harness list \<Rightarrow> doctor_check list \<Rightarrow> doctor_report" where
  "make_report version base reachable st err secs hs cks =
     \<lparr>rp_version = version, rp_base = base, rp_reachable = reachable, rp_status = st, rp_error = err,
      rp_ledger = secs ! 0, rp_mode = secs ! 1, rp_policy = secs ! 2, rp_sessions = secs ! 3, rp_harnesses = hs, rp_checks = cks,
      rp_ok = count_status Ok_check cks, rp_warn = count_status Warn_check cks, rp_error_count = count_status Error_check cks\<rparr>"

text \<open>The rest of the report once the health probe is in.\<close>

definition daemon_report ::
  "client \<Rightarrow> string \<Rightarrow> detection list \<Rightarrow> doctor_check list \<Rightarrow> bool \<times> json option \<times> string option \<times> doctor_check \<Rightarrow> doctor_report prog" where
  "daemon_report cl version ds cks0 = (\<lambda>(reachable, st, err, ck).
     if reachable then
       bindP (probe_section (ledgerVerify cl) ledger_section ''ledger.verify_error'' Error_check ''ledger verification endpoint failed'') (\<lambda>(l, ck1).
       bindP (probe_section (getMode cl) mode_section ''daemon.mode_error'' Warn_check ''could not read daemon mode'') (\<lambda>(m, ck2).
       bindP (probe_section (policyView cl) policy_section ''policy.view_error'' Warn_check ''could not read policy view'') (\<lambda>(p, ck3).
       bindP (probe_section (listSessions cl) sessions_section ''sessions.list_error'' Warn_check ''could not list sessions'') (\<lambda>(s, ck4).
       ret (make_report version (cl_url cl) reachable st err [l, m, p, s] (map toDoctorHarness ds) (cks0 @ [ck, ck1, ck2, ck3, ck4]))))))
     else ret (make_report version (cl_url cl) reachable st err [None, None, None, None] (map toDoctorHarness ds) (cks0 @ [ck])))"

definition collectDoctorReport :: "string option \<Rightarrow> string \<Rightarrow> doctor_report prog" where
  "collectDoctorReport url version =
     bindP (apiClient url None) (\<lambda>cl.
     bindP (getsP detectAll) (\<lambda>detected.
     case detected of
       Inl e \<Rightarrow> throwP e
     | Inr ds \<Rightarrow>
         bindP (getsP (\<lambda>w. local_checks w (cl_url cl) ds)) (\<lambda>cks0.
         bindP (health_probe cl) (daemon_report cl version ds cks0))))"

section \<open>Rendering\<close>

fun mark_str :: "check_status \<Rightarrow> string" where
  "mark_str Ok_check = ''OK''"
| "mark_str Warn_check = ''!!''"
| "mark_str Error_check = ''XX''"

definition check_lines :: "doctor_check \<Rightarrow> string list" where
  "check_lines c =
     [''  '' @ mark_str (ck_status c) @ '' '' @ ck_message c] @
     (if truthy (ck_detail c) then [''      '' @ js_ostring (ck_detail c)] else [])"

definition harness_line :: "doctor_harness \<Rightarrow> string" where
  "harness_line h =
     ''  '' @ (if dh_detected h \<and> dh_wired h then ''OK'' else if dh_detected h then ''!!'' else ''--'') @ '' '' @ dh_name h @ '': '' @
     (if dh_detected h then (if dh_wired h then ''wired'' else ''detected'') else ''not detected'') @
     (if truthy_str (dh_url h) then '' -> '' @ the (dh_url h) else '''')"

definition renderDoctorReport :: "doctor_report \<Rightarrow> string" where
  "renderDoctorReport r =
     join [chr_nl]
       ([''OpenAgentLock doctor'', ''  cli: '' @ rp_version r, ''  daemon: '' @ rp_base r, '''', ''Checks''] @
        concat (map check_lines (rp_checks r)) @ ['''', ''Harnesses''] @ map harness_line (rp_harnesses r) @
        ['''', ''Summary: '' @ nat_str (rp_ok r) @ '' ok, '' @ nat_str (rp_warn r) @ '' warning(s), '' @ nat_str (rp_error_count r) @ '' error(s)''])
     @ [chr_nl]"

definition strings_json :: "string list \<Rightarrow> json" where
  "strings_json ss = JArr (map JStr ss)"

definition report_json :: "doctor_report \<Rightarrow> json" where
  "report_json r = obj_of
     [(''cli_version'', Some (JStr (rp_version r))),
      (''daemon'', Some (obj_of [(''base_url'', Some (JStr (rp_base r))), (''reachable'', Some (JBool (rp_reachable r))),
         (''status'', rp_status r), (''error'', ostr (rp_error r))])),
      (''ledger'', rp_ledger r), (''mode'', rp_mode r), (''policy'', rp_policy r), (''sessions'', rp_sessions r),
      (''harnesses'', Some (JArr (map (\<lambda>h. obj_of [(''id'', Some (JStr (dh_id h))), (''name'', Some (JStr (dh_name h))),
         (''detected'', Some (JBool (dh_detected h))), (''wired'', Some (JBool (dh_wired h))), (''daemon_url'', ostr (dh_url h)),
         (''evidence'', Some (strings_json (dh_evidence h))), (''notes'', Some (strings_json (dh_notes h)))]) (rp_harnesses r)))),
      (''checks'', Some (JArr (map (\<lambda>c. obj_of [(''code'', Some (JStr (ck_code c))), (''status'', Some (JStr (status_str (ck_status c)))),
         (''message'', Some (JStr (ck_message c))), (''detail'', ck_detail c)]) (rp_checks r)))),
      (''summary'', Some (JObj [(''ok'', jint (int (rp_ok r))), (''warn'', jint (int (rp_warn r))), (''error'', jint (int (rp_error_count r)))]))]"

definition runDoctor :: "string option \<Rightarrow> bool \<Rightarrow> string \<Rightarrow> unit prog" where
  "runDoctor url json version =
     bindP (collectDoctorReport url version) (\<lambda>r.
     thenP (stdout_write (if json then json_pretty 0 (report_json r) @ [chr_nl] else renderDoctorReport r))
       (whenP (rp_error_count r > 0) (set_exit_code 1)))"

section \<open>The doctor only looks\<close>

text \<open>A diagnostic request: a \<open>GET\<close>, or the verification of the ledger, and never with a body.\<close>

definition diagnostic :: "http_req \<Rightarrow> bool" where
  "diagnostic rq \<longleftrightarrow> rq_body rq = None \<and> (rq_method rq = ''GET'' \<or> (rq_method rq = ''POST'' \<and> ends_with ''/v1/ledger/verify'' (rq_url rq)))"

lemma emits_diagnostic [emits_intros]:
  "emits diagnostic (health cl)" "emits diagnostic (getMode cl)" "emits diagnostic (policyView cl)" "emits diagnostic (listSessions cl)"
  "emits diagnostic (ledgerVerify cl)"
  unfolding health_def getMode_def policyView_def listSessions_def ledgerVerify_def
  by (rule emits_api_send, simp add: diagnostic_def ends_with_def starts_with_def, intro emits_intros)+

lemma emits_sections [emits_intros]:
  "emits P (ledger_section v)" "emits P (mode_section v)" "emits P (policy_section v)" "emits P (sessions_section v)"
proof -
  show "emits P (ledger_section v)" "emits P (mode_section v)" unfolding ledger_section_def mode_section_def by (intro emits_intros)+
  have "emits P (length_prop x j)" for x j
    unfolding length_prop_def by (auto intro: emits_intros split: option.split json.split)
  then show "emits P (policy_section v)" unfolding policy_section_def by (intro emits_intros)
  have "emits P (count_active xs)" for xs
    by (induction xs) (auto intro!: emits_intros)
  then show "emits P (sessions_section v)"
    unfolding sessions_section_def by (auto intro!: emits_intros split: option.split json.split)
qed

lemma emits_probe [emits_intros]: "emits P call \<Longrightarrow> (\<And>v. emits P (use v)) \<Longrightarrow> emits P (probe_section call use code st msg)"
  unfolding probe_section_def by (intro emits_intros)

lemma emits_health_probe [emits_intros]: "emits diagnostic (health_probe cl)"
  unfolding health_probe_def Let_def by (intro emits_intros)

lemma emits_daemon_report [emits_intros]: "emits diagnostic (daemon_report cl v ds cks q)"
  unfolding daemon_report_def by (intro emits_intros)

lemma emits_collect: "emits diagnostic (collectDoctorReport url v)"
  unfolding collectDoctorReport_def
  by (intro emits_intros)

text \<open>Probing changes nothing but the list of requests.\<close>

lemma keeps_probes:
  assumes "\<And>w s. f (w\<lparr>w_sent := s\<rparr>) = f w"
  shows "keeps f (health cl)" "keeps f (getMode cl)" "keeps f (policyView cl)" "keeps f (listSessions cl)" "keeps f (ledgerVerify cl)"
  unfolding health_def getMode_def policyView_def listSessions_def ledgerVerify_def
  by (rule keeps_api_send [OF keeps_fetch [OF assms] refl], intro keeps_intros)+

lemma keeps_sections [keeps_intros]:
  "keeps f (ledger_section v)" "keeps f (mode_section v)" "keeps f (policy_section v)" "keeps f (sessions_section v)"
proof -
  show "keeps f (ledger_section v)" "keeps f (mode_section v)" unfolding ledger_section_def mode_section_def by (intro keeps_intros)+
  have "keeps f (length_prop x j)" for x j
    unfolding length_prop_def by (auto intro: keeps_intros split: option.split json.split)
  then show "keeps f (policy_section v)" unfolding policy_section_def by (intro keeps_intros)
  have "keeps f (count_active xs)" for xs
    by (induction xs) (auto intro!: keeps_intros)
  then show "keeps f (sessions_section v)"
    unfolding sessions_section_def by (auto intro!: keeps_intros split: option.split json.split)
qed

lemma keeps_probe [keeps_intros]: "keeps f call \<Longrightarrow> (\<And>v. keeps f (use v)) \<Longrightarrow> keeps f (probe_section call use code st msg)"
  unfolding probe_section_def by (intro keeps_intros)

lemma keeps_collect:
  assumes "\<And>w s. f (w\<lparr>w_sent := s\<rparr>) = f w"
  shows "keeps f (collectDoctorReport url v)"
proof -
  note p = keeps_probes [of f, OF assms]
  have "keeps f (apiClient url None)" unfolding apiClient_def by (rule keeps_basic)
  moreover have "keeps f (health_probe cl)" for cl unfolding health_probe_def Let_def by (intro keeps_intros p)
  moreover have "keeps f (daemon_report cl v ds cks q)" for cl ds cks q unfolding daemon_report_def by (intro keeps_intros p)
  ultimately show ?thesis unfolding collectDoctorReport_def by (intro keeps_intros)
qed

text \<open>The doctor is read-only: whatever it finds and however it ends, it sends only \<open>GET\<close> requests and the request to verify the
  ledger, none with a body, runs no program, and leaves every file as it was.\<close>

theorem doctor_read_only:
  "(\<exists>rqs. w_sent (snd (runDoctor url json v w)) = w_sent w @ rqs \<and> list_all diagnostic rqs) \<and>
   w_tree (snd (runDoctor url json v w)) = w_tree w \<and> w_ran (snd (runDoctor url json v w)) = w_ran w"
proof -
  have "emits diagnostic (runDoctor url json v)" unfolding runDoctor_def by (intro emits_intros emits_collect)
  moreover have "keeps w_tree (runDoctor url json v)"
    unfolding runDoctor_def by (intro keeps_intros keeps_collect) simp
  moreover have "keeps w_ran (set_exit_code c)" for c by (simp add: keeps_def set_exit_code_def updP_def)
  then have "keeps w_ran (runDoctor url json v)"
    unfolding runDoctor_def by (intro keeps_intros keeps_collect keeps_output) simp_all
  ultimately show ?thesis by (simp add: emits_def keeps_def)
qed

section \<open>The exit code\<close>

text \<open>The daemon is healthy: reachable, with an answer, and its ledger verifies.\<close>

definition healthy :: "doctor_report \<Rightarrow> bool" where
  "healthy r \<longleftrightarrow> rp_reachable r \<and> rp_error r = None \<and> (\<exists>l. rp_ledger r = Some l \<and> truthy (jprop l ''ok''))"

lemma local_checks_ok: "c \<in> set (local_checks w base ds) \<Longrightarrow> ck_status c \<noteq> Error_check"
  by (auto simp: local_checks_def wrapper_check_def harness_checks_def check_def Let_def split: if_splits)

lemma health_probe_status:
  "health_probe cl w = (Val (reachable, st, err, ck), w') \<Longrightarrow>
     (ck_status ck = Error_check \<longleftrightarrow> err \<noteq> None) \<and> (\<not> reachable \<longrightarrow> err \<noteq> None)"
  by (auto simp: health_probe_def Let_def tryP_def bindP_def ret_def check_def split: res.splits prod.splits if_splits)

lemma probe_section_cases:
  "probe_section call use code st msg w = (Val (sec, ck), w') \<Longrightarrow>
     (\<exists>v w1 s. sec = Some s \<and> use v w1 = (Val (s, ck), w')) \<or> (sec = None \<and> ck_status ck = st)"
  by (auto simp: probe_section_def tryP_def bindP_def ret_def check_def split: res.splits prod.splits)

lemma ledger_section_status: "ledger_section v w = (Val (s, ck), w') \<Longrightarrow> (ck_status ck = Error_check \<longleftrightarrow> \<not> truthy (jprop s ''ok''))"
  by (auto simp: ledger_section_def propP_def throwP_def bindP_def ret_def check_def split: if_splits)

lemma other_sections_status:
  "mode_section v w = (Val (s, ck), w') \<Longrightarrow> ck_status ck = Ok_check"
  "policy_section v w = (Val (s, ck), w') \<Longrightarrow> ck_status ck = Ok_check"
  "sessions_section v w = (Val (s, ck), w') \<Longrightarrow> ck_status ck = Ok_check"
  by (auto simp: mode_section_def policy_section_def sessions_section_def bindP_Val ret_Val check_def throw_msg_def throwP_def
      split: option.splits json.splits)

lemma error_count: "0 < count_status Error_check cks \<longleftrightarrow> (\<exists>c \<in> set cks. ck_status c = Error_check)"
  by (auto simp: count_status_def filter_empty_conv)

lemma bindP_pair_Val:
  "bindP m (\<lambda>(a, b). f a b) w = (Val y, w'') \<longleftrightarrow> (\<exists>a b w'. m w = (Val (a, b), w') \<and> f a b w' = (Val y, w''))"
  by (simp add: bindP_Val)

lemma case_sum_Val: "(case s of Inl e \<Rightarrow> throwP e | Inr x \<Rightarrow> f x) w = (Val y, w') \<longleftrightarrow> (\<exists>x. s = Inr x \<and> f x w = (Val y, w'))"
  by (cases s) (simp_all add: throwP_def)

lemma daemon_report_made:
  "daemon_report cl v ds cks0 q w = (Val r, w') \<Longrightarrow> \<exists>b h st e secs hs cks. r = make_report v b h st e secs hs cks"
  by (cases q) (auto simp: daemon_report_def bindP_Val ret_Val split: if_splits; blast)

lemma collect_made:
  "collectDoctorReport url v w = (Val r, w') \<Longrightarrow> \<exists>b h st e secs hs cks. r = make_report v b h st e secs hs cks"
  unfolding collectDoctorReport_def by (auto simp: bindP_Val case_sum_Val dest!: daemon_report_made)

lemma collect_errors:
  assumes "collectDoctorReport url v w = (Val r, w')"
  shows "0 < rp_error_count r \<longleftrightarrow> \<not> healthy r"
proof -
  from assms obtain cl ds cks0 w0 reachable st err ck w1 where
    hp: "health_probe cl w0 = (Val (reachable, st, err, ck), w1)" and rest: "daemon_report cl v ds cks0 (reachable, st, err, ck) w1 = (Val r, w')"
    and cks0: "\<forall>c \<in> set cks0. ck_status c \<noteq> Error_check"
    unfolding collectDoctorReport_def apiClient_def
    by (auto simp: bindP_Val getsP_def throwP_def split: sum.splits dest: local_checks_ok) (metis local_checks_ok)
  note H = health_probe_status [OF hp]
  show ?thesis
  proof (cases reachable)
    case False
    with rest have "r = make_report v (cl_url cl) reachable st err [None, None, None, None] (map toDoctorHarness ds) (cks0 @ [ck])"
      by (simp add: daemon_report_def ret_Val)
    with False H cks0 show ?thesis by (auto simp: make_report_def healthy_def error_count)
  next
    case True
    with rest obtain l ck1 w2 m ck2 w3 p ck3 w4 s ck4 where
      l: "probe_section (ledgerVerify cl) ledger_section ''ledger.verify_error'' Error_check ''ledger verification endpoint failed'' w1 = (Val (l, ck1), w2)"
      and m: "probe_section (getMode cl) mode_section ''daemon.mode_error'' Warn_check ''could not read daemon mode'' w2 = (Val (m, ck2), w3)"
      and p: "probe_section (policyView cl) policy_section ''policy.view_error'' Warn_check ''could not read policy view'' w3 = (Val (p, ck3), w4)"
      and s: "probe_section (listSessions cl) sessions_section ''sessions.list_error'' Warn_check ''could not list sessions'' w4 = (Val (s, ck4), w')"
      and r: "r = make_report v (cl_url cl) reachable st err [l, m, p, s] (map toDoctorHarness ds)
         (cks0 @ [ck, ck1, ck2, ck3, ck4])"
      by (simp only: daemon_report_def bindP_pair_Val ret_Val prod.case if_True) blast
    have "ck_status ck1 = Error_check \<longleftrightarrow> \<not> (\<exists>x. l = Some x \<and> truthy (jprop x ''ok''))"
      using probe_section_cases [OF l] ledger_section_status by auto
    moreover have "ck_status ck2 \<noteq> Error_check" using probe_section_cases [OF m] other_sections_status(1) by fastforce
    moreover have "ck_status ck3 \<noteq> Error_check" using probe_section_cases [OF p] other_sections_status(2) by fastforce
    moreover have "ck_status ck4 \<noteq> Error_check" using probe_section_cases [OF s] other_sections_status(3) by fastforce
    ultimately show ?thesis
      using True H cks0 by (auto simp: r make_report_def healthy_def error_count)
  qed
qed

lemma run_exit_line:
  "thenP (stdout_write s) (whenP b (set_exit_code c)) w =
     (Val (), w\<lparr>w_out := w_out w @ s, w_exit_code := (if b then Some c else w_exit_code w)\<rparr>)"
  by (simp add: stdout_write_def thenP_def bindP_def updP_def whenP_def set_exit_code_def ret_def)

text \<open>The exit code tells whether the daemon is healthy: a run that completes leaves the exit code alone exactly when the report says the
  daemon is reachable and its ledger verifies, and sets it to 1 otherwise; missing wrappers and unwired harnesses are warnings only. And the
  three numbers of the summary add up to the checks.\<close>

theorem doctor_exit_code:
  assumes "runDoctor url json v w = (Val (), w')"
  shows "\<exists>r w1. collectDoctorReport url v w = (Val r, w1) \<and> w_exit_code w' = (if healthy r then w_exit_code w else Some 1) \<and>
     rp_ok r + rp_warn r + rp_error_count r = length (rp_checks r)"
proof -
  from assms obtain r w1 where c: "collectDoctorReport url v w = (Val r, w1)"
    and e: "w_exit_code w' = (if 0 < rp_error_count r then Some 1 else w_exit_code w1)"
    unfolding runDoctor_def by (auto simp: bindP_Val run_exit_line)
  have "w_exit_code w1 = w_exit_code w" by (rule keepsD [OF keeps_collect c]) simp
  moreover have "length cks = count_status Ok_check cks + count_status Warn_check cks + count_status Error_check cks" for cks
  proof (induction cks)
    case (Cons x cks)
    then show ?case by (cases "ck_status x") (simp_all add: count_status_def)
  qed (simp add: count_status_def)
  then have "rp_ok r + rp_warn r + rp_error_count r = length (rp_checks r)"
    using collect_made [OF c] by (auto simp: make_report_def)
  ultimately show ?thesis using c e collect_errors [OF c] by auto
qed

text \<open>On the empty world the daemon cannot be reached.\<close>

lemma demo_doctor:
  "\<exists>r w1. collectDoctorReport None v demo_world = (Val r, w1) \<and> \<not> rp_reachable r"
proof -
  have "read_json_at demo_world (wiring_file demo_world h) = None" for h
    by (simp add: read_json_at_def file_at_def node_at_def demo_world_def)
  then obtain ds where ds: "detectAll demo_world = Inr ds" using detect_total [of demo_world] by (auto split: sum.splits)
  obtain cl where cl: "apiClient None None demo_world = (Val cl, demo_world)" by (simp add: apiClient_def getsP_def)
  have "\<exists>ck w1. health_probe cl demo_world = (Val (False, None, Some ''refused'', ck), w1)"
    by (simp add: health_probe_def health_def api_send_def bindP_def fetch_def tryP_def ret_def Let_def demo_world_def)
  then obtain ck w1 where "health_probe cl demo_world = (Val (False, None, Some ''refused'', ck), w1)" by blast
  with ds cl show ?thesis
    by (simp add: collectDoctorReport_def daemon_report_def run_bindP getsP_def ret_def make_report_def)
qed

theorem doctor_exit_code_witness:
  "w_exit_code (snd (runDoctor None False ''1.0'' demo_world)) = Some 1"
proof -
  obtain r w1 where c: "collectDoctorReport None ''1.0'' demo_world = (Val r, w1)" "\<not> rp_reachable r" using demo_doctor by blast
  then obtain w' where r: "runDoctor None False ''1.0'' demo_world = (Val (), w')"
    by (simp add: runDoctor_def run_bindP run_exit_line)
  with doctor_exit_code [OF r] c show ?thesis by (auto simp: healthy_def)
qed

end
