(* ===== verification/Multiselect.thy ===== *)
theory Multiselect
  imports Prelude
begin

text \<open>
  The picker of the installer (\<open>cli/src/tui/multiselect.tsx\<close>): the cursor and the set of checked rows,
  the handler of a key press, and the promise the picker settles. A JavaScript \<open>Set\<close> is the list of
  its members in the order they were added. The screen is a list of lines, each with its colour; it is
  redrawn only when the handler asks for it (\<open>nudge\<close>), so what is shown is a state of its own.
\<close>

section \<open>Options and state\<close>

record 'id pick_option =
  po_id :: 'id
  po_label :: string
  po_sub :: "string option"
  po_checked :: bool
  po_disabled :: bool
  po_reason :: "string option"

record key_event =
  ke_name :: string
  ke_seq :: string
  ke_ctrl :: bool

text \<open>\<open>ms_done\<close> is the value the promise has settled with: \<open>Some None\<close> is \<open>null\<close>, an abort.\<close>

record 'id picker =
  ms_cursor :: nat
  ms_checked :: "'id list"
  ms_done :: "'id list option option"

fun set_add :: "'a list \<Rightarrow> 'a \<Rightarrow> 'a list" where
  "set_add xs x = (if x \<in> set xs then xs else xs @ [x])"

definition set_from :: "'a list \<Rightarrow> 'a list" where
  "set_from xs = foldl set_add [] xs"

fun first_enabled :: "'id pick_option list \<Rightarrow> nat option" where
  "first_enabled [] = None"
| "first_enabled (x # xs) = (if \<not> po_disabled x then Some 0 else map_option Suc (first_enabled xs))"

definition firstEnabledIndex :: "'id pick_option list \<Rightarrow> nat" where
  "firstEnabledIndex options = (case first_enabled options of Some i \<Rightarrow> i | None \<Rightarrow> 0)"

definition enabled_ids :: "'id pick_option list \<Rightarrow> 'id list" where
  "enabled_ids options = map po_id (filter (\<lambda>x. \<not> po_disabled x) options)"

definition ms_init :: "'id pick_option list \<Rightarrow> 'id picker" where
  "ms_init options =
     \<lparr>ms_cursor = firstEnabledIndex options,
      ms_checked = set_from (map po_id (filter (\<lambda>x. po_checked x \<and> \<not> po_disabled x) options)),
      ms_done = None\<rparr>"

definition toggleAll :: "'id pick_option list \<Rightarrow> 'id list \<Rightarrow> 'id list" where
  "toggleAll options checked =
     (let enabled = enabled_ids options;
          allOn = enabled \<noteq> [] \<and> list_all (\<lambda>i. i \<in> set checked) enabled
      in if allOn then [] else set_from enabled)"

text \<open>The promise settles once; a second call is ignored.\<close>

definition finish :: "'id list option \<Rightarrow> 'id picker \<Rightarrow> 'id picker" where
  "finish r s = (if ms_done s \<noteq> None then s else s\<lparr>ms_done := Some r\<rparr>)"

definition aborts :: "key_event \<Rightarrow> bool" where
  "aborts e \<longleftrightarrow> ke_name e = ''escape'' \<or> ke_name e = ''q''"

definition confirms :: "key_event \<Rightarrow> bool" where
  "confirms e \<longleftrightarrow> ke_name e = ''return'' \<or> ke_name e = ''enter''"

definition toggle_at :: "'id pick_option list \<Rightarrow> 'id picker \<Rightarrow> 'id picker" where
  "toggle_at options s =
     (if ms_cursor s < length options \<and> \<not> po_disabled (options ! ms_cursor s) then
        (let i = po_id (options ! ms_cursor s) in
         s\<lparr>ms_checked := (if i \<in> set (ms_checked s) then filter (\<lambda>j. j \<noteq> i) (ms_checked s) else ms_checked s @ [i])\<rparr>)
      else s)"

definition ms_key :: "'id pick_option list \<Rightarrow> key_event \<Rightarrow> 'id picker \<Rightarrow> 'id picker" where
  "ms_key options e s =
     (let n = length options in
      if aborts e then finish None s
      else if confirms e then finish (Some (ms_checked s)) s
      else if ke_name e = ''up'' \<or> ke_name e = ''k'' then
        (if n > 0 then s\<lparr>ms_cursor := (ms_cursor s + n - 1) mod n\<rparr> else s)
      else if ke_name e = ''down'' \<or> ke_name e = ''j'' then
        (if n > 0 then s\<lparr>ms_cursor := (ms_cursor s + 1) mod n\<rparr> else s)
      else if ke_name e = ''space'' \<or> ke_name e = '' '' \<or> ke_seq e = '' '' then toggle_at options s
      else if ke_name e = ''a'' \<or> ke_name e = ''A'' then s\<lparr>ms_checked := toggleAll options (ms_checked s)\<rparr>
      else s)"

text \<open>The settled value after the given keys, if any.\<close>

definition multiselect :: "'id pick_option list \<Rightarrow> key_event list \<Rightarrow> 'id list option option" where
  "multiselect options keys = ms_done (foldl (\<lambda>s e. ms_key options e s) (ms_init options) keys)"

section \<open>The screen\<close>

text \<open>The picker with its screen: the mutable references, the last key (kept under the debug switch only) and the lines
  drawn at the last render. A line is its colour and its text.\<close>

type_synonym line = "string option \<times> string"

record 'id shown_picker =
  sp_state :: "'id picker"
  sp_last :: string
  sp_screen :: "line list"

definition row_lines :: "'id picker \<Rightarrow> nat \<Rightarrow> 'id pick_option \<Rightarrow> line list" where
  "row_lines s i x =
     (let isCursor = i = ms_cursor s;
          baseColor = (if po_disabled x then ''#666666'' else ''#CCCCCC'');
          cursorColor = (if isCursor then ''#00FFAA'' else baseColor);
          note = (case po_reason x of Some r \<Rightarrow> if po_disabled x \<and> r \<noteq> [] then ''  ('' @ r @ '')'' else [] | None \<Rightarrow> []) in
      [(Some cursorColor,
        (if isCursor then ''>'' else '' '') @ '' '' @ (if po_id x \<in> set (ms_checked s) then ''[x]'' else ''[ ]'') @ '' '' @
         po_label x @ note)] @
      (case po_sub x of Some t \<Rightarrow> if t = [] then [] else [(Some ''#777777'', ''      '' @ t)] | None \<Rightarrow> []))"

definition picker_help :: string where
  "picker_help = map char_of [0xE2, 0x86, 0x91 :: nat] @ ''/'' @ map char_of [0xE2, 0x86, 0x93 :: nat] @
     '' j/k move   space toggle   a all   enter confirm   q/esc abort''"

definition debug_line :: "('id \<Rightarrow> string) \<Rightarrow> string \<Rightarrow> 'id picker \<Rightarrow> line" where
  "debug_line name last_key s =
     (Some ''#F5A623'',
      ''[debug] last='' @ [chr_dq] @ last_key @ [chr_dq] @ '' cursor='' @ nat_str (ms_cursor s) @ '' checked={'' @
      join '','' (map name (ms_checked s)) @ ''}'')"

definition picker_lines :: "bool \<Rightarrow> ('id \<Rightarrow> string) \<Rightarrow> string \<Rightarrow> 'id pick_option list \<Rightarrow> string \<Rightarrow> 'id picker \<Rightarrow> line list" where
  "picker_lines debug name title options last_key s =
     [(Some ''white'', title), (None, '' '')] @
     concat (map (\<lambda>(i, x). row_lines s i x) (zip [0..<length options] options)) @
     [(None, '' ''), (Some ''#888888'', picker_help)] @ (if debug then [debug_line name last_key s] else [])"

definition key_label :: "key_event \<Rightarrow> string" where
  "key_label e = ke_name e @ (if ke_ctrl e then '' (ctrl)'' else [])"

text \<open>The keys after which the handler asks for a new render.\<close>

definition nudges :: "key_event \<Rightarrow> bool" where
  "nudges e \<longleftrightarrow> \<not> aborts e \<and> \<not> confirms e \<and>
     (ke_name e \<in> {''up'', ''k'', ''down'', ''j'', ''space'', '' '', ''a'', ''A''} \<or> ke_seq e = '' '')"

definition sp_init :: "bool \<Rightarrow> ('id \<Rightarrow> string) \<Rightarrow> string \<Rightarrow> 'id pick_option list \<Rightarrow> 'id shown_picker" where
  "sp_init debug name title options =
     \<lparr>sp_state = ms_init options, sp_last = [], sp_screen = picker_lines debug name title options [] (ms_init options)\<rparr>"

definition sp_key :: "bool \<Rightarrow> ('id \<Rightarrow> string) \<Rightarrow> string \<Rightarrow> 'id pick_option list \<Rightarrow> key_event \<Rightarrow> 'id shown_picker \<Rightarrow> 'id shown_picker" where
  "sp_key debug name title options e p =
     (let last_key = (if debug then key_label e else sp_last p); s = ms_key options e (sp_state p) in
      \<lparr>sp_state = s, sp_last = last_key,
       sp_screen = (if nudges e then picker_lines debug name title options last_key s else sp_screen p)\<rparr>)"

section \<open>Reachable states\<close>

inductive ms_reach :: "'id pick_option list \<Rightarrow> 'id picker \<Rightarrow> bool" for options where
  start: "ms_reach options (ms_init options)"
| press: "ms_reach options s \<Longrightarrow> ms_reach options (ms_key options e s)"

lemma set_from_set: "set (foldl set_add acc xs) = set acc \<union> set xs"
  by (induction xs arbitrary: acc) auto

lemma set_from_distinct: "distinct acc \<Longrightarrow> distinct (foldl set_add acc xs)"
  by (induction xs arbitrary: acc) auto

lemma set_from_id: "distinct (acc @ xs) \<Longrightarrow> foldl set_add acc xs = acc @ xs"
proof (induction xs arbitrary: acc)
  case (Cons x xs)
  then show ?case using Cons.IH [of "acc @ [x]"] by simp
qed simp

lemma firstEnabled_in: "first_enabled options = Some i \<Longrightarrow> i < length options \<and> \<not> po_disabled (options ! i)"
  by (induction options arbitrary: i) (auto split: if_splits)

definition checked_ok :: "'id pick_option list \<Rightarrow> 'id list \<Rightarrow> bool" where
  "checked_ok options ids \<longleftrightarrow> distinct ids \<and> set ids \<subseteq> set (enabled_ids options)"

definition ms_ok :: "'id pick_option list \<Rightarrow> 'id picker \<Rightarrow> bool" where
  "ms_ok options s \<longleftrightarrow>
     (options \<noteq> [] \<longrightarrow> ms_cursor s < length options) \<and> checked_ok options (ms_checked s) \<and>
     (\<forall>ids. ms_done s = Some (Some ids) \<longrightarrow> checked_ok options ids)"

lemma toggleAll_ok: "checked_ok options (toggleAll options c)"
  by (simp add: checked_ok_def toggleAll_def set_from_def set_from_set set_from_distinct Let_def)

lemma toggle_at_ok: "ms_ok options s \<Longrightarrow> ms_ok options (toggle_at options s)"
  by (auto simp: ms_ok_def checked_ok_def toggle_at_def Let_def enabled_ids_def)

lemma ms_reach_ok: "ms_reach options s \<Longrightarrow> ms_ok options s"
proof (induction rule: ms_reach.induct)
  case start
  show ?case
    using firstEnabled_in [of options]
    by (auto simp: ms_ok_def ms_init_def firstEnabledIndex_def checked_ok_def set_from_def set_from_set set_from_distinct enabled_ids_def split: option.split)
next
  case (press s e)
  have "ms_ok options (finish r s)" if "r = None \<or> r = Some (ms_checked s)" for r
    using press.IH that by (auto simp: ms_ok_def finish_def)
  with press.IH toggleAll_ok [of options] toggle_at_ok [of options s] show ?case
    by (simp add: ms_key_def Let_def) (auto simp: ms_ok_def)
qed

interpretation pick: machine "\<lambda>s e. ms_key options e s" "ms_reach options" "\<lambda>_. True"
  by unfold_locales (rule ms_reach.press)

text \<open>What is on the screen: the lines of the current state. A key that asks for no render leaves the cursor and the checked
  rows as they are, so the screen is stale only in the debug line, for the last key.\<close>

lemma picker_lines_cong:
  "ms_cursor s = ms_cursor t \<Longrightarrow> ms_checked s = ms_checked t \<Longrightarrow>
   picker_lines debug name title options k s = picker_lines debug name title options k t"
  by (simp add: picker_lines_def row_lines_def debug_line_def cong: map_cong)

lemma quiet_key: "\<not> nudges e \<Longrightarrow> ms_cursor (ms_key options e s) = ms_cursor s \<and> ms_checked (ms_key options e s) = ms_checked s"
  by (auto simp: nudges_def ms_key_def finish_def Let_def)

lemma sp_key_current:
  "sp_screen p = picker_lines False name title options [] (sp_state p) \<Longrightarrow> sp_last p = [] \<Longrightarrow>
   (let q = sp_key False name title options e p in
    sp_screen q = picker_lines False name title options [] (sp_state q) \<and> sp_last q = [])"
  using quiet_key [of e options "sp_state p"]
  by (auto simp: sp_key_def Let_def intro: picker_lines_cong)

interpretation screen: machine "\<lambda>p e. sp_key False name title options e p"
  "\<lambda>p. sp_screen p = picker_lines False name title options [] (sp_state p) \<and> sp_last p = []" "\<lambda>_. True"
  by unfold_locales (use sp_key_current [of _ name title options] in \<open>auto simp: Let_def\<close>)

lemma screen_current:
  "(let p = foldl (\<lambda>p e. sp_key False name title options e p) (sp_init False name title options) keys in
    sp_screen p = picker_lines False name title options [] (sp_state p))"
  using screen.run [of "sp_init False name title options" name title options keys]
  by (simp add: sp_init_def list_all_iff Let_def)

text \<open>The screen and its debug line change nothing of what the picker decides.\<close>

lemma shown_state:
  "sp_state (foldl (\<lambda>p e. sp_key debug name title options e p) p keys) = foldl (\<lambda>s e. ms_key options e s) (sp_state p) keys"
  by (induction keys arbitrary: p) (simp_all add: sp_key_def Let_def)

section \<open>What the picker returns\<close>

definition decides :: "key_event \<Rightarrow> bool" where
  "decides e \<longleftrightarrow> aborts e \<or> confirms e"

definition after_keys :: "'id pick_option list \<Rightarrow> key_event list \<Rightarrow> 'id picker" where
  "after_keys options keys = foldl (\<lambda>s e. ms_key options e s) (ms_init options) keys"

lemma done_stays: "ms_done s = Some r \<Longrightarrow> ms_done (ms_key options e s) = Some r"
  by (auto simp: ms_key_def finish_def toggle_at_def Let_def)

interpretation pick_done: machine "\<lambda>s e. ms_key options e s" "\<lambda>s. ms_done s = Some r" "\<lambda>_. True"
  by unfold_locales (rule done_stays)

lemma undecided: "\<not> decides e \<Longrightarrow> ms_done (ms_key options e s) = ms_done s"
  by (auto simp: ms_key_def decides_def toggle_at_def Let_def)

interpretation pick_open: machine "\<lambda>s e. ms_key options e s" "\<lambda>s. ms_done s = d" "\<lambda>e. \<not> decides e"
  by unfold_locales (simp add: undecided)

lemmas undecided_fold = pick_open.run [OF refl]

lemma decided:
  "decides e \<Longrightarrow> ms_done s = None \<Longrightarrow> ms_done (ms_key options e s) = Some (if aborts e then None else Some (ms_checked s))"
  by (cases "aborts e") (simp_all add: ms_key_def decides_def finish_def)

lemma ms_init_done [simp]: "ms_done (ms_init options) = None"
  by (simp add: ms_init_def)

text \<open>The first deciding key settles the picker for good: without one it is still open, an abort gives \<open>null\<close> whatever was checked,
  and a confirmation gives the rows checked by the keys before it, each at most once and none of them a disabled row. Confirming at once
  returns exactly the rows that were offered as checked.\<close>

theorem multiselect_result:
  "multiselect options keys =
     (case dropWhile (\<lambda>e. \<not> decides e) keys of
        [] \<Rightarrow> None
      | e # _ \<Rightarrow> Some (if aborts e then None else Some (ms_checked (after_keys options (takeWhile (\<lambda>e. \<not> decides e) keys))))) \<and>
   distinct (ms_checked (after_keys options keys)) \<and> set (ms_checked (after_keys options keys)) \<subseteq> set (enabled_ids options) \<and>
   set (ms_checked (after_keys options [])) = po_id ` {x \<in> set options. po_checked x \<and> \<not> po_disabled x}"
proof (intro conjI)
  let ?pre = "takeWhile (\<lambda>e. \<not> decides e) keys"
  have keys: "keys = ?pre @ dropWhile (\<lambda>e. \<not> decides e) keys" by simp
  have pre: "list_all (\<lambda>e. \<not> decides e) ?pre" by (auto simp: list_all_iff dest: set_takeWhileD)
  have open_pre: "ms_done (after_keys options ?pre) = None"
    using undecided_fold [OF pre, of options "ms_init options"] by (simp add: after_keys_def)
  show "multiselect options keys = (case dropWhile (\<lambda>e. \<not> decides e) keys of [] \<Rightarrow> None
      | e # _ \<Rightarrow> Some (if aborts e then None else Some (ms_checked (after_keys options ?pre))))"
  proof (cases "dropWhile (\<lambda>e. \<not> decides e) keys")
    case Nil
    then have "list_all (\<lambda>e. \<not> decides e) keys" by (simp add: list_all_iff dropWhile_eq_Nil_conv)
    then show ?thesis unfolding Nil using undecided_fold [of keys options "ms_init options"] by (simp add: multiselect_def)
  next
    case (Cons e rest)
    then have d: "decides e" using hd_dropWhile [of "\<lambda>e. \<not> decides e" keys] by auto
    have "ms_done (ms_key options e (after_keys options ?pre)) =
        Some (if aborts e then None else Some (ms_checked (after_keys options ?pre)))"
      by (rule decided [OF d open_pre])
    then have "multiselect options (?pre @ e # rest) = Some (if aborts e then None else Some (ms_checked (after_keys options ?pre)))"
      using pick_done.run [of "ms_key options e (after_keys options ?pre)" _ rest options]
      by (simp add: multiselect_def after_keys_def list_all_iff)
    with Cons keys show ?thesis by simp
  qed
next
  have "ms_ok options (after_keys options keys)"
    unfolding after_keys_def by (intro ms_reach_ok pick.run ms_reach.start) (simp add: list_all_iff)
  then show "distinct (ms_checked (after_keys options keys))" "set (ms_checked (after_keys options keys)) \<subseteq> set (enabled_ids options)"
    by (simp_all add: ms_ok_def checked_ok_def)
next
  show "set (ms_checked (after_keys options [])) = po_id ` {x \<in> set options. po_checked x \<and> \<not> po_disabled x}"
    by (simp add: after_keys_def ms_init_def set_from_def set_from_set)
qed

end
