(* ===== verification/Install.thy ===== *)
theory Install
  imports InstallFs Detect Multiselect
begin

text \<open>
  The installer (\<open>cli/src/commands/install.ts\<close>): flags, the wrapper and status-line scripts, the
  picker's rows, the session, the uninstall of deselected harnesses, the plan, its confirmation and
  safety check, its execution and the final record. The keys pressed in the picker and the two paths
  the process knows of itself (the directory of the source file and the executable) are arguments.
  A daemon answer without the declared shape is a thrown error where the code would use it; file
  modes and the Windows branch's wording aside, everything the command does is modelled.
\<close>

section \<open>Flags\<close>

record install_flags =
  if_yes :: bool
  if_daemon :: "string option"
  if_config :: "string option"
  if_tier :: string
  if_code :: "string option"
  if_pass :: "string option"

definition no_flags :: install_flags where
  "no_flags = \<lparr>if_yes = False, if_daemon = None, if_config = None, if_tier = ''unattested'', if_code = None, if_pass = None\<rparr>"

definition takes_value :: "string \<Rightarrow> bool" where
  "takes_value a \<longleftrightarrow> a \<in> set [''--daemon'', ''--daemon-url'', ''--config-dir'', ''--tier'', ''--code'', ''--passphrase'']"

text \<open>The value is \<open>undefined\<close> when the flag is the last argument.\<close>

definition set_flag :: "string \<Rightarrow> string option \<Rightarrow> install_flags \<Rightarrow> string + install_flags" where
  "set_flag a v f =
     (if a = ''--daemon'' \<or> a = ''--daemon-url'' then Inr (f\<lparr>if_daemon := v\<rparr>)
      else if a = ''--config-dir'' then Inr (f\<lparr>if_config := v\<rparr>)
      else if a = ''--tier'' then
        (if v = Some ''unattested'' \<or> v = Some ''software'' \<or> v = Some ''totp'' then Inr (f\<lparr>if_tier := the v\<rparr>)
         else Inl (''unknown --tier: '' @ (case v of Some t \<Rightarrow> t | None \<Rightarrow> ''undefined'') @ '' (want unattested|software|totp)''))
      else if a = ''--code'' then Inr (f\<lparr>if_code := v\<rparr>)
      else Inr (f\<lparr>if_pass := v\<rparr>))"

fun install_args :: "string list \<Rightarrow> install_flags \<Rightarrow> string + install_flags" where
  "install_args [] f = Inr f"
| "install_args (a # rest) f =
     (if a = ''--yes'' \<or> a = ''-y'' then install_args rest (f\<lparr>if_yes := True\<rparr>)
      else if takes_value a then
        (case set_flag a (case rest of [] \<Rightarrow> None | v # _ \<Rightarrow> Some v) f of Inl e \<Rightarrow> Inl e | Inr f' \<Rightarrow> install_args (tl rest) f')
      else install_args rest f)"

definition parseFlags :: "string list \<Rightarrow> install_flags prog" where
  "parseFlags argv =
     (case install_args argv no_flags of
        Inl e \<Rightarrow> throw_msg e
      | Inr f \<Rightarrow> getsP (\<lambda>w. if str_truthy (if_config f) then f\<lparr>if_config := Some (path_resolve2 (w_cwd w) (w_cwd w) (the (if_config f)))\<rparr> else f))"

section \<open>Scripts\<close>

definition shellQuote :: "string \<Rightarrow> string" where
  "shellQuote v = [chr_sq] @ replace_char chr_sq [chr_sq, chr_bs, chr_sq, chr_sq] v @ [chr_sq]"

record install_paths =
  ip_meta_dir :: string
  ip_exec :: string

definition resolved :: "string list \<Rightarrow> string prog" where
  "resolved ps = getsP (\<lambda>w. path_resolve (w_cwd w) (path_join ps))"

definition write_script :: "string \<Rightarrow> string \<Rightarrow> string prog" where
  "write_script name body =
     bindP (getsP binDir) (\<lambda>dir.
     thenP (mkdir_p dir) (thenP (write_file (path_join [dir, name]) body) (ret (path_join [dir, name]))))"

definition wrapper_body :: "string \<Rightarrow> string \<Rightarrow> string" where
  "wrapper_body bunPath indexPath =
     ''#!/usr/bin/env bash'' @ [chr_nl] @ ''exec '' @ shellQuote bunPath @ '' run '' @ shellQuote indexPath @ '' '' @ [chr_dq] @ ''$@'' @ [chr_dq, chr_nl]"

definition installAndResolveAgentlockBinary :: "install_paths \<Rightarrow> string prog" where
  "installAndResolveAgentlockBinary ip =
     bindP (getsP isWin) (\<lambda>win.
     if win then throw_msg ''agentlock install: Windows wrapper not yet supported. Use macOS/Linux for now.''
     else
       bindP (getsP (\<lambda>w. path_resolve2 (w_cwd w) (path_resolve2 (w_cwd w) (ip_meta_dir ip) ''..'') ''index.ts'')) (\<lambda>indexPath.
       bindP (getsP (\<lambda>w. path_resolve (w_cwd w) (ip_exec ip))) (\<lambda>bunPath.
       write_script ''agentlock'' (wrapper_body bunPath indexPath))))"

definition status_body :: string where
  "status_body = join [chr_nl]
     [''#!/usr/bin/env bash'',
      ''url='' @ [chr_dq] @ ''${AGENTLOCK_DAEMON_URL:-http://127.0.0.1:7878}'' @ [chr_dq],
      ''if curl --max-time 1 -fs '' @ [chr_dq] @ ''$url/v1/health'' @ [chr_dq] @ '' >/dev/null 2>&1; then'',
      ''  printf '' @ [chr_sq] @ ''OpenAgentLock '' @ [chr_bs] @ ''xe2'' @ [chr_bs] @ ''x9c'' @ [chr_bs] @ ''x93'' @ [chr_sq],
      ''else'',
      ''  printf '' @ [chr_sq] @ ''OpenAgentLock '' @ [chr_bs] @ ''xe2'' @ [chr_bs] @ ''x9a'' @ [chr_bs] @ ''xa0 daemon offline'' @ [chr_sq],
      ''fi'', '''']"

definition installStatusLineScript :: "string prog" where
  "installStatusLineScript =
     bindP (getsP isWin) (\<lambda>win.
     if win then throw_msg ''agentlock install: Windows status-line not yet supported. Use macOS/Linux for now.''
     else write_script ''agentlock-status'' status_body)"

section \<open>Plan operations\<close>

text \<open>\<open>InstallFileOp\<close>: the operation on the file, and the reason shown to the user.\<close>

record install_file_op = file_op +
  op_reason :: "string option"

text \<open>An optional string field: \<open>None\<close> when the field has another type.\<close>

definition opt_str :: "json \<Rightarrow> string \<Rightarrow> string option option" where
  "opt_str j k = (case jprop j k of None \<Rightarrow> Some None | Some JNull \<Rightarrow> Some None | Some (JStr s) \<Rightarrow> Some (Some s) | _ \<Rightarrow> None)"

definition decode_op :: "json \<Rightarrow> install_file_op option" where
  "decode_op j =
     (case (jprop j ''op'', jprop j ''path'', opt_str j ''content'', opt_str j ''backup_path'', opt_str j ''reason'') of
        (Some (JStr k), Some (JStr p), Some c, Some b, Some r) \<Rightarrow>
          Some \<lparr>op_kind = k, op_path = p, op_content = c, op_backup = b, op_reason = r\<rparr>
      | _ \<Rightarrow> None)"

definition decode_uninstall :: "json \<Rightarrow> (uninstall_op \<times> json option) option" where
  "decode_uninstall j =
     (case (jprop j ''op'', jprop j ''path'', opt_str j ''content'', opt_str j ''error'') of
        (Some (JStr k), Some (JStr p), Some c, Some e) \<Rightarrow>
          Some (\<lparr>un_kind = k, un_path = p, un_content = c, un_error = e\<rparr>, jprop j ''entries_removed'')
      | _ \<Rightarrow> None)"

definition decode_str :: "json \<Rightarrow> string option" where
  "decode_str j = (case j of JStr s \<Rightarrow> Some s | _ \<Rightarrow> None)"

definition arrayP :: "(json \<Rightarrow> 'a option) \<Rightarrow> string \<Rightarrow> json \<Rightarrow> 'a list prog" where
  "arrayP f k j =
     bindP (propP j k) (\<lambda>v.
     case v of
       Some (JArr xs) \<Rightarrow> (case those (map f xs) of Some ys \<Rightarrow> ret ys | None \<Rightarrow> throw_msg (k @ '' has a malformed element''))
     | _ \<Rightarrow> throw_msg (k @ '' is not an array''))"

definition summarizeOp :: "install_file_op \<Rightarrow> string" where
  "summarizeOp x =
     ''  '' @ pad_end 5 CHR '' '' (op_kind x) @ '' '' @ op_path x @
     (if str_truthy (op_backup x) then '' (backup: '' @ the (op_backup x) @ '')'' else '''') @ [chr_nl] @ ''    '' @
     (case op_reason x of Some r \<Rightarrow> r | None \<Rightarrow> '''')"

text \<open>What is waiting on standard input is one chunk; with nothing to read the answer never comes.\<close>

definition promptYesNo :: "string \<Rightarrow> bool prog" where
  "promptYesNo question =
     thenP (stdout_write (question @ '' [y/N] ''))
       (\<lambda>w. if w_stdin w = [] then (Pending, w)
            else (Val (lowercase (trim (w_stdin w)) = ''y'' \<or> lowercase (trim (w_stdin w)) = ''yes''), w\<lparr>w_stdin := []\<rparr>))"

section \<open>Detection and choice\<close>

definition hostConfigDirs :: "install_flags \<Rightarrow> world \<Rightarrow> (string \<times> string) list" where
  "hostConfigDirs f w =
     (let r = (\<lambda>ps. path_resolve (w_cwd w) (path_join ps)) in
      if str_truthy (if_config f) then
        map (\<lambda>i. (i, the (if_config f))) [''claude-code'', ''claude-desktop'', ''codex'', ''codex-desktop'', ''cursor'', ''gemini'']
      else
        [(''claude-code'', r [home w, ''.claude'']), (''claude-desktop'', r [claudeDesktopConfigPath w, ''..'']),
         (''codex'', r [home w, ''.codex'']), (''codex-desktop'', r [home w, ''.codex'']),
         (''cursor'', r [home w, ''.cursor'']), (''gemini'', r [home w, ''.gemini''])])"

definition isMvpEnabled :: "harness_id \<Rightarrow> bool" where
  "isMvpEnabled i \<longleftrightarrow> i \<in> set [Claude_code, Claude_desktop, Codex_cli, Codex_desktop, Cursor_ide, Gemini_cli]"

definition dev_mode :: "world \<Rightarrow> bool" where
  "dev_mode w \<longleftrightarrow> str_truthy (w_env w ''AGENTLOCK_DEV_HOME'')"

definition arrow_right :: string where
  "arrow_right = map char_of [0xE2, 0x86, 0x92 :: nat]"

definition install_option :: "bool \<Rightarrow> detection \<Rightarrow> harness_id pick_option" where
  "install_option dev r =
     (let enabled = dev \<or> isMvpEnabled (det_id r) in
      \<lparr>po_id = det_id r, po_label = det_name r,
       po_sub = Some (if det_wired r then
                  (if str_truthy (det_url r) then ''wired '' @ arrow_right @ '' '' @ the (det_url r) else ''wired (daemon URL not recorded)'')
                else (case det_evidence r of e # _ \<Rightarrow> e | [] \<Rightarrow> ''not detected (will create config on install)'')),
       po_checked = (enabled \<and> det_wired r), po_disabled = (\<not> enabled),
       po_reason = (if enabled then None
         else Some (if det_id r = Codex_desktop
           then ''Codex Desktop is supported through the shared Codex hooks; install Codex and trust the hook from /hooks''
           else ''MVP: claude-code + claude-desktop + codex + cursor + gemini only''))\<rparr>)"

definition originallyInstalled :: "bool \<Rightarrow> detection list \<Rightarrow> harness_id list" where
  "originallyInstalled dev results = set_from (map det_id (filter (\<lambda>r. det_wired r \<and> (dev \<or> isMvpEnabled (det_id r))) results))"

section \<open>The steps\<close>

text \<open>An early return is \<open>None\<close>; \<open>fail2\<close> is the usual one, with exit code 2.\<close>

definition fail2 :: "string \<Rightarrow> 'a option prog" where
  "fail2 m = thenP (stderr_write m) (thenP (set_exit_code 2) (ret None))"

definition orStop :: "'a option prog \<Rightarrow> ('a \<Rightarrow> unit prog) \<Rightarrow> unit prog" where
  "orStop m k = bindP m (\<lambda>x. case x of None \<Rightarrow> ret () | Some y \<Rightarrow> k y)"

definition some_then :: "'a prog \<Rightarrow> 'b \<Rightarrow> 'b option prog" where
  "some_then m x = thenP m (ret (Some x))"

definition unreachable_text :: "string \<Rightarrow> string \<Rightarrow> string" where
  "unreachable_text url msg =
     [chr_nl] @ ''cannot reach the OpenAgentLock daemon at '' @ url @ ''.'' @ [chr_nl] @
     ''  underlying error: '' @ msg @ [chr_nl, chr_nl] @
     ''start the daemon and try again:'' @ [chr_nl] @
     ''  curl -O https://raw.githubusercontent.com/openagentlock/OpenAgentLock/main/docker-compose.yml'' @ [chr_nl] @
     ''  docker compose up -d'' @ [chr_nl] @
     ''or override the URL with --daemon <url>.'' @ [chr_nl]"

definition daemon_up :: "client \<Rightarrow> unit option prog" where
  "daemon_up api = tryP (some_then (health api) ()) (\<lambda>e. fail2 (unreachable_text (cl_url api) (err_msg e)))"

definition mint_failed :: "js_error \<Rightarrow> json option option prog" where
  "mint_failed e = fail2 ([chr_nl] @ ''session mint failed: '' @ err_msg e @ [chr_nl])"

definition unattested_disabled_text :: string where
  "unattested_disabled_text =
     [chr_nl] @ ''unattested sessions are disabled on this daemon.'' @ [chr_nl] @
     ''re-run with --tier totp (recommended) or --tier software, '' @
     ''or restart the daemon with -e AGENTLOCK_ALLOW_UNATTESTED=1.'' @ [chr_nl] @
     ''see https://openagentlock.github.io/OpenAgentLock/guide/signers/'' @ [chr_nl]"

text \<open>The session's id as the daemon gave it.\<close>

definition install_session :: "crypto \<Rightarrow> install_flags \<Rightarrow> client \<Rightarrow> json option option prog" where
  "install_session c f api =
     (if if_tier f = ''unattested'' then
        thenP (stdout_write ([chr_nl] @ ''minting unattested session on '' @ cl_url api @ ''...'' @ [chr_nl]))
          (tryP
            (bindP (createUnattestedSession api) (\<lambda>sess.
             bindP (propP sess ''sess.id'') (\<lambda>_.
             some_then (stdout_write (''  session: '' @ js_ostring (jprop sess ''id'') @ '' ('' @
                 js_ostring (nullish (jprop sess ''banner'') (jprop sess ''signer'')) @ '')'' @ [chr_nl])) (jprop sess ''id''))))
            (\<lambda>e. if str_includes ''unattested_disabled'' (err_msg e) then fail2 unattested_disabled_text else mint_failed e))
      else if if_tier f = ''totp'' \<and> (\<not> str_truthy (if_code f) \<or> \<not> str_truthy (if_pass f)) then
        fail2 ([chr_nl] @ ''--tier totp requires --code <6-digit> and --passphrase <pp>.'' @ [chr_nl] @
               ''enroll first with: agentlock signer enroll --tier totp --passphrase <pp>'' @ [chr_nl])
      else
        thenP (stdout_write ([chr_nl] @ ''minting attested session (tier='' @ if_tier f @ '') on '' @ cl_url api @ ''...'' @ [chr_nl]))
          (tryP
            (bindP (mintAttestedSession c (if_tier f) (if_daemon f) None (if_code f) (if_pass f)) (\<lambda>sess.
             bindP (propP sess ''sess.id'') (\<lambda>_.
             some_then (stdout_write (''  session: '' @ js_ostring (jprop sess ''id'') @ '' (signer='' @ js_ostring (jprop sess ''signer'') @ '')'' @ [chr_nl]))
               (jprop sess ''id''))))
            mint_failed))"

text \<open>The files whose bytes the daemon needs to compute the uninstall of one harness.\<close>

definition uninstall_paths :: "(string \<times> string) list \<Rightarrow> harness_id \<Rightarrow> string list prog" where
  "uninstall_paths dirs i =
     (case map_of dirs (id_str i) of
        None \<Rightarrow> ret []
      | Some dir \<Rightarrow>
          (if dir = [] then ret []
           else if i = Claude_code \<or> i = Gemini_cli then bindP (resolved [dir, ''settings.json'']) (\<lambda>p. ret [p])
           else if i = Claude_desktop then
             bindP (resolved [dir, ''claude_desktop_config.json'']) (\<lambda>p.
             bindP (resolved [dir, ''Claude Extensions'']) (\<lambda>d.
             bindP (listExtensionBundleManifests d) (\<lambda>ms. ret (p # ms))))
           else if i = Codex_cli \<or> i = Codex_desktop \<or> i = Cursor_ide then bindP (resolved [dir, ''hooks.json'']) (\<lambda>p. ret [p])
           else ret []))"

definition ids_json :: "harness_id list \<Rightarrow> json" where
  "ids_json is = JArr (map (\<lambda>i. JStr (id_str i)) is)"

definition strs_obj :: "(string \<times> string) list \<Rightarrow> json" where
  "strs_obj kvs = JObj (map (\<lambda>(k, v). (k, JStr v)) kvs)"

definition uninstall_line :: "uninstall_op \<times> json option \<Rightarrow> string" where
  "uninstall_line x =
     ''  '' @ pad_end 6 CHR '' '' (un_kind (fst x)) @ '' '' @ un_path (fst x) @ ''  (removed='' @ js_ostring (snd x) @ '')'' @
     (if str_truthy (un_error (fst x)) then ''  ERROR: '' @ the (un_error (fst x)) else '''') @ [chr_nl]"

text \<open>\<open>u.failures > 0\<close>\<close>

definition positive_num :: "json option \<Rightarrow> bool" where
  "positive_num v = (case v of Some (JNum d) \<Rightarrow> mant d > 0 | Some (JBool b) \<Rightarrow> b | _ \<Rightarrow> False)"

definition uninstall_deselected ::
  "json option \<Rightarrow> install_flags \<Rightarrow> (string \<times> string) list \<Rightarrow> harness_id list \<Rightarrow> client \<Rightarrow> unit prog" where
  "uninstall_deselected sid f dirs toUninstall api =
     thenP (stdout_write ([chr_nl] @ ''uninstalling deselected harnesses: '' @ join '', '' (map id_str toUninstall) @ [chr_nl]))
     (bindP (mapP (uninstall_paths dirs) toUninstall) (\<lambda>ps.
      bindP (readExistingFiles (concat ps) []) (\<lambda>existing.
      tryP
        (bindP (installUninstallHarnesses
            (obj_of [(''session_id'', sid), (''harnesses'', Some (ids_json toUninstall)), (''config_dir_override'', ostr (if_config f)),
                     (''harness_config_dirs'', Some (strs_obj dirs)), (''existing_files'', Some (strs_obj existing))]) api) (\<lambda>u.
         bindP (arrayP decode_uninstall ''operations'' u) (\<lambda>ops.
         thenP (eachP (\<lambda>x. stdout_write (uninstall_line x)) ops)
           (if positive_num (jprop u ''failures'') then
              stderr_write ([chr_nl] @ js_ostring (jprop u ''failures'') @ '' uninstall op(s) failed; see above. Continuing with install.'' @ [chr_nl])
            else executeUninstallOps (map fst ops)))))
        (\<lambda>e. stderr_write ([chr_nl] @ ''uninstall failed: '' @ err_msg e @ [chr_nl])))))"

text \<open>Every host file the plan is merged against, and the two scripts: the body of the plan request.\<close>

definition plan_files :: "(string \<times> string) list \<Rightarrow> (string \<times> string) list prog" where
  "plan_files dirs =
     (let d = (\<lambda>i. the (map_of dirs i)) in
      bindP (mapP resolved
        [[d ''claude-code'', ''settings.json''], [d ''claude-desktop'', ''claude_desktop_config.json''], [d ''codex'', ''hooks.json''],
         [d ''codex'', ''config.toml''], [d ''cursor'', ''hooks.json''], [d ''gemini'', ''settings.json'']]) (\<lambda>ps.
      bindP (resolved [d ''claude-desktop'', ''Claude Extensions'']) (\<lambda>bundlesDir.
      bindP (resolved [d ''claude-desktop'', ''Claude Extensions Settings'']) (\<lambda>settingsDir.
      bindP (listExtensionBundleManifests bundlesDir) (\<lambda>manifests.
      bindP (listJsonFiles settingsDir) (\<lambda>settings.
      readExistingFiles (ps @ manifests @ settings) []))))))"

definition plan_request ::
  "install_paths \<Rightarrow> json option \<Rightarrow> install_flags \<Rightarrow> (string \<times> string) list \<Rightarrow> harness_id list \<Rightarrow> client \<Rightarrow> json prog" where
  "plan_request ip sid f dirs chosen api =
     bindP (plan_files dirs) (\<lambda>existing.
     bindP installStatusLineScript (\<lambda>script.
     bindP (env_or ''AGENTLOCK_BINARY'' (installAndResolveAgentlockBinary ip)) (\<lambda>binary.
     ret (obj_of
       [(''session_id'', sid), (''harnesses'', Some (ids_json chosen)),
        (''daemon_url'', Some (JStr (case if_daemon f of Some u \<Rightarrow> u | None \<Rightarrow> cl_url api))),
        (''config_dir_override'', ostr (if_config f)), (''agentlock_binary'', Some (JStr binary)),
        (''status_line_script'', Some (JStr script)), (''harness_config_dirs'', Some (strs_obj dirs)),
        (''existing_files'', Some (strs_obj existing))]))))"

definition plan_hint :: "string \<Rightarrow> string" where
  "plan_hint msg =
     (if str_includes ''unknown_session'' msg then
        ''hint: the daemon didn'' @ [chr_sq] @ ''t recognise the session. Retry; if it persists restart the daemon.'' @ [chr_nl]
      else if str_includes ''ECONNREFUSED'' msg \<or> str_includes ''fetch failed'' msg then
        ''hint: daemon not reachable on 127.0.0.1:7878. Start it with:'' @ [chr_nl] @
        ''  docker run -d --name agentlock -p 127.0.0.1:7878:7878 ghcr.io/openagentlock/agentlockd:latest'' @ [chr_nl] @
        ''Already running? Check `docker logs agentlock` (or `just cp-serve` for a source checkout).'' @ [chr_nl]
      else '''')"

definition fetch_plan :: "json \<Rightarrow> client \<Rightarrow> json option prog" where
  "fetch_plan req api =
     tryP (bindP (installPlan req api) (\<lambda>plan. ret (Some plan)))
       (\<lambda>e. fail2 (''plan failed: '' @ err_msg e @ [chr_nl] @ plan_hint (err_msg e)))"

text \<open>Showing the plan: its operations, or \<open>None\<close> when there is nothing to apply.\<close>

definition warnings_of :: "json \<Rightarrow> string list prog" where
  "warnings_of plan = (if truthy (jprop plan ''warnings'') then arrayP decode_str ''warnings'' plan else ret [])"

definition show_plan :: "json \<Rightarrow> install_file_op list option prog" where
  "show_plan plan =
     bindP (arrayP decode_str ''skipped'' plan) (\<lambda>skipped.
     thenP (whenP (skipped \<noteq> []) (stdout_write (''  skipped (unsupported): '' @ join '', '' skipped @ [chr_nl])))
     (bindP (warnings_of plan) (\<lambda>warnings.
      thenP (whenP (warnings \<noteq> [])
        (thenP (stdout_write ([chr_nl] @ ''warnings:'' @ [chr_nl])) (eachP (\<lambda>x. stdout_write (''  ! '' @ x @ [chr_nl])) warnings)))
      (bindP (arrayP decode_op ''operations'' plan) (\<lambda>ops.
       if ops = [] then thenP (stdout_write (''  no operations to apply. exiting.'' @ [chr_nl])) (ret None)
       else
         thenP (stdout_write ([chr_nl] @ ''plan ('' @ nat_str (length ops) @ '' file op'' @ (if length ops = 1 then '''' else ''s'') @ ''):'' @ [chr_nl]))
         (thenP (eachP (\<lambda>x. stdout_write (summarizeOp x @ [chr_nl])) ops) (ret (Some ops))))))))"

text \<open>Confirmation, safety check, execution, and the record of it.\<close>

definition confirm_plan :: "install_flags \<Rightarrow> bool prog" where
  "confirm_plan f = (if if_yes f then ret True else promptYesNo ([chr_nl] @ ''apply plan?''))"

definition install_bypass :: "install_flags \<Rightarrow> world \<Rightarrow> bool" where
  "install_bypass f w \<longleftrightarrow> str_truthy (if_config f) \<or> dev_mode w"

definition check_targets :: "install_flags \<Rightarrow> install_file_op list \<Rightarrow> unit option prog" where
  "check_targets f ops =
     bindP (getsP (install_bypass f)) (\<lambda>bypass.
     tryP (some_then (eachP (\<lambda>x. checkSafeTarget (op_path x) bypass) ops) ())
       (\<lambda>e. fail2 ([chr_nl] @ err_msg e @ [chr_nl] @
          ''use --config-dir ./dev/.claude (or ./dev/.codex, ./dev/.cursor, ./dev/.gemini) for dev runs.'' @ [chr_nl])))"

definition write_files :: "install_file_op list \<Rightarrow> unit option prog" where
  "write_files ops =
     tryP (some_then (executeFileOps (map file_op.truncate ops)) ())
       (\<lambda>e. fail2 ([chr_nl] @ ''file write failed: '' @ err_msg e @ [chr_nl]))"

definition record_install :: "json \<Rightarrow> client \<Rightarrow> unit option prog" where
  "record_install req api =
     tryP
       (bindP (installApply req api) (\<lambda>result.
        bindP (propP result ''result.applied'') (\<lambda>_.
        thenP (stdout_write (''  applied='' @ js_ostring (jprop result ''applied'') @ ''  manifest='' @ js_ostring (jprop result ''manifest_path'') @ [chr_nl]))
        (bindP (arrayP decode_op ''operations'' result) (\<lambda>ops.
         some_then (eachP (\<lambda>x. stdout_write (summarizeOp x @ [chr_nl])) ops) ())))))
       (\<lambda>e. fail2 ([chr_nl] @ ''apply failed: '' @ err_msg e @ [chr_nl]))"

definition apply_plan :: "install_flags \<Rightarrow> json \<Rightarrow> client \<Rightarrow> install_file_op list \<Rightarrow> unit prog" where
  "apply_plan f req api ops =
     bindP (confirm_plan f) (\<lambda>ok.
     if \<not> ok then stdout_write (''aborted. no changes.'' @ [chr_nl])
     else
       orStop (check_targets f ops) (\<lambda>_.
       orStop (write_files ops) (\<lambda>_.
       thenP (stdout_write ([chr_nl] @ ''applying...'' @ [chr_nl]))
       (orStop (record_install req api) (\<lambda>_.
        stdout_write ([chr_nl] @ ''done. restart your agent harness so it re-reads settings.json.'' @ [chr_nl]))))))"

definition install_harnesses ::
  "install_paths \<Rightarrow> json option \<Rightarrow> install_flags \<Rightarrow> (string \<times> string) list \<Rightarrow> harness_id list \<Rightarrow> client \<Rightarrow> unit prog" where
  "install_harnesses ip sid f dirs chosen api =
     bindP (plan_request ip sid f dirs chosen api) (\<lambda>req.
     thenP (stdout_write ([chr_nl] @ ''fetching install plan for: '' @ join '', '' (map id_str chosen) @ [chr_nl]))
     (orStop (fetch_plan req api) (\<lambda>plan. orStop (show_plan plan) (apply_plan f req api))))"

text \<open>Probing the capabilities: the client keeps what it learns, and a failure is ignored.\<close>

definition probe_capabilities :: "client \<Rightarrow> client prog" where
  "probe_capabilities api = tryP (bindP (installCapabilities api) (\<lambda>(caps, cl). ret cl)) (\<lambda>_. ret api)"

definition install_chosen ::
  "crypto \<Rightarrow> install_paths \<Rightarrow> install_flags \<Rightarrow> client \<Rightarrow> (string \<times> string) list \<Rightarrow> harness_id list \<Rightarrow> harness_id list \<Rightarrow> unit prog" where
  "install_chosen c ip f api dirs toUninstall chosen =
     (if chosen = [] \<and> toUninstall = [] then stdout_write ([chr_nl] @ ''nothing selected. exiting.'' @ [chr_nl])
      else
        orStop (daemon_up api) (\<lambda>_.
        orStop (install_session c f api) (\<lambda>sid.
        bindP (probe_capabilities api) (\<lambda>api'.
        thenP (whenP (toUninstall \<noteq> []) (uninstall_deselected sid f dirs toUninstall api'))
        (if chosen = [] then stdout_write ([chr_nl] @ ''no harnesses selected for install. done.'' @ [chr_nl])
         else install_harnesses ip sid f dirs chosen api')))))"

definition runInstall :: "crypto \<Rightarrow> install_paths \<Rightarrow> key_event list \<Rightarrow> string list \<Rightarrow> unit prog" where
  "runInstall c ip keys argv =
     bindP (parseFlags argv) (\<lambda>f.
     bindP (apiClient (if_daemon f) None) (\<lambda>api.
     bindP (getsP (hostConfigDirs f)) (\<lambda>dirs.
     bindP (getsP dev_mode) (\<lambda>dev.
     bindP (getsP detectAll) (\<lambda>detected.
     case detected of
       Inl e \<Rightarrow> throwP e
     | Inr results \<Rightarrow>
         (case multiselect (map (install_option dev) results) keys of
            None \<Rightarrow> pendP
          | Some None \<Rightarrow> stdout_write ([chr_nl] @ ''aborted.'' @ [chr_nl])
          | Some (Some chosen) \<Rightarrow>
              install_chosen c ip f api dirs (filter (\<lambda>i. i \<notin> set chosen) (originallyInstalled dev results)) chosen))))))"

end
