(* ===== verification/InstallFlow.thy ===== *)
theory InstallFlow
  imports Install
begin

text \<open>
  What the installer guarantees: the quoting of the wrapper script, what happens between the plan
  and its record, and the order of the requests of a whole run.
\<close>

section \<open>Shell quoting\<close>

text \<open>
  How a POSIX shell reads one word made of single-quoted parts and escaped characters; \<open>None\<close> for an
  unterminated quote and for a word with an unquoted character that the shell would interpret.
\<close>

fun sh_word :: "bool \<Rightarrow> string \<Rightarrow> string option" where
  "sh_word quoted [] = (if quoted then None else Some [])"
| "sh_word True (c # cs) = (if c = chr_sq then sh_word False cs else map_option ((#) c) (sh_word True cs))"
| "sh_word False (c # cs) =
     (if c = chr_sq then sh_word True cs
      else if c = chr_bs then (case cs of [] \<Rightarrow> None | d # ds \<Rightarrow> map_option ((#) d) (sh_word False ds))
      else if is_alnum c then map_option ((#) c) (sh_word False cs)
      else None)"

lemma sh_word_quoted: "sh_word True (replace_char chr_sq [chr_sq, chr_bs, chr_sq, chr_sq] v @ [chr_sq]) = Some v"
  by (induction v) (simp_all add: replace_char_def)

text \<open>C23. The wrapper script quotes its two paths correctly: the shell reads the quoted form of any string, quotes, spaces and dollar
  signs included, back as exactly that string.\<close>

theorem shell_quote_roundtrip: "sh_word False (shellQuote v) = Some v"
  using sh_word_quoted by (simp add: shellQuote_def)

section \<open>From the plan to its record\<close>

definition confirmed :: "install_flags \<Rightarrow> world \<Rightarrow> bool" where
  "confirmed f w \<longleftrightarrow> if_yes f \<or> (w_stdin w \<noteq> [] \<and> lowercase (trim (w_stdin w)) \<in> {''y'', ''yes''})"

definition safe_path :: "world \<Rightarrow> string \<Rightarrow> bool" where
  "safe_path w p \<longleftrightarrow> (\<exists>d \<in> set (safe_dirs w). \<exists>rest. path_segs (w_cwd w) p = d @ rest)"

definition apply_request :: "json \<Rightarrow> client \<Rightarrow> http_req" where
  "apply_request req cl =
     \<lparr>rq_method = ''POST'', rq_url = cl_url cl @ ''/v1/install/apply'', rq_auth = authHeaders cl, rq_body = Some (json_stringify req)\<rparr>"

definition plan_http :: "json \<Rightarrow> client \<Rightarrow> http_req" where
  "plan_http req cl =
     \<lparr>rq_method = ''POST'', rq_url = cl_url cl @ ''/v1/install/plan'', rq_auth = authHeaders cl, rq_body = Some (json_stringify req)\<rparr>"

lemma one_call_install:
  "one_call (apply_request req cl) (installApply req cl)" "one_call (plan_http req cl) (installPlan req cl)"
  using api_send_one_call [of resp_ok "fail_body ''install.apply''" "''POST''" _ _ "Some req"]
    api_send_one_call [of resp_ok "fail_body ''install.plan''" "''POST''" _ _ "Some req"]
  by (simp_all add: installApply_def installPlan_def apply_request_def plan_http_def)

lemma one_callD: "one_call rq m \<Longrightarrow> m w = (r, w') \<Longrightarrow> w' = w\<lparr>w_sent := w_sent w @ [rq]\<rparr>"
  by (metis one_call_def snd_conv)

text \<open>What the steps before the files leave alone.\<close>

definition disk_view :: "world \<Rightarrow> (string \<times> node) list \<times> http_req list \<times> (string \<Rightarrow> string option) \<times> string \<times> string \<times> platform" where
  "disk_view w = (w_tree w, w_sent w, w_env w, w_home w, w_cwd w, w_platform w)"

lemma disk_view_keeps [keeps_intros]:
  "keeps disk_view (stdout_write s)" "keeps disk_view (stderr_write s)" "keeps disk_view (set_exit_code c)"
  by (simp_all add: keeps_def disk_view_def prog_simps)

lemma keeps_fail2 [keeps_intros]: "keeps f (stderr_write m) \<Longrightarrow> keeps f (set_exit_code 2) \<Longrightarrow> keeps f (fail2 m)"
  unfolding fail2_def by (intro keeps_intros)

lemma keeps_some_then [keeps_intros]: "keeps f m \<Longrightarrow> keeps f (some_then m x)"
  unfolding some_then_def by (intro keeps_intros)

lemma checkSafeTarget_pure: "snd (checkSafeTarget p b w) = w"
  by (simp add: checkSafeTarget_def Let_def)

lemma keeps_checkSafe [keeps_intros]: "keeps f (checkSafeTarget p b)"
  by (simp add: keeps_def checkSafeTarget_pure)

lemma keeps_prompt: "keeps disk_view (promptYesNo q)"
  unfolding promptYesNo_def by (intro keeps_intros) (simp add: keeps_def disk_view_def)

lemma keeps_confirm: "keeps disk_view (confirm_plan f)"
  unfolding confirm_plan_def by (intro keeps_intros keeps_prompt)

lemma confirm_yes: "confirm_plan f w = (Val True, w') \<Longrightarrow> confirmed f w"
  by (auto simp: confirm_plan_def confirmed_def promptYesNo_def prog_simps ret_def thenP_def bindP_def stdout_write_def updP_def
      split: if_splits)

lemma check_each:
  "eachP (\<lambda>x. checkSafeTarget (op_path x) bypass) ops w = (Val (), w') \<Longrightarrow> w' = w \<and> (bypass \<or> (\<forall>x \<in> set ops. safe_path w (op_path x)))"
proof (induction ops)
  case (Cons x ops)
  obtain r where c: "checkSafeTarget (op_path x) bypass w = (r, w)" by (metis checkSafeTarget_pure prod.collapse)
  with Cons.prems have "r = Val ()" "eachP (\<lambda>x. checkSafeTarget (op_path x) bypass) ops w = (Val (), w')"
    by (auto simp: thenP_Val)
  moreover from this(1) c have "bypass \<or> safe_path w (op_path x)"
    using safe_target_dirs [of "op_path x" w] by (cases bypass) (simp_all add: safe_path_def)
  ultimately show ?case using Cons.IH by auto
qed (simp add: ret_Val)

lemma check_targets_ok:
  "check_targets f ops w = (Val (Some ()), w') \<Longrightarrow> w' = w \<and> (install_bypass f w \<or> (\<forall>x \<in> set ops. safe_path w (op_path x)))"
  by (auto simp: check_targets_def bindP_def getsP_def tryP_def some_then_def thenP_def fail2_def ret_def stderr_write_def
      set_exit_code_def updP_def split: prod.splits res.splits dest: check_each)

lemma keeps_check_targets: "keeps disk_view (check_targets f ops)"
  unfolding check_targets_def by (intro keeps_intros)

lemma disk_view_eq:
  "disk_view w1 = disk_view w \<Longrightarrow> w_tree w1 = w_tree w \<and> w_sent w1 = w_sent w \<and> install_bypass f w1 = install_bypass f w \<and> safe_path w1 p = safe_path w p"
  by (simp add: disk_view_def install_bypass_def dev_mode_def safe_path_def safe_dirs_def Let_def cong del: if_weak_cong)

lemma keeps_sent_files [keeps_intros]:
  "keeps w_sent (unlink p)" "keeps w_sent (rename_file p q)" "keeps w_sent (read_dir p)"
  by (auto simp: keeps_def unlink_def rename_file_def read_dir_def del_node_def put_node_def split: option.splits node.splits)

lemma keeps_step_op: "keeps w_sent (step_op x c)"
  unfolding step_op_def write_op_def backup_current_def ignore_enoent_def by (intro keeps_intros)

lemma keeps_run_ops: "keeps w_sent (run_ops ops c)"
  by (induction ops arbitrary: c) (auto intro!: keeps_intros keeps_step_op)

lemma keeps_executeFileOps [keeps_intros]: "keeps w_sent (executeFileOps ops)"
  unfolding executeFileOps_def rollback_def restore_write_def by (intro keeps_intros keeps_run_ops)

lemma keeps_write_files: "keeps w_sent (write_files ops)"
  unfolding write_files_def by (intro keeps_intros)

lemma write_files_ok: "write_files ops w = (Val (Some ()), w') \<Longrightarrow> executeFileOps (map file_op.truncate ops) w = (Val (), w')"
  by (auto simp: write_files_def tryP_def some_then_def thenP_def bindP_def fail2_def ret_def stderr_write_def set_exit_code_def
      updP_def split: prod.splits res.splits)

lemma keeps_arrayP [keeps_intros]: "keeps f (arrayP g k j)"
  unfolding arrayP_def by (auto intro!: keeps_intros split: option.split json.split)

lemma record_sent: "record_install req api w = (r, w') \<Longrightarrow> w_sent w' = w_sent w @ [apply_request req api]"
proof -
  assume r: "record_install req api w = (r, w')"
  define k where "k = (\<lambda>result. bindP (propP result ''result.applied'') (\<lambda>_.
        thenP (stdout_write (''  applied='' @ js_ostring (jprop result ''applied'') @ ''  manifest='' @ js_ostring (jprop result ''manifest_path'') @ [chr_nl]))
        (bindP (arrayP decode_op ''operations'' result) (\<lambda>ops.
         some_then (eachP (\<lambda>x. stdout_write (summarizeOp x @ [chr_nl])) ops) ()))))"
  define h :: "js_error \<Rightarrow> unit option prog" where "h = (\<lambda>e. fail2 ([chr_nl] @ ''apply failed: '' @ err_msg e @ [chr_nl]))"
  have k: "keeps w_sent (k j)" for j unfolding k_def by (intro keeps_intros)
  have h: "keeps w_sent (h e)" for e unfolding h_def by (intro keeps_intros)
  obtain x w1 where a: "installApply req api w = (x, w1)" by fastforce
  have w1: "w_sent w1 = w_sent w @ [apply_request req api]" using one_callD [OF one_call_install(1) a] by simp
  have e: "record_install req api = tryP (bindP (installApply req api) k) h" by (simp add: record_install_def k_def h_def)
  have "w_sent w' = w_sent w1"
  proof (cases x)
    case (Val v)
    obtain r2 w2 where kk: "k v w1 = (r2, w2)" by fastforce
    with Val a have b: "bindP (installApply req api) k w = (r2, w2)" by (simp add: bindP_def)
    from keepsD [OF k kk] have s2: "w_sent w2 = w_sent w1" .
    show ?thesis
    proof (cases r2)
      case (Err er)
      with r e b have "h er w2 = (r, w')" by (simp add: tryP_def)
      with keepsD [OF h this] s2 show ?thesis by simp
    qed (use r e b s2 in \<open>auto simp: tryP_def\<close>)
  next
    case (Err er)
    with r e a have "h er w1 = (r, w')" by (simp add: tryP_def bindP_def)
    then show ?thesis by (rule keepsD [OF h])
  qed (use r e a in \<open>auto simp: tryP_def bindP_def\<close>)
  with w1 show ?thesis by simp
qed

lemma orStop_cases:
  assumes "orStop m k w = (r, w')"
  obtains (go) y w1 where "m w = (Val (Some y), w1)" "k y w1 = (r, w')"
    | (stop) x where "m w = (x, w')" "\<And>y. x \<noteq> Val (Some y)"
  using assms unfolding orStop_def
proof (cases rule: bindP_cases)
  case (val x w1)
  show thesis
  proof (cases x)
    case None
    with val have "w1 = w'" by (simp add: ret_def)
    with val(1) None stop [of "Val None"] show thesis by simp
  qed (use val go in auto)
qed (auto intro: stop [of "Err _"] stop [of "Exited _"] stop [of Pending])

text \<open>The last part of a run: a change to the disk or a request tells how far it got.\<close>

definition went_through :: "json \<Rightarrow> client \<Rightarrow> install_file_op list \<Rightarrow> world \<Rightarrow> world \<Rightarrow> bool" where
  "went_through req api ops w w' \<longleftrightarrow>
     (\<exists>w1 w2. w_tree w1 = w_tree w \<and> executeFileOps (map file_op.truncate ops) w1 = (Val (), w2) \<and>
        w_sent w' = w_sent w @ [apply_request req api])"

lemma apply_plan_guard:
  assumes "apply_plan f req api ops w = (r, w')"
  shows "(w_tree w' = w_tree w \<and> w_sent w' = w_sent w) \<or>
     (confirmed f w \<and> (install_bypass f w \<or> (\<forall>x \<in> set ops. safe_path w (op_path x))) \<and>
      (w_sent w' = w_sent w \<or> went_through req api ops w w'))"
  using assms unfolding apply_plan_def
proof (cases rule: bindP_cases)
  case (val ok w1)
  note v1 = disk_view_eq [OF keepsD [OF keeps_confirm val(1)], of f]
  show ?thesis
  proof (cases ok)
    case False
    with val(2) have "disk_view w' = disk_view w1" by (auto simp: prog_simps disk_view_def)
    with disk_view_eq v1 show ?thesis by metis
  next
    case True
    with val(2) have o: "orStop (check_targets f ops) (\<lambda>_. orStop (write_files ops) (\<lambda>_.
       thenP (stdout_write ([chr_nl] @ ''applying...'' @ [chr_nl]))
       (orStop (record_install req api) (\<lambda>_.
        stdout_write ([chr_nl] @ ''done. restart your agent harness so it re-reads settings.json.'' @ [chr_nl]))))) w1 = (r, w')" by simp
    from val(1) True have cf: "confirmed f w" using confirm_yes [of f w w1] by simp
    from o show ?thesis
    proof (cases rule: orStop_cases)
      case (stop x)
      with disk_view_eq [OF keepsD [OF keeps_check_targets stop(1)]] v1 show ?thesis by simp
    next
      case (go u w2)
      from check_targets_ok [of f ops w1 w2] go(1) v1
      have w2: "w2 = w1" and safe: "install_bypass f w \<or> (\<forall>x \<in> set ops. safe_path w (op_path x))" by auto
      from go(2) show ?thesis
      proof (cases rule: orStop_cases)
        case (stop x)
        with keepsD [OF keeps_write_files stop(1)] v1 w2 cf safe show ?thesis by simp
      next
        case (go u' w3)
        have s3: "w_sent w3 = w_sent w" using keepsD [OF keeps_write_files go(1)] v1 w2 by simp
        have ex: "executeFileOps (map file_op.truncate ops) w1 = (Val (), w3)" using write_files_ok go(1) w2 by simp
        from go(2) have "orStop (record_install req api) (\<lambda>_.
            stdout_write ([chr_nl] @ ''done. restart your agent harness so it re-reads settings.json.'' @ [chr_nl]))
            (w3\<lparr>w_out := w_out w3 @ [chr_nl] @ ''applying...'' @ [chr_nl]\<rparr>) = (r, w')"
          by (simp add: thenP_def bindP_def stdout_write_def updP_def)
        then have "w_sent w' = w_sent w3 @ [apply_request req api]"
        proof (cases rule: orStop_cases)
          case (go y w4)
          then have "w_sent w' = w_sent w4" by (auto simp: prog_simps)
          with record_sent [OF go(1)] show ?thesis by simp
        next
          case (stop x)
          with record_sent [OF stop(1)] show ?thesis by simp
        qed
        with ex s3 v1 cf safe show ?thesis unfolding went_through_def by auto
      qed
    qed
  qed
qed (use disk_view_eq keepsD [OF keeps_confirm] in metis)+

text \<open>C24. Nothing is installed behind the user's back: if the last part of a run changed a file or sent anything, the plan was confirmed, by
  \<open>--yes\<close> or by the answer, and every target lay under a harness' own directory unless the user asked for a sandbox; and the one request
  it can send, the signed record of the install, follows the successful execution of every file operation.\<close>

theorem install_guarded:
  assumes "apply_plan f req api ops w = (r, w')" and "w_tree w' \<noteq> w_tree w \<or> w_sent w' \<noteq> w_sent w"
  shows "confirmed f w \<and> (install_bypass f w \<or> (\<forall>x \<in> set ops. safe_path w (op_path x))) \<and>
    (w_sent w' = w_sent w \<or> went_through req api ops w w')"
  using apply_plan_guard [OF assms(1)] assms(2) by blast

definition demo_op :: install_file_op where
  "demo_op = \<lparr>op_kind = ''write'', op_path = ''/home/u/.claude/settings.json'', op_content = Some ''{}'', op_backup = None, op_reason = None\<rparr>"

definition demo_api :: client where
  "demo_api = \<lparr>cl_url = ''http://d'', cl_token = None, cl_caps = None\<rparr>"

lemma demo_apply:
  "length (w_sent (snd (apply_plan (no_flags\<lparr>if_yes := True\<rparr>) (JObj []) demo_api [demo_op] demo_world))) = 1"
  by code_simp

theorem install_guarded_witness:
  "safe_path demo_world ''/home/u/.claude/settings.json'' \<and>
   went_through (JObj []) demo_api [demo_op] demo_world
     (snd (apply_plan (no_flags\<lparr>if_yes := True\<rparr>) (JObj []) demo_api [demo_op] demo_world))"
proof -
  let ?f = "no_flags\<lparr>if_yes := True\<rparr>"
  obtain r w' where run: "apply_plan ?f (JObj []) demo_api [demo_op] demo_world = (r, w')" by fastforce
  then have sent: "length (w_sent w') = 1" using demo_apply by simp
  have "w_sent demo_world = []" "\<not> install_bypass ?f demo_world"
    by (simp_all add: demo_world_def install_bypass_def dev_mode_def str_truthy_def no_flags_def)
  moreover from this(1) sent have ne: "w_sent w' \<noteq> w_sent demo_world" by auto
  ultimately show ?thesis
    using install_guarded [OF run disjI2 [OF ne]] ne by (simp add: run) (simp add: demo_op_def)
qed

section \<open>The requests of a run\<close>

definition not_apply :: "http_req \<Rightarrow> bool" where
  "not_apply rq \<longleftrightarrow> \<not> ends_with ''/v1/install/apply'' (rq_url rq)"

text \<open>The requests of a run that may end with the record of a plan: the one right before it asked for that plan.\<close>

definition plan_then_apply :: "http_req list \<Rightarrow> bool" where
  "plan_then_apply rqs \<longleftrightarrow> list_all not_apply rqs \<or>
     (\<exists>before req cl. rqs = before @ [plan_http req cl, apply_request req cl] \<and> list_all not_apply before)"

definition installs :: "'a prog \<Rightarrow> bool" where
  "installs m \<longleftrightarrow> (\<forall>w. \<exists>rqs. w_sent (snd (m w)) = w_sent w @ rqs \<and> plan_then_apply rqs)"

lemma installs_emits: "emits not_apply m \<Longrightarrow> installs m"
  unfolding installs_def emits_def plan_then_apply_def by metis

lemma plan_then_apply_emits: "list_all not_apply b \<Longrightarrow> plan_then_apply b"
  by (simp add: plan_then_apply_def)

lemma plan_then_apply_prefix: "list_all not_apply a \<Longrightarrow> plan_then_apply b \<Longrightarrow> plan_then_apply (a @ b)"
  unfolding plan_then_apply_def by (metis append_assoc list_all_append)

lemma installs_bind:
  assumes "emits not_apply m" "\<And>x. installs (k x)"
  shows "installs (bindP m k)"
  unfolding installs_def
proof
  fix w
  obtain r w' where b: "bindP m k w = (r, w')" by fastforce
  from b have "\<exists>rqs. w_sent w' = w_sent w @ rqs \<and> plan_then_apply rqs"
  proof (cases rule: bindP_cases)
    case (val x w1)
    from emitsD [OF assms(1) val(1)] obtain a where a: "w_sent w1 = w_sent w @ a" "list_all not_apply a" by blast
    from assms(2) [of x] val(2) obtain b where "w_sent w' = w_sent w1 @ b" "plan_then_apply b"
      unfolding installs_def by (metis snd_conv)
    with a plan_then_apply_prefix show ?thesis by (intro exI [of _ "a @ b"]) simp
  qed (use emitsD [OF assms(1)] plan_then_apply_emits in metis)+
  then show "\<exists>rqs. w_sent (snd (bindP m k w)) = w_sent w @ rqs \<and> plan_then_apply rqs" by (simp add: b)
qed

lemma installs_then: "emits not_apply m \<Longrightarrow> installs n \<Longrightarrow> installs (thenP m n)"
  unfolding thenP_def by (rule installs_bind)

lemma emits_orStop [emits_intros]: "emits P m \<Longrightarrow> (\<And>x. emits P (k x)) \<Longrightarrow> emits P (orStop m k)"
  unfolding orStop_def by (intro emits_intros)

lemma installs_orStop: "emits not_apply m \<Longrightarrow> (\<And>x. installs (k x)) \<Longrightarrow> installs (orStop m k)"
  unfolding orStop_def by (rule installs_bind) (auto intro: installs_emits emits_intros split: option.split)

lemma emits_fail2 [emits_intros]: "emits P (fail2 m)"
  unfolding fail2_def by (intro emits_intros)

lemma emits_some_then [emits_intros]: "emits P m \<Longrightarrow> emits P (some_then m x)"
  unfolding some_then_def by (intro emits_intros)

lemma emits_arrayP [emits_intros]: "emits P (arrayP g k j)"
  by (rule emits_silent) (rule keeps_arrayP)

lemma emits_api [emits_intros]:
  "emits not_apply (health cl)" "emits not_apply (createUnattestedSession cl)" "emits not_apply (installCapabilities cl)"
  "emits not_apply (installUninstallHarnesses req cl)" "emits not_apply (createSession req cl)"
proof -
  have n: "not_apply \<lparr>rq_method = m, rq_url = u @ p, rq_auth = a, rq_body = b\<rparr>" if "\<not> ends_with ''/v1/install/apply'' (u @ p)" for m u p a b
    using that by (simp add: not_apply_def)
  show "emits not_apply (health cl)" "emits not_apply (createUnattestedSession cl)"
    "emits not_apply (installUninstallHarnesses req cl)" "emits not_apply (createSession req cl)"
    unfolding health_def createUnattestedSession_def installUninstallHarnesses_def createSession_def
    by (rule emits_api_send, simp add: not_apply_def ends_with_def starts_with_def, intro emits_intros)+
  show "emits not_apply (installCapabilities cl)"
    unfolding installCapabilities_def
    by (intro emits_intros emits_api_send) (simp_all add: not_apply_def ends_with_def starts_with_def emits_intros)
qed

lemma emits_mint [emits_intros]: "emits not_apply (mintAttestedSession c tier url policy code pass)"
proof (rule emitsI)
  fix w r w' assume m: "mintAttestedSession c tier url policy code pass w = (r, w')"
  let ?p = "create_prepare c \<lparr>so_tier = tier, so_url = url, so_json = True, so_policy = policy, so_code = code, so_pass = pass,
        so_user = None, so_groups = None\<rparr> (agentlockHome w)"
  have "emits not_apply (bindP ?p (\<lambda>(req, client). createSession req client))"
    by (intro emits_intros emits_silent [OF create_prepare_sent])
  with m [unfolded mint_split] show "\<exists>rqs. w_sent w' = w_sent w @ rqs \<and> list_all not_apply rqs" using emitsD by blast
qed

lemma emits_silent_fs [emits_intros]: "emits P (read_dir p)" "emits P (read_file p)" "emits P (write_file p c)" "emits P (unlink p)"
  "emits P (rename_file p q)" "emits P (mkdir_p p)"
  by (rule emits_silent, intro keeps_intros)+

lemma emits_mapP [emits_intros]: "(\<And>x. emits P (f x)) \<Longrightarrow> emits P (mapP f xs)"
  by (induction xs) (auto intro!: emits_intros)

lemma emits_reads [emits_intros]: "emits P (readExistingFiles ps out)" "emits P (listExtensionBundleManifests d)" "emits P (listJsonFiles d)"
proof -
  show "emits P (readExistingFiles ps out)"
    by (induction ps arbitrary: out) (auto intro!: emits_intros)
  show "emits P (listExtensionBundleManifests d)" "emits P (listJsonFiles d)"
    unfolding listExtensionBundleManifests_def listJsonFiles_def missing_dir_ok_def by (intro emits_intros)+
qed

lemma emits_uninstall [emits_intros]: "emits not_apply (uninstall_deselected sid f dirs is cl)"
  unfolding uninstall_deselected_def uninstall_paths_def resolved_def executeUninstallOps_def uninstall_step_def ignore_enoent_def
  by (intro emits_intros)

lemma emits_plan_request [emits_intros]: "emits P (plan_request ip sid f dirs chosen cl)"
  unfolding plan_request_def plan_files_def resolved_def installStatusLineScript_def installAndResolveAgentlockBinary_def write_script_def Let_def
  by (intro emits_intros)

lemma emits_show_plan [emits_intros]: "emits P (show_plan plan)"
  unfolding show_plan_def warnings_of_def by (intro emits_intros)

lemma emits_session [emits_intros]: "emits not_apply (install_session c f cl)"
  unfolding install_session_def mint_failed_def by (intro emits_intros)

lemma plan_not_apply: "not_apply (plan_http req cl)"
  by (simp add: not_apply_def plan_http_def ends_with_def starts_with_def)

lemma fetch_plan_sent: "fetch_plan req api w = (r, w') \<Longrightarrow> w_sent w' = w_sent w @ [plan_http req api]"
proof -
  assume f: "fetch_plan req api w = (r, w')"
  obtain x w1 where a: "installPlan req api w = (x, w1)" by fastforce
  have "w_sent w1 = w_sent w @ [plan_http req api]" using one_callD [OF one_call_install(2) a] by simp
  with f a show ?thesis
    by (cases x) (auto simp: fetch_plan_def tryP_def bindP_def ret_def fail2_def thenP_def stderr_write_def set_exit_code_def updP_def)
qed

lemma keeps_show_plan: "keeps w_sent (show_plan plan)"
  unfolding show_plan_def warnings_of_def by (intro keeps_intros)

lemma installs_apply: "installs (orStop (fetch_plan req api) (\<lambda>plan. orStop (show_plan plan) (apply_plan f req api)))"
  unfolding installs_def
proof
  fix w
  let ?m = "orStop (fetch_plan req api) (\<lambda>plan. orStop (show_plan plan) (apply_plan f req api))"
  have one: "plan_then_apply [plan_http req api]" by (rule plan_then_apply_emits) (simp add: plan_not_apply)
  have two: "plan_then_apply [plan_http req api, apply_request req api]"
    unfolding plan_then_apply_def by (intro disjI2 exI [of _ "[]"] exI [of _ req] exI [of _ api]) simp
  obtain r w' where m: "?m w = (r, w')" by fastforce
  then have "w_sent w' = w_sent w @ [plan_http req api] \<or> w_sent w' = w_sent w @ [plan_http req api, apply_request req api]"
  proof (cases rule: orStop_cases)
    case (go plan w1)
    note s1 = fetch_plan_sent [OF go(1)]
    from go(2) show ?thesis
    proof (cases rule: orStop_cases)
      case (go ops w2)
      with keepsD [OF keeps_show_plan go(1)] s1 apply_plan_guard [OF go(2)] show ?thesis by (auto simp: went_through_def)
    next
      case (stop x)
      with keepsD [OF keeps_show_plan stop(1)] s1 show ?thesis by simp
    qed
  next
    case (stop x)
    with fetch_plan_sent [OF stop(1)] show ?thesis by simp
  qed
  with m one two show "\<exists>rqs. w_sent (snd (?m w)) = w_sent w @ rqs \<and> plan_then_apply rqs" by (metis snd_conv)
qed

lemma emits_probe_caps [emits_intros]: "emits not_apply (probe_capabilities cl)"
  unfolding probe_capabilities_def by (intro emits_intros)

lemma emits_daemon_up [emits_intros]: "emits not_apply (daemon_up cl)"
  unfolding daemon_up_def by (intro emits_intros)

lemma installs_chosen: "installs (install_chosen c ip f api dirs is chosen)"
proof (cases "chosen = []")
  case True
  show ?thesis unfolding install_chosen_def True by (intro installs_emits emits_intros) simp
next
  case False
  have "installs (install_harnesses ip sid f dirs chosen cl)" for sid cl
    unfolding install_harnesses_def by (intro installs_bind installs_then installs_apply emits_intros)
  with False show ?thesis
    unfolding install_chosen_def by (auto intro!: installs_orStop installs_bind installs_then emits_intros)
qed

lemma emits_parseFlags [emits_intros]: "emits P (parseFlags argv)"
  unfolding parseFlags_def by (intro emits_intros)

text \<open>C25. A run records only what it planned, and last: of all the requests of one \<open>install\<close>, at most one is the record of an install; it
  is the last one, the request right before it asked the same daemon for the plan, and both carry the same body.\<close>

theorem install_applies_its_plan:
  "\<exists>rqs. w_sent (snd (runInstall c ip keys argv w)) = w_sent w @ rqs \<and>
     (list_all not_apply rqs \<or>
      (\<exists>before req cl. rqs = before @ [plan_http req cl, apply_request req cl] \<and> list_all not_apply before))"
proof -
  have picked: "installs (case multiselect opts keys of None \<Rightarrow> pendP
      | Some None \<Rightarrow> stdout_write t
      | Some (Some chosen) \<Rightarrow> install_chosen c ip f api dirs (is chosen) chosen)" for opts :: "harness_id pick_option list" and t f api dirs "is"
    by (auto split: option.split intro: installs_chosen installs_emits emits_intros)
  have "installs (runInstall c ip keys argv)"
    unfolding runInstall_def
    by (intro installs_bind emits_intros) (auto split: sum.split intro: picked installs_emits emits_intros)
  then show ?thesis unfolding installs_def plan_then_apply_def by blast
qed

end
