(* ===== verification/Rules.thy ===== *)
theory Rules
  imports ApiClient
begin

text \<open>
  The community rule registries (\<open>cli/src/commands/rules.ts\<close>): the list of registries on disk, cloning
  and syncing them with \<open>git\<close>, finding a rule, and installing its gate into the daemon or the
  repository's own policy file.

  \<open>git\<close>, the \<open>yaml\<close> package and the path of a parsed URL are arguments: what a \<open>git\<close> command does to
  the file tree, how YAML text is read and written (\<open>None\<close> when the package is missing, where the code
  falls back to JSON), and \<open>new URL(s).pathname\<close> (\<open>None\<close> when it throws). Nothing is assumed of them
  unless a statement says so.
\<close>

section \<open>The environment of the commands\<close>

record yaml_lib =
  yl_parse :: "string \<Rightarrow> js_error + json"
  yl_stringify :: "json \<Rightarrow> string"

record rules_env =
  re_yaml :: "yaml_lib option"
  re_git :: "string list \<Rightarrow> (string \<times> node) list \<Rightarrow> (string \<times> node) list"
  re_pathname :: "string \<Rightarrow> string option"

record rules_opts =
  ro_url :: "string option"
  ro_json :: bool

definition upstream_id :: string where "upstream_id = ''openagentlock-rules''"

definition upstream_url :: string where "upstream_url = ''https://github.com/openagentlock/rules.git''"

definition registriesPath :: "world \<Rightarrow> string" where
  "registriesPath w = path_join [agentlockHome w, ''registries.json'']"

definition registryDir :: "string \<Rightarrow> world \<Rightarrow> string" where
  "registryDir i w = path_join [agentlockHome w, ''registries'', i]"

section \<open>The registry file\<close>

text \<open>The file is kept as the JSON it is; a \<open>null\<close> entry, on which the code throws, is an error at once.\<close>

definition empty_registries :: json where
  "empty_registries = JObj [(''schema_version'', jint 1), (''registries'', JArr [])]"

definition readRegistries :: "json prog" where
  "readRegistries =
     bindP (getsP registriesPath) (\<lambda>p.
     bindP (exists_sync p) (\<lambda>ex.
     if \<not> ex then ret empty_registries else bindP (read_file p) parse_json))"

definition writeRegistries :: "json \<Rightarrow> unit prog" where
  "writeRegistries file_json =
     bindP (getsP agentlockHome) (\<lambda>h.
     thenP (mkdir_p h)
     (bindP (getsP registriesPath) (\<lambda>p. write_file p (json_pretty 0 file_json @ [chr_nl]))))"

definition entries_of :: "json \<Rightarrow> json list prog" where
  "entries_of file_json =
     bindP (propP file_json ''file.registries'') (\<lambda>_.
     case jprop file_json ''registries'' of
       Some (JArr rs) \<Rightarrow> if JNull \<in> set rs then throwP (type_error ''r.id'') else ret rs
     | _ \<Rightarrow> throw_msg ''file.registries is not an array'')"

fun set_entries :: "json list \<Rightarrow> json \<Rightarrow> json" where
  "set_entries rs (JObj kvs) = JObj (obj_put ''registries'' (JArr rs) kvs)"
| "set_entries rs j = j"

definition has_entry :: "string \<Rightarrow> json list \<Rightarrow> bool" where
  "has_entry i rs \<longleftrightarrow> list_ex (\<lambda>r. jprop r ''id'' = Some (JStr i)) rs"

definition new_entry :: "string \<Rightarrow> string \<Rightarrow> json prog" where
  "new_entry i url = getsP (\<lambda>w. JObj [(''id'', JStr i), (''url'', JStr url), (''added_at'', JStr (w_date_str w (w_now w)))])"

text \<open>A field of an entry where the code needs a string (as a path or an argument).\<close>

definition str_prop :: "json \<Rightarrow> string \<Rightarrow> string prog" where
  "str_prop r k = (case jprop r k of Some (JStr s) \<Rightarrow> ret s | _ \<Rightarrow> throw_msg (k @ '' must be of type string''))"

definition strip_git :: "string \<Rightarrow> string" where
  "strip_git s = (if ends_with ''.git'' s then take (length s - 4) s else s)"

text \<open>\<open>s.replace(/[^a-z0-9]+/gi, "-")\<close>: a run of other characters becomes one dash.\<close>

fun dash_runs :: "bool \<Rightarrow> string \<Rightarrow> string" where
  "dash_runs inrun [] = []"
| "dash_runs inrun (c # cs) =
     (if is_alnum c then c # dash_runs False cs
      else if inrun then dash_runs True cs
      else CHR ''-'' # dash_runs True cs)"

text \<open>\<open>basename(url, ".git")\<close> keeps the suffix when it is the whole name.\<close>

definition basename_git :: "string \<Rightarrow> string" where
  "basename_git url = (let b = path_basename url in if b = ''.git'' then b else strip_git b)"

definition deriveRegistryId :: "rules_env \<Rightarrow> string \<Rightarrow> string" where
  "deriveRegistryId env url =
     (case re_pathname env url of
        Some pathname \<Rightarrow>
          (let slug = replace_char CHR ''/'' ''-'' (dropWhile (\<lambda>c. c = CHR ''/'') (strip_git pathname))
           in if slug = [] then path_basename pathname else slug)
      | None \<Rightarrow> lowercase (dash_runs False (basename_git url)))"

text \<open>\<open>git\<close>: success, and the trimmed standard error.\<close>

definition git :: "rules_env \<Rightarrow> string list \<Rightarrow> (bool \<times> string) prog" where
  "git env args =
     bindP (spawn_sync (''git'' # args)) (\<lambda>r.
     thenP (updP (\<lambda>w. w\<lparr>w_tree := re_git env args (w_tree w)\<rparr>))
     (ret (case r of None \<Rightarrow> (False, '''') | Some (st, out, err) \<Rightarrow> (st = 0, trim err))))"

definition ensureUpstreamRegistered :: "unit prog" where
  "ensureUpstreamRegistered =
     bindP readRegistries (\<lambda>f.
     bindP (entries_of f) (\<lambda>rs.
     if has_entry upstream_id rs then ret ()
     else bindP (new_entry upstream_id upstream_url) (\<lambda>e. writeRegistries (set_entries (rs @ [e]) f))))"

section \<open>Rules on disk\<close>

text \<open>\<open>loadRule\<close> and \<open>loadRuleLikeDocument\<close>: the same reader.\<close>

definition loadRule :: "rules_env \<Rightarrow> string \<Rightarrow> json prog" where
  "loadRule env body =
     (case re_yaml env of
        Some y \<Rightarrow> (case yl_parse y body of Inl e \<Rightarrow> throwP e | Inr j \<Rightarrow> ret j)
      | None \<Rightarrow> parse_json body)"

definition dumpYAML :: "rules_env \<Rightarrow> json \<Rightarrow> string" where
  "dumpYAML env j = (case re_yaml env of Some y \<Rightarrow> yl_stringify y j | None \<Rightarrow> json_pretty 0 j)"

record found_rule =
  fr_registry :: string
  fr_id :: string
  fr_rule :: json
  fr_path :: string

text \<open>A rule counts when its id is a non-empty string.\<close>

definition rule_found :: "string \<Rightarrow> string \<Rightarrow> json \<Rightarrow> found_rule list" where
  "rule_found reg p rule =
     (case jprop rule ''id'' of
        Some (JStr i) \<Rightarrow> if i = [] then [] else [\<lparr>fr_registry = reg, fr_id = i, fr_rule = rule, fr_path = p\<rparr>]
      | _ \<Rightarrow> [])"

definition load_entry :: "rules_env \<Rightarrow> string \<Rightarrow> string \<Rightarrow> string \<times> node \<Rightarrow> found_rule list prog" where
  "load_entry env reg root x =
     (let yamlPath = path_join [path_join [root, fst x], ''rule.yaml''] in
      if snd x \<noteq> Dir then ret []
      else
        bindP (exists_sync yamlPath) (\<lambda>ex.
        if \<not> ex then ret []
        else
          tryP
            (bindP (read_file yamlPath) (\<lambda>body.
             bindP (loadRule env body) (\<lambda>rule.
             bindP (propP rule ''rule.id'') (\<lambda>_.
             ret (rule_found reg yamlPath rule)))))
            (\<lambda>_. ret [])))"

definition listRulesIn :: "rules_env \<Rightarrow> string \<Rightarrow> found_rule list prog" where
  "listRulesIn env reg =
     bindP (getsP (\<lambda>w. path_join [registryDir reg w, ''rules''])) (\<lambda>root.
     bindP (exists_sync root) (\<lambda>ex.
     if \<not> ex then ret []
     else bindP (read_dir root) (\<lambda>es. bindP (mapP (load_entry env reg root) es) (\<lambda>fs. ret (concat fs)))))"

text \<open>\<open>spec.split(":", 2)\<close> drops what follows a second colon.\<close>

definition parse_spec :: "string \<Rightarrow> string option \<times> string" where
  "parse_spec spec =
     (case split_on CHR '':'' spec of reg # i # _ \<Rightarrow> (Some reg, i) | _ \<Rightarrow> (None, spec))"

definition wanted_registry :: "string option \<Rightarrow> json \<Rightarrow> bool" where
  "wanted_registry target r \<longleftrightarrow> target = None \<or> target = Some [] \<or> jprop r ''id'' = map_option JStr target"

definition find_rules :: "rules_env \<Rightarrow> string \<Rightarrow> found_rule list prog" where
  "find_rules env spec =
     bindP readRegistries (\<lambda>f.
     bindP (entries_of f) (\<lambda>rs.
     bindP (mapP (\<lambda>r. bindP (str_prop r ''id'') (\<lambda>i. listRulesIn env i)) (filter (wanted_registry (fst (parse_spec spec))) rs)) (\<lambda>fs.
     ret (filter (\<lambda>x. fr_id x = snd (parse_spec spec)) (concat fs)))))"

definition resolveRule :: "rules_env \<Rightarrow> string \<Rightarrow> found_rule prog" where
  "resolveRule env spec =
     bindP (find_rules env spec) (\<lambda>matches.
     case matches of
       [] \<Rightarrow> throw_msg (''rule '' @ spec @ '' not found in any synced registry. Run `agentlock rules sync` first, or check available rules with `agentlock rules search`.'')
     | [x] \<Rightarrow> ret x
     | _ \<Rightarrow> throw_msg (''rule '' @ spec @ '' is ambiguous (matches: '' @
              join '', '' (map (\<lambda>x. fr_registry x @ '':'' @ fr_id x) matches) @ ''). Disambiguate with `<registryId>:'' @
              snd (parse_spec spec) @ ''`.''))"

section \<open>Commands\<close>

definition json_or_text :: "bool \<Rightarrow> json \<Rightarrow> string \<Rightarrow> unit prog" where
  "json_or_text jsn j t = stdout_write (if jsn then json_pretty 0 j @ [chr_nl] else t)"

definition runRulesAdd :: "rules_env \<Rightarrow> string \<Rightarrow> string option \<Rightarrow> rules_opts \<Rightarrow> unit prog" where
  "runRulesAdd env url name opts =
     bindP readRegistries (\<lambda>f.
     let i = (case name of Some n \<Rightarrow> n | None \<Rightarrow> deriveRegistryId env url) in
     bindP (entries_of f) (\<lambda>rs.
     if has_entry i rs then throw_msg (''registry '' @ i @ '' already added (use `agentlock rules sync` to refresh)'')
     else
       bindP (getsP (registryDir i)) (\<lambda>dir.
       thenP (bindP (getsP agentlockHome) (\<lambda>h. mkdir_p (path_join [h, ''registries''])))
       (bindP (git env [''clone'', ''--depth'', ''1'', url, dir]) (\<lambda>(ok, err).
        if \<not> ok then
          thenP (bindP (exists_sync dir) (\<lambda>ex. whenP ex (rm_rf dir))) (throw_msg (''git clone failed: '' @ err))
        else
          bindP (new_entry i url) (\<lambda>e.
          thenP (writeRegistries (set_entries (rs @ [e]) f))
            (json_or_text (ro_json opts) (JObj [(''id'', JStr i), (''url'', JStr url), (''dir'', JStr dir)])
               (''registry added: '' @ i @ [chr_nl] @ ''  url: '' @ url @ [chr_nl] @ ''  dir: '' @ dir @ [chr_nl]))))))))"

definition source_lines :: "json \<Rightarrow> unit prog" where
  "source_lines r =
     bindP (str_prop r ''id'') (\<lambda>i.
     bindP (getsP (registryDir i)) (\<lambda>dir.
     bindP (exists_sync dir) (\<lambda>ex.
     stdout_write (i @ [chr_nl] @ ''  url:    '' @ js_ostring (jprop r ''url'') @ [chr_nl] @ ''  dir:    '' @ dir @ '' ('' @
       (if ex then ''cloned'' else ''not cloned (run sync)'') @ '')'' @ [chr_nl] @ ''  added:  '' @ js_ostring (jprop r ''added_at'') @ [chr_nl]))))"

definition runRulesSources :: "rules_opts \<Rightarrow> unit prog" where
  "runRulesSources opts =
     thenP ensureUpstreamRegistered
     (bindP readRegistries (\<lambda>f.
      bindP (entries_of f) (\<lambda>rs.
      if ro_json opts then stdout_write (json_pretty 0 (JArr rs) @ [chr_nl])
      else if rs = [] then stdout_write (''no registries configured (will register openagentlock-rules on first sync)'' @ [chr_nl])
      else eachP source_lines rs)))"

text \<open>One registry of a sync: its id, whether it worked, and the message.\<close>

definition sync_registry :: "rules_env \<Rightarrow> json \<Rightarrow> (string \<times> bool \<times> string) prog" where
  "sync_registry env r =
     bindP (str_prop r ''id'') (\<lambda>i.
     bindP (getsP (registryDir i)) (\<lambda>dir.
     bindP (exists_sync dir) (\<lambda>ex.
     if \<not> ex then
       bindP (str_prop r ''url'') (\<lambda>url.
       bindP (git env [''clone'', ''--depth'', ''1'', url, dir]) (\<lambda>(ok, err). ret (i, ok, if ok then ''cloned'' else err)))
     else
       bindP (git env [''-C'', dir, ''fetch'', ''--prune'']) (\<lambda>(ok, err).
       if \<not> ok then ret (i, False, err)
       else bindP (git env [''-C'', dir, ''reset'', ''--hard'', ''origin/HEAD'']) (\<lambda>(ok2, err2). ret (i, ok2, if ok2 then ''synced'' else err2))))))"

definition sync_line :: "string \<times> bool \<times> string \<Rightarrow> string" where
  "sync_line x = (case x of (i, ok, m) \<Rightarrow>
     map char_of (if ok then [0xE2, 0x9C, 0x93 :: nat] else [0xE2, 0x9C, 0x98]) @ '' '' @ i @ '': '' @ m @ [chr_nl])"

definition runRulesSync :: "rules_env \<Rightarrow> rules_opts \<Rightarrow> unit prog" where
  "runRulesSync env opts =
     thenP ensureUpstreamRegistered
     (bindP readRegistries (\<lambda>f.
      bindP (entries_of f) (\<lambda>rs.
      bindP (mapP (sync_registry env) rs) (\<lambda>results.
      if ro_json opts then
        stdout_write (json_pretty 0 (JArr (map (\<lambda>(i, ok, m). JObj [(''id'', JStr i), (''ok'', JBool ok), (''message'', JStr m)]) results)) @ [chr_nl])
      else eachP (\<lambda>x. stdout_write (sync_line x)) results))))"

text \<open>The text a rule is searched in: \<open>[..].join(" ")\<close>, where \<open>null\<close> and \<open>undefined\<close> become empty.\<close>

definition join_elem :: "json option \<Rightarrow> string" where
  "join_elem v = (case v of None \<Rightarrow> [] | Some JNull \<Rightarrow> [] | Some j \<Rightarrow> js_string j)"

definition tag_list :: "json \<Rightarrow> string list prog" where
  "tag_list rule =
     (case nullish (jprop rule ''tags'') None of
        None \<Rightarrow> ret []
      | Some (JArr xs) \<Rightarrow> ret (map (\<lambda>x. join_elem (Some x)) xs)
      | Some (JStr s) \<Rightarrow> ret (map (\<lambda>c. [c]) s)
      | _ \<Rightarrow> throw_msg ''rule.tags is not iterable'')"

definition rule_blob :: "json \<Rightarrow> string prog" where
  "rule_blob rule =
     bindP (tag_list rule) (\<lambda>tags.
     ret (lowercase (join '' '' ([join_elem (jprop rule ''id''), join_elem (jprop rule ''name''), join_elem (jprop rule ''description'')] @ tags))))"

definition search_hits :: "string \<Rightarrow> found_rule list \<Rightarrow> found_rule list prog" where
  "search_hits q fs =
     bindP (mapP (\<lambda>x. bindP (rule_blob (fr_rule x)) (\<lambda>b. ret (if q = [] \<or> str_includes q b then [x] else []))) fs) (\<lambda>xs. ret (concat xs))"

definition hit_text :: "found_rule \<Rightarrow> string" where
  "hit_text x =
     fr_id x @ '' ('' @ fr_registry x @ '')'' @ [chr_nl] @ ''  '' @
     js_ostring (nullish (jprop (fr_rule x) ''name'') (Some (JStr ''(no name)''))) @ [chr_nl] @ ''  severity: '' @
     js_ostring (nullish (jprop (fr_rule x) ''severity'') (Some (JStr ''?''))) @ [chr_nl]"

definition runRulesSearch :: "rules_env \<Rightarrow> string option \<Rightarrow> rules_opts \<Rightarrow> unit prog" where
  "runRulesSearch env query opts =
     thenP ensureUpstreamRegistered
     (bindP readRegistries (\<lambda>f.
      bindP (entries_of f) (\<lambda>rs.
      let q = lowercase (case query of Some s \<Rightarrow> s | None \<Rightarrow> []) in
      bindP (mapP (\<lambda>r. bindP (str_prop r ''id'') (\<lambda>i. bindP (listRulesIn env i) (search_hits q))) rs) (\<lambda>xs.
      let hits = concat xs in
      if ro_json opts then
        stdout_write (json_pretty 0 (JArr (map (\<lambda>x. JObj [(''registry'', JStr (fr_registry x)), (''rule'', fr_rule x)]) hits)) @ [chr_nl])
      else if hits = [] then stdout_write (''no rules match '' @ [chr_dq] @ q @ [chr_dq] @ '' (try `agentlock rules sync` first)'' @ [chr_nl])
      else eachP (\<lambda>x. stdout_write (hit_text x)) hits))))"

definition em_dash :: string where
  "em_dash = map char_of [0xE2, 0x80, 0x94 :: nat]"

text \<open>\<open>{...v}\<close>: the own enumerable properties.\<close>

fun spread :: "json option \<Rightarrow> (string \<times> json) list" where
  "spread (Some (JObj kvs)) = kvs"
| "spread (Some (JArr xs)) = map (\<lambda>(i, x). (nat_str i, x)) (zip [0..<length xs] xs)"
| "spread (Some (JStr s)) = map (\<lambda>(i, c). (nat_str i, JStr [c])) (zip [0..<length s] s)"
| "spread v = []"

definition gate_block :: "found_rule \<Rightarrow> json" where
  "gate_block x =
     JObj (obj_put ''source'' (JStr (''registry:'' @ fr_registry x))
       (obj_put ''id'' (the (jprop (fr_rule x) ''id'')) (spread (jprop (fr_rule x) ''gate''))))"

text \<open>The gates of the repository's policy file with the block put in: an error when it is there and not to be replaced.\<close>

fun gate_index :: "string \<Rightarrow> json list \<Rightarrow> nat \<Rightarrow> nat option prog" where
  "gate_index i [] n = ret None"
| "gate_index i (g # gs) n =
     bindP (propP g ''g.id'') (\<lambda>_. if jprop g ''id'' = Some (JStr i) then ret (Some n) else gate_index i gs (Suc n))"

definition put_gate :: "json \<Rightarrow> bool \<Rightarrow> json list \<Rightarrow> json list prog" where
  "put_gate block replace gates =
     (let i = js_ostring (nullish (jprop block ''id'') (Some (JStr []))) in
      bindP (gate_index i gates 0) (\<lambda>existing.
      case existing of
        Some n \<Rightarrow>
          (if replace then ret (gates[n := block])
           else throw_msg (''gate '' @ i @ '' already exists in .agentlock.yaml (use --replace to overwrite)''))
      | None \<Rightarrow> ret (gates @ [block])))"

definition array_of :: "json option \<Rightarrow> json list option" where
  "array_of v = (case v of Some (JArr xs) \<Rightarrow> Some xs | _ \<Rightarrow> None)"

definition doc_version :: "json \<Rightarrow> json" where
  "doc_version loaded = (case jprop loaded ''version'' of Some (JNum d) \<Rightarrow> (if mant d = 0 then jint 1 else JNum d) | _ \<Rightarrow> jint 1)"

text \<open>What the repository's file holds: version, extends and gates; the empty document when there is no file.\<close>

definition repo_doc :: "rules_env \<Rightarrow> string \<Rightarrow> (json \<times> json list option \<times> json list) prog" where
  "repo_doc env p =
     bindP (exists_sync p) (\<lambda>ex.
     if \<not> ex then ret (jint 1, None, [])
     else
       bindP (read_file p) (\<lambda>body.
       bindP (loadRule env body) (\<lambda>loaded.
       bindP (propP loaded ''loaded.version'') (\<lambda>_.
       ret (doc_version loaded, array_of (jprop loaded ''extends''),
            (case array_of (jprop loaded ''gates'') of Some gs \<Rightarrow> gs | None \<Rightarrow> []))))))"

definition installGateIntoRepoAgentlock :: "rules_env \<Rightarrow> json \<Rightarrow> bool \<Rightarrow> unit prog" where
  "installGateIntoRepoAgentlock env block replace =
     bindP (getsP (\<lambda>w. path_join [w_cwd w, ''.agentlock.yaml''])) (\<lambda>p.
     bindP (repo_doc env p) (\<lambda>(version, ext, gates).
     bindP (put_gate block replace gates) (\<lambda>gates'.
     write_file p (dumpYAML env (obj_of [(''version'', Some version), (''extends'', map_option JArr ext), (''gates'', Some (JArr gates'))])))))"

definition policy_text :: "json \<Rightarrow> string" where
  "policy_text res =
     ''  policy hash: '' @ js_ostring (jprop res ''hash'') @ [chr_nl] @ ''  total gates: '' @ js_ostring (jprop res ''gates'') @ [chr_nl]"

definition runRulesInstall :: "rules_env \<Rightarrow> string \<Rightarrow> bool \<Rightarrow> bool \<Rightarrow> rules_opts \<Rightarrow> unit prog" where
  "runRulesInstall env spec replace repo opts =
     bindP (resolveRule env spec) (\<lambda>x.
     if \<not> truthy (jprop (fr_rule x) ''gate'') then throw_msg (''rule '' @ fr_id x @ '' has no gate block '' @ em_dash @ '' invalid registry rule'')
     else if repo then
       thenP (installGateIntoRepoAgentlock env (gate_block x) replace)
         (json_or_text (ro_json opts)
            (JObj [(''installed'', JStr (fr_id x)), (''registry'', JStr (fr_registry x)), (''file'', JStr ''.agentlock.yaml'')])
            (''installed '' @ fr_id x @ '' into .agentlock.yaml'' @ [chr_nl]))
     else
       bindP (apiClient (ro_url opts) None) (\<lambda>client.
       bindP (installGateYAML (dumpYAML env (gate_block x)) (Some replace) client) (\<lambda>res.
       if ro_json opts then
         stdout_write (json_pretty 0 (JObj (obj_put ''registry'' (JStr (fr_registry x)) (spread (Some res)))) @ [chr_nl])
       else
         bindP (propP res ''res.hash'') (\<lambda>_.
         stdout_write (''installed '' @ fr_id x @ '' from registry '' @ fr_registry x @ ''.'' @ [chr_nl] @ policy_text res)))))"

definition runRulesUninstall :: "string \<Rightarrow> rules_opts \<Rightarrow> unit prog" where
  "runRulesUninstall i opts =
     bindP (apiClient (ro_url opts) None) (\<lambda>client.
     bindP (deleteGate i client) (\<lambda>res.
     if ro_json opts then stdout_write (json_pretty 0 res @ [chr_nl])
     else
       bindP (propP res ''res.hash'') (\<lambda>_.
       stdout_write (''uninstalled '' @ i @ ''.'' @ [chr_nl] @ policy_text res))))"

text \<open>\<open>findIndex\<close> and \<open>splice\<close>: the first entry with the id goes.\<close>

fun drop_entry :: "string \<Rightarrow> json list \<Rightarrow> json list" where
  "drop_entry i [] = []"
| "drop_entry i (r # rs) = (if jprop r ''id'' = Some (JStr i) then rs else r # drop_entry i rs)"

definition runRulesRemove :: "string \<Rightarrow> rules_opts \<Rightarrow> unit prog" where
  "runRulesRemove i opts =
     bindP readRegistries (\<lambda>f.
     bindP (entries_of f) (\<lambda>rs.
     if \<not> has_entry i rs then throw_msg (''registry '' @ i @ '' is not registered'')
     else
       thenP (writeRegistries (set_entries (drop_entry i rs) f))
       (bindP (getsP (registryDir i)) (\<lambda>dir.
        thenP (bindP (exists_sync dir) (\<lambda>ex. whenP ex (rm_rf dir)))
          (json_or_text (ro_json opts) (JObj [(''removed'', JStr i)]) (''registry removed: '' @ i @ [chr_nl]))))))"

section \<open>The rule that is installed\<close>

lemma obj_put_get: "map_of (obj_put k v kvs) k' = (if k' = k then Some v else map_of kvs k')"
  by (induction kvs) auto

lemma tryP_Val:
  "tryP m h w = (Val x, w') \<longleftrightarrow> m w = (Val x, w') \<or> (\<exists>e w1. m w = (Err e, w1) \<and> h e w1 = (Val x, w'))"
  by (auto simp: tryP_def split: res.splits prod.splits)

lemma rule_found_id: "r \<in> set (rule_found reg p rule) \<Longrightarrow> jprop (fr_rule r) ''id'' = Some (JStr (fr_id r))"
  by (auto simp: rule_found_def split: option.splits json.splits if_splits)

lemma load_entry_id: "load_entry env reg root x w = (Val fs, w') \<Longrightarrow> r \<in> set fs \<Longrightarrow> jprop (fr_rule r) ''id'' = Some (JStr (fr_id r))"
  by (auto simp: load_entry_def Let_def ret_Val bindP_Val tryP_Val rule_found_id split: if_splits)

lemma mapP_Val_in: "mapP f xs w = (Val ys, w') \<Longrightarrow> y \<in> set ys \<Longrightarrow> \<exists>x w1 w2. x \<in> set xs \<and> f x w1 = (Val y, w2)"
proof (induction xs arbitrary: w ys)
  case (Cons a xs)
  then obtain b w1 zs where "f a w = (Val b, w1)" "mapP f xs w1 = (Val zs, w')" "ys = b # zs" by (auto simp: bindP_Val ret_Val)
  with Cons.IH [of w1 zs] Cons.prems(2) show ?case by (auto intro: exI [of _ a])
qed (simp add: ret_Val)

lemma listRulesIn_id:
  assumes "listRulesIn env reg w = (Val fs, w')" "r \<in> set fs"
  shows "jprop (fr_rule r) ''id'' = Some (JStr (fr_id r))"
proof -
  from assms obtain root es w1 xs where "mapP (load_entry env reg root) es w1 = (Val xs, w')" "r \<in> set (concat xs)"
    by (auto simp: listRulesIn_def bindP_Val ret_Val split: if_splits)
  then obtain l where l: "l \<in> set xs" "r \<in> set l" and m: "mapP (load_entry env reg root) es w1 = (Val xs, w')" by auto
  from mapP_Val_in [OF m l(1)] load_entry_id l(2) show ?thesis by blast
qed

lemma find_rules_id:
  assumes "find_rules env spec w = (Val fs, w')" "r \<in> set fs"
  shows "jprop (fr_rule r) ''id'' = Some (JStr (fr_id r)) \<and> fr_id r = snd (parse_spec spec)"
proof -
  let ?g = "\<lambda>r. bindP (str_prop r ''id'') (\<lambda>i. listRulesIn env i)"
  from assms obtain rs w1 xs l where m: "mapP ?g rs w1 = (Val xs, w')" and l: "l \<in> set xs" "r \<in> set l"
    and i: "fr_id r = snd (parse_spec spec)"
    by (auto simp: find_rules_def bindP_Val ret_Val)
  from mapP_Val_in [OF m l(1)] listRulesIn_id l(2) i show ?thesis by (auto simp: bindP_Val)
qed

lemma resolve_unique:
  assumes "resolveRule env spec w = (Val x, w')"
  shows "find_rules env spec w = (Val [x], w')"
proof -
  from assms obtain ms w1 where m: "find_rules env spec w = (Val ms, w1)"
    and c: "(case ms of [] \<Rightarrow> throw_msg (''rule '' @ spec @ '' not found in any synced registry. Run `agentlock rules sync` first, or check available rules with `agentlock rules search`.'')
     | [x] \<Rightarrow> ret x
     | _ \<Rightarrow> throw_msg (''rule '' @ spec @ '' is ambiguous (matches: '' @
              join '', '' (map (\<lambda>x. fr_registry x @ '':'' @ fr_id x) ms) @ ''). Disambiguate with `<registryId>:'' @
              snd (parse_spec spec) @ ''`.'')) w1 = (Val x, w')"
    by (auto simp: resolveRule_def bindP_Val)
  show ?thesis
  proof (cases ms)
    case (Cons a as)
    with c m show ?thesis by (cases as) (simp_all add: ret_Val throw_msg_def)
  qed (use c in \<open>simp add: throw_msg_def\<close>)
qed


definition demo_env :: rules_env where
  "demo_env = \<lparr>re_yaml = None, re_git = (\<lambda>_ t. t), re_pathname = (\<lambda>_. None)\<rparr>"

text \<open>A registry with one rule whose gate block claims another id.\<close>

definition rules_world :: world where
  "rules_world = demo_world\<lparr>w_env := (\<lambda>k. if k = ''AGENTLOCK_HOME'' then Some ''/h'' else None), w_tree :=
     [(''/h'', Dir), (''/h/registries.json'', File (json_stringify (JObj [(''registries'', JArr [JObj [(''id'', JStr ''r'')]])]))),
      (''/h/registries'', Dir), (''/h/registries/r'', Dir), (''/h/registries/r/rules'', Dir), (''/h/registries/r/rules/x'', Dir),
      (''/h/registries/r/rules/x/rule.yaml'',
        File (json_stringify (JObj [(''id'', JStr ''a''), (''gate'', JObj [(''id'', JStr ''evil''), (''on'', JNull)])])))]\<rparr>"

lemma demo_resolve: "case fst (resolveRule demo_env ''r:a'' rules_world) of Val x \<Rightarrow> fr_id x = ''a'' | _ \<Rightarrow> False"
  by code_simp


text \<open>A failed clone removes the directory of the registry even when it was there before; with the name \<open>..\<close> that is the home directory
  of the program, its registry file included.\<close>

lemma failed_add_wipes_home:
  "file_at rules_world ''/h/registries.json'' \<noteq> None \<and>
   (case runRulesAdd demo_env ''u'' (Some ''..'') \<lparr>ro_url = None, ro_json = False\<rparr> rules_world of
      (Err e, w') \<Rightarrow> file_at w' ''/h/registries.json'' = None | _ \<Rightarrow> False)"
  by code_simp

section \<open>The repository's policy file\<close>

definition gate_is :: "string \<Rightarrow> json \<Rightarrow> bool" where
  "gate_is i g \<longleftrightarrow> jprop g ''id'' = Some (JStr i)"

lemma gate_index_spec:
  "JNull \<notin> set gs \<Longrightarrow> gate_index i gs n w =
     (Val (if list_ex (gate_is i) gs then Some (n + length (takeWhile (\<lambda>g. \<not> gate_is i g) gs)) else None), w)"
  by (induction gs arbitrary: n) (auto simp: ret_def propP_def gate_is_def bindP_def)

lemma update_first: "list_ex P gs \<Longrightarrow> gs[length (takeWhile (\<lambda>g. \<not> P g) gs) := b] = takeWhile (\<lambda>g. \<not> P g) gs @ b # tl (dropWhile (\<lambda>g. \<not> P g) gs)"
  by (induction gs) auto

lemma takeWhile_no_ex: "\<not> list_ex P gs \<Longrightarrow> takeWhile (\<lambda>g. \<not> P g) gs = gs \<and> dropWhile (\<lambda>g. \<not> P g) gs = []"
  by (induction gs) auto

text \<open>Installing into the repository's policy file touches one gate: the new block takes the place of the first gate with its id, or goes
  to the end when there is none; every other gate keeps its place, and an existing gate is never overwritten without \<open>--replace\<close>.\<close>

theorem repo_gate_put:
  assumes "JNull \<notin> set gates" and "jprop block ''id'' = Some (JStr i)"
  shows "put_gate block replace gates w =
    (if list_ex (gate_is i) gates \<and> \<not> replace
     then (Err (JsError (''gate '' @ i @ '' already exists in .agentlock.yaml (use --replace to overwrite)'') None), w)
     else (Val (takeWhile (\<lambda>g. \<not> gate_is i g) gates @ block # tl (dropWhile (\<lambda>g. \<not> gate_is i g) gates)), w))"
  using assms
  by (simp add: put_gate_def nullish_def js_ostring_def run_bindP(1) [OF gate_index_spec] ret_def throw_msg_def
      update_first takeWhile_no_ex)

theorem repo_gate_put_witness:
  "fst (put_gate (JObj [(''id'', JStr ''a''), (''n'', JNull)]) True [JObj [(''id'', JStr ''b'')], JObj [(''id'', JStr ''a'')]] rules_world) =
     Val [JObj [(''id'', JStr ''b'')], JObj [(''id'', JStr ''a''), (''n'', JNull)]]"
  by (subst repo_gate_put [where i = "''a''"]) (simp_all add: gate_is_def)

section \<open>Nothing but git is run\<close>

text \<open>Every program run satisfies \<open>P\<close>, whatever the outcome.\<close>

definition spawns :: "(string list \<Rightarrow> bool) \<Rightarrow> 'a prog \<Rightarrow> bool" where
  "spawns P m \<longleftrightarrow> (\<forall>w. \<exists>cmds. w_ran (snd (m w)) = w_ran w @ cmds \<and> list_all P cmds)"

named_theorems spawns_intros \<open>programs that run only what a predicate allows\<close>

lemma spawnsD: "spawns P m \<Longrightarrow> m w = (r, w') \<Longrightarrow> \<exists>cmds. w_ran w' = w_ran w @ cmds \<and> list_all P cmds"
  by (metis spawns_def snd_conv)

lemma spawns_keeps: "keeps w_ran m \<Longrightarrow> spawns P m"
  by (auto simp: spawns_def keeps_def intro: exI [of _ "[]"])

lemma spawns_bindP [spawns_intros]:
  assumes "spawns P m" "\<And>x. spawns P (g x)"
  shows "spawns P (bindP m g)"
  unfolding spawns_def
proof
  fix w
  obtain r w' where b: "bindP m g w = (r, w')" by fastforce
  then have "\<exists>cmds. w_ran w' = w_ran w @ cmds \<and> list_all P cmds"
  proof (cases rule: bindP_cases)
    case (val x w1)
    from spawnsD [OF assms(1) val(1)] spawnsD [OF assms(2) val(2)] show ?thesis
      by (metis append_assoc list_all_append)
  qed (use spawnsD [OF assms(1)] in blast)+
  with b show "\<exists>cmds. w_ran (snd (bindP m g w)) = w_ran w @ cmds \<and> list_all P cmds" by simp
qed

lemma spawns_thenP [spawns_intros]: "spawns P m \<Longrightarrow> spawns P n \<Longrightarrow> spawns P (thenP m n)"
  by (simp add: thenP_def spawns_bindP)

lemma spawns_if [spawns_intros]: "(b \<Longrightarrow> spawns P m) \<Longrightarrow> (\<not> b \<Longrightarrow> spawns P n) \<Longrightarrow> spawns P (if b then m else n)"
  by simp

lemma spawns_pair [spawns_intros]: "(\<And>a b. spawns P (g a b)) \<Longrightarrow> spawns P (case p of (a, b) \<Rightarrow> g a b)"
  by (cases p) simp

lemma spawns_basic [spawns_intros]:
  "spawns P (ret x)" "spawns P (throwP e)" "spawns P (throw_msg m)" "spawns P (getsP g)" "spawns P (exists_sync p)" "spawns P (read_file p)"
  "spawns P (parse_json t)" "spawns P (propP j k)"
  by (rule spawns_keeps, intro keeps_intros)+

lemma spawns_mapP [spawns_intros]: "(\<And>x. spawns P (f x)) \<Longrightarrow> spawns P (mapP f xs)"
  by (induction xs) (simp_all add: spawns_basic spawns_bindP)

lemma spawns_git [spawns_intros]: "P (''git'' # args) \<Longrightarrow> spawns P (git env args)"
  by (auto simp: spawns_def git_def bindP_def thenP_def spawn_sync_def updP_def ret_def)

lemma keeps_ran [keeps_intros]:
  "keeps w_ran (write_file p c)" "keeps w_ran (mkdir_p p)" "keeps w_ran (rm_rf p)" "keeps w_ran (read_dir p)" "keeps w_ran (fetch rq)"
  "keeps w_ran (stdout_write s)"
proof -
  show "keeps w_ran (mkdir_p p)"
    by (auto simp: keeps_def mkdir_p_def Let_def foldl_put_fields split: option.splits node.splits)
qed (auto simp: keeps_def write_file_def rm_rf_def read_dir_def fetch_def put_node_def prog_simps
      split: option.splits node.splits http_out.splits)

lemma keeps_ran_registries [keeps_intros]:
  "keeps w_ran readRegistries" "keeps w_ran (writeRegistries f)" "keeps w_ran (entries_of f)" "keeps w_ran ensureUpstreamRegistered"
  "keeps w_ran (new_entry i url)" "keeps w_ran (str_prop r k)"
proof -
  show e: "keeps w_ran (entries_of f)" for f
    unfolding entries_of_def by (auto intro!: keeps_intros split: option.split json.split)
  show "keeps w_ran readRegistries" "keeps w_ran (writeRegistries f)" "keeps w_ran (new_entry i url)"
    unfolding readRegistries_def writeRegistries_def new_entry_def by (intro keeps_intros)+
  then show "keeps w_ran ensureUpstreamRegistered"
    unfolding ensureUpstreamRegistered_def readRegistries_def writeRegistries_def new_entry_def by (intro keeps_intros e)
  show "keeps w_ran (str_prop r k)"
    unfolding str_prop_def by (auto intro!: keeps_intros split: option.split json.split)
qed

lemma keeps_ran_rules [keeps_intros]: "keeps w_ran (loadRule env body)" "keeps w_ran (listRulesIn env reg)" "keeps w_ran (find_rules env spec)"
  "keeps w_ran (resolveRule env spec)"
proof -
  show l: "keeps w_ran (loadRule env body)" for body unfolding loadRule_def by (intro keeps_intros)
  have "keeps w_ran (load_entry env reg root x)" for reg root x unfolding load_entry_def Let_def by (intro keeps_intros l)
  then show li: "keeps w_ran (listRulesIn env reg)" for reg unfolding listRulesIn_def by (intro keeps_intros)
  then show fi: "keeps w_ran (find_rules env spec)" unfolding find_rules_def by (intro keeps_intros)
  show "keeps w_ran (resolveRule env spec)"
    unfolding resolveRule_def by (auto intro!: keeps_intros fi split: list.split)
qed

lemma keeps_ran_small [keeps_intros]: "keeps w_ran (json_or_text j a b)" "keeps w_ran (source_lines r)" "keeps w_ran (rule_blob r)"
  "keeps w_ran (search_hits q fs)"
proof -
  have t: "keeps w_ran (tag_list r)" for r unfolding tag_list_def by (auto intro: keeps_intros split: option.split json.split)
  show b: "keeps w_ran (rule_blob r)" for r unfolding rule_blob_def by (intro keeps_intros t)
  then show "keeps w_ran (search_hits q fs)" unfolding search_hits_def by (intro keeps_intros)
  show "keeps w_ran (json_or_text j a b)" "keeps w_ran (source_lines r)"
    unfolding json_or_text_def source_lines_def by (intro keeps_intros)+
qed

lemma keeps_ran_repo: "keeps w_ran (installGateIntoRepoAgentlock env block rep)"
proof -
  have "keeps w_ran (gate_index i gs n)" for i gs n by (induction gs arbitrary: n) (auto intro!: keeps_intros)
  then have "keeps w_ran (put_gate block rep gs)" for gs unfolding put_gate_def Let_def by (intro keeps_intros)
  then show ?thesis unfolding installGateIntoRepoAgentlock_def repo_doc_def by (intro keeps_intros)
qed

lemma keeps_ran_api [keeps_intros]: "keeps w_ran (installGateYAML y r cl)" "keeps w_ran (deleteGate i cl)"
  unfolding installGateYAML_def deleteGate_def by (rule keeps_api_send [OF _ refl], intro keeps_intros, intro keeps_intros)+

definition git_command :: "string list \<Rightarrow> bool" where
  "git_command cmd \<longleftrightarrow> (\<exists>url dir. cmd = [''git'', ''clone'', ''--depth'', ''1'', url, dir] \<or> cmd = [''git'', ''-C'', dir, ''fetch'', ''--prune''] \<or>
     cmd = [''git'', ''-C'', dir, ''reset'', ''--hard'', ''origin/HEAD''])"

text \<open>Nothing from a registry is ever executed: adding and syncing registries run \<open>git\<close> only, with a fixed subcommand, and listing,
  searching, installing, uninstalling and removing run no program at all.\<close>

theorem rules_run_only_git:
  "(\<exists>cmds. w_ran (snd (runRulesAdd env url name opts w)) = w_ran w @ cmds \<and> list_all git_command cmds) \<and>
   (\<exists>cmds. w_ran (snd (runRulesSync env opts w)) = w_ran w @ cmds \<and> list_all git_command cmds) \<and>
   w_ran (snd (runRulesSources opts w)) = w_ran w \<and> w_ran (snd (runRulesSearch env query opts w)) = w_ran w \<and>
   w_ran (snd (runRulesInstall env spec rep repo opts w)) = w_ran w \<and> w_ran (snd (runRulesUninstall i opts w)) = w_ran w \<and>
   w_ran (snd (runRulesRemove i opts w)) = w_ran w"
proof (intro conjI)
  have g: "git_command (''git'' # [''clone'', ''--depth'', ''1'', url, dir])" "git_command (''git'' # [''-C'', dir, ''fetch'', ''--prune''])"
    "git_command (''git'' # [''-C'', dir, ''reset'', ''--hard'', ''origin/HEAD''])" for url dir
    by (auto simp: git_command_def)
  note k = spawns_keeps [OF keeps_ran_registries(1)] spawns_keeps [OF keeps_ran_registries(2)] spawns_keeps [OF keeps_ran_registries(3)]
    spawns_keeps [OF keeps_ran_registries(4)] spawns_keeps [OF keeps_ran_registries(5)] spawns_keeps [OF keeps_ran_registries(6)]
    spawns_keeps [OF keeps_ran(2)] spawns_keeps [OF keeps_ran(3)] spawns_keeps [OF keeps_ran(6)] spawns_keeps [OF keeps_ran_small(1)]
  have "spawns git_command (runRulesAdd env url name opts)"
    unfolding runRulesAdd_def Let_def whenP_def by (intro spawns_intros k g)
  then show "\<exists>cmds. w_ran (snd (runRulesAdd env url name opts w)) = w_ran w @ cmds \<and> list_all git_command cmds" by (simp add: spawns_def)
  have "spawns git_command (eachP (\<lambda>x. stdout_write (sync_line x)) xs)" for xs by (rule spawns_keeps) (intro keeps_intros)
  moreover have "spawns git_command (sync_registry env r)" for r unfolding sync_registry_def by (intro spawns_intros k g)
  ultimately have "spawns git_command (runRulesSync env opts)"
    unfolding runRulesSync_def by (intro spawns_intros k)
  then show "\<exists>cmds. w_ran (snd (runRulesSync env opts w)) = w_ran w @ cmds \<and> list_all git_command cmds" by (simp add: spawns_def)
  have "keeps w_ran (runRulesSources opts)" "keeps w_ran (runRulesSearch env query opts)" "keeps w_ran (runRulesInstall env spec rep repo opts)"
    "keeps w_ran (runRulesUninstall i opts)" "keeps w_ran (runRulesRemove i opts)"
    unfolding runRulesSources_def runRulesSearch_def runRulesInstall_def runRulesUninstall_def runRulesRemove_def Let_def apiClient_def
    by (intro keeps_intros keeps_ran_repo)+
  then show "w_ran (snd (runRulesSources opts w)) = w_ran w" "w_ran (snd (runRulesSearch env query opts w)) = w_ran w"
    "w_ran (snd (runRulesInstall env spec rep repo opts w)) = w_ran w" "w_ran (snd (runRulesUninstall i opts w)) = w_ran w"
    "w_ran (snd (runRulesRemove i opts w)) = w_ran w"
    by (simp_all add: keeps_def)
qed

end
