(* ===== verification/Commands.thy ===== *)
theory Commands
  imports Rules Detect Sessions
begin

text \<open>
  The small commands: status, the ledger queries, detection, the simulated hook, login with its
  prompts, the dashboard's entry, and the false-positive workflow (\<open>cli/src/commands\<close>, \<open>util/prompt.ts\<close>).
  What is waiting on standard input is one chunk: a prompt takes all of it and uses the first line.
  The terminal dashboard the \<open>dashboard\<close> command ends in is an argument.
\<close>

section \<open>Status\<close>

definition print_json :: "json \<Rightarrow> unit prog" where
  "print_json j = stdout_write (json_pretty 0 j @ [chr_nl])"

definition runStatus :: "string option \<Rightarrow> bool \<Rightarrow> unit prog" where
  "runStatus url jsn =
     bindP (apiClient url None) (\<lambda>client.
     tryP
       (bindP (health client) (\<lambda>h.
        if jsn then print_json (JObj [(''reachable'', JBool True), (''base_url'', JStr (cl_url client)), (''health'', h)])
        else
          thenP (stdout_write (''control-plane: '' @ cl_url client @ [chr_nl]))
          (bindP (propP h ''health.status'') (\<lambda>_. stdout_write (''  status: '' @ js_ostring (jprop h ''status'') @ [chr_nl])))))
       (\<lambda>e. thenP
         (if jsn then print_json (JObj [(''reachable'', JBool False), (''base_url'', JStr (cl_url client)), (''error'', JStr (err_msg e))])
          else stderr_write (''control-plane: '' @ cl_url client @ [chr_nl] @ ''  unreachable: '' @ err_msg e @ [chr_nl]))
         (set_exit_code 1)))"

section \<open>Ledger\<close>

definition runLedgerRoot :: "string option \<Rightarrow> bool \<Rightarrow> unit prog" where
  "runLedgerRoot url jsn =
     bindP (apiClient url None) (\<lambda>client.
     bindP (ledgerRoot client) (\<lambda>r.
     if jsn then print_json r
     else
       bindP (propP r ''r.root'') (\<lambda>_.
       stdout_write (''root:        '' @ js_ostring (jprop r ''root'') @ [chr_nl] @ ''count:       '' @ js_ostring (jprop r ''count'') @ [chr_nl] @
         ''last_seq:    '' @ js_ostring (jprop r ''seq'') @ [chr_nl] @ ''computed_at: '' @ js_ostring (jprop r ''computed_at'') @ [chr_nl]))))"

definition verify_text :: "json \<Rightarrow> string" where
  "verify_text r =
     (if truthy (jprop r ''ok'') then
        ''ok    root='' @ js_ostring (jprop r ''root'') @ ''  count='' @ js_ostring (jprop r ''count'') @ [chr_nl]
      else
        ''FAIL  count='' @ js_ostring (jprop r ''count'') @ ''  first_bad_at='' @ js_ostring (jprop r ''first_bad_at'') @ [chr_nl] @
        ''      reason='' @ js_ostring (jprop r ''reason'') @ [chr_nl])"

definition runLedgerVerify :: "string option \<Rightarrow> bool \<Rightarrow> unit prog" where
  "runLedgerVerify url jsn =
     bindP (apiClient url None) (\<lambda>client.
     bindP (ledgerVerify client) (\<lambda>r.
     thenP (if jsn then print_json r else bindP (propP r ''r.ok'') (\<lambda>_. stdout_write (verify_text r)))
     (bindP (propP r ''r.ok'') (\<lambda>_. if truthy (jprop r ''ok'') then ret () else exitP 4))))"

section \<open>Detection\<close>

fun surface_str :: "hook_surface \<Rightarrow> string" where
  "surface_str Lifecycle_hooks = ''lifecycle-hooks''"
| "surface_str Mcp_stdio = ''mcp-stdio''"
| "surface_str Mcp_http = ''mcp-http''"
| "surface_str Extension_only = ''extension-only''"

definition scope_json :: "detected_scope \<Rightarrow> json" where
  "scope_json s = JObj [(''kind'', JStr (sc_kind s)), (''path'', JStr (sc_path s)), (''exists'', JBool (sc_exists s))]"

definition detection_json :: "detection \<Rightarrow> json" where
  "detection_json r = obj_of
     [(''id'', Some (JStr (id_str (det_id r)))), (''displayName'', Some (JStr (det_name r))), (''installed'', Some (JBool (det_installed r))),
      (''evidence'', Some (JArr (map JStr (det_evidence r)))), (''scopes'', Some (JArr (map scope_json (det_scopes r)))),
      (''surfaces'', Some (JArr (map (\<lambda>s. JStr (surface_str s)) (det_surfaces r)))), (''notes'', Some (JArr (map JStr (det_notes r)))),
      (''agentlockInstalled'', Some (JBool (det_wired r))), (''agentlockDaemonURL'', ostr (det_url r))]"

definition detection_text :: "detection \<Rightarrow> string" where
  "detection_text r =
     map char_of (if det_installed r then [0xE2, 0x97, 0x8F :: nat] else [0xE2, 0x97, 0x8B]) @ '' '' @ det_name r @ [chr_nl] @
     (if det_evidence r = [] then ''    not detected'' @ [chr_nl] else concat (map (\<lambda>e. ''    '' @ e @ [chr_nl]) (det_evidence r))) @
     (if det_surfaces r = [] then [] else ''    surfaces: '' @ join '', '' (map surface_str (det_surfaces r)) @ [chr_nl]) @
     concat (map (\<lambda>n. ''    note: '' @ n @ [chr_nl]) (det_notes r)) @ [chr_nl]"

definition runDetect :: "bool \<Rightarrow> unit prog" where
  "runDetect jsn =
     bindP (getsP detectAll) (\<lambda>d.
     case d of
       Inl e \<Rightarrow> throwP e
     | Inr rs \<Rightarrow>
         if jsn then print_json (JArr (map detection_json rs)) else eachP (\<lambda>r. stdout_write (detection_text r)) rs)"

section \<open>The simulated hook\<close>

record fake_hook_opts =
  fh_session :: string
  fh_source :: string
  fh_tool :: string
  fh_command :: "string option"
  fh_file :: "string option"
  fh_cwd :: "string option"
  fh_url :: "string option"
  fh_json :: bool
  fh_input :: "string option"

definition opt_put :: "string \<Rightarrow> string option \<Rightarrow> (string \<times> json) list \<Rightarrow> (string \<times> json) list" where
  "opt_put k v kvs = (case v of Some s \<Rightarrow> obj_put k (JStr s) kvs | None \<Rightarrow> kvs)"

text \<open>\<open>Object.assign(input, parsed)\<close>: each property of \<open>parsed\<close> is assigned in turn.\<close>

definition assign_all :: "(string \<times> json) list \<Rightarrow> (string \<times> json) list \<Rightarrow> (string \<times> json) list" where
  "assign_all target kvs = foldl (\<lambda>t (k, v). obj_put k v t) target kvs"

definition fake_input :: "fake_hook_opts \<Rightarrow> (string \<times> json) list prog" where
  "fake_input opts =
     bindP
       (if str_truthy (fh_input opts) then
          tryP (bindP (parse_json (the (fh_input opts))) (\<lambda>j. ret (assign_all [] (spread (Some j)))))
            (\<lambda>e. thenP (stderr_write (''--input: invalid JSON: '' @ err_msg e @ [chr_nl])) (exitP 2))
        else ret [])
       (\<lambda>kvs. ret (opt_put ''file_path'' (fh_file opts) (opt_put ''command'' (fh_command opts) kvs)))"

definition fake_request :: "fake_hook_opts \<Rightarrow> (string \<times> json) list \<Rightarrow> json" where
  "fake_request opts kvs = obj_of
     [(''session_id'', Some (JStr (fh_session opts))), (''source'', Some (JStr (fh_source opts))), (''tool'', Some (JStr (fh_tool opts))),
      (''input'', Some (JObj kvs)), (''cwd'', ostr (fh_cwd opts))]"

definition fake_text :: "json \<Rightarrow> string" where
  "fake_text res =
     ''verdict:   '' @ (if truthy (jprop res ''monitor'') then ''monitor-match'' else js_ostring (jprop res ''verdict'')) @ [chr_nl] @
     ''rule:      '' @ js_ostring (jprop res ''rule_id'') @ [chr_nl] @
     ''reason:    '' @ js_ostring (jprop res ''reason'') @ [chr_nl] @
     ''ledger_seq: '' @ js_ostring (jprop res ''ledger_seq'') @ [chr_nl]"

definition runFakeHook :: "fake_hook_opts \<Rightarrow> unit prog" where
  "runFakeHook opts =
     bindP (fake_input opts) (\<lambda>kvs.
     bindP (apiClient (fh_url opts) None) (\<lambda>client.
     bindP (tryP (checkGate (fake_request opts kvs) client)
       (\<lambda>e. thenP (stderr_write (''fake-hook: gate check failed ('' @ (case fh_url opts of Some u \<Rightarrow> u | None \<Rightarrow> ''default url'') @ ''): '' @ err_msg e @ [chr_nl]))
              (exitP 1))) (\<lambda>res.
     if \<not> truthy (Some res) \<or> \<not> truthy (jprop res ''verdict'') then
       thenP (stderr_write (''fake-hook: malformed gate response'' @ [chr_nl])) (exitP 1)
     else
       thenP (if fh_json opts then print_json res else stdout_write (fake_text res))
         (if jprop res ''verdict'' = Some (JStr ''deny'') then exitP 3 else ret ()))))"

section \<open>Prompts\<close>

definition first_line :: "string \<Rightarrow> string" where
  "first_line s = takeWhile (\<lambda>c. c \<noteq> chr_nl \<and> c \<noteq> chr_cr) s"

text \<open>\<open>readline\<close>: the first line of what is waiting; the rest of the chunk is lost with the interface.\<close>

definition read_line :: "string prog" where
  "read_line w = (if w_stdin w = [] then (Pending, w) else (Val (first_line (w_stdin w)), w\<lparr>w_stdin := []\<rparr>))"

definition readPrompt :: "string \<Rightarrow> string prog" where
  "readPrompt label = thenP (stdout_write label) (bindP read_line (\<lambda>l. ret (trim l)))"

datatype tty_result = Typed string | Aborted | Waiting string

text \<open>The characters typed at a terminal: return ends, control-C aborts, delete and backspace take one back.\<close>

fun tty_password :: "string \<Rightarrow> string \<Rightarrow> tty_result" where
  "tty_password buf [] = Waiting buf"
| "tty_password buf (c # cs) =
     (if c = chr_nl \<or> c = chr_cr then Typed buf
      else if c = CHR 0x03 then Aborted
      else if c = CHR 0x7F \<or> c = CHR 0x08 then tty_password (butlast buf) cs
      else tty_password (buf @ [c]) cs)"

definition readPassword :: "string \<Rightarrow> string prog" where
  "readPassword label =
     thenP (stdout_write label)
     (bindP (getsP w_tty) (\<lambda>tty.
      if \<not> tty then read_line
      else
        bindP read_stdin (\<lambda>s.
        case tty_password [] s of
          Typed p \<Rightarrow> thenP (stdout_write [chr_nl]) (ret p)
        | Aborted \<Rightarrow> throw_msg ''aborted''
        | Waiting b \<Rightarrow> pendP)))"

text \<open>Two prompts fed from a pipe: the first takes the whole chunk, and the second is never answered.\<close>

lemma second_prompt_never_answered:
  "\<not> w_tty w \<Longrightarrow> fst (bindP (readPrompt a) (\<lambda>u. readPassword b) w) = Pending"
  by (simp add: readPrompt_def readPassword_def read_line_def thenP_def bindP_def stdout_write_def updP_def getsP_def ret_def)

section \<open>Login\<close>

record login_opts =
  lo_daemon :: "string option"
  lo_bootstrap :: bool
  lo_username :: "string option"
  lo_password :: "string option"
  lo_json :: bool

definition start_hint :: string where
  "start_hint =
     ''hint: start the daemon first:'' @ [chr_nl] @
     ''  docker run -d --name agentlock -p 127.0.0.1:7878:7878 ghcr.io/openagentlock/agentlockd:latest'' @ [chr_nl] @
     ''(source checkout: `just cp-serve`)'' @ [chr_nl]"

definition fail_with :: "string \<Rightarrow> int \<Rightarrow> unit prog" where
  "fail_with m c = thenP (stderr_write m) (set_exit_code c)"

text \<open>\<open>new Date(v * 1000).toISOString()\<close>, a \<open>RangeError\<close> for what is not a date.\<close>

definition seconds_date :: "json option \<Rightarrow> string prog" where
  "seconds_date v =
     (let at = (\<lambda>ms. if abs ms \<le> 8640000000000000 then getsP (\<lambda>w. w_date_str w ms) else throw_msg ''Invalid time value'') in
      case v of
        Some (JNum d) \<Rightarrow> at (dec_floor (Dec (mant d * 1000) (expo d)))
      | Some JNull \<Rightarrow> at 0
      | Some (JBool b) \<Rightarrow> at (if b then 1000 else 0)
      | _ \<Rightarrow> throw_msg ''Invalid time value'')"

definition doLogin :: "client \<Rightarrow> string \<Rightarrow> string \<Rightarrow> bool \<Rightarrow> unit prog" where
  "doLogin api username password jsn =
     bindP (tryP (bindP (authLogin username password api) (\<lambda>(res, cl). ret (Some res)))
       (\<lambda>e. thenP (fail_with (''login failed: '' @ err_msg e @ [chr_nl]) 2) (ret None))) (\<lambda>r.
     case r of
       None \<Rightarrow> ret ()
     | Some res \<Rightarrow>
         if jsn then stdout_write (json_stringify res @ [chr_nl])
         else
           bindP (seconds_date (jprop res ''expires_at'')) (\<lambda>expiresAt.
           stdout_write (''logged in as '' @ js_ostring (jprop res ''username'') @ ''. token expires '' @ expiresAt @ ''.'' @ [chr_nl, chr_nl] @
             ''export AGENTLOCK_TOKEN='' @ js_ostring (jprop res ''token'') @ [chr_nl, chr_nl] @
             ''or pass --token to subsequent commands.'' @ [chr_nl])))"

text \<open>\<open>opts.username ?? (scriptedPw ? "admin" : await readPrompt(..))\<close> and \<open>scriptedPw ?? await readPassword(..)\<close>\<close>

definition ask_username :: "login_opts \<Rightarrow> string option \<Rightarrow> string \<Rightarrow> string prog" where
  "ask_username opts scripted label =
     (case lo_username opts of Some u \<Rightarrow> ret u | None \<Rightarrow> if str_truthy scripted then ret ''admin'' else readPrompt label)"

definition ask_password :: "string option \<Rightarrow> string \<Rightarrow> string prog" where
  "ask_password scripted label = (case scripted of Some p \<Rightarrow> ret p | None \<Rightarrow> readPassword label)"

definition login_bootstrap :: "client \<Rightarrow> login_opts \<Rightarrow> json \<Rightarrow> string option \<Rightarrow> unit prog" where
  "login_bootstrap api opts mode scripted =
     (if truthy (jprop mode ''users_configured'') then
        fail_with (''at least one user is already configured; bootstrap would be refused by the daemon.'' @ [chr_nl] @
          ''use `agentlock login` (no --bootstrap) to get a token for the existing user.'' @ [chr_nl]) 2
      else
        bindP (ask_username opts scripted ''new admin username: '') (\<lambda>username.
        bindP (ask_password scripted ''new admin password (>= 10 chars): '') (\<lambda>password.
        bindP (tryP (bindP (authBootstrap username password api) (\<lambda>_.
                 thenP (stdout_write (''created user '' @ [chr_dq] @ username @ [chr_dq] @ ''. logging in...'' @ [chr_nl])) (ret True)))
               (\<lambda>e. thenP (fail_with (''bootstrap failed: '' @ err_msg e @ [chr_nl]) 2) (ret False))) (\<lambda>ok.
        if ok then doLogin api username password (lo_json opts) else ret ()))))"

definition runLogin :: "login_opts \<Rightarrow> unit prog" where
  "runLogin opts =
     bindP (apiClient (lo_daemon opts) None) (\<lambda>api.
     bindP (tryP (bindP (authMode api) (\<lambda>m. ret (Some m)))
       (\<lambda>e. thenP (fail_with (''daemon unreachable at '' @ cl_url api @ '': '' @ err_msg e @ [chr_nl] @ start_hint) 2) (ret None))) (\<lambda>r.
     case r of
       None \<Rightarrow> ret ()
     | Some mode \<Rightarrow>
         bindP (propP mode ''mode.mode'') (\<lambda>_.
         if jprop mode ''mode'' = Some (JStr ''none'') then
           fail_with (''daemon auth is disabled (AGENTLOCK_AUTH=none). No login required.'' @ [chr_nl]) 0
         else if jprop mode ''mode'' \<noteq> Some (JStr ''password'') then
           fail_with (''daemon auth mode is '' @ js_ostring (jprop mode ''mode'') @
             ''; only password is CLI-wired today. See docs/guide/auth.md.'' @ [chr_nl]) 2
         else
           bindP (env_var ''AGENTLOCK_PASSWORD'') (\<lambda>envPw.
           let scripted = (case lo_password opts of Some p \<Rightarrow> Some p | None \<Rightarrow> envPw) in
           if lo_bootstrap opts then login_bootstrap api opts mode scripted
           else
             bindP (ask_username opts scripted ''username: '') (\<lambda>username.
             bindP (ask_password scripted ''password: '') (\<lambda>password.
             doLogin api username password (lo_json opts)))))))"

section \<open>The dashboard command\<close>

text \<open>The login in front of the dashboard: the client to go on with, or an early return.\<close>

definition dashboard_login :: "client \<Rightarrow> client option prog" where
  "dashboard_login api =
     bindP (authMode api) (\<lambda>mode.
     bindP (propP mode ''mode.mode'') (\<lambda>_.
     if jprop mode ''mode'' = Some (JStr ''password'') \<and> \<not> str_truthy (cl_token api) then
       (if \<not> truthy (jprop mode ''users_configured'') then
          thenP (fail_with (''daemon has AGENTLOCK_AUTH=password but no users configured.'' @ [chr_nl] @
            ''run `agentlock login --bootstrap` first.'' @ [chr_nl]) 2) (ret None)
        else
          thenP (stdout_write (''control-plane requires password auth. enter credentials:'' @ [chr_nl]))
          (bindP (readPrompt ''username: '') (\<lambda>username.
           bindP (readPassword ''password: '') (\<lambda>password.
           tryP (bindP (authLogin username password api) (\<lambda>(res, cl). ret (Some cl)))
             (\<lambda>e. thenP (fail_with (''login failed: '' @ err_msg e @ [chr_nl]) 2) (ret None))))))
     else ret (Some api)))"

definition runDashboard :: "(client \<Rightarrow> unit prog) \<Rightarrow> string option \<Rightarrow> string option \<Rightarrow> unit prog" where
  "runDashboard tui daemon token =
     bindP (apiClient daemon token) (\<lambda>api.
     bindP (tryP (bindP (health api) (\<lambda>_. ret True))
       (\<lambda>e. thenP (fail_with (''daemon unreachable at '' @ cl_url api @ '': '' @ err_msg e @ [chr_nl] @ start_hint) 2) (ret False))) (\<lambda>up.
     if \<not> up then ret ()
     else
       bindP (tryP (dashboard_login api) (\<lambda>_. ret (Some api))) (\<lambda>r.
       case r of None \<Rightarrow> ret () | Some cl \<Rightarrow> tui cl)))"

end
