(* ===== verification/FalsePositive.thy ===== *)
theory FalsePositive
  imports Commands
begin

text \<open>
  The false-positive workflow (\<open>cli/src/commands/false-positive.ts\<close>): exporting a case, applying its
  replacement, and drafting a patch for the rules repository.
\<close>

section \<open>Texts\<close>

text \<open>\<open>c.event\<close>, from which the code goes on to read: it throws on \<open>undefined\<close> and \<open>null\<close>.\<close>

definition eventP :: "json \<Rightarrow> json prog" where
  "eventP c =
     bindP (propP c ''c.event'') (\<lambda>_.
     case jprop c ''event'' of
       None \<Rightarrow> throw_msg (''undefined is not an object (evaluating '' @ [chr_sq] @ ''c.event'' @ [chr_sq] @ '')'')
     | Some JNull \<Rightarrow> throwP (type_error ''c.event'')
     | Some e \<Rightarrow> ret e)"

definition lines_text :: "string list \<Rightarrow> string" where
  "lines_text ls = concat (map (\<lambda>l. l @ [chr_nl]) ls)"

definition defaultReplacementYAML :: "json \<Rightarrow> string" where
  "defaultReplacementYAML e = lines_text
     ([''id: '' @ js_ostring (jprop e ''rule_id'') @ ''.replacement'', ''match:''] @
      (if truthy (jprop e ''tool'') then [''  tool: '' @ json_stringify (the (jprop e ''tool''))] else []) @
      [''  any_command_regex:'', ''    - '' @ [chr_sq] @ ''(?!)'' @ [chr_sq], ''evaluate:'', ''  - kind: always'', ''    action: deny''])"

definition caseReadme :: "json \<Rightarrow> string" where
  "caseReadme e = lines_text
     [''# AgentLock false-positive case'', '''', ''Event: #'' @ js_ostring (jprop e ''seq''), ''Source: '' @ js_ostring (jprop e ''source''),
      ''Rule: '' @ js_ostring (jprop e ''rule_id''), '''', ''Files:'', ''- `case.json`: redacted case bundle'',
      ''- `replacement.yaml`: replacement gate draft'', '''',
      ''Edit `replacement.yaml` so it blocks the malicious shape without denying this event, then run:'', '''', ''```bash'',
      ''agentlock false-positive apply .'', ''```'']"

definition rulesPatchReport :: "json \<Rightarrow> json \<Rightarrow> string" where
  "rulesPatchReport c e = lines_text
     [''# False positive report'', '''', ''Rule: `'' @ js_ostring (jprop e ''rule_id'') @ ''`'', ''Event seq: `'' @ js_ostring (jprop e ''seq'') @ ''`'',
      ''Source: `'' @ js_ostring (jprop e ''source'') @ ''`'',
      ''Tool: `'' @ js_ostring (nullish (jprop e ''tool'') (Some (JStr []))) @ ''`'', '''', ''## Redacted input'', '''', ''```json'',
      (case jprop c ''input'' of None \<Rightarrow> ''undefined'' | Some j \<Rightarrow> json_pretty 0 j), ''```'', '''', ''## Notes'', '''',
      ''The accompanying `replacement.rule.yaml` is a local replacement draft. Add registry fixtures that prove this false-positive input is allowed while the original malicious pattern still denies.'']"

text \<open>\<open>value.replace(/[^a-z0-9_.-]+/gi, "-").replace(/^-+|-+$/g, "") || "rule"\<close>\<close>

definition part_char :: "char \<Rightarrow> bool" where
  "part_char c \<longleftrightarrow> is_alnum c \<or> c = CHR ''_'' \<or> c = CHR ''.'' \<or> c = CHR ''-''"

fun dash_parts :: "bool \<Rightarrow> string \<Rightarrow> string" where
  "dash_parts inrun [] = []"
| "dash_parts inrun (c # cs) =
     (if part_char c then c # dash_parts False cs
      else if inrun then dash_parts True cs
      else CHR ''-'' # dash_parts True cs)"

definition trim_dashes :: "string \<Rightarrow> string" where
  "trim_dashes s = rev (dropWhile (\<lambda>c. c = CHR ''-'') (rev (dropWhile (\<lambda>c. c = CHR ''-'') s)))"

definition sanitizePathPart :: "string \<Rightarrow> string" where
  "sanitizePathPart value = (let t = trim_dashes (dash_parts False value) in if t = [] then ''rule'' else t)"

section \<open>Commands\<close>

definition readCase :: "string \<Rightarrow> json prog" where
  "readCase dir =
     (let p = path_join [dir, ''case.json''] in
      bindP (exists_sync p) (\<lambda>ex.
      if \<not> ex then throw_msg (''case.json not found in '' @ dir) else bindP (read_file p) parse_json))"

definition write_in :: "string \<Rightarrow> string \<Rightarrow> string \<Rightarrow> unit prog" where
  "write_in dir name t = write_file (path_join [dir, name]) t"

record case_opts =
  co_url :: "string option"
  co_out :: "string option"
  co_raw :: bool
  co_json :: bool

definition runFalsePositiveCreate :: "int \<Rightarrow> case_opts \<Rightarrow> unit prog" where
  "runFalsePositiveCreate sq opts =
     bindP (apiClient (co_url opts) None) (\<lambda>client.
     bindP (falsePositiveCase sq (Some (co_raw opts)) client) (\<lambda>c.
     bindP (case co_out opts of Some d \<Rightarrow> ret d
            | None \<Rightarrow> bindP (eventP c) (\<lambda>e. ret (''agentlock-false-positive-'' @ js_ostring (jprop e ''seq'')))) (\<lambda>name.
     bindP (getsP (\<lambda>w. path_resolve (w_cwd w) name)) (\<lambda>out.
     thenP (mkdir_p out)
     (bindP (eventP c) (\<lambda>e.
      thenP (write_in out ''case.json'' (json_pretty 0 c @ [chr_nl]))
     (thenP (write_in out ''replacement.yaml'' (defaultReplacementYAML e))
     (thenP (write_in out ''README.md'' (caseReadme e))
      (if co_json opts then print_json (obj_of [(''dir'', Some (JStr out)), (''seq'', jprop e ''seq''), (''raw'', Some (JBool (co_raw opts)))])
       else stdout_write (
         ''false-positive case written: '' @ out @ [chr_nl] @
         ''  event: #'' @ js_ostring (jprop e ''seq'') @ '' '' @ js_ostring (jprop e ''source'') @ '' '' @
           js_ostring (nullish (jprop e ''tool'') (Some (JStr []))) @ [chr_nl] @
         ''  rule: '' @ js_ostring (jprop e ''rule_id'') @ [chr_nl] @
         ''  raw event data: '' @ (if co_raw opts then ''included'' else ''redacted only'') @ [chr_nl] @
         [chr_nl] @ ''Edit replacement.yaml, then run:'' @ [chr_nl] @ ''  agentlock false-positive apply '' @ out @ [chr_nl]))))))))))"

definition validation_errors :: "json \<Rightarrow> string prog" where
  "validation_errors v =
     (case jprop v ''errors'' of
        None \<Rightarrow> ret ''  - validation failed''
      | Some JNull \<Rightarrow> ret ''  - validation failed''
      | Some (JArr es) \<Rightarrow> ret (join [chr_nl] (map (\<lambda>e. ''  - '' @ js_string e) es))
      | _ \<Rightarrow> throw_msg ''validation.errors?.map is not a function'')"

definition runFalsePositiveApply :: "string \<Rightarrow> string option \<Rightarrow> string option \<Rightarrow> bool \<Rightarrow> unit prog" where
  "runFalsePositiveApply caseDir url note_text jsn =
     bindP (getsP (\<lambda>w. path_resolve (w_cwd w) caseDir)) (\<lambda>dir.
     bindP (readCase dir) (\<lambda>c.
     bindP (read_file (path_join [dir, ''replacement.yaml''])) (\<lambda>replacement.
     bindP (apiClient url None) (\<lambda>client.
     bindP (falsePositiveValidate (JObj [(''case'', c), (''replacement_yaml'', JStr replacement)]) client) (\<lambda>validation.
     bindP (propP validation ''validation.ok'') (\<lambda>ok.
     if \<not> truthy (jprop validation ''ok'') then
       bindP (validation_errors validation) (\<lambda>errors. throw_msg (''replacement did not validate:'' @ [chr_nl] @ errors))
     else
       bindP (falsePositiveApply (obj_of [(''case'', Some c), (''replacement_yaml'', Some (JStr replacement)), (''note'', ostr note_text)]) client) (\<lambda>applied.
       if jsn then print_json applied
       else
         bindP (propP applied ''applied.disabled_id'') (\<lambda>_.
         stdout_write (''false-positive fix applied.'' @ [chr_nl] @
           ''  disabled: '' @ js_ostring (jprop applied ''disabled_id'') @ [chr_nl] @
           ''  replacement: '' @ js_ostring (jprop applied ''replacement_id'') @ [chr_nl] @
           ''  policy: '' @ js_ostring (jprop applied ''hash'') @ [chr_nl] @
           ''  reload sessions to pick up the new policy.'' @ [chr_nl])))))))))"

definition patch_dir :: "string \<Rightarrow> string \<Rightarrow> string \<Rightarrow> string" where
  "patch_dir repo rule_id sq = path_join [repo, ''drafts'', ''false-positive-'' @ sanitizePathPart rule_id @ ''-'' @ sq]"

definition runFalsePositiveRulesPatch :: "string \<Rightarrow> string \<Rightarrow> bool \<Rightarrow> unit prog" where
  "runFalsePositiveRulesPatch caseDir rulesRepo jsn =
     bindP (getsP (\<lambda>w. path_resolve (w_cwd w) caseDir)) (\<lambda>dir.
     bindP (getsP (\<lambda>w. path_resolve (w_cwd w) rulesRepo)) (\<lambda>repo.
     bindP (getsP (\<lambda>w. node_at w repo = Some Dir)) (\<lambda>isdir.
     if \<not> isdir then throw_msg (''rules repo not found: '' @ repo)
     else
       bindP (readCase dir) (\<lambda>c.
       bindP (read_file (path_join [dir, ''replacement.yaml''])) (\<lambda>replacement.
       bindP (eventP c) (\<lambda>e.
       bindP (str_prop e ''rule_id'') (\<lambda>rule_id.
       let out = patch_dir repo rule_id (js_ostring (jprop e ''seq'')) in
       thenP (mkdir_p out)
       (thenP (write_in out ''case.redacted.json'' (json_pretty 0 c @ [chr_nl]))
       (thenP (write_in out ''replacement.rule.yaml'' replacement)
       (thenP (write_in out ''REPORT.md'' (rulesPatchReport c e))
        (if jsn then print_json (JObj [(''dir'', JStr out)])
         else stdout_write (''rules patch draft written: '' @ out @ [chr_nl]))))))))))))"

section \<open>The draft stays in the repository\<close>

lemma dash_parts_chars: "c \<in> set (dash_parts b s) \<Longrightarrow> part_char c"
  by (induction b s rule: dash_parts.induct) (auto simp: part_char_def split: if_splits)

lemma trim_dashes_sub: "c \<in> set (trim_dashes s) \<Longrightarrow> c \<in> set s"
  by (auto simp: trim_dashes_def dest!: set_dropWhileD)

lemma sanitize_chars: "list_all part_char (sanitizePathPart v)"
proof (cases "trim_dashes (dash_parts False v) = []")
  case True
  then show ?thesis by (simp add: sanitizePathPart_def) (simp add: part_char_def is_alnum_def is_lower_def code_of_def)
next
  case False
  have "\<forall>c \<in> set (trim_dashes (dash_parts False v)). part_char c" using trim_dashes_sub dash_parts_chars by blast
  with False show ?thesis by (simp add: sanitizePathPart_def Let_def list_all_iff)
qed

lemma part_char_slash: "\<not> part_char CHR ''/''"
  by (simp add: part_char_def is_alnum_def is_lower_def is_upper_def is_digit_def code_of_def)

lemma path_join_three:
  assumes "starts_with ''/'' h" "plain_name f" "plain_name g"
  shows "path_join [h, f, g] = in_dir (in_dir h f) g"
proof -
  from assms have ne: "h \<noteq> []" "f \<noteq> []" "g \<noteq> []" by (auto simp: starts_with_def plain_name_def clean_seg_def)
  have ns: "CHR ''/'' \<notin> set f" "CHR ''/'' \<notin> set g" using assms(2,3) by (simp_all add: plain_name_def)
  obtain t where t: "h = CHR ''/'' # t" using assms(1) by (cases h) (auto simp: starts_with_def)
  let ?p = "h @ ''/'' @ f @ ''/'' @ g"
  have segs: "norm_segs True [] (split_on CHR ''/'' ?p) = dir_segs h @ [f, g]"
  proof -
    have "split_on CHR ''/'' ?p = split_on CHR ''/'' h @ [f, g]" using ns by (simp add: split_on_append split_on_no_sep)
    then show ?thesis
      using assms(2,3) norm_segs_id [of "[f, g]"] by (simp add: norm_segs_append plain_name_def dir_segs_def)
  qed
  have tr: "\<not> ends_with ''/'' ?p"
    using ne(3) ns(2) by (cases g rule: rev_cases) (auto simp: ends_with_def starts_with_def)
  have nb: "join ''/'' (dir_segs h @ [f, g]) \<noteq> []"
    using ne(2) by (cases "dir_segs h") (auto simp: join_Cons)
  have "path_join [h, f, g] = path_normalize ?p" using ne by (simp add: path_join_def)
  also have "\<dots> = key_of (dir_segs h @ [f, g])"
    using tr nb segs by (simp add: path_normalize_def Let_def t key_of_def starts_with_def)
  also have "\<dots> = in_dir (in_dir h f) g" by (simp add: in_dir_segs [OF assms(2)] in_dir_def [of "in_dir h f"])
  finally show ?thesis .
qed

text \<open>A draft for the rules repository stays inside its \<open>drafts\<close> directory: whatever the rule is called, slashes and dot segments
  included, the directory that is written is one plain name below \<open>drafts\<close>, as long as the event's sequence number has no slash.\<close>

theorem patch_dir_inside:
  assumes "starts_with ''/'' repo" and "CHR ''/'' \<notin> set sq"
  shows "\<exists>d. plain_name d \<and> patch_dir repo rule_id sq = in_dir (in_dir repo ''drafts'') d"
proof -
  let ?d = "''false-positive-'' @ sanitizePathPart rule_id @ ''-'' @ sq"
  have "CHR ''/'' \<notin> set (sanitizePathPart rule_id)" using sanitize_chars [of rule_id] part_char_slash by (auto simp: list_all_iff)
  with assms(2) have d: "plain_name ?d" by (simp add: plain_name_def clean_seg_def)
  moreover have "plain_name ''drafts''" by (simp add: plain_name_def clean_seg_def)
  ultimately show ?thesis using path_join_three [OF assms(1)] by (auto simp: patch_dir_def)
qed

theorem patch_dir_inside_witness:
  "\<exists>d. plain_name d \<and> patch_dir ''/repo'' ''../../etc'' ''7'' = in_dir (in_dir ''/repo'' ''drafts'') d"
  by (rule patch_dir_inside) (simp_all add: starts_with_def)

end
