(* ===== verification/CommandLine.thy ===== *)
theory CommandLine
  imports FalsePositive InstallFlow Doctor HookShims McpServer McpProxy
begin

text \<open>
  The entry point (\<open>cli/src/index.ts\<close>): what each subcommand does with the options the argument parser
  hands it. The parser itself is a library; a parsed command line is a value of \<open>cli_action\<close>. What lies
  outside the world of the commands (the cryptographic library, the QR renderer, the terminal dashboard, the
  keys pressed, the bytes piped in, the environment of the rule commands) is collected in \<open>cli_env\<close>.
\<close>

section \<open>Durations\<close>

definition duration_units :: "(char \<times> nat) list" where
  "duration_units = [(CHR ''s'', 1), (CHR ''m'', 60), (CHR ''h'', 3600), (CHR ''d'', 86400)]"

text \<open>The matches of \<open>/(\d+)(s|m|h|d)/g\<close>: digits are taken greedily, and a run without a unit matches nowhere.\<close>

function duration_matches :: "string \<Rightarrow> (string \<times> char) list" where
  "duration_matches [] = []"
| "duration_matches (c # cs) =
     (let ds = takeWhile is_digit (c # cs) in
      if ds = [] then duration_matches cs
      else
        (case dropWhile is_digit (c # cs) of
           [] \<Rightarrow> []
         | u # rest \<Rightarrow> if map_of duration_units u \<noteq> None then (ds, u) # duration_matches rest else duration_matches rest))"
  by pat_completeness auto
termination
proof (relation "measure length")
  fix c :: char and cs ds u rest
  assume "dropWhile is_digit (c # cs) = u # rest"
  then have "length (u # rest) \<le> length (c # cs)" by (metis length_dropWhile_le)
  then show "(rest, c # cs) \<in> measure length" by simp
  then show "(rest, c # cs) \<in> measure length" .
qed simp_all

definition remove_spaces :: "string \<Rightarrow> string" where
  "remove_spaces s = filter (\<lambda>c. \<not> is_space c) s"

definition duration_total :: "(string \<times> char) list \<Rightarrow> nat" where
  "duration_total ms = sum_list (map (\<lambda>(ds, u). read_nat 0 ds * the (map_of duration_units u)) ms)"

definition parseDurationSeconds :: "string \<Rightarrow> string + nat" where
  "parseDurationSeconds input =
     (let trimmed = remove_spaces input; ms = duration_matches trimmed;
          consumed = sum_list (map (\<lambda>(ds, u). length ds + 1) ms); total = duration_total ms in
      if total = 0 \<or> consumed \<noteq> length trimmed then
        Inl (''unrecognized duration '' @ [chr_dq] @ input @ [chr_dq] @ '' (try '' @ [chr_dq] @ ''30m'' @ [chr_dq] @ '', '' @ [chr_dq] @ ''4h'' @
             [chr_dq] @ '', '' @ [chr_dq] @ ''7d'' @ [chr_dq] @ '')'')
      else Inr total)"

text \<open>A duration in its own notation: numbers with their units, one after another.\<close>

definition duration_parts :: "(string \<times> char) list \<Rightarrow> bool" where
  "duration_parts ps \<longleftrightarrow> (\<forall>(ds, u) \<in> set ps. ds \<noteq> [] \<and> list_all is_digit ds \<and> map_of duration_units u \<noteq> None)"

definition duration_text :: "(string \<times> char) list \<Rightarrow> string" where
  "duration_text ps = concat (map (\<lambda>(ds, u). ds @ [u]) ps)"

lemma unit_not_digit: "map_of duration_units u \<noteq> None \<Longrightarrow> \<not> is_digit u"
  by (auto simp: duration_units_def is_digit_def code_of_def split: if_splits)

lemma digits_split:
  assumes "list_all is_digit ds" "\<not> is_digit u"
  shows "takeWhile is_digit (ds @ u # rest) = ds" "dropWhile is_digit (ds @ u # rest) = u # rest"
  using assms by (induction ds) auto

lemma matches_skip: "\<not> is_digit c \<Longrightarrow> duration_matches (c # cs) = duration_matches cs"
  by simp

lemma matches_digits: "list_all is_digit ds \<Longrightarrow> duration_matches ds = []"
proof (cases ds)
  case (Cons c cs)
  assume "list_all is_digit ds"
  then have "is_digit c" "\<forall>x \<in> set cs. is_digit x" by (simp_all add: Cons list_all_iff)
  moreover from this(2) have "dropWhile is_digit cs = []" by simp
  ultimately show ?thesis by (simp add: Cons Let_def del: dropWhile_eq_Nil_conv)
qed simp

lemma matches_unit:
  assumes "ds \<noteq> []" "list_all is_digit ds" "\<not> is_digit u"
  shows "duration_matches (ds @ u # rest) = (if map_of duration_units u \<noteq> None then [(ds, u)] else []) @ duration_matches rest"
proof -
  obtain c cs where c: "ds @ u # rest = c # cs" by (cases ds) auto
  have "takeWhile is_digit (c # cs) = ds" "dropWhile is_digit (c # cs) = u # rest"
    using digits_split [OF assms(2,3), of rest] by (simp_all only: c)
  with assms(1) have "duration_matches (c # cs) = (if map_of duration_units u \<noteq> None then (ds, u) # duration_matches rest else duration_matches rest)"
    by (subst duration_matches.simps) (simp only: Let_def if_False list.case)
  then show ?thesis by (simp add: c)
qed

lemma duration_induct [case_names nil skip digits unit]:
  assumes "P []" and "\<And>c cs. \<not> is_digit c \<Longrightarrow> P cs \<Longrightarrow> P (c # cs)" and "\<And>ds. list_all is_digit ds \<Longrightarrow> P ds"
    and "\<And>ds u rest. ds \<noteq> [] \<Longrightarrow> list_all is_digit ds \<Longrightarrow> \<not> is_digit u \<Longrightarrow> P rest \<Longrightarrow> P (ds @ u # rest)"
  shows "P s"
proof (induction s rule: measure_induct_rule [of length])
  case (less s)
  let ?t = "takeWhile is_digit s"
  have t: "list_all is_digit ?t" by (auto simp: list_all_iff dest: set_takeWhileD)
  have s: "s = ?t @ dropWhile is_digit s" by simp
  show ?case
  proof (cases "dropWhile is_digit s")
    case Nil
    with s t assms(3) show ?thesis by (metis append_Nil2)
  next
    case (Cons u rest)
    then have u: "\<not> is_digit u" using hd_dropWhile [of is_digit s] by auto
    from Cons s have e: "s = ?t @ u # rest" by simp
    then have "length s = length ?t + Suc (length rest)" by (metis length_append length_Cons)
    then have rest: "P rest" by (intro less) simp
    show ?thesis
    proof (cases "?t = []")
      case True
      with e have "s = u # rest" by simp
      with assms(2) [OF u rest] show ?thesis by simp
    next
      case False
      from assms(4) [OF this t u rest] e show ?thesis by simp
    qed
  qed
qed

lemma duration_matches_text: "duration_parts ps \<Longrightarrow> duration_matches (duration_text ps) = ps"
proof (induction ps)
  case (Cons p ps)
  obtain ds u where p: "p = (ds, u)" by fastforce
  with Cons.prems have ds: "ds \<noteq> []" "list_all is_digit ds" "map_of duration_units u \<noteq> None" and ps: "duration_parts ps"
    by (auto simp: duration_parts_def)
  have "duration_text (p # ps) = ds @ u # duration_text ps" by (simp add: duration_text_def p)
  with matches_unit [OF ds(1,2) unit_not_digit [OF ds(3)], of "duration_text ps"] ds(3) Cons.IH [OF ps] show ?case by (simp add: p)
qed (simp add: duration_text_def)

lemma duration_matches_parts: "duration_parts (duration_matches s)"
proof (induction s rule: duration_induct)
  case (unit ds u rest)
  then show ?case by (auto simp: matches_unit duration_parts_def)
qed (simp_all add: matches_skip matches_digits duration_parts_def)

definition consumed_by :: "(string \<times> char) list \<Rightarrow> nat" where
  "consumed_by ms = sum_list (map (\<lambda>(ds, u). length ds + 1) ms)"

lemma consumed_text: "consumed_by ms = length (duration_text ms)"
  by (induction ms) (auto simp: consumed_by_def duration_text_def)

lemma matches_consumed:
  "length (duration_text (duration_matches s)) \<le> length s \<and>
   (length (duration_text (duration_matches s)) = length s \<longrightarrow> duration_text (duration_matches s) = s)"
proof (induction s rule: duration_induct)
  case (digits ds)
  then show ?case by (simp add: matches_digits duration_text_def)
next
  case (unit ds u rest)
  have "duration_text (duration_matches (ds @ u # rest)) =
      (if map_of duration_units u \<noteq> None then ds @ [u] else []) @ duration_text (duration_matches rest)"
    by (simp add: matches_unit [OF unit(1-3)] duration_text_def)
  with unit(1,4) show ?case by auto
qed (simp_all add: matches_skip duration_text_def)

text \<open>A duration is accepted exactly when, spaces aside, it is nothing but numbers followed by one of the four units, and does not come
  to zero; it is then the sum of its parts. So \<open>1h30m\<close> is 5400, and \<open>5\<close>, \<open>1.5h\<close>, \<open>10x\<close> and the empty string are refused.\<close>

theorem duration_parsed:
  "parseDurationSeconds s = Inr n \<longleftrightarrow>
     (\<exists>parts. duration_parts parts \<and> remove_spaces s = duration_text parts \<and> n = duration_total parts \<and> n > 0)"
proof
  let ?ms = "duration_matches (remove_spaces s)"
  have c: "sum_list (map (\<lambda>(ds, u). length ds + 1) ?ms) = length (duration_text ?ms)"
    using consumed_text [of ?ms] by (simp add: consumed_by_def)
  {
    assume "parseDurationSeconds s = Inr n"
    then have "n = duration_total ?ms" "n > 0" "length (duration_text ?ms) = length (remove_spaces s)"
      using c by (simp_all add: parseDurationSeconds_def Let_def split: if_splits)
    with matches_consumed [of "remove_spaces s"] duration_matches_parts [of "remove_spaces s"]
    show "\<exists>parts. duration_parts parts \<and> remove_spaces s = duration_text parts \<and> n = duration_total parts \<and> n > 0"
      by (intro exI [of _ ?ms]) simp
  next
    assume "\<exists>parts. duration_parts parts \<and> remove_spaces s = duration_text parts \<and> n = duration_total parts \<and> n > 0"
    then obtain parts where p: "duration_parts parts" "remove_spaces s = duration_text parts" "n = duration_total parts" "n > 0" by blast
    then have "?ms = parts" by (simp add: duration_matches_text)
    with p c show "parseDurationSeconds s = Inr n" by (simp add: parseDurationSeconds_def Let_def)
  }
qed

section \<open>Subcommands\<close>

record cli_env =
  ce_crypto :: crypto
  ce_qr :: "string \<Rightarrow> string"
  ce_paths :: install_paths
  ce_keys :: "key_event list"
  ce_rules :: rules_env
  ce_tui :: "client \<Rightarrow> unit prog"
  ce_chunks :: "string list"
  ce_version :: string

datatype cli_action =
    Detect_cmd bool
  | Install_cmd bool "string option" "string option" "string option" "string option" "string option"
  | Dashboard_cmd "string option" "string option"
  | Login_cmd login_opts
  | Status_cmd "string option" bool
  | Doctor_cmd "string option" bool
  | Session_create_cmd session_opts
  | Session_end_cmd string "string option" bool
  | Session_rotate_cmd string session_opts
  | Signer_enroll_cmd string "string option" "string option" "string option" "string option" bool
  | Fake_hook_cmd fake_hook_opts
  | Ledger_root_cmd "string option" bool
  | Ledger_verify_cmd "string option" bool
  | Rules_add_cmd string "string option" bool
  | Rules_sources_cmd bool
  | Rules_sync_cmd bool
  | Rules_search_cmd "string option" bool
  | Rules_install_cmd string bool bool "string option" bool
  | Rules_uninstall_cmd string "string option" bool
  | Rules_remove_cmd string bool
  | Fp_case_cmd int case_opts
  | Fp_apply_cmd string "string option" "string option" bool
  | Fp_patch_cmd string string bool
  | Hook_cmd harness_cmd string
  | Mcp_server_cmd

definition install_argv :: "bool \<Rightarrow> string option \<Rightarrow> string option \<Rightarrow> string option \<Rightarrow> string option \<Rightarrow> string option \<Rightarrow> string list" where
  "install_argv yes daemon configDir tier code passphrase =
     (let flag = (\<lambda>f v. if str_truthy v then [f, the v] else []) in
      (if yes then [''--yes''] else []) @ flag ''--daemon'' daemon @ flag ''--config-dir'' configDir @ flag ''--tier'' tier @
      flag ''--code'' code @ flag ''--passphrase'' passphrase)"

definition refuse :: "string \<Rightarrow> unit prog" where
  "refuse m = thenP (stderr_write m) (exitP 2)"

definition tier_known :: "string \<Rightarrow> bool" where
  "tier_known t \<longleftrightarrow> t = ''software'' \<or> t = ''totp'' \<or> t = ''os-keychain''"

definition signers_url :: string where
  "signers_url = ''https://openagentlock.github.io/OpenAgentLock/guide/signers/'' @ [chr_nl]"

definition session_create_action :: "crypto \<Rightarrow> session_opts \<Rightarrow> unit prog" where
  "session_create_action c opts =
     (if \<not> tier_known (so_tier opts) then
        refuse (''--tier '' @ so_tier opts @ '' is not supported.'' @ [chr_nl] @
          ''available tiers: software (dev/CI), totp (recommended for prod), os-keychain (macOS).'' @ [chr_nl] @
          ''Hardware-key (YubiKey) tiers are on the roadmap; see'' @ [chr_nl] @ signers_url)
      else if so_tier opts = ''totp'' \<and> (\<not> str_truthy (so_code opts) \<or> \<not> str_truthy (so_pass opts)) then
        refuse (''--tier totp requires --code <6-digit> and --passphrase <pp>.'' @ [chr_nl] @
          ''enroll first with: agentlock signer enroll --tier totp --passphrase <pp>'' @ [chr_nl] @
          ''then read the current 6-digit code from your authenticator app.'' @ [chr_nl])
      else runSessionCreate c opts)"

definition session_rotate_action :: "crypto \<Rightarrow> string \<Rightarrow> session_opts \<Rightarrow> unit prog" where
  "session_rotate_action c i opts =
     (if \<not> tier_known (so_tier opts) then
        refuse (''--tier '' @ so_tier opts @ '' is not supported.'' @ [chr_nl] @
          ''available tiers: software (dev/CI), totp (recommended for prod), os-keychain (macOS).'' @ [chr_nl])
      else if so_tier opts = ''totp'' \<and> (\<not> str_truthy (so_code opts) \<or> \<not> str_truthy (so_pass opts)) then
        refuse (''--tier totp requires --code <6-digit> and --passphrase <pp>.'' @ [chr_nl])
      else runSessionRotate c i opts)"

definition enroll_ttl :: "string \<Rightarrow> string option \<Rightarrow> string + int option" where
  "enroll_ttl tier ttl =
     (if \<not> str_truthy ttl then Inr None
      else if tier \<noteq> ''os-keychain'' then Inl (''--ttl is only valid with --tier os-keychain.'' @ [chr_nl])
      else
        (case parseDurationSeconds (the ttl) of
           Inl e \<Rightarrow> Inl (''invalid --ttl: '' @ e @ [chr_nl])
         | Inr n \<Rightarrow> Inr (Some (int n))))"

definition signer_enroll_action ::
  "crypto \<Rightarrow> (string \<Rightarrow> string) \<Rightarrow> string \<Rightarrow> string option \<Rightarrow> string option \<Rightarrow> string option \<Rightarrow> string option \<Rightarrow> bool \<Rightarrow> unit prog" where
  "signer_enroll_action c qr tier passphrase label issuer ttl jsn =
     (if tier \<noteq> ''totp'' \<and> tier \<noteq> ''os-keychain'' then
        refuse (''--tier '' @ tier @ '' is not supported by '' @ [chr_sq] @ ''agentlock signer enroll'' @ [chr_sq] @ ''.'' @ [chr_nl] @
          ''currently supported: totp, os-keychain (macOS).'' @ [chr_nl] @
          ''Hardware-key (YubiKey) tiers are on the roadmap; see'' @ [chr_nl] @ signers_url)
      else if tier = ''totp'' \<and> \<not> str_truthy passphrase then
        refuse (''--passphrase <pp> is required for --tier totp (it seals the signing key on disk).'' @ [chr_nl])
      else
        (case enroll_ttl tier ttl of
           Inl e \<Rightarrow> refuse e
         | Inr ttlSeconds \<Rightarrow> runSignerEnroll c qr tier passphrase jsn label issuer ttlSeconds))"

text \<open>What \<open>mcp-proxy\<close> is run with: the words after the first occurrence of its name.\<close>

definition mcp_proxy_args :: "string list \<Rightarrow> string list" where
  "mcp_proxy_args argv = drop 1 (dropWhile (\<lambda>a. a \<noteq> ''mcp-proxy'') argv)"

fun run_action :: "cli_env \<Rightarrow> cli_action \<Rightarrow> unit prog" where
  "run_action e (Detect_cmd j) = runDetect j"
| "run_action e (Install_cmd yes daemon dir tier code pass) = runInstall (ce_crypto e) (ce_paths e) (ce_keys e) (install_argv yes daemon dir tier code pass)"
| "run_action e (Dashboard_cmd daemon token) = runDashboard (ce_tui e) daemon token"
| "run_action e (Login_cmd opts) = runLogin opts"
| "run_action e (Status_cmd url j) = runStatus url j"
| "run_action e (Doctor_cmd url j) = runDoctor url j (ce_version e)"
| "run_action e (Session_create_cmd opts) = session_create_action (ce_crypto e) opts"
| "run_action e (Session_end_cmd i url j) = runSessionEnd i url j"
| "run_action e (Session_rotate_cmd i opts) = session_rotate_action (ce_crypto e) i opts"
| "run_action e (Signer_enroll_cmd tier pass label issuer ttl j) = signer_enroll_action (ce_crypto e) (ce_qr e) tier pass label issuer ttl j"
| "run_action e (Fake_hook_cmd opts) = runFakeHook opts"
| "run_action e (Ledger_root_cmd url j) = runLedgerRoot url j"
| "run_action e (Ledger_verify_cmd url j) = runLedgerVerify url j"
| "run_action e (Rules_add_cmd url name j) = runRulesAdd (ce_rules e) url name \<lparr>ro_url = None, ro_json = j\<rparr>"
| "run_action e (Rules_sources_cmd j) = runRulesSources \<lparr>ro_url = None, ro_json = j\<rparr>"
| "run_action e (Rules_sync_cmd j) = runRulesSync (ce_rules e) \<lparr>ro_url = None, ro_json = j\<rparr>"
| "run_action e (Rules_search_cmd q j) = runRulesSearch (ce_rules e) q \<lparr>ro_url = None, ro_json = j\<rparr>"
| "run_action e (Rules_install_cmd spec rep repo url j) = runRulesInstall (ce_rules e) spec rep repo \<lparr>ro_url = url, ro_json = j\<rparr>"
| "run_action e (Rules_uninstall_cmd i url j) = runRulesUninstall i \<lparr>ro_url = url, ro_json = j\<rparr>"
| "run_action e (Rules_remove_cmd i j) = runRulesRemove i \<lparr>ro_url = None, ro_json = j\<rparr>"
| "run_action e (Fp_case_cmd n opts) = runFalsePositiveCreate n opts"
| "run_action e (Fp_apply_cmd dir url note_text j) = runFalsePositiveApply dir url note_text j"
| "run_action e (Fp_patch_cmd dir repo j) = runFalsePositiveRulesPatch dir repo j"
| "run_action e (Hook_cmd h event) = hook_command h event"
| "run_action e Mcp_server_cmd = runMcpServer (ce_chunks e)"

section \<open>The installer gets the options it was given\<close>

text \<open>The installer reads back the options of its subcommand: for any values but a tier it does not know, parsing the words the
  entry point passes on gives each flag the value that was given, and an empty value counts as none.\<close>

theorem install_options_roundtrip:
  assumes "tier = None \<or> tier = Some [] \<or> tier \<in> Some ` {''unattested'', ''software'', ''totp''}"
  shows "install_args (install_argv yes daemon dir tier code pass) no_flags =
    (let opt = (\<lambda>v. if str_truthy v then v else None) in
     Inr \<lparr>if_yes = yes, if_daemon = opt daemon, if_config = opt dir, if_tier = (if str_truthy tier then the tier else ''unattested''),
          if_code = opt code, if_pass = opt pass\<rparr>)"
proof -
  have flag: "install_args ((if str_truthy v then [a, the v] else []) @ rest) f = install_args rest f'"
    if "takes_value a" "a \<noteq> ''--yes''" "a \<noteq> ''-y''" "str_truthy v \<Longrightarrow> set_flag a v f = Inr f'" "\<not> str_truthy v \<Longrightarrow> f' = f" for a v rest f f'
  proof (cases "str_truthy v")
    case True
    then obtain x where "v = Some x" by (auto simp: str_truthy_def)
    with that True show ?thesis by simp
  qed (use that in simp)
  have d: "install_args ((if str_truthy v then [''--daemon'', the v] else []) @ rest) f =
      install_args rest (f\<lparr>if_daemon := (if str_truthy v then v else if_daemon f)\<rparr>)" for v rest f
    by (rule flag) (simp_all add: takes_value_def set_flag_def)
  have c: "install_args ((if str_truthy v then [''--config-dir'', the v] else []) @ rest) f =
      install_args rest (f\<lparr>if_config := (if str_truthy v then v else if_config f)\<rparr>)" for v rest f
    by (rule flag) (simp_all add: takes_value_def set_flag_def)
  have t: "install_args ((if str_truthy tier then [''--tier'', the tier] else []) @ rest) f =
      install_args rest (f\<lparr>if_tier := (if str_truthy tier then the tier else if_tier f)\<rparr>)" for rest f
    by (rule flag) (use assms in \<open>auto simp: takes_value_def set_flag_def str_truthy_def\<close>)
  have co: "install_args ((if str_truthy v then [''--code'', the v] else []) @ rest) f =
      install_args rest (f\<lparr>if_code := (if str_truthy v then v else if_code f)\<rparr>)" for v rest f
    by (rule flag) (simp_all add: takes_value_def set_flag_def)
  have p: "install_args ((if str_truthy v then [''--passphrase'', the v] else []) @ rest) f =
      install_args rest (f\<lparr>if_pass := (if str_truthy v then v else if_pass f)\<rparr>)" for v rest f
    by (rule flag) (simp_all add: takes_value_def set_flag_def)
  have y: "install_args ((if yes then [''--yes''] else []) @ rest) f = install_args rest (f\<lparr>if_yes := (yes \<or> if_yes f)\<rparr>)" for rest f
    by simp
  show ?thesis
    unfolding install_argv_def Let_def y d c t co p [where rest = "[]", unfolded append_Nil2] install_args.simps(1)
    by (simp add: no_flags_def)
qed

theorem install_options_roundtrip_witness:
  "install_args (install_argv True None (Some ''./dev'') (Some ''totp'') (Some ''123456'') (Some '''')) no_flags =
     Inr \<lparr>if_yes = True, if_daemon = None, if_config = Some ''./dev'', if_tier = ''totp'', if_code = Some ''123456'', if_pass = None\<rparr>"
  by (subst install_options_roundtrip) (simp_all add: str_truthy_def)

end
