(* ===== verification/CommandTable.thy ===== *)
theory CommandTable
  imports CommandLine "HOL-Library.Monad_Syntax"
begin

text \<open>
  The command table of the entry point (\<open>cli/src/index.ts\<close>): each command with the arguments and options it
  declares and the action attached to it. The parser that turns the words of a command line into option
  values is a library; what it promises about a declaration is \<open>fits\<close>. The actions read the option values
  under the type annotations of the source, which nothing checks at run time: a reader answers \<open>None\<close> where an
  annotation would be wrong. Help texts are left out.
\<close>

section \<open>Declarations\<close>

datatype opt_value = OBool bool | OText string | OTexts "string list"

type_synonym opt_values = "(string \<times> opt_value) list"

datatype opt_kind = Switch | Value | Values

record opt_decl =
  od_flags :: string
  od_key :: string
  od_kind :: opt_kind
  od_required :: bool
  od_default :: "opt_value option"

text \<open>What an action starts: a command, the help of the command itself, or the proxy on the words after its name.\<close>

datatype cli_start = Run cli_action | Show_help | Proxy "string list"

record cmd_decl =
  cd_path :: "string list"
  cd_args :: "(string \<times> bool) list"
  cd_opts :: "opt_decl list"
  cd_unknown :: bool
  cd_action :: "string list \<Rightarrow> string option list \<Rightarrow> opt_values \<Rightarrow> cli_start option"

definition option_decl :: "string \<Rightarrow> string \<Rightarrow> opt_kind \<Rightarrow> opt_decl" where
  "option_decl flags key kind = \<lparr>od_flags = flags, od_key = key, od_kind = kind, od_required = False, od_default = None\<rparr>"

definition required_option :: "string \<Rightarrow> string \<Rightarrow> opt_decl" where
  "required_option flags key = (option_decl flags key Value)\<lparr>od_required := True\<rparr>"

definition option_default :: "string \<Rightarrow> string \<Rightarrow> opt_kind \<Rightarrow> opt_value \<Rightarrow> opt_decl" where
  "option_default flags key kind v = (option_decl flags key kind)\<lparr>od_default := Some v\<rparr>"

definition json_option :: opt_decl where
  "json_option = option_default ''--json'' ''json'' Switch (OBool False)"

definition url_option :: opt_decl where
  "url_option = option_decl ''--url <url>'' ''url'' Value"

section \<open>Reading option values\<close>

text \<open>An annotation \<open>json: boolean\<close> or \<open>id: string\<close>: the value is there and of that type.\<close>

definition must_flag :: "string \<Rightarrow> opt_values \<Rightarrow> bool option" where
  "must_flag k os = (case map_of os k of Some (OBool b) \<Rightarrow> Some b | _ \<Rightarrow> None)"

definition must_text :: "string \<Rightarrow> opt_values \<Rightarrow> string option" where
  "must_text k os = (case map_of os k of Some (OText s) \<Rightarrow> Some s | _ \<Rightarrow> None)"

text \<open>An annotation \<open>url?: string\<close>: the value may be missing. A missing switch is as good as false to every reader.\<close>

definition may_flag :: "string \<Rightarrow> opt_values \<Rightarrow> bool option" where
  "may_flag k os = (case map_of os k of None \<Rightarrow> Some False | Some (OBool b) \<Rightarrow> Some b | _ \<Rightarrow> None)"

definition may_text :: "string \<Rightarrow> opt_values \<Rightarrow> string option option" where
  "may_text k os = (case map_of os k of None \<Rightarrow> Some None | Some (OText s) \<Rightarrow> Some (Some s) | _ \<Rightarrow> None)"

definition may_texts :: "string \<Rightarrow> opt_values \<Rightarrow> string list option option" where
  "may_texts k os = (case map_of os k of None \<Rightarrow> Some None | Some (OTexts s) \<Rightarrow> Some (Some s) | _ \<Rightarrow> None)"

text \<open>\<open>Number(seq)\<close> on decimal integers up to 2^53, surrounding white space ignored; the other literals of \<open>Number\<close> are left out.\<close>

definition signed_digits :: "string \<Rightarrow> bool \<times> string" where
  "signed_digits s =
     (case s of
        c # cs \<Rightarrow> if c = CHR ''-'' then (True, cs) else if c = CHR ''+'' then (False, cs) else (False, s)
      | [] \<Rightarrow> (False, s))"

definition seq_number :: "string \<Rightarrow> int option" where
  "seq_number s =
     (let t = trim s; (neg, ds) = signed_digits t; n = int (read_nat 0 ds) in
      if t = [] then Some 0
      else if ds \<noteq> [] \<and> list_all is_digit ds \<and> n \<le> 2 ^ 53 then Some (if neg then - n else n)
      else None)"

section \<open>The table\<close>

definition detect_decl :: cmd_decl where
  "detect_decl =
     \<lparr>cd_path = [''detect''], cd_args = [],
      cd_opts =
       [json_option],
      cd_unknown = False,
      cd_action = (\<lambda>argv args os. do {
         j \<leftarrow> must_flag ''json'' os;
         Some (Run (Detect_cmd j))})\<rparr>"

definition install_decl :: cmd_decl where
  "install_decl =
     \<lparr>cd_path = [''install''], cd_args = [],
      cd_opts =
       [option_decl ''-y, --yes'' ''yes'' Switch,
        option_decl ''--daemon <url>'' ''daemon'' Value,
        option_decl ''--config-dir <path>'' ''configDir'' Value,
        option_decl ''--tier <tier>'' ''tier'' Value,
        option_decl ''--code <code>'' ''code'' Value,
        option_decl ''--passphrase <pp>'' ''passphrase'' Value],
      cd_unknown = False,
      cd_action = (\<lambda>argv args os. do {
         yes \<leftarrow> may_flag ''yes'' os;
         daemon \<leftarrow> may_text ''daemon'' os;
         dir \<leftarrow> may_text ''configDir'' os;
         tier \<leftarrow> may_text ''tier'' os;
         code \<leftarrow> may_text ''code'' os;
         pass \<leftarrow> may_text ''passphrase'' os;
         Some (Run (Install_cmd yes daemon dir tier code pass))})\<rparr>"

definition dashboard_decl :: cmd_decl where
  "dashboard_decl =
     \<lparr>cd_path = [''dashboard''], cd_args = [],
      cd_opts =
       [option_decl ''--daemon <url>'' ''daemon'' Value,
        option_decl ''--token <token>'' ''token'' Value],
      cd_unknown = False,
      cd_action = (\<lambda>argv args os. do {
         daemon \<leftarrow> may_text ''daemon'' os;
         token \<leftarrow> may_text ''token'' os;
         Some (Run (Dashboard_cmd daemon token))})\<rparr>"

definition login_decl :: cmd_decl where
  "login_decl =
     \<lparr>cd_path = [''login''], cd_args = [],
      cd_opts =
       [option_decl ''--daemon <url>'' ''daemon'' Value,
        option_decl ''--bootstrap'' ''bootstrap'' Switch,
        option_decl ''--username <user>'' ''username'' Value,
        option_decl ''--password <password>'' ''password'' Value,
        json_option],
      cd_unknown = False,
      cd_action = (\<lambda>argv args os. do {
         daemon \<leftarrow> may_text ''daemon'' os;
         boot \<leftarrow> may_flag ''bootstrap'' os;
         user \<leftarrow> may_text ''username'' os;
         pass \<leftarrow> may_text ''password'' os;
         j \<leftarrow> must_flag ''json'' os;
         Some (Run (Login_cmd \<lparr>lo_daemon = daemon, lo_bootstrap = boot, lo_username = user, lo_password = pass, lo_json = j\<rparr>))})\<rparr>"

definition status_decl :: cmd_decl where
  "status_decl =
     \<lparr>cd_path = [''status''], cd_args = [],
      cd_opts =
       [url_option,
        json_option],
      cd_unknown = False,
      cd_action = (\<lambda>argv args os. do {
         url \<leftarrow> may_text ''url'' os;
         j \<leftarrow> must_flag ''json'' os;
         Some (Run (Status_cmd url j))})\<rparr>"

definition doctor_decl :: cmd_decl where
  "doctor_decl =
     \<lparr>cd_path = [''doctor''], cd_args = [],
      cd_opts =
       [url_option,
        json_option],
      cd_unknown = False,
      cd_action = (\<lambda>argv args os. do {
         url \<leftarrow> may_text ''url'' os;
         j \<leftarrow> must_flag ''json'' os;
         Some (Run (Doctor_cmd url j))})\<rparr>"

definition session_create_decl :: cmd_decl where
  "session_create_decl =
     \<lparr>cd_path = [''session'', ''create''], cd_args = [],
      cd_opts =
       [option_default ''--tier <tier>'' ''tier'' Value (OText ''software''),
        url_option,
        option_decl ''--policy-hash <hash>'' ''policyHash'' Value,
        option_decl ''--user-id <id>'' ''userId'' Value,
        option_decl ''--group <name...>'' ''group'' Values,
        option_decl ''--code <6-digit>'' ''code'' Value,
        option_decl ''--passphrase <pp>'' ''passphrase'' Value,
        json_option],
      cd_unknown = False,
      cd_action = (\<lambda>argv args os. do {
         tier \<leftarrow> must_text ''tier'' os;
         url \<leftarrow> may_text ''url'' os;
         hash \<leftarrow> may_text ''policyHash'' os;
         user \<leftarrow> may_text ''userId'' os;
         groups \<leftarrow> may_texts ''group'' os;
         code \<leftarrow> may_text ''code'' os;
         pass \<leftarrow> may_text ''passphrase'' os;
         j \<leftarrow> must_flag ''json'' os;
         Some (Run (Session_create_cmd \<lparr>so_tier = tier, so_url = url, so_json = j, so_policy = hash, so_code = code, so_pass = pass, so_user = user, so_groups = groups\<rparr>))})\<rparr>"

definition session_end_decl :: cmd_decl where
  "session_end_decl =
     \<lparr>cd_path = [''session'', ''end''], cd_args = [],
      cd_opts =
       [required_option ''--id <id>'' ''id'',
        url_option,
        json_option],
      cd_unknown = False,
      cd_action = (\<lambda>argv args os. do {
         i \<leftarrow> must_text ''id'' os;
         url \<leftarrow> may_text ''url'' os;
         j \<leftarrow> must_flag ''json'' os;
         Some (Run (Session_end_cmd i url j))})\<rparr>"

definition session_rotate_decl :: cmd_decl where
  "session_rotate_decl =
     \<lparr>cd_path = [''session'', ''rotate''], cd_args = [],
      cd_opts =
       [required_option ''--id <id>'' ''id'',
        option_default ''--tier <tier>'' ''tier'' Value (OText ''software''),
        url_option,
        option_decl ''--policy-hash <hash>'' ''policyHash'' Value,
        option_decl ''--user-id <id>'' ''userId'' Value,
        option_decl ''--group <name...>'' ''group'' Values,
        option_decl ''--code <6-digit>'' ''code'' Value,
        option_decl ''--passphrase <pp>'' ''passphrase'' Value,
        json_option],
      cd_unknown = False,
      cd_action = (\<lambda>argv args os. do {
         i \<leftarrow> must_text ''id'' os;
         tier \<leftarrow> must_text ''tier'' os;
         url \<leftarrow> may_text ''url'' os;
         hash \<leftarrow> may_text ''policyHash'' os;
         user \<leftarrow> may_text ''userId'' os;
         groups \<leftarrow> may_texts ''group'' os;
         code \<leftarrow> may_text ''code'' os;
         pass \<leftarrow> may_text ''passphrase'' os;
         j \<leftarrow> must_flag ''json'' os;
         Some (Run (Session_rotate_cmd i \<lparr>so_tier = tier, so_url = url, so_json = j, so_policy = hash, so_code = code, so_pass = pass, so_user = user, so_groups = groups\<rparr>))})\<rparr>"

definition signer_enroll_decl :: cmd_decl where
  "signer_enroll_decl =
     \<lparr>cd_path = [''signer'', ''enroll''], cd_args = [],
      cd_opts =
       [required_option ''--tier <tier>'' ''tier'',
        option_decl ''--passphrase <pp>'' ''passphrase'' Value,
        option_decl ''--label <label>'' ''label'' Value,
        option_decl ''--issuer <issuer>'' ''issuer'' Value,
        option_decl ''--ttl <duration>'' ''ttl'' Value,
        json_option],
      cd_unknown = False,
      cd_action = (\<lambda>argv args os. do {
         tier \<leftarrow> must_text ''tier'' os;
         pass \<leftarrow> may_text ''passphrase'' os;
         label \<leftarrow> may_text ''label'' os;
         issuer \<leftarrow> may_text ''issuer'' os;
         ttl \<leftarrow> may_text ''ttl'' os;
         j \<leftarrow> must_flag ''json'' os;
         Some (Run (Signer_enroll_cmd tier pass label issuer ttl j))})\<rparr>"

definition fake_hook_decl :: cmd_decl where
  "fake_hook_decl =
     \<lparr>cd_path = [''fake-hook''], cd_args = [],
      cd_opts =
       [required_option ''--session <id>'' ''session'',
        option_default ''--source <name>'' ''source'' Value (OText ''claude-code''),
        required_option ''--tool <name>'' ''tool'',
        option_decl ''--command <cmd>'' ''command'' Value,
        option_decl ''--file-path <path>'' ''filePath'' Value,
        option_decl ''--cwd <path>'' ''cwd'' Value,
        option_decl ''--input <json>'' ''input'' Value,
        url_option,
        json_option],
      cd_unknown = False,
      cd_action = (\<lambda>argv args os. do {
         sess \<leftarrow> must_text ''session'' os;
         source \<leftarrow> must_text ''source'' os;
         tool \<leftarrow> must_text ''tool'' os;
         cmd \<leftarrow> may_text ''command'' os;
         file \<leftarrow> may_text ''filePath'' os;
         cwd \<leftarrow> may_text ''cwd'' os;
         inp \<leftarrow> may_text ''input'' os;
         url \<leftarrow> may_text ''url'' os;
         j \<leftarrow> must_flag ''json'' os;
         Some (Run (Fake_hook_cmd
           \<lparr>fh_session = sess, fh_source = source, fh_tool = tool, fh_command = cmd, fh_file = file, fh_cwd = cwd, fh_url = url,
            fh_json = j, fh_input = inp\<rparr>))})\<rparr>"

definition ledger_root_decl :: cmd_decl where
  "ledger_root_decl =
     \<lparr>cd_path = [''ledger'', ''root''], cd_args = [],
      cd_opts =
       [url_option,
        json_option],
      cd_unknown = False,
      cd_action = (\<lambda>argv args os. do {
         url \<leftarrow> may_text ''url'' os;
         j \<leftarrow> must_flag ''json'' os;
         Some (Run (Ledger_root_cmd url j))})\<rparr>"

definition ledger_verify_decl :: cmd_decl where
  "ledger_verify_decl =
     \<lparr>cd_path = [''ledger'', ''verify''], cd_args = [],
      cd_opts =
       [url_option,
        json_option],
      cd_unknown = False,
      cd_action = (\<lambda>argv args os. do {
         url \<leftarrow> may_text ''url'' os;
         j \<leftarrow> must_flag ''json'' os;
         Some (Run (Ledger_verify_cmd url j))})\<rparr>"

definition rules_add_decl :: cmd_decl where
  "rules_add_decl =
     \<lparr>cd_path = [''rules'', ''add''], cd_args = [(''git-url'', True)],
      cd_opts =
       [option_decl ''--name <id>'' ''name'' Value,
        json_option],
      cd_unknown = False,
      cd_action = (\<lambda>argv args os. (case args of [Some git_url] \<Rightarrow> do {
         name \<leftarrow> may_text ''name'' os;
         j \<leftarrow> must_flag ''json'' os;
         Some (Run (Rules_add_cmd git_url name j))} | _ \<Rightarrow> None))\<rparr>"

definition rules_sources_decl :: cmd_decl where
  "rules_sources_decl =
     \<lparr>cd_path = [''rules'', ''sources''], cd_args = [],
      cd_opts =
       [json_option],
      cd_unknown = False,
      cd_action = (\<lambda>argv args os. do {
         j \<leftarrow> must_flag ''json'' os;
         Some (Run (Rules_sources_cmd j))})\<rparr>"

definition rules_sync_decl :: cmd_decl where
  "rules_sync_decl =
     \<lparr>cd_path = [''rules'', ''sync''], cd_args = [],
      cd_opts =
       [json_option],
      cd_unknown = False,
      cd_action = (\<lambda>argv args os. do {
         j \<leftarrow> must_flag ''json'' os;
         Some (Run (Rules_sync_cmd j))})\<rparr>"

definition rules_search_decl :: cmd_decl where
  "rules_search_decl =
     \<lparr>cd_path = [''rules'', ''search''], cd_args = [(''query'', False)],
      cd_opts =
       [json_option],
      cd_unknown = False,
      cd_action = (\<lambda>argv args os. (case args of [query] \<Rightarrow> do {
         j \<leftarrow> must_flag ''json'' os;
         Some (Run (Rules_search_cmd query j))} | _ \<Rightarrow> None))\<rparr>"

definition rules_install_decl :: cmd_decl where
  "rules_install_decl =
     \<lparr>cd_path = [''rules'', ''install''], cd_args = [(''ruleId'', True)],
      cd_opts =
       [option_decl ''--replace'' ''replace'' Switch,
        option_decl ''--repo'' ''repo'' Switch,
        url_option,
        json_option],
      cd_unknown = False,
      cd_action = (\<lambda>argv args os. (case args of [Some rule] \<Rightarrow> do {
         rep \<leftarrow> may_flag ''replace'' os;
         repo \<leftarrow> may_flag ''repo'' os;
         url \<leftarrow> may_text ''url'' os;
         j \<leftarrow> must_flag ''json'' os;
         Some (Run (Rules_install_cmd rule rep repo url j))} | _ \<Rightarrow> None))\<rparr>"

definition rules_uninstall_decl :: cmd_decl where
  "rules_uninstall_decl =
     \<lparr>cd_path = [''rules'', ''uninstall''], cd_args = [(''gateId'', True)],
      cd_opts =
       [url_option,
        json_option],
      cd_unknown = False,
      cd_action = (\<lambda>argv args os. (case args of [Some gate] \<Rightarrow> do {
         url \<leftarrow> may_text ''url'' os;
         j \<leftarrow> must_flag ''json'' os;
         Some (Run (Rules_uninstall_cmd gate url j))} | _ \<Rightarrow> None))\<rparr>"

definition rules_remove_decl :: cmd_decl where
  "rules_remove_decl =
     \<lparr>cd_path = [''rules'', ''remove''], cd_args = [(''registryId'', True)],
      cd_opts =
       [json_option],
      cd_unknown = False,
      cd_action = (\<lambda>argv args os. (case args of [Some registry] \<Rightarrow> do {
         j \<leftarrow> must_flag ''json'' os;
         Some (Run (Rules_remove_cmd registry j))} | _ \<Rightarrow> None))\<rparr>"

text \<open>The two commands that export a case read the same options.\<close>

definition fp_create :: "string \<Rightarrow> opt_values \<Rightarrow> cli_start option" where
  "fp_create s os =
     do {
       n \<leftarrow> seq_number s;
       url \<leftarrow> may_text ''url'' os;
       out \<leftarrow> may_text ''out'' os;
       raw \<leftarrow> may_flag ''includeRaw'' os;
       j \<leftarrow> must_flag ''json'' os;
       Some (Run (Fp_case_cmd n \<lparr>co_url = url, co_out = out, co_raw = raw, co_json = j\<rparr>))}"

definition false_positive_decl :: cmd_decl where
  "false_positive_decl =
     \<lparr>cd_path = [''false-positive''], cd_args = [(''seq'', False)],
      cd_opts =
       [url_option,
        option_decl ''--out <dir>'' ''out'' Value,
        option_default ''--include-raw'' ''includeRaw'' Switch (OBool False),
        json_option],
      cd_unknown = False,
      cd_action = (\<lambda>argv args os. (case args of [None] \<Rightarrow> Some Show_help | [Some s] \<Rightarrow> fp_create s os | _ \<Rightarrow> None))\<rparr>"

definition fp_case_decl :: cmd_decl where
  "fp_case_decl =
     \<lparr>cd_path = [''false-positive'', ''case''], cd_args = [(''seq'', True)],
      cd_opts =
       [url_option,
        option_decl ''--out <dir>'' ''out'' Value,
        option_default ''--include-raw'' ''includeRaw'' Switch (OBool False),
        json_option],
      cd_unknown = False,
      cd_action = (\<lambda>argv args os. (case args of [Some s] \<Rightarrow> fp_create s os | _ \<Rightarrow> None))\<rparr>"

definition fp_apply_decl :: cmd_decl where
  "fp_apply_decl =
     \<lparr>cd_path = [''false-positive'', ''apply''], cd_args = [(''case-dir'', True)],
      cd_opts =
       [url_option,
        option_decl ''--note <text>'' ''note'' Value,
        json_option],
      cd_unknown = False,
      cd_action = (\<lambda>argv args os. (case args of [Some dir] \<Rightarrow> do {
         url \<leftarrow> may_text ''url'' os;
         note_text \<leftarrow> may_text ''note'' os;
         j \<leftarrow> must_flag ''json'' os;
         Some (Run (Fp_apply_cmd dir url note_text j))} | _ \<Rightarrow> None))\<rparr>"

definition fp_patch_decl :: cmd_decl where
  "fp_patch_decl =
     \<lparr>cd_path = [''false-positive'', ''rules-patch''], cd_args = [(''case-dir'', True)],
      cd_opts =
       [required_option ''--rules-repo <path>'' ''rulesRepo'',
        json_option],
      cd_unknown = False,
      cd_action = (\<lambda>argv args os. (case args of [Some dir] \<Rightarrow> do {
         repo \<leftarrow> must_text ''rulesRepo'' os;
         j \<leftarrow> must_flag ''json'' os;
         Some (Run (Fp_patch_cmd dir repo j))} | _ \<Rightarrow> None))\<rparr>"

definition hook_decl :: "string \<Rightarrow> harness_cmd \<Rightarrow> cmd_decl" where
  "hook_decl name h =
     \<lparr>cd_path = [''hook'', name], cd_args = [(''event'', True)], cd_opts = [], cd_unknown = True,
      cd_action = (\<lambda>argv args os. (case args of [Some event] \<Rightarrow> Some (Run (Hook_cmd h event)) | _ \<Rightarrow> None))\<rparr>"

definition hook_decls :: "cmd_decl list" where
  "hook_decls =
     [hook_decl ''codex'' HCodex, hook_decl ''codex-desktop'' HCodexDesktop, hook_decl ''codex-auto'' HCodexAuto,
      hook_decl ''cursor'' HCursor, hook_decl ''gemini'' HGemini, hook_decl ''claude-code'' HClaudeCode]"

definition mcp_server_decl :: cmd_decl where
  "mcp_server_decl =
     \<lparr>cd_path = [''mcp-server''], cd_args = [],
      cd_opts =
       [],
      cd_unknown = False,
      cd_action = (\<lambda>argv args os. Some (Run Mcp_server_cmd))\<rparr>"

definition mcp_proxy_decl :: cmd_decl where
  "mcp_proxy_decl =
     \<lparr>cd_path = [''mcp-proxy''], cd_args = [],
      cd_opts =
       [],
      cd_unknown = True,
      cd_action = (\<lambda>argv args os. Some (Proxy (mcp_proxy_args argv)))\<rparr>"

definition commands :: "cmd_decl list" where
  "commands =
     [detect_decl, install_decl, dashboard_decl, login_decl,
      status_decl, doctor_decl, session_create_decl, session_end_decl,
      session_rotate_decl, signer_enroll_decl, fake_hook_decl, ledger_root_decl,
      ledger_verify_decl, rules_add_decl, rules_sources_decl, rules_sync_decl,
      rules_search_decl, rules_install_decl, rules_uninstall_decl, rules_remove_decl,
      false_positive_decl, fp_case_decl, fp_apply_decl, fp_patch_decl] @
     hook_decls @ [mcp_server_decl, mcp_proxy_decl]"

section \<open>A parsed command line\<close>

record parsed =
  pc_path :: "string list"
  pc_args :: "string option list"
  pc_opts :: opt_values

definition start_action :: "string list \<Rightarrow> parsed \<Rightarrow> cli_start option" where
  "start_action argv p =
     (case List.find (\<lambda>d. cd_path d = pc_path p) commands of
        None \<Rightarrow> None
      | Some d \<Rightarrow> cd_action d argv (pc_args p) (pc_opts p))"

text \<open>The program: what the parser handles itself (help, version, errors) is its own, the rest is an action.\<close>

definition agentlock ::
  "(cmd_decl list \<Rightarrow> string list \<Rightarrow> unit prog + parsed) \<Rightarrow> (string list \<Rightarrow> unit prog) \<Rightarrow> (string list \<Rightarrow> unit prog) \<Rightarrow>
   cli_env \<Rightarrow> string list \<Rightarrow> unit prog option" where
  "agentlock parse help proxy e argv =
     (case parse commands argv of
        Inl m \<Rightarrow> Some m
      | Inr p \<Rightarrow>
          (case start_action argv p of
             None \<Rightarrow> None
           | Some (Run a) \<Rightarrow> Some (run_action e a)
           | Some Show_help \<Rightarrow> Some (help (pc_path p))
           | Some (Proxy ws) \<Rightarrow> Some (proxy ws)))"

text \<open>What the parser promises for a declaration: every value has the kind of its option, required options and options with a
  default are there, and the arguments are those declared.\<close>

fun of_kind :: "opt_kind \<Rightarrow> opt_value \<Rightarrow> bool" where
  "of_kind Switch (OBool b) = True"
| "of_kind Value (OText s) = True"
| "of_kind Values (OTexts ss) = True"
| "of_kind _ _ = False"

definition opt_fits :: "opt_values \<Rightarrow> opt_decl \<Rightarrow> bool" where
  "opt_fits os d =
     (case map_of os (od_key d) of
        None \<Rightarrow> \<not> od_required d \<and> od_default d = None
      | Some v \<Rightarrow> of_kind (od_kind d) v)"

definition fits :: "cmd_decl \<Rightarrow> parsed \<Rightarrow> bool" where
  "fits d p \<longleftrightarrow>
     pc_path p = cd_path d \<and> list_all2 (\<lambda>(n, r) a. r \<longrightarrow> a \<noteq> None) (cd_args d) (pc_args p) \<and>
     list_all (opt_fits (pc_opts p)) (cd_opts d)"

section \<open>Declared options reach their commands\<close>

text \<open>What a command line says about an option: a switch not given is off.\<close>

definition given :: "opt_decl \<Rightarrow> opt_values \<Rightarrow> opt_value option option" where
  "given d os =
     (case od_kind d of
        Switch \<Rightarrow> map_option (\<lambda>b. Some (OBool b)) (may_flag (od_key d) os)
      | Value \<Rightarrow> map_option (map_option OText) (may_text (od_key d) os)
      | Values \<Rightarrow> map_option (map_option OTexts) (may_texts (od_key d) os))"

named_theorems opt_reads
named_theorems decl_defs

lemmas [decl_defs] = option_decl_def required_option_def option_default_def json_option_def url_option_def

lemma fits_must_flag [opt_reads]:
  "opt_fits os \<lparr>od_flags = f, od_key = k, od_kind = Switch, od_required = r, od_default = Some v\<rparr> \<Longrightarrow>
   \<exists>b. must_flag k os = Some b \<and> may_flag k os = Some b"
  by (auto simp: opt_fits_def must_flag_def may_flag_def split: option.splits elim: of_kind.elims)

lemma fits_may_flag [opt_reads]:
  "opt_fits os \<lparr>od_flags = f, od_key = k, od_kind = Switch, od_required = r, od_default = None\<rparr> \<Longrightarrow> \<exists>b. may_flag k os = Some b"
  by (auto simp: opt_fits_def may_flag_def split: option.splits elim: of_kind.elims)

lemma fits_default_text [opt_reads]:
  "opt_fits os \<lparr>od_flags = f, od_key = k, od_kind = Value, od_required = r, od_default = Some v\<rparr> \<Longrightarrow>
   \<exists>s. must_text k os = Some s \<and> may_text k os = Some (Some s)"
  by (auto simp: opt_fits_def must_text_def may_text_def split: option.splits elim: of_kind.elims)

lemma fits_required_text [opt_reads]:
  "opt_fits os \<lparr>od_flags = f, od_key = k, od_kind = Value, od_required = True, od_default = v\<rparr> \<Longrightarrow>
   \<exists>s. must_text k os = Some s \<and> may_text k os = Some (Some s)"
  by (auto simp: opt_fits_def must_text_def may_text_def split: option.splits elim: of_kind.elims)

lemma fits_may_text [opt_reads]:
  "opt_fits os \<lparr>od_flags = f, od_key = k, od_kind = Value, od_required = False, od_default = None\<rparr> \<Longrightarrow> \<exists>s. may_text k os = Some s"
  by (auto simp: opt_fits_def may_text_def split: option.splits elim: of_kind.elims)

lemma fits_may_texts [opt_reads]:
  "opt_fits os \<lparr>od_flags = f, od_key = k, od_kind = Values, od_required = False, od_default = None\<rparr> \<Longrightarrow> \<exists>s. may_texts k os = Some s"
  by (auto simp: opt_fits_def may_texts_def split: option.splits elim: of_kind.elims)

definition seq_given :: "cmd_decl \<Rightarrow> parsed \<Rightarrow> bool" where
  "seq_given d p \<longleftrightarrow>
     (cd_path d \<in> {[''false-positive''], [''false-positive'', ''case'']} \<longrightarrow> (\<forall>s. Some s \<in> set (pc_args p) \<longrightarrow> seq_number s \<noteq> None))"

definition reaches :: "cmd_decl \<Rightarrow> bool" where
  "reaches d \<longleftrightarrow>
     (\<forall>argv p q a. fits d p \<longrightarrow> fits d q \<longrightarrow> seq_given d p \<longrightarrow> seq_given d q \<longrightarrow>
        cd_action d argv (pc_args p) (pc_opts p) \<noteq> None \<and>
        (cd_action d argv (pc_args p) (pc_opts p) = Some (Run a) \<longrightarrow> cd_action d argv (pc_args q) (pc_opts q) = Some (Run a) \<longrightarrow>
         list_all (\<lambda>x. given x (pc_opts p) = given x (pc_opts q)) (cd_opts d)))"

lemmas [decl_defs] =
  reaches_def fits_def seq_given_def given_def list_all2_Cons1 fp_create_def
  detect_decl_def install_decl_def dashboard_decl_def login_decl_def status_decl_def doctor_decl_def session_create_decl_def session_end_decl_def session_rotate_decl_def signer_enroll_decl_def fake_hook_decl_def ledger_root_decl_def ledger_verify_decl_def rules_add_decl_def rules_sources_decl_def rules_sync_decl_def rules_search_decl_def rules_install_decl_def rules_uninstall_decl_def rules_remove_decl_def false_positive_decl_def fp_case_decl_def fp_apply_decl_def fp_patch_decl_def mcp_server_decl_def mcp_proxy_decl_def hook_decl_def

lemma lead_reach:
  "reaches detect_decl"
  "reaches install_decl"
  "reaches dashboard_decl"
  "reaches login_decl"
  "reaches status_decl"
  "reaches doctor_decl"
  "reaches session_create_decl"
  "reaches session_end_decl"
  "reaches session_rotate_decl"
  "reaches signer_enroll_decl"
  "reaches fake_hook_decl"
  "reaches ledger_root_decl"
  "reaches ledger_verify_decl"
  "reaches rules_add_decl"
  "reaches rules_sources_decl"
  "reaches rules_sync_decl"
  "reaches rules_search_decl"
  "reaches rules_install_decl"
  "reaches rules_uninstall_decl"
  "reaches rules_remove_decl"
  "reaches fp_case_decl"
  "reaches fp_apply_decl"
  "reaches fp_patch_decl"
  "reaches mcp_server_decl"
  "reaches mcp_proxy_decl"
  "reaches (hook_decl n h)"
  by (auto simp: decl_defs dest!: opt_reads)

lemma false_positive_reach: "reaches false_positive_decl"
  by (auto simp: decl_defs split: option.splits dest!: opt_reads)

lemma commands_reach: "list_all reaches commands"
  by (simp add: commands_def hook_decls_def lead_reach false_positive_reach)

text \<open>The names of the commands are all different, so the action found is the one declared.\<close>

lemma paths_distinct: "distinct (map cd_path commands)"
  by (simp add: commands_def hook_decls_def decl_defs)

lemma find_path: "distinct (map f xs) \<Longrightarrow> x \<in> set xs \<Longrightarrow> List.find (\<lambda>y. f y = f x) xs = Some x"
  by (induction xs) (auto simp: image_iff)

lemma start_declared:
  "d \<in> set commands \<Longrightarrow> pc_path p = cd_path d \<Longrightarrow> start_action argv p = cd_action d argv (pc_args p) (pc_opts p)"
  by (simp add: start_action_def find_path [OF paths_distinct])



lemma agentlock_starts:
  assumes "\<And>p. parse commands argv = Inr p \<Longrightarrow> \<exists>d \<in> set commands. fits d p \<and> seq_given d p"
  shows "agentlock parse help proxy e argv \<noteq> None"
proof (cases "parse commands argv")
  case (Inr p)
  with assms obtain d where "d \<in> set commands" "fits d p" "seq_given d p" by blast
  moreover from this have "start_action argv p = cd_action d argv (pc_args p) (pc_opts p)" by (simp add: start_declared fits_def)
  ultimately have "start_action argv p \<noteq> None" using commands_reach by (auto simp: list_all_iff reaches_def)
  with Inr show ?thesis by (auto simp: agentlock_def split: cli_start.split)
qed (simp add: agentlock_def)

section \<open>Options declared twice\<close>

text \<open>The command \<open>false-positive\<close> declares the options of its subcommand \<open>case\<close> again. The parser, as documented, looks for the
  options of a command before and after its subcommands, so it gives these to \<open>false-positive\<close> and leaves the subcommand
  with its defaults: whatever stood on the command line, the case is exported without them.\<close>

lemma case_options_lost:
  assumes "fits fp_case_decl p" "seq_given fp_case_decl p"
    and shared: "\<forall>x \<in> set (cd_opts fp_case_decl) \<inter> set (cd_opts false_positive_decl). map_of (pc_opts p) (od_key x) = od_default x"
  shows "\<exists>n. start_action argv p = Some (Run (Fp_case_cmd n \<lparr>co_url = None, co_out = None, co_raw = False, co_json = False\<rparr>))"
proof -
  have d: "fp_case_decl \<in> set commands" by (simp add: commands_def)
  have "start_action argv p = cd_action fp_case_decl argv (pc_args p) (pc_opts p)"
    using assms(1) by (intro start_declared d) (simp add: fits_def)
  then show ?thesis using assms by (auto simp: decl_defs must_flag_def may_flag_def may_text_def)
qed

lemma case_options_lost_witness:
  "\<exists>n. start_action []
     \<lparr>pc_path = [''false-positive'', ''case''], pc_args = [Some ''5''], pc_opts = [(''includeRaw'', OBool False), (''json'', OBool False)]\<rparr> =
     Some (Run (Fp_case_cmd n \<lparr>co_url = None, co_out = None, co_raw = False, co_json = False\<rparr>))"
  by (rule case_options_lost) (simp_all add: decl_defs opt_fits_def seq_number_def signed_digits_def trim_def trim_start_def trim_end_def
        is_space_def is_digit_def code_of_def digit_val_def Let_def)

end
