(* ===== verification/WebData.thy ===== *)
theory WebData
  imports Node
begin

text \<open>
  The data of the web dashboard and the pure functions over it
  (\<open>control-plane/dashboard-ui/src/lib\<close>: \<open>types.ts\<close>, \<open>filters.ts\<close>, \<open>time.ts\<close>, \<open>ledgerEntryDisplay.ts\<close>,
  \<open>rulePresetTypes.ts\<close>, \<open>eventRulePreset.ts\<close>): ledger entries and their subject, the newest outcome per
  tool call, and the rule proposed for an entry, with the meaning of the pattern it contains.
\<close>

section \<open>Ledger entries\<close>

record ledger_entry =
  le_seq :: int
  le_ts :: string
  le_source :: string
  le_tool :: "string option"
  le_tool_use_id :: string
  le_signer :: string
  le_input :: "json option"
  le_tool_input :: "json option"
  le_rule_id :: "string option"
  le_verdict :: "string option"
  le_monitor_match :: bool
  le_policy_trace :: "json option"
  le_payload_hash :: string
  le_sig :: string
  le_leaf_hash :: string
  le_prev_leaf :: string

text \<open>
  The cast \<open>as LedgerEntry\<close>: each field read at its declared type. An absent flag counts as false, as
  every reader tests it for truth.
\<close>

definition str_field :: "json \<Rightarrow> string \<Rightarrow> string option" where
  "str_field j k = (case jprop j k of Some (JStr s) \<Rightarrow> Some s | _ \<Rightarrow> None)"

definition num_field :: "json \<Rightarrow> string \<Rightarrow> int" where
  "num_field j k = (case jprop j k of Some (JNum d) \<Rightarrow> dec_floor d | _ \<Rightarrow> 0)"

definition or_empty :: "string option \<Rightarrow> string" where
  "or_empty v = (case v of None \<Rightarrow> [] | Some s \<Rightarrow> s)"

definition entry_of_json :: "json \<Rightarrow> ledger_entry" where
  "entry_of_json j =
     \<lparr>le_seq = num_field j ''seq'', le_ts = or_empty (str_field j ''ts''), le_source = or_empty (str_field j ''source''),
      le_tool = str_field j ''tool'', le_tool_use_id = or_empty (str_field j ''tool_use_id''),
      le_signer = or_empty (str_field j ''signer''), le_input = jprop j ''input'', le_tool_input = jprop j ''tool_input'',
      le_rule_id = str_field j ''rule_id'', le_verdict = str_field j ''verdict'',
      le_monitor_match = truthy (jprop j ''monitor_match''), le_policy_trace = jprop j ''policy_trace'', le_payload_hash = or_empty (str_field j ''payload_hash''),
      le_sig = or_empty (str_field j ''sig''), le_leaf_hash = or_empty (str_field j ''leaf_hash''),
      le_prev_leaf = or_empty (str_field j ''prev_leaf'')\<rparr>"

section \<open>Filters and times\<close>

definition INTERNAL_SOURCES :: "string set" where
  "INTERNAL_SOURCES = {''system'', ''installer'', ''admin''}"

definition INTERNAL_HARNESSES :: "string set" where
  "INTERNAL_HARNESSES = {''installer'', ''system'', ''admin'', ''unknown'', ''''}"

definition isInternalSource :: "string option \<Rightarrow> bool" where
  "isInternalSource src = (case src of None \<Rightarrow> True | Some s \<Rightarrow> s \<in> INTERNAL_SOURCES)"

definition isInternalHarness :: "string option \<Rightarrow> bool" where
  "isInternalHarness h = (case h of None \<Rightarrow> True | Some s \<Rightarrow> s \<in> INTERNAL_HARNESSES)"

definition shortHash :: "string option \<Rightarrow> nat \<Rightarrow> string" where
  "shortHash h n =
     (case h of None \<Rightarrow> []
      | Some s \<Rightarrow>
          if s = [] then []
          else (let stripped = (if starts_with ''sha256:'' s then drop (length ''sha256:'') s else s) in
                if length stripped \<le> n then stripped else take n stripped))"

text \<open>\<open>Date\<close> is part of the host: how it reads a time stamp (\<open>None\<close>: not a date) and writes it in the locale.\<close>

record locale_dates =
  ld_parse :: "string \<Rightarrow> int option"
  ld_time :: "int \<Rightarrow> string"
  ld_full :: "int \<Rightarrow> string"

definition shortTime :: "locale_dates \<Rightarrow> string option \<Rightarrow> string" where
  "shortTime l ts =
     (case ts of None \<Rightarrow> []
      | Some s \<Rightarrow> if s = [] then [] else (case ld_parse l s of None \<Rightarrow> s | Some d \<Rightarrow> ld_time l d))"

definition fullLocal :: "locale_dates \<Rightarrow> string option \<Rightarrow> string" where
  "fullLocal l ts =
     (case ts of None \<Rightarrow> []
      | Some s \<Rightarrow> if s = [] then [] else (case ld_parse l s of None \<Rightarrow> s | Some d \<Rightarrow> ld_full l d))"

section \<open>What a row shows\<close>

definition isOutcomeEntry :: "ledger_entry \<Rightarrow> bool" where
  "isOutcomeEntry e \<longleftrightarrow> le_verdict e = Some ''complete'' \<or> le_verdict e = Some ''failure''"

text \<open>The loop of \<open>outcomeByToolUseId\<close>, one entry at a time, on the map built so far.\<close>

definition note_outcome :: "ledger_entry \<Rightarrow> (string \<rightharpoonup> ledger_entry) \<Rightarrow> (string \<rightharpoonup> ledger_entry)" where
  "note_outcome e out =
     (if \<not> isOutcomeEntry e \<or> le_tool_use_id e = [] then out
      else (case out (le_tool_use_id e) of
              None \<Rightarrow> out(le_tool_use_id e \<mapsto> e)
            | Some current \<Rightarrow> if le_seq current < le_seq e then out(le_tool_use_id e \<mapsto> e) else out))"

definition outcomeByToolUseId :: "ledger_entry list \<Rightarrow> (string \<rightharpoonup> ledger_entry)" where
  "outcomeByToolUseId entries = fold note_outcome entries Map.empty"

fun stringField :: "json \<Rightarrow> string list \<Rightarrow> string option" where
  "stringField input [] = None"
| "stringField input (k # ks) =
     (case jprop input k of
        Some (JStr v) \<Rightarrow> if trim v \<noteq> [] then Some (trim v) else stringField input ks
      | _ \<Rightarrow> stringField input ks)"

datatype subject_label = SubCommand | SubPath | SubUrl

text \<open>\<open>entry.input ?? entry.tool_input\<close>, where a falsy result is returned early.\<close>

definition entry_input :: "ledger_entry \<Rightarrow> json option" where
  "entry_input e = (let i = nullish (le_input e) (le_tool_input e) in if truthy i then i else None)"

definition subjectFromLedgerEntry :: "ledger_entry \<Rightarrow> (subject_label \<times> string) option" where
  "subjectFromLedgerEntry e =
     (case entry_input e of None \<Rightarrow> None
      | Some i \<Rightarrow>
          (case stringField i [''command''] of Some c \<Rightarrow> Some (SubCommand, c)
           | None \<Rightarrow>
               (case stringField i [''file_path'', ''path''] of Some p \<Rightarrow> Some (SubPath, p)
                | None \<Rightarrow> map_option (\<lambda>u. (SubUrl, u)) (stringField i [''url'']))))"

section \<open>The rule proposed for an entry\<close>

datatype rule_type = RtBash | RtPkgInstall | RtDestructive | RtSecretRead | RtNetEgressUrl | RtCustom

record rule_preset =
  rp_ruleType :: "rule_type option"
  rp_id :: "string option"
  rp_tool :: "string option"
  rp_commandRegexes :: "string option"
  rp_pathRegexes :: "string option"
  rp_urlRegexes :: "string option"
  rp_action :: "string option"
  rp_mode :: "string option"

definition regex_specials :: string where
  "regex_specials = [chr_bs] @ ''^$.*+?()[]{}|''"

definition escapeRegexLiteral :: "string \<Rightarrow> string" where
  "escapeRegexLiteral v = concat (map (\<lambda>c. if c \<in> set regex_specials then [chr_bs, c] else [c]) v)"

definition exactRegex :: "string \<Rightarrow> string" where
  "exactRegex v = ''^'' @ escapeRegexLiteral v @ ''$''"

definition tool_or :: "string \<Rightarrow> ledger_entry \<Rightarrow> string" where
  "tool_or d e = (case le_tool e of None \<Rightarrow> d | Some t \<Rightarrow> if t = [] then d else t)"

definition block_preset :: "ledger_entry \<Rightarrow> rule_type \<Rightarrow> string \<Rightarrow> rule_preset" where
  "block_preset e t tool =
     \<lparr>rp_ruleType = Some t, rp_id = Some (''dashboard.block-'' @ int_str (le_seq e)), rp_tool = Some tool,
      rp_commandRegexes = None, rp_pathRegexes = None, rp_urlRegexes = None,
      rp_action = Some ''deny'', rp_mode = Some ''inherit''\<rparr>"

definition rulePresetFromLedgerEntry :: "ledger_entry \<Rightarrow> rule_preset option" where
  "rulePresetFromLedgerEntry e =
     (case entry_input e of None \<Rightarrow> None
      | Some i \<Rightarrow>
          (case stringField i [''command''] of
             Some c \<Rightarrow> Some ((block_preset e RtBash (tool_or ''Bash'' e))\<lparr>rp_commandRegexes := Some (exactRegex c)\<rparr>)
           | None \<Rightarrow>
               (case stringField i [''file_path'', ''path''] of
                  Some p \<Rightarrow> Some ((block_preset e RtSecretRead (tool_or ''Read'' e))\<lparr>rp_pathRegexes := Some (exactRegex p)\<rparr>)
                | None \<Rightarrow>
                    (case stringField i [''url''] of
                       Some u \<Rightarrow> Some ((block_preset e RtNetEgressUrl (tool_or ''WebFetch'' e))\<lparr>rp_urlRegexes := Some (exactRegex u)\<rparr>)
                     | None \<Rightarrow> None))))"

section \<open>The meaning of a literal pattern\<close>

text \<open>
  Patterns made of literal characters and escaped specials, with an optional anchor at either end: the
  fragment of the regular expressions of JavaScript and of the daemon that \<open>exactRegex\<close> writes. \<open>rx_lit\<close>
  reads the literal text and whether a closing anchor follows; \<open>rx_match\<close> is the unanchored search both
  engines perform. \<open>None\<close> is a pattern outside the fragment.
\<close>

fun rx_lit :: "string \<Rightarrow> (string \<times> bool) option" where
  "rx_lit [] = Some ([], False)"
| "rx_lit [c] = (if c = CHR ''$'' then Some ([], True) else if c \<in> set regex_specials then None else Some ([c], False))"
| "rx_lit (c # d # cs) =
     (if c = chr_bs then (if d \<in> set regex_specials then map_option (apfst (Cons d)) (rx_lit cs) else None)
      else if c \<in> set regex_specials then None
      else map_option (apfst (Cons c)) (rx_lit (d # cs)))"

definition rx_match :: "string \<Rightarrow> string \<Rightarrow> bool option" where
  "rx_match p s =
     (if starts_with ''^'' p
      then map_option (\<lambda>(l, closed). if closed then s = l else starts_with l s) (rx_lit (drop 1 p))
      else map_option (\<lambda>(l, closed). if closed then ends_with l s else str_includes l s) (rx_lit p))"

lemma bs_special [simp]: "chr_bs \<in> set regex_specials" by (simp add: regex_specials_def)
lemma dollar_special [simp]: "CHR ''$'' \<in> set regex_specials" by (simp add: regex_specials_def)

lemma escapeRegexLiteral_Cons:
  "escapeRegexLiteral (c # v) = (if c \<in> set regex_specials then [chr_bs, c] else [c]) @ escapeRegexLiteral v"
  by (simp add: escapeRegexLiteral_def)

lemma rx_lit_Cons: "c \<notin> set regex_specials \<Longrightarrow> rx_lit (c # cs) = map_option (apfst (Cons c)) (rx_lit cs)"
  by (cases cs) (auto simp: regex_specials_def)

lemma rx_lit_escape: "rx_lit (escapeRegexLiteral v @ t) = map_option (apfst (append v)) (rx_lit t)"
proof (induction v)
  case Nil
  show ?case by (cases "rx_lit t") (auto simp: escapeRegexLiteral_def)
next
  case (Cons c v)
  then show ?case
    by (cases "rx_lit t") (auto simp: escapeRegexLiteral_Cons rx_lit_Cons)
qed

lemma exactRegex_match: "rx_match (exactRegex v) s = Some (s = v)"
proof -
  have "rx_lit (escapeRegexLiteral v @ ''$'') = Some (v, True)" by (simp add: rx_lit_escape)
  then show ?thesis by (simp add: rx_match_def exactRegex_def starts_with_def)
qed

lemma open_regex_match: "rx_match (''^'' @ escapeRegexLiteral v) s = Some (starts_with v s)"
  using rx_lit_escape [of v "[]"] by (simp add: rx_match_def starts_with_def)

lemma escape_not_caret: "\<not> starts_with ''^'' (escapeRegexLiteral v)"
  by (cases v) (auto simp: escapeRegexLiteral_def starts_with_def regex_specials_def)

lemma escape_dollar_not_caret: "\<not> starts_with ''^'' (escapeRegexLiteral v @ ''$'')"
  by (cases v) (auto simp: escapeRegexLiteral_def starts_with_def regex_specials_def)

lemma closing_regex_match: "rx_match (escapeRegexLiteral v @ ''$'') s = Some (ends_with v s)"
  using rx_lit_escape [of v "''$''"] escape_dollar_not_caret [of v] by (simp add: rx_match_def)

section \<open>Outcomes\<close>

text \<open>The entry a map of outcomes should hold for a tool call: an outcome of it that no other one follows.\<close>

definition newest_outcome :: "ledger_entry list \<Rightarrow> string \<Rightarrow> ledger_entry option \<Rightarrow> bool" where
  "newest_outcome es i r \<longleftrightarrow>
     (let os = filter (\<lambda>e. isOutcomeEntry e \<and> le_tool_use_id e = i \<and> i \<noteq> []) es in
      case r of None \<Rightarrow> os = [] | Some e \<Rightarrow> e \<in> set os \<and> list_all (\<lambda>x. le_seq x \<le> le_seq e) os)"

lemma outcomes_snoc: "outcomeByToolUseId (es @ [e]) = note_outcome e (outcomeByToolUseId es)"
  by (simp add: outcomeByToolUseId_def)

lemma outcomes_newest: "newest_outcome es i (outcomeByToolUseId es i)"
proof (induction es rule: rev_induct)
  case Nil
  show ?case by (simp add: newest_outcome_def outcomeByToolUseId_def)
next
  case (snoc e es)
  show ?case
  proof (cases "isOutcomeEntry e \<and> le_tool_use_id e = i \<and> i \<noteq> []")
    case False
    then show ?thesis using snoc
      by (auto simp: outcomes_snoc note_outcome_def newest_outcome_def Let_def split: option.splits)
  next
    case True
    with snoc show ?thesis
      by (auto simp: outcomes_snoc note_outcome_def newest_outcome_def Let_def list_all_iff filter_empty_conv split: option.splits)
  qed
qed

text \<open>The two readers of an entry agree on what its subject is.\<close>

lemma preset_subject:
  "rulePresetFromLedgerEntry e =
     (case subjectFromLedgerEntry e of
        None \<Rightarrow> None
      | Some (SubCommand, v) \<Rightarrow> Some ((block_preset e RtBash (tool_or ''Bash'' e))\<lparr>rp_commandRegexes := Some (exactRegex v)\<rparr>)
      | Some (SubPath, v) \<Rightarrow> Some ((block_preset e RtSecretRead (tool_or ''Read'' e))\<lparr>rp_pathRegexes := Some (exactRegex v)\<rparr>)
      | Some (SubUrl, v) \<Rightarrow> Some ((block_preset e RtNetEgressUrl (tool_or ''WebFetch'' e))\<lparr>rp_urlRegexes := Some (exactRegex v)\<rparr>))"
  by (simp add: rulePresetFromLedgerEntry_def subjectFromLedgerEntry_def split: option.split)

lemma stringField_trimmed: "stringField i ks = Some v \<Longrightarrow> \<exists>u. v = trim u \<and> v \<noteq> []"
  by (induction i ks rule: stringField.induct) (auto split: option.splits json.splits if_splits)

lemma subject_trimmed: "subjectFromLedgerEntry e = Some (l, v) \<Longrightarrow> \<exists>u. v = trim u \<and> v \<noteq> []"
  by (auto simp: subjectFromLedgerEntry_def simp del: stringField.simps split: option.splits dest!: stringField_trimmed)

end
