(* ===== verification/WebApi.thy ===== *)
theory WebApi
  imports WebData ApiClient
begin

text \<open>
  How the web dashboard talks to the daemon (\<open>control-plane/dashboard-ui/src\<close>): the two request functions
  of \<open>lib/api.ts\<close> and its methods, the polling hooks of \<open>hooks/usePoll.ts\<close>, and the subscription to the
  ledger of \<open>hooks/useSSE.ts\<close> as a state machine over the events of its connections and its timer.

  A request record has no general headers: the content types the functions set are constant, and no
  caller passes headers of its own.
\<close>

section \<open>Requests (lib/api.ts)\<close>

text \<open>What the browser provides: the local storage (\<open>None\<close>: reading it throws) and the build mode.\<close>

record web_env =
  we_storage :: "(string \<Rightarrow> string option) option"
  we_dev :: bool

definition apiBase :: "web_env \<Rightarrow> string" where
  "apiBase we =
     (let fallback = (if we_dev we then [] else ''http://127.0.0.1:7878'') in
      case we_storage we of
        None \<Rightarrow> fallback
      | Some st \<Rightarrow> (case st ''oalApi'' of None \<Rightarrow> fallback | Some override \<Rightarrow> if override \<noteq> [] then override else fallback))"

datatype headers_init = NoHeaders | HeadersObject "(string \<times> string) list" | HeaderTuples "(string \<times> string) list" | PlainHeaders "(string \<times> string) list"

fun header_put :: "string \<times> string \<Rightarrow> (string \<times> string) list \<Rightarrow> (string \<times> string) list" where
  "header_put kv base = AList.update (fst kv) (snd kv) base"

definition mergeHeaders :: "headers_init \<Rightarrow> (string \<times> string) list" where
  "mergeHeaders extra =
     (let base = [(''Accept'', ''application/json'')] in
      case extra of
        NoHeaders \<Rightarrow> base
      | HeadersObject kvs \<Rightarrow> fold header_put kvs base
      | HeaderTuples kvs \<Rightarrow> fold header_put kvs base
      | PlainHeaders kvs \<Rightarrow> fold header_put kvs base)"

definition dash_sep :: string where
  "dash_sep = '' '' @ map char_of [0xE2, 0x80, 0x94 :: nat] @ '' ''"

text \<open>The failure both functions throw, with at most 200 characters of the body.\<close>

definition http_fail :: "http_resp \<Rightarrow> 'a prog" where
  "http_fail res =
     bindP (tryP (resp_text res) (\<lambda>_. ret [])) (\<lambda>body.
       throw_msg (''HTTP '' @ nat_str (rs_status res) @ '' '' @ rs_text res @ (if body = [] then [] else dash_sep @ take 200 body)))"

definition apiJSON :: "web_env \<Rightarrow> string \<Rightarrow> json prog" where
  "apiJSON we path =
     bindP (fetch \<lparr>rq_method = ''GET'', rq_url = apiBase we @ path, rq_auth = None, rq_body = None\<rparr>) (\<lambda>res.
       if \<not> resp_ok res then http_fail res else resp_json res)"

definition malformed :: "string \<Rightarrow> js_error \<Rightarrow> 'a prog" where
  "malformed text e = throw_msg (''malformed JSON response: '' @ err_msg e @ ''; body='' @ take 200 text)"

definition web_send :: "web_env \<Rightarrow> string \<Rightarrow> string \<Rightarrow> json option \<Rightarrow> json prog" where
  "web_send we path meth body =
     bindP (fetch \<lparr>rq_method = meth, rq_url = apiBase we @ path, rq_auth = None, rq_body = map_option json_stringify body\<rparr>) (\<lambda>res.
       if \<not> resp_ok res then http_fail res
       else bindP (resp_text res) (\<lambda>text.
         if text = [] \<or> trim text = [] then ret (JObj [])
         else tryP (parse_json text) (malformed text)))"

definition listGuardrailProviders :: "web_env \<Rightarrow> json prog" where
  "listGuardrailProviders we = apiJSON we ''/v1/guardrails/providers''"

definition listGuardrailCatalog :: "web_env \<Rightarrow> json prog" where
  "listGuardrailCatalog we = apiJSON we ''/v1/guardrails/catalog''"

definition listGuardrailEnabled :: "web_env \<Rightarrow> json prog" where
  "listGuardrailEnabled we = apiJSON we ''/v1/guardrails/enabled''"

definition web_saveGuardrailEnabled :: "web_env \<Rightarrow> json list \<Rightarrow> json prog" where
  "web_saveGuardrailEnabled we entries = web_send we ''/v1/guardrails/enabled'' ''PUT'' (Some (JObj [(''entries'', JArr entries)]))"

definition web_guardrailTrace :: "web_env \<Rightarrow> int \<Rightarrow> json prog" where
  "web_guardrailTrace we sq = apiJSON we (''/v1/guardrails/traces/'' @ encodeURIComponent (int_str sq))"

section \<open>Polling (hooks/usePoll.ts)\<close>

text \<open>
  \<open>usePoll\<close>: the first tick at once, then one per interval until the component is unmounted. A tick
  after the cleanup does nothing; what the polled function throws is dropped. The function works on the
  React state of its hook. Each call is taken to settle before the next tick.
\<close>

datatype poll_event = PollInterval | PollUnmount

definition poll_tick :: "bool \<Rightarrow> ('s \<Rightarrow> 's prog) \<Rightarrow> 's \<Rightarrow> 's prog" where
  "poll_tick cancelled fn st = (if cancelled then ret st else tryP (fn st) (\<lambda>_. ret st))"

fun poll_events :: "bool \<Rightarrow> ('s \<Rightarrow> 's prog) \<Rightarrow> 's \<Rightarrow> poll_event list \<Rightarrow> 's prog" where
  "poll_events cancelled fn st [] = ret st"
| "poll_events cancelled fn st (PollInterval # es) = bindP (poll_tick cancelled fn st) (\<lambda>st'. poll_events cancelled fn st' es)"
| "poll_events cancelled fn st (PollUnmount # es) = poll_events True fn st es"

definition usePoll :: "('s \<Rightarrow> 's prog) \<Rightarrow> bool \<Rightarrow> 's \<Rightarrow> poll_event list \<Rightarrow> 's prog" where
  "usePoll fn paused st es =
     (if paused then ret st else bindP (poll_tick False fn st) (\<lambda>st'. poll_events False fn st' es))"

text \<open>The state of a polling hook: the last answer and the error of the last failure.\<close>

record polled =
  po_data :: "json option"
  po_error :: "string option"

definition poll_refresh :: "web_env \<Rightarrow> string \<Rightarrow> polled \<Rightarrow> polled prog" where
  "poll_refresh we path st =
     tryP (bindP (apiJSON we path) (\<lambda>j. ret \<lparr>po_data = Some j, po_error = None\<rparr>))
       (\<lambda>e. ret (st\<lparr>po_error := Some (err_msg e)\<rparr>))"

definition refreshRoot :: "web_env \<Rightarrow> polled \<Rightarrow> polled prog" where
  "refreshRoot we = poll_refresh we ''/v1/ledger/root''"

definition refreshPolicy :: "web_env \<Rightarrow> polled \<Rightarrow> polled prog" where
  "refreshPolicy we = poll_refresh we ''/v1/policy/view''"

definition refreshSessions :: "web_env \<Rightarrow> polled \<Rightarrow> polled prog" where
  "refreshSessions we = poll_refresh we ''/v1/sessions''"

definition refreshPins :: "web_env \<Rightarrow> polled \<Rightarrow> polled prog" where
  "refreshPins we = poll_refresh we ''/v1/mcp/pins''"

definition refreshMode :: "web_env \<Rightarrow> json option \<Rightarrow> json option prog" where
  "refreshMode we mode = tryP (bindP (apiJSON we ''/v1/mode'') (\<lambda>m. ret (Some m))) (\<lambda>_. ret mode)"

definition setMode :: "web_env \<Rightarrow> string \<Rightarrow> json option \<Rightarrow> json option prog" where
  "setMode we m mode =
     bindP (web_send we ''/v1/mode'' ''PATCH'' (Some (JObj [(''mode'', JStr m)]))) (\<lambda>_. refreshMode we mode)"

section \<open>The subscription to the ledger (hooks/useSSE.ts)\<close>

datatype sse_status = Connecting | Connected | Reconnecting

text \<open>
  The state of the hook: its two React states, the two references, the \<open>cancelled\<close> flag of the effect,
  and the event sources that were opened and not closed, numbered in the order of creation.
\<close>

record sse =
  ss_cap :: nat
  ss_entries :: "json list"
  ss_status :: sse_status
  ss_cancelled :: bool
  ss_open :: "nat list"
  ss_made :: nat
  ss_ref :: "nat option"
  ss_timer :: bool

datatype sse_event = SseOpen nat | SseMessage nat string | SseError nat | SseTimer | SseUnmount

definition sse_connect :: "sse \<Rightarrow> sse" where
  "sse_connect s =
     (if ss_cancelled s then s
      else s\<lparr>ss_status := (if ss_status s = Connected then Reconnecting else ss_status s),
             ss_open := ss_open s @ [ss_made s], ss_ref := Some (ss_made s), ss_made := Suc (ss_made s)\<rparr>)"

definition sse_onopen :: "sse \<Rightarrow> sse" where
  "sse_onopen s = (if ss_cancelled s then s else s\<lparr>ss_status := Connected\<rparr>)"

text \<open>\<open>next.splice(0, next.length - cap)\<close> on the entries with the new one appended.\<close>

definition push_entry :: "nat \<Rightarrow> json list \<Rightarrow> json \<Rightarrow> json list" where
  "push_entry cap prev parsed =
     (let nxt = prev @ [parsed] in if cap < length nxt then drop (length nxt - cap) nxt else nxt)"

definition sse_onmessage :: "string \<Rightarrow> sse \<Rightarrow> sse" where
  "sse_onmessage dat s =
     (if ss_cancelled s then s
      else (case json_parse dat of None \<Rightarrow> s | Some j \<Rightarrow> s\<lparr>ss_entries := push_entry (ss_cap s) (ss_entries s) j\<rparr>))"

definition sse_onerror :: "nat \<Rightarrow> sse \<Rightarrow> sse" where
  "sse_onerror i s =
     (if ss_cancelled s then s
      else s\<lparr>ss_status := Reconnecting, ss_open := remove1 i (ss_open s), ss_timer := True\<rparr>)"

definition sse_cleanup :: "sse \<Rightarrow> sse" where
  "sse_cleanup s =
     s\<lparr>ss_cancelled := True, ss_timer := False,
       ss_open := (case ss_ref s of None \<Rightarrow> ss_open s | Some i \<Rightarrow> remove1 i (ss_open s)), ss_ref := None\<rparr>"

text \<open>
  One event of the browser. A closed event source fires nothing more, and the timer fires only when it
  is set; such events are not steps and leave the state alone.
\<close>

fun sse_step :: "sse \<Rightarrow> sse_event \<Rightarrow> sse" where
  "sse_step s (SseOpen i) = (if i \<in> set (ss_open s) then sse_onopen s else s)"
| "sse_step s (SseMessage i dat) = (if i \<in> set (ss_open s) then sse_onmessage dat s else s)"
| "sse_step s (SseError i) = (if i \<in> set (ss_open s) then sse_onerror i s else s)"
| "sse_step s SseTimer = (if ss_timer s then sse_connect (s\<lparr>ss_timer := False\<rparr>) else s)"
| "sse_step s SseUnmount = sse_cleanup s"

definition sse_mount :: "nat \<Rightarrow> sse" where
  "sse_mount cap =
     sse_connect \<lparr>ss_cap = cap, ss_entries = [], ss_status = Connecting, ss_cancelled = False, ss_open = [], ss_made = 0,
       ss_ref = None, ss_timer = False\<rparr>"

definition useSSELedger :: "nat \<Rightarrow> sse_event list \<Rightarrow> sse" where
  "useSSELedger cap evs = foldl sse_step (sse_mount cap) evs"

section \<open>What the subscription guarantees\<close>

text \<open>The ledger entries the connections delivered, in their order.\<close>

definition delivered :: "sse \<Rightarrow> sse_event \<Rightarrow> json list" where
  "delivered s e =
     (case e of
        SseMessage i dat \<Rightarrow>
          if i \<in> set (ss_open s) \<and> \<not> ss_cancelled s then (case json_parse dat of None \<Rightarrow> [] | Some j \<Rightarrow> [j]) else []
      | _ \<Rightarrow> [])"

fun deliveries :: "sse \<Rightarrow> sse_event list \<Rightarrow> json list" where
  "deliveries s [] = []"
| "deliveries s (e # es) = delivered s e @ deliveries (sse_step s e) es"

definition last_n :: "nat \<Rightarrow> 'a list \<Rightarrow> 'a list" where
  "last_n n xs = drop (length xs - n) xs"

definition sse_ok :: "sse \<Rightarrow> bool" where
  "sse_ok s \<longleftrightarrow>
     (if ss_cancelled s then ss_open s = [] \<and> \<not> ss_timer s
      else if ss_timer s then ss_open s = [] \<and> ss_status s = Reconnecting
      else \<exists>i. ss_open s = [i] \<and> ss_ref s = Some i)"

lemma push_last_n: "push_entry cap (last_n cap xs) x = last_n cap (xs @ [x])"
  by (auto simp: push_entry_def last_n_def Let_def not_less Suc_diff_le)

lemma sse_ok_mount [simp]: "sse_ok (sse_mount cap)"
  by (simp add: sse_mount_def sse_connect_def sse_ok_def)

lemma sse_ok_step: "sse_ok s \<Longrightarrow> sse_ok (sse_step s e)"
  by (cases e)
    (auto simp: sse_ok_def sse_onopen_def sse_onmessage_def sse_onerror_def sse_connect_def sse_cleanup_def
      split: option.split if_splits)

lemma sse_cap_step [simp]: "ss_cap (sse_step s e) = ss_cap s"
  by (cases e)
    (auto simp: sse_onopen_def sse_onmessage_def sse_onerror_def sse_connect_def sse_cleanup_def split: option.split)

lemma sse_entries_step:
  "ss_entries s = last_n (ss_cap s) xs \<Longrightarrow> ss_entries (sse_step s e) = last_n (ss_cap s) (xs @ delivered s e)"
  by (cases e)
    (auto simp: delivered_def sse_onopen_def sse_onmessage_def sse_onerror_def sse_connect_def sse_cleanup_def push_last_n
      split: option.split)

interpretation sse: machine sse_step sse_ok "\<lambda>_. True"
  by unfold_locales (rule sse_ok_step)

lemma sse_run_entries:
  "ss_entries s = last_n (ss_cap s) xs \<Longrightarrow>
   ss_entries (foldl sse_step s evs) = last_n (ss_cap s) (xs @ deliveries s evs)"
proof (induction evs arbitrary: s xs)
  case (Cons e evs)
  then show ?case using sse_entries_step [OF Cons.prems, of e] Cons.IH [of "sse_step s e" "xs @ delivered s e"] by simp
qed simp

text \<open>After the clean-up nothing is opened and no entry added.\<close>

interpretation sse_cancelled: machine sse_step "\<lambda>s. ss_cancelled s \<and> ss_entries s = es \<and> ss_made s = n" "\<lambda>_. True"
proof
  fix s :: sse and e
  assume "ss_cancelled s \<and> ss_entries s = es \<and> ss_made s = n" "True"
  then show "ss_cancelled (sse_step s e) \<and> ss_entries (sse_step s e) = es \<and> ss_made (sse_step s e) = n"
    by (cases e)
      (auto simp: sse_onopen_def sse_onmessage_def sse_onerror_def sse_connect_def sse_cleanup_def split: option.split)
qed

text \<open>C33. The dashboard's ledger window is a sliding window: whatever the connections do, the entries shown are exactly the last
  \<open>cap\<close> entries that were delivered and parsed. A mounted subscription always holds exactly one open connection, the one its reference
  names, or none and a pending reconnect, shown as reconnecting; firing that timer opens a fresh connection. After
  the component is unmounted no connection and no timer is left, and nothing opens one or changes the entries again.\<close>

theorem sse_ledger_window:
  "ss_entries (useSSELedger cap evs) = last_n cap (deliveries (sse_mount cap) evs) \<and>
   sse_ok (useSSELedger cap evs) \<and>
   (let s = useSSELedger cap evs in
      ss_open (sse_step s SseTimer) = (if ss_timer s then [ss_made s] else ss_open s) \<and>
      ss_ref (sse_step s SseTimer) = (if ss_timer s then Some (ss_made s) else ss_ref s)) \<and>
   (let s = useSSELedger cap (evs @ SseUnmount # later) in
      ss_open s = [] \<and> \<not> ss_timer s \<and> ss_entries s = ss_entries (useSSELedger cap evs) \<and>
      ss_made s = ss_made (useSSELedger cap evs))"
proof -
  have e: "ss_entries (sse_mount cap) = last_n (ss_cap (sse_mount cap)) []" and c: "ss_cap (sse_mount cap) = cap"
    by (simp_all add: sse_mount_def sse_connect_def last_n_def)
  have ok: "sse_ok (useSSELedger cap evs)" for evs unfolding useSSELedger_def by (rule sse.run) (simp_all add: list_all_iff)
  let ?s = "useSSELedger cap evs" and ?t = "useSSELedger cap (evs @ SseUnmount # later)"
  have t: "?t = foldl sse_step (sse_cleanup ?s) later" by (simp add: useSSELedger_def)
  have "ss_cancelled ?t \<and> ss_entries ?t = ss_entries ?s \<and> ss_made ?t = ss_made ?s"
    unfolding t by (rule sse_cancelled.run) (simp_all add: sse_cleanup_def list_all_iff)
  then have cc: "ss_cancelled ?t" "ss_entries ?t = ss_entries ?s" "ss_made ?t = ss_made ?s" by simp_all
  from cc(1) ok [of "evs @ SseUnmount # later"] have "ss_open ?t = []" "\<not> ss_timer ?t" by (simp_all add: sse_ok_def)
  moreover note cc(2,3)
  moreover have "ss_open (sse_step ?s SseTimer) = (if ss_timer ?s then [ss_made ?s] else ss_open ?s) \<and>
      ss_ref (sse_step ?s SseTimer) = (if ss_timer ?s then Some (ss_made ?s) else ss_ref ?s)"
    using ok [of evs] by (auto simp: sse_ok_def sse_connect_def split: if_splits)
  ultimately show ?thesis
    using ok [of evs] sse_run_entries [OF e, of evs] by (simp add: useSSELedger_def c Let_def)
qed

section \<open>What the requests guarantee\<close>

definition poll_req :: "web_env \<Rightarrow> string \<Rightarrow> http_req" where
  "poll_req we path = \<lparr>rq_method = ''GET'', rq_url = apiBase we @ path, rq_auth = None, rq_body = None\<rparr>"

text \<open>Every answer of the daemon has a body that ends.\<close>

definition settles :: "world \<Rightarrow> bool" where
  "settles w \<longleftrightarrow> (\<forall>h rq r. w_net w h rq = Answer r \<longrightarrow> rs_body r \<noteq> None)"

lemma apiJSON_settles:
  assumes "settles w"
  shows "snd (apiJSON we path w) = w\<lparr>w_sent := w_sent w @ [poll_req we path]\<rparr> \<and>
    ((\<exists>j. fst (apiJSON we path w) = Val j) \<or> (\<exists>e. fst (apiJSON we path w) = Err e))"
proof (cases "w_net w (w_sent w) (poll_req we path)")
  case (NetErr m)
  then show ?thesis by (simp add: apiJSON_def fetch_def poll_req_def prog_simps)
next
  case (Answer r)
  with assms obtain b where "rs_body r = Some b" unfolding settles_def by blast
  with Answer show ?thesis
    by (simp add: apiJSON_def fetch_def poll_req_def http_fail_def resp_text_def resp_json_def parse_json_def prog_simps
        split: option.split)
qed

lemma poll_refresh_settles:
  assumes "settles w"
  shows "snd (poll_refresh we path st w) = w\<lparr>w_sent := w_sent w @ [poll_req we path]\<rparr> \<and>
    (\<exists>st'. fst (poll_refresh we path st w) = Val st' \<and> (po_data st \<noteq> None \<longrightarrow> po_data st' \<noteq> None) \<and>
       (po_error st' = None \<longrightarrow> po_data st' \<noteq> None))"
  using apiJSON_settles [OF assms, of we path]
  by (cases "apiJSON we path w") (auto simp: poll_refresh_def run_bindP run_tryP run_ret)

lemma settles_sent [simp]: "settles (w\<lparr>w_sent := h\<rparr>) = settles w"
  by (simp add: settles_def)

lemma poll_events_cancelled: "poll_events True fn st es w = (Val st, w)"
proof (induction es)
  case (Cons e es)
  then show ?case by (cases e) (simp_all add: poll_tick_def prog_simps)
qed (simp add: prog_simps)

definition ticks :: "poll_event list \<Rightarrow> nat" where
  "ticks es = length (takeWhile (\<lambda>e. e = PollInterval) es)"

lemma poll_events_settle:
  assumes "settles w"
  shows "\<exists>st'. poll_events False (poll_refresh we path) st es w =
      (Val st', w\<lparr>w_sent := w_sent w @ replicate (ticks es) (poll_req we path)\<rparr>) \<and>
    (po_data st \<noteq> None \<longrightarrow> po_data st' \<noteq> None)"
  using assms
proof (induction es arbitrary: st w)
  case Nil
  then show ?case by (simp add: ticks_def prog_simps)
next
  case (Cons e es)
  show ?case
  proof (cases e)
    case PollUnmount
    then show ?thesis by (simp add: ticks_def poll_events_cancelled)
  next
    case PollInterval
    from poll_refresh_settles [OF Cons.prems, of we path st] obtain st1
      where 1: "poll_refresh we path st w = (Val st1, w\<lparr>w_sent := w_sent w @ [poll_req we path]\<rparr>)"
        and d: "po_data st \<noteq> None \<longrightarrow> po_data st1 \<noteq> None"
      by (cases "poll_refresh we path st w") auto
    have "settles (w\<lparr>w_sent := w_sent w @ [poll_req we path]\<rparr>)" using Cons.prems by simp
    from Cons.IH [OF this, of st1] d 1 PollInterval show ?thesis
      by (auto simp: poll_tick_def ticks_def tryP_def bindP_def)
  qed
qed

text \<open>C34. Polling survives failures: however many of the polls fail (the daemon down, a status outside 2xx, a body that is not
  JSON), a mounted hook sends exactly one request at once and one per interval until the component is unmounted and none
  after, never throws, and never loses data it has shown; a paused hook sends nothing.\<close>

theorem polling_survives:
  assumes "settles w"
  shows "(\<exists>st'. usePoll (poll_refresh we path) False st es w =
      (Val st', w\<lparr>w_sent := w_sent w @ replicate (Suc (ticks es)) (poll_req we path)\<rparr>) \<and>
      (po_data st \<noteq> None \<longrightarrow> po_data st' \<noteq> None)) \<and>
    usePoll (poll_refresh we path) True st es w = (Val st, w)"
proof -
  have "usePoll (poll_refresh we path) False st es = poll_events False (poll_refresh we path) st (PollInterval # es)"
    by (simp add: usePoll_def)
  then show ?thesis
    using poll_events_settle [OF assms, of we path st "PollInterval # es"] by (simp add: ticks_def usePoll_def prog_simps)
qed

definition flaky_world :: world where
  "flaky_world = demo_world\<lparr>w_net := (\<lambda>h rq. if length h = 1 then NetErr ''refused'' else
     Answer \<lparr>rs_status = (if length h = 2 then 500 else 200), rs_text = ''x'', rs_body = Some ''{}''\<rparr>)\<rparr>"

lemma flaky_settles: "settles flaky_world"
  by (simp add: settles_def flaky_world_def)

theorem polling_survives_witness:
  "\<exists>st'. usePoll (poll_refresh \<lparr>we_storage = None, we_dev = True\<rparr> ''/v1/sessions'') False
       \<lparr>po_data = Some JNull, po_error = None\<rparr> [PollInterval, PollInterval, PollUnmount, PollInterval] flaky_world =
     (Val st', flaky_world\<lparr>w_sent := replicate 3 (poll_req \<lparr>we_storage = None, we_dev = True\<rparr> ''/v1/sessions'')\<rparr>) \<and>
     po_data st' \<noteq> None"
  using polling_survives [OF flaky_settles, of "\<lparr>we_storage = None, we_dev = True\<rparr>" "''/v1/sessions''"
      "\<lparr>po_data = Some JNull, po_error = None\<rparr>" "[PollInterval, PollInterval, PollUnmount, PollInterval]"]
  by (simp add: ticks_def flaky_world_def demo_world_def eval_nat_numeral)

section \<open>The value of a request\<close>

lemma web_send_value:
  "fst (web_send we path meth body w) = Val v \<longleftrightarrow>
     (\<exists>r b. w_net w (w_sent w) \<lparr>rq_method = meth, rq_url = apiBase we @ path, rq_auth = None, rq_body = map_option json_stringify body\<rparr>
              = Answer r \<and> resp_ok r \<and> rs_body r = Some b \<and>
        (if trim b = [] then v = JObj [] else json_parse b = Some v))"
  by (auto simp: web_send_def fetch_def http_fail_def resp_text_def parse_json_def malformed_def prog_simps trim_def trim_start_def
      trim_end_def bindP_def tryP_def split: http_out.split option.split)

lemma web_send_one:
  "w_sent (snd (web_send we path meth body w)) = w_sent w @
     [\<lparr>rq_method = meth, rq_url = apiBase we @ path, rq_auth = None, rq_body = map_option json_stringify body\<rparr>]"
  by (auto simp: web_send_def fetch_def http_fail_def resp_text_def parse_json_def malformed_def prog_simps bindP_def tryP_def
      split: http_out.split option.split)

end
