(* ===== verification/WebEvents.thy ===== *)
theory WebEvents
  imports WebApi "HOL-Library.List_Lexorder" "HOL-Library.Multiset"
begin

text \<open>
  The events tab of the web dashboard (\<open>routes/events.tsx\<close>), with the rows of the sessions tab
  (\<open>routes/sessions.tsx\<close>) and the labels of a guardrail trace (\<open>components/GuardrailTraceFlow.tsx\<close>):
  filters, order and pages of the event list as a state machine over the controls, and the
  false-positive dialog of an entry. Markup is not modelled.
\<close>

section \<open>Labels\<close>

definition verdictDisplay :: "string option \<Rightarrow> bool \<Rightarrow> string \<times> string" where
  "verdictDisplay verdict monitorMatch =
     (if verdict = Some ''deny'' \<and> monitorMatch then (''alert'', ''bg-monitor/20 text-monitor'')
      else if verdict = Some ''allow'' then (''allow'', ''bg-allow/20 text-allow'')
      else if verdict = Some ''deny'' then (''deny'', ''bg-deny/20 text-deny'')
      else if verdict = Some ''monitor'' then (''monitor'', ''bg-monitor/20 text-monitor'')
      else if verdict = Some ''complete'' then (''ran'', ''bg-chip text-muted'')
      else if verdict = Some ''failure'' then (''tool errored'', ''bg-chip text-muted'')
      else ((case verdict of None \<Rightarrow> map char_of [0xE2, 0x80, 0x94 :: nat] | Some v \<Rightarrow> v), ''bg-chip text-muted''))"

definition statusClass :: "sse_status \<Rightarrow> string" where
  "statusClass s =
     (case s of Connected \<Rightarrow> ''bg-allow/20 text-allow'' | Reconnecting \<Rightarrow> ''bg-monitor/20 text-monitor''
      | Connecting \<Rightarrow> ''bg-chip text-muted'')"

section \<open>The list of events\<close>

record events_view =
  ev_entries :: "ledger_entry list"
  ev_source :: string
  ev_verdict :: string
  ev_rule :: string
  ev_internal :: bool
  ev_outcomes :: bool
  ev_selected :: "int option"
  ev_page :: nat
  ev_pageSize :: nat
  ev_preset :: "rule_preset option"

definition events_init :: events_view where
  "events_init = \<lparr>ev_entries = [], ev_source = [], ev_verdict = [], ev_rule = [], ev_internal = False, ev_outcomes = False,
     ev_selected = None, ev_page = 0, ev_pageSize = 50, ev_preset = None\<rparr>"

text \<open>The choices of the two menus: the distinct values, sorted.\<close>

definition ev_sources :: "events_view \<Rightarrow> string list" where
  "ev_sources v = sort_key (map code_of) (remdups (map le_source (ev_entries v)))"

definition ev_verdicts :: "events_view \<Rightarrow> string list" where
  "ev_verdicts v =
     sort_key (map code_of) (remdups (filter (\<lambda>x. x \<noteq> []) (map (\<lambda>e. or_empty (le_verdict e)) (ev_entries v))))"

definition shown_event :: "events_view \<Rightarrow> ledger_entry \<Rightarrow> bool" where
  "shown_event v e =
     (let rule = lowercase (trim (ev_rule v)) in
      if \<not> ev_internal v \<and> le_source e \<in> INTERNAL_SOURCES then False
      else if isOutcomeEntry e then False
      else if ev_source v \<noteq> [] \<and> le_source e \<noteq> ev_source v then False
      else if ev_verdict v \<noteq> [] \<and> le_verdict e \<noteq> Some (ev_verdict v) then False
      else if rule \<noteq> [] \<and> \<not> str_includes rule (lowercase (or_empty (le_rule_id e))) then False
      else True)"

definition filtered :: "events_view \<Rightarrow> ledger_entry list" where
  "filtered v = sort_key (\<lambda>e. - le_seq e) (filter (shown_event v) (ev_entries v))"

definition ev_pageCount :: "events_view \<Rightarrow> nat" where
  "ev_pageCount v = max 1 ((length (filtered v) + ev_pageSize v - 1) div ev_pageSize v)"

definition safePage :: "events_view \<Rightarrow> nat" where
  "safePage v = min (ev_page v) (ev_pageCount v - 1)"

definition pageStart :: "events_view \<Rightarrow> nat" where
  "pageStart v = safePage v * ev_pageSize v"

definition pageEnd :: "events_view \<Rightarrow> nat" where
  "pageEnd v = min (pageStart v + ev_pageSize v) (length (filtered v))"

definition paged :: "events_view \<Rightarrow> ledger_entry list" where
  "paged v = take (pageEnd v - pageStart v) (drop (pageStart v) (filtered v))"

text \<open>The outcome row below an entry.\<close>

definition row_outcome :: "events_view \<Rightarrow> ledger_entry \<Rightarrow> ledger_entry option" where
  "row_outcome v e = (if ev_outcomes v then outcomeByToolUseId (ev_entries v) (le_tool_use_id e) else None)"

definition range_text :: "events_view \<Rightarrow> string" where
  "range_text v =
     (if length (filtered v) = 0 then ''0 events''
      else ''showing '' @ nat_str (pageStart v + 1) @ ''-'' @ nat_str (pageEnd v) @ '' of '' @ nat_str (length (filtered v)))"

text \<open>The controls. A change of a filter or of the page size also runs the effect that goes back to the first page.\<close>

datatype ev_control =
    EvEntries "ledger_entry list" | EvSource string | EvVerdict string | EvRule string | EvInternal bool | EvOutcomes bool
  | EvPageSize nat | EvPrev | EvNext | EvSelect int | EvClose | EvBlock ledger_entry

definition prev_enabled :: "events_view \<Rightarrow> bool" where
  "prev_enabled v \<longleftrightarrow> 0 < safePage v"

definition next_enabled :: "events_view \<Rightarrow> bool" where
  "next_enabled v \<longleftrightarrow> safePage v < ev_pageCount v - 1"

definition page_sizes :: "nat list" where
  "page_sizes = [25, 50, 100, 200]"

definition page_reset :: "events_view \<Rightarrow> events_view \<Rightarrow> events_view" where
  "page_reset old v =
     (if ev_source old \<noteq> ev_source v \<or> ev_verdict old \<noteq> ev_verdict v \<or> ev_rule old \<noteq> ev_rule v \<or>
         ev_internal old \<noteq> ev_internal v \<or> ev_outcomes old \<noteq> ev_outcomes v \<or> ev_pageSize old \<noteq> ev_pageSize v
      then v\<lparr>ev_page := 0\<rparr> else v)"

fun ev_handle :: "ev_control \<Rightarrow> events_view \<Rightarrow> events_view" where
  "ev_handle (EvEntries es) v = v\<lparr>ev_entries := es\<rparr>"
| "ev_handle (EvSource s) v = v\<lparr>ev_source := s\<rparr>"
| "ev_handle (EvVerdict s) v = v\<lparr>ev_verdict := s\<rparr>"
| "ev_handle (EvRule s) v = v\<lparr>ev_rule := s\<rparr>"
| "ev_handle (EvInternal b) v = v\<lparr>ev_internal := b\<rparr>"
| "ev_handle (EvOutcomes b) v = v\<lparr>ev_outcomes := b\<rparr>"
| "ev_handle (EvPageSize n) v = (if n \<in> set page_sizes then v\<lparr>ev_pageSize := n\<rparr> else v)"
| "ev_handle EvPrev v = (if prev_enabled v then v\<lparr>ev_page := ev_page v - 1\<rparr> else v)"
| "ev_handle EvNext v = (if next_enabled v then v\<lparr>ev_page := min (ev_pageCount v - 1) (ev_page v + 1)\<rparr> else v)"
| "ev_handle (EvSelect s) v = v\<lparr>ev_selected := Some s\<rparr>"
| "ev_handle EvClose v = v\<lparr>ev_selected := None\<rparr>"
| "ev_handle (EvBlock e) v =
     (case rulePresetFromLedgerEntry e of None \<Rightarrow> v | Some p \<Rightarrow> v\<lparr>ev_preset := Some p\<rparr>)"

definition ev_step :: "events_view \<Rightarrow> ev_control \<Rightarrow> events_view" where
  "ev_step v c = page_reset v (ev_handle c v)"

inductive ev_reach :: "events_view \<Rightarrow> bool" where
  start: "ev_reach events_init"
| step: "ev_reach v \<Longrightarrow> ev_reach (ev_step v c)"

section \<open>Pages\<close>

definition page_of :: "events_view \<Rightarrow> nat \<Rightarrow> ledger_entry list" where
  "page_of v i = paged (v\<lparr>ev_page := i\<rparr>)"

lemma filtered_page [simp]: "filtered (v\<lparr>ev_page := i\<rparr>) = filtered v"
proof -
  have "shown_event (v\<lparr>ev_page := i\<rparr>) = shown_event v" by (rule ext) (simp add: shown_event_def)
  then show ?thesis by (simp add: filtered_def)
qed

lemma pageCount_page [simp]: "ev_pageCount (v\<lparr>ev_page := i\<rparr>) = ev_pageCount v"
  by (simp add: ev_pageCount_def)

lemma pageCount_pos [simp]: "0 < ev_pageCount v"
  by (simp add: ev_pageCount_def)

lemma pageCount_covers:
  assumes "0 < ev_pageSize v"
  shows "length (filtered v) \<le> ev_pageCount v * ev_pageSize v"
    "0 < length (filtered v) \<Longrightarrow> (ev_pageCount v - 1) * ev_pageSize v < length (filtered v)"
proof -
  let ?n = "length (filtered v)" and ?s = "ev_pageSize v"
  let ?q = "(?n + ?s - 1) div ?s"
  have "?n + ?s - 1 = ?q * ?s + (?n + ?s - 1) mod ?s" by simp
  moreover have "(?n + ?s - 1) mod ?s < ?s" using assms by simp
  ultimately have "?n + ?s - 1 < ?q * ?s + ?s" by linarith
  then have "?n \<le> ?q * ?s" using assms by simp
  moreover have "?q * ?s \<le> ev_pageCount v * ?s" unfolding ev_pageCount_def by (rule mult_le_mono1) simp
  ultimately show "?n \<le> ev_pageCount v * ?s" by (rule order_trans)
  assume n: "0 < ?n"
  then have "?s \<le> ?n + ?s - 1" by linarith
  then have "1 \<le> ?q" using assms by (simp add: Suc_le_eq div_greater_zero_iff)
  then have "ev_pageCount v = ?q" by (simp add: ev_pageCount_def)
  then have "(ev_pageCount v - 1) * ?s = ?q * ?s - ?s" by (simp only: diff_mult_distrib mult_1)
  moreover have "?q * ?s \<le> ?n + ?s - 1" by (rule div_times_less_eq_dividend)
  ultimately show "(ev_pageCount v - 1) * ?s < ?n" using n assms by linarith
qed

lemma page_of_slice:
  assumes "i < ev_pageCount v"
  shows "page_of v i = take (ev_pageSize v) (drop (i * ev_pageSize v) (filtered v))"
proof -
  have "safePage (v\<lparr>ev_page := i\<rparr>) = i" using assms by (simp add: safePage_def)
  then show ?thesis by (simp add: page_of_def paged_def pageEnd_def pageStart_def min_def take_all)
qed

lemma slices_concat: "concat (map (\<lambda>i. take s (drop (i * s) xs)) [0..<n]) = take (n * s) xs"
proof (induction n)
  case (Suc n)
  have "take (n * s) xs @ take s (drop (n * s) xs) = take (n * s + s) xs" by (rule take_add [symmetric])
  with Suc show ?case by (simp add: add.commute)
qed simp

lemma handle_pageSize: "ev_pageSize v \<in> set page_sizes \<Longrightarrow> ev_pageSize (ev_handle c v) \<in> set page_sizes"
  by (cases c) (auto split: option.split)

lemma pageSize_reach: "ev_reach v \<Longrightarrow> ev_pageSize v \<in> set page_sizes"
proof (induction rule: ev_reach.induct)
  case start
  show ?case by (simp add: events_init_def page_sizes_def)
next
  case (step v c)
  then show ?case using handle_pageSize [of v c] by (simp add: ev_step_def page_reset_def)
qed

lemma reach_pageSize_pos: "ev_reach v \<Longrightarrow> 0 < ev_pageSize v"
  using pageSize_reach [of v] by (auto simp: page_sizes_def)

lemma paged_page_of: "paged v = page_of v (safePage v)"
proof -
  have "safePage (v\<lparr>ev_page := safePage v\<rparr>) = safePage v" by (simp add: safePage_def)
  then show ?thesis by (simp add: page_of_def paged_def pageStart_def pageEnd_def)
qed

lemma safePage_less: "safePage v < ev_pageCount v"
proof -
  have "safePage v \<le> ev_pageCount v - 1" by (simp add: safePage_def)
  with pageCount_pos [of v] show ?thesis by linarith
qed

lemma pages_concat: "0 < ev_pageSize v \<Longrightarrow> concat (map (page_of v) [0..<ev_pageCount v]) = filtered v"
proof -
  assume s: "0 < ev_pageSize v"
  have "map (page_of v) [0..<ev_pageCount v] =
      map (\<lambda>i. take (ev_pageSize v) (drop (i * ev_pageSize v) (filtered v))) [0..<ev_pageCount v]"
    by (rule map_cong) (simp_all add: page_of_slice)
  then have "concat (map (page_of v) [0..<ev_pageCount v]) =
      concat (map (\<lambda>i. take (ev_pageSize v) (drop (i * ev_pageSize v) (filtered v))) [0..<ev_pageCount v])" by (rule arg_cong)
  then show ?thesis using slices_concat [of "ev_pageSize v" "filtered v" "ev_pageCount v"] pageCount_covers(1) [OF s] by simp
qed

lemma paged_empty: "0 < ev_pageSize v \<Longrightarrow> paged v = [] \<longleftrightarrow> filtered v = []"
proof -
  assume s: "0 < ev_pageSize v"
  have "safePage v * ev_pageSize v \<le> (ev_pageCount v - 1) * ev_pageSize v"
    by (rule mult_le_mono1) (simp add: safePage_def)
  with pageCount_covers(2) [OF s] have "filtered v \<noteq> [] \<Longrightarrow> safePage v * ev_pageSize v < length (filtered v)"
    by (meson le_less_trans length_greater_0_conv)
  then show ?thesis using s
    by (cases "filtered v = []") (auto simp: paged_page_of page_of_slice safePage_less)
qed

lemma page_reset_page: "page_reset v (v\<lparr>ev_page := i\<rparr>) = v\<lparr>ev_page := i\<rparr>"
  by (simp add: page_reset_def)

lemma filtered_spec:
  "mset (filtered v) = filter_mset (shown_event v) (mset (ev_entries v))" "sorted (map (\<lambda>e. - le_seq e) (filtered v))"
  by (simp_all add: filtered_def)

text \<open>C38. The pages of the events tab are exactly the events that pass the filters, newest first: in every state the controls can reach, the
  list is sorted by falling sequence number, the pages one after another are that list, no page is longer than the page size, the page shown is empty only
  when no event passes, and "next" is offered exactly when a later page exists, and then shows it.\<close>

theorem event_pages:
  assumes "ev_reach v"
  shows "concat (map (page_of v) [0..<ev_pageCount v]) = filtered v \<and>
    sorted (map (\<lambda>e. - le_seq e) (filtered v)) \<and> mset (filtered v) = filter_mset (shown_event v) (mset (ev_entries v)) \<and>
    length (paged v) \<le> ev_pageSize v \<and> pageEnd v - pageStart v = length (paged v) \<and>
    (paged v = [] \<longleftrightarrow> filtered v = []) \<and>
    paged (ev_step v EvNext) = (if Suc (safePage v) < ev_pageCount v then page_of v (Suc (safePage v)) else paged v)"
proof -
  note s = reach_pageSize_pos [OF assms]
  have len: "length (paged v) \<le> ev_pageSize v \<and> pageEnd v - pageStart v = length (paged v)"
    by (auto simp: paged_def pageEnd_def)
  have "paged (ev_step v EvNext) = (if Suc (safePage v) < ev_pageCount v then page_of v (Suc (safePage v)) else paged v)"
  proof (cases "Suc (safePage v) < ev_pageCount v")
    case True
    then have "ev_page v < ev_pageCount v - 1" and p: "safePage v = ev_page v" by (auto simp: safePage_def min_def split: if_splits)
    with True show ?thesis
      by (simp add: ev_step_def next_enabled_def page_reset_page page_of_def min_absorb2)
  next
    case False
    then show ?thesis by (simp add: ev_step_def next_enabled_def page_reset_def less_diff_conv)
  qed
  with len pages_concat [OF s] paged_empty [OF s] filtered_spec [of v] show ?thesis by blast
qed

definition demo_events :: events_view where
  "demo_events = ev_step events_init (EvEntries [entry_of_json (JObj [(''seq'', jint 1)]), entry_of_json (JObj [(''seq'', jint 2)])])"

theorem event_pages_witness:
  "ev_reach demo_events \<and> concat (map (page_of demo_events) [0..<ev_pageCount demo_events]) = filtered demo_events"
proof
  show r: "ev_reach demo_events" unfolding demo_events_def by (intro ev_reach.intros)
  show "concat (map (page_of demo_events) [0..<ev_pageCount demo_events]) = filtered demo_events"
    using event_pages [OF r] by simp
qed

text \<open>
  When entries that were shown drop out of the window the page number can lie beyond the last page; "prev"
  then counts down from the stale number and the page shown does not change.
\<close>

lemma stale_page_prev:
  assumes "ev_pageCount v \<le> ev_page v - 1"
  shows "paged (ev_step v EvPrev) = paged v"
proof -
  have "ev_pageCount v - 1 \<le> ev_page v - 1" "ev_pageCount v - 1 \<le> ev_page v" using assms by linarith+
  then have "safePage (v\<lparr>ev_page := ev_page v - 1\<rparr>) = safePage v" by (simp add: safePage_def min_absorb2)
  moreover have "page_of (v\<lparr>ev_page := i\<rparr>) j = page_of v j" for i j by (simp add: page_of_def)
  ultimately have "paged (v\<lparr>ev_page := ev_page v - 1\<rparr>) = paged v"
    using paged_page_of [of "v\<lparr>ev_page := ev_page v - 1\<rparr>"] paged_page_of [of v] by simp
  moreover have "ev_step v EvPrev = (if prev_enabled v then v\<lparr>ev_page := ev_page v - 1\<rparr> else v)"
    by (simp add: ev_step_def page_reset_def)
  ultimately show ?thesis by simp
qed

section \<open>The false-positive dialog\<close>

definition web_canReport :: "ledger_entry \<Rightarrow> bool" where
  "web_canReport e \<longleftrightarrow>
     or_empty (le_rule_id e) \<noteq> [] \<and> le_rule_id e \<noteq> Some ''default'' \<and> \<not> isOutcomeEntry e \<and>
     (le_verdict e = Some ''deny'' \<or> le_monitor_match e)"

text \<open>\<open>defaultReplacementYAML\<close>; \<open>None\<close> is the error of reading a property of \<open>null\<close> or of an absent event.\<close>

definition web_replacementYAML :: "json \<Rightarrow> string option" where
  "web_replacementYAML c =
     (case c of JNull \<Rightarrow> None
      | _ \<Rightarrow> (case jprop c ''event'' of
               None \<Rightarrow> None
             | Some JNull \<Rightarrow> None
             | Some ev \<Rightarrow>
                 Some (''id: '' @ js_ostring (jprop ev ''rule_id'') @ ''.replacement'' @ [chr_nl] @ ''match:'' @ [chr_nl] @
                   (if truthy (jprop ev ''tool'') then ''  tool: '' @ json_stringify (the (jprop ev ''tool'')) @ [chr_nl] else []) @
                   ''  any_command_regex:'' @ [chr_nl] @ ''    - '' @ [chr_sq] @ ''(?!)'' @ [chr_sq, chr_nl] @ ''evaluate:'' @ [chr_nl] @
                   ''  - kind: always'' @ [chr_nl] @ ''    action: deny'' @ [chr_nl])))"

text \<open>
  The dialog: its React states and the request in flight with the case and the text it was sent with. The
  buttons are disabled while a request is in flight; the text area is not.
\<close>

datatype fp_call = FpLoad | FpValidate json string | FpApply json string

record fp_dialog =
  fp_seq :: int
  fp_case :: "json option"
  fp_yaml :: string
  fp_validation :: "json option"
  fp_applied :: "json option"
  fp_error :: "string option"
  fp_flight :: "fp_call option"

definition fp_init :: "int \<Rightarrow> fp_dialog" where
  "fp_init n = \<lparr>fp_seq = n, fp_case = None, fp_yaml = [], fp_validation = None, fp_applied = None, fp_error = None, fp_flight = None\<rparr>"

definition fp_busy :: "fp_dialog \<Rightarrow> bool" where
  "fp_busy d \<longleftrightarrow> fp_flight d \<noteq> None"

definition fp_apply_enabled :: "fp_dialog \<Rightarrow> bool" where
  "fp_apply_enabled d \<longleftrightarrow> \<not> fp_busy d \<and> oprop (fp_validation d) ''ok'' = Some (JBool True)"

datatype fp_event = ClickLoad | ClickValidate | ClickApply | EditText string | Reply "string + json"

definition loadFalsePositiveCase :: "fp_dialog \<Rightarrow> fp_dialog" where
  "loadFalsePositiveCase d = d\<lparr>fp_flight := Some FpLoad, fp_error := None, fp_applied := None, fp_validation := None\<rparr>"

definition validateFalsePositive :: "fp_dialog \<Rightarrow> fp_dialog" where
  "validateFalsePositive d =
     (case fp_case d of None \<Rightarrow> d
      | Some c \<Rightarrow> d\<lparr>fp_flight := Some (FpValidate c (fp_yaml d)), fp_error := None, fp_applied := None\<rparr>)"

definition applyFalsePositive :: "fp_dialog \<Rightarrow> fp_dialog" where
  "applyFalsePositive d =
     (case fp_case d of None \<Rightarrow> d | Some c \<Rightarrow> d\<lparr>fp_flight := Some (FpApply c (fp_yaml d)), fp_error := None\<rparr>)"

text \<open>What happens when the request in flight settles, up to and including the \<open>finally\<close>.\<close>

definition fp_reply :: "string + json \<Rightarrow> fp_dialog \<Rightarrow> fp_dialog" where
  "fp_reply res d =
     (case fp_flight d of
        None \<Rightarrow> d
      | Some call \<Rightarrow>
          (let d0 = d\<lparr>fp_flight := None\<rparr> in
           case res of
             Inl e \<Rightarrow> d0\<lparr>fp_error := Some e\<rparr>
           | Inr j \<Rightarrow>
               (case call of
                  FpLoad \<Rightarrow>
                    (case web_replacementYAML j of
                       None \<Rightarrow> d0\<lparr>fp_case := (if truthy (Some j) then Some j else None), fp_error := Some (err_msg (type_error ''c.event''))\<rparr>
                     | Some y \<Rightarrow> d0\<lparr>fp_case := Some j, fp_yaml := y\<rparr>)
                | FpValidate c y \<Rightarrow> d0\<lparr>fp_validation := Some j\<rparr>
                | FpApply c y \<Rightarrow>
                    d0\<lparr>fp_applied := Some j,
                       fp_validation := Some (obj_of [(''ok'', Some (JBool True)), (''replacement_id'', jprop j ''replacement_id'')])\<rparr>)))"

fun fp_step :: "fp_dialog \<Rightarrow> fp_event \<Rightarrow> fp_dialog" where
  "fp_step d ClickLoad = (if fp_busy d then d else loadFalsePositiveCase d)"
| "fp_step d ClickValidate = (if fp_busy d then d else validateFalsePositive d)"
| "fp_step d ClickApply = (if fp_apply_enabled d then applyFalsePositive d else d)"
| "fp_step d (EditText y) = (if fp_case d = None then d else d\<lparr>fp_yaml := y, fp_validation := None, fp_applied := None\<rparr>)"
| "fp_step d (Reply res) = fp_reply res d"

text \<open>The pairs of a case and a replacement the daemon has accepted, by a validation that says so or an application.\<close>

definition fp_accepts :: "fp_dialog \<Rightarrow> fp_event \<Rightarrow> (json \<times> string) set" where
  "fp_accepts d e =
     (case (e, fp_flight d) of
        (Reply (Inr j), Some (FpValidate c y)) \<Rightarrow> if jprop j ''ok'' = Some (JBool True) then {(c, y)} else {}
      | (Reply (Inr j), Some (FpApply c y)) \<Rightarrow> {(c, y)}
      | _ \<Rightarrow> {})"

definition quiet :: "fp_dialog \<Rightarrow> fp_event \<Rightarrow> bool" where
  "quiet d e \<longleftrightarrow> (case e of EditText y \<Rightarrow> \<not> fp_busy d | _ \<Rightarrow> True)"

text \<open>Runs in which the text is not edited while a request is in flight, with what was accepted on the way.\<close>

inductive fp_run :: "(json \<times> string) set \<Rightarrow> fp_dialog \<Rightarrow> bool" where
  start: "fp_run {} (fp_init n)"
| step: "fp_run A d \<Longrightarrow> quiet d e \<Longrightarrow> fp_run (A \<union> fp_accepts d e) (fp_step d e)"

definition fp_ok :: "(json \<times> string) set \<Rightarrow> fp_dialog \<Rightarrow> bool" where
  "fp_ok A d \<longleftrightarrow>
     (oprop (fp_validation d) ''ok'' = Some (JBool True) \<longrightarrow> (\<exists>c. fp_case d = Some c \<and> (c, fp_yaml d) \<in> A)) \<and>
     (case fp_flight d of
        Some (FpValidate c y) \<Rightarrow> fp_case d = Some c \<and> fp_yaml d = y
      | Some (FpApply c y) \<Rightarrow> fp_case d = Some c \<and> fp_yaml d = y \<and> (c, y) \<in> A
      | Some FpLoad \<Rightarrow> fp_validation d = None
      | None \<Rightarrow> True)"

lemma fp_ok_step: "fp_ok A d \<Longrightarrow> quiet d e \<Longrightarrow> fp_ok (A \<union> fp_accepts d e) (fp_step d e)"
  by (cases e)
    (auto simp: fp_ok_def quiet_def fp_accepts_def fp_busy_def fp_apply_enabled_def loadFalsePositiveCase_def
      validateFalsePositive_def applyFalsePositive_def fp_reply_def oprop_def Let_def
      split: option.splits fp_call.splits sum.splits)

lemma fp_run_ok: "fp_run A d \<Longrightarrow> fp_ok A d"
proof (induction rule: fp_run.induct)
  case (start n)
  show ?case by (simp add: fp_ok_def fp_init_def oprop_def)
next
  case (step A d e)
  then show ?case by (simp add: fp_ok_step)
qed


lemma fp_run_clicks:
  "fp_run A d \<Longrightarrow> list_all (\<lambda>e. \<forall>y. e \<noteq> EditText y) es \<Longrightarrow> \<exists>B. fp_run B (foldl fp_step d es)"
proof (induction es arbitrary: A d)
  case (Cons e es)
  then have "fp_run (A \<union> fp_accepts d e) (fp_step d e)"
    by (intro fp_run.step) (auto simp: quiet_def split: fp_event.split)
  with Cons show ?case by auto
qed auto

definition demo_case :: json where
  "demo_case = JObj [(''event'', JObj [(''rule_id'', JStr ''r'')])]"

definition demo_yaml :: string where
  "demo_yaml = the (web_replacementYAML demo_case)"

definition demo_clicks :: "fp_event list" where
  "demo_clicks = [ClickLoad, Reply (Inr demo_case), ClickValidate, Reply (Inr (JObj [(''ok'', JBool True)])), ClickApply]"

lemma demo_yaml_Some: "web_replacementYAML demo_case = Some demo_yaml"
  by (simp add: demo_yaml_def demo_case_def web_replacementYAML_def)

lemma demo_dialog: "fp_flight (foldl fp_step (fp_init 1) demo_clicks) = Some (FpApply demo_case demo_yaml)"
  by (simp add: demo_clicks_def fp_init_def fp_busy_def loadFalsePositiveCase_def fp_reply_def demo_yaml_Some validateFalsePositive_def
      fp_apply_enabled_def applyFalsePositive_def oprop_def)


text \<open>
  Without that condition a text the daemon never saw is sent: an edit while the validation of the old text is
  in flight is followed by the old answer, which enables the button again.
\<close>

lemma edit_in_flight_unvalidated:
  "fp_flight (foldl fp_step (fp_init 1) [ClickLoad, Reply (Inr demo_case), ClickValidate, EditText y,
     Reply (Inr (JObj [(''ok'', JBool True)])), ClickApply]) = Some (FpApply demo_case y)"
  by (simp add: fp_init_def fp_busy_def loadFalsePositiveCase_def fp_reply_def demo_yaml_Some validateFalsePositive_def
      fp_apply_enabled_def applyFalsePositive_def oprop_def)

section \<open>The rows of the sessions tab\<close>

definition session_rows :: "bool \<Rightarrow> json list \<Rightarrow> json list" where
  "session_rows showInternal ss =
     filter (\<lambda>s. showInternal \<or> or_empty (str_field s ''harness'') \<notin> INTERNAL_HARNESSES) ss"

definition session_status :: "json \<Rightarrow> string" where
  "session_status s =
     (if \<not> truthy (jprop s ''active'') then ''ended'' else if truthy (jprop s ''needs_reload'') then ''needs reload'' else ''current'')"

section \<open>The trace of the guardrails\<close>

record trace_stage =
  ts_provider :: string
  ts_entry :: string
  ts_verdict :: string
  ts_latency :: int

record guardrail_trace =
  gt_local :: string
  gt_guardrail :: string
  gt_final :: string
  gt_stages :: "trace_stage list"

definition stageLabel :: "trace_stage list \<Rightarrow> string" where
  "stageLabel stages =
     (if length stages = 0 then ''not run''
      else join [chr_nl] (map (\<lambda>s. ts_provider s @ ''/'' @ ts_entry s @ '': '' @ ts_verdict s) stages))"

definition trace_latency :: "trace_stage list \<Rightarrow> int" where
  "trace_latency stages = fold (\<lambda>s sum. sum + ts_latency s) stages 0"

definition verdictClass :: "string \<Rightarrow> string" where
  "verdictClass verdict =
     (if verdict = ''deny'' then ''trace-node deny'' else if verdict = ''abstain'' then ''trace-node abstain'' else ''trace-node allow'')"

text \<open>The nodes: identifier, horizontal position, label and class; and the edges.\<close>

definition trace_nodes :: "guardrail_trace \<Rightarrow> (string \<times> nat \<times> string \<times> string) list" where
  "trace_nodes t =
     [(''local'', 0, ''local'' @ [chr_nl] @ gt_local t, verdictClass (gt_local t)),
      (''guardrail'', 220, ''guardrail'' @ [chr_nl] @ gt_guardrail t @ [chr_nl] @ int_str (trace_latency (gt_stages t)) @ ''ms'' @
         [chr_nl] @ stageLabel (gt_stages t), verdictClass (gt_guardrail t)),
      (''final'', 500, ''final'' @ [chr_nl] @ gt_final t, verdictClass (gt_final t))]"

definition trace_edges :: "(string \<times> string \<times> string) list" where
  "trace_edges = [(''local-guardrail'', ''local'', ''guardrail''), (''guardrail-final'', ''guardrail'', ''final'')]"

lemma trace_edges_between_nodes:
  "list_all (\<lambda>(i, a, b). a \<in> set (map fst (trace_nodes t)) \<and> b \<in> set (map fst (trace_nodes t))) trace_edges"
  by (simp add: trace_edges_def trace_nodes_def)

end
