(* ===== verification/WebRules.thy ===== *)
theory WebRules
  imports WebApi
begin

text \<open>
  The rule forms of the web dashboard (\<open>control-plane/dashboard-ui/src\<close>): adding a rule
  (\<open>components/AddRuleModal.tsx\<close>), editing one and testing its patterns (\<open>components/RuleEditDrawer.tsx\<close>),
  and the actions and summaries of the rules, mode and MCP tabs (\<open>routes/rules.tsx\<close>,
  \<open>components/ModeToggle.tsx\<close>, \<open>routes/mcp.tsx\<close>). The React states of a form are a record, each handler a
  function on it; markup is not modelled.
\<close>

section \<open>Gates\<close>

datatype match_view = MatchView
  (mv_tool: "string option") (mv_tool_prefix: "string option") (mv_path_glob_regex: "string option")
  (mv_command: "string list option") (mv_path: "string list option") (mv_url: "string list option")
  (mv_any_of: "match_view list option")

text \<open>A value that is not an array in the place of the evaluators, which the rules tab expects, is \<open>None\<close>.\<close>

record gate_view =
  gv_id :: string
  gv_mode :: string
  gv_disabled :: bool
  gv_source :: string
  gv_tool :: "string option"
  gv_tool_prefix :: "string option"
  gv_command :: "string list option"
  gv_path :: "string list option"
  gv_url :: "string list option"
  gv_match :: "match_view option"
  gv_evaluators :: "string list option"

text \<open>\<open>a ?? b\<close> on optional values, and \<open>a ?? []\<close>.\<close>

definition or_else :: "'a option \<Rightarrow> 'a option \<Rightarrow> 'a option" where
  "or_else a b = (case a of None \<Rightarrow> b | Some x \<Rightarrow> Some x)"

definition or_nil :: "'a list option \<Rightarrow> 'a list" where
  "or_nil a = (case a of None \<Rightarrow> [] | Some x \<Rightarrow> x)"

text \<open>One pattern per line: the local functions \<open>splitLines\<close> of both components and \<open>splitRegexes\<close>.\<close>

definition splitLines :: "string \<Rightarrow> string list" where
  "splitLines s = filter (\<lambda>x. 0 < length x) (map trim (split_on chr_nl s))"

section \<open>The presets\<close>

record preset =
  pr_label :: string
  pr_description :: string
  pr_idSuggestion :: string
  pr_tool :: string
  pr_regexPlaceholder :: string
  pr_regexExamples :: string
  pr_action :: string
  pr_fields :: "string list"

abbreviation bsl :: "string \<Rightarrow> string" where "bsl s \<equiv> chr_bs # s"
abbreviation unlines :: "string list \<Rightarrow> string" where "unlines \<equiv> join [chr_nl]"

fun PRESETS :: "rule_type \<Rightarrow> preset" where
  "PRESETS RtPkgInstall =
     \<lparr>pr_label = ''Package install (pip / npm / brew / cargo)'', pr_description = ''Match Bash commands that install packages.'',
      pr_idSuggestion = ''supply-chain.pkg-install'', pr_tool = ''Bash'',
      pr_regexPlaceholder = ''^(pip|pip3|npm|brew|cargo|gem) (install|add) '',
      pr_regexExamples = unlines [''^pip install'', ''^npm install'', ''^brew install'', ''^cargo add''],
      pr_action = ''deny'', pr_fields = [''command'']\<rparr>"
| "PRESETS RtDestructive =
     \<lparr>pr_label = ''Destructive bash (rm -rf, force-push, drop table)'', pr_description = ''Block irreversible shell commands.'',
      pr_idSuggestion = ''rogue.destructive-bash'', pr_tool = ''Bash'',
      pr_regexPlaceholder = unlines [''rm'' @ bsl ''s+-rf'' @ bsl ''b'', ''^git'' @ bsl ''s+push'' @ bsl ''s+.*--force''],
      pr_regexExamples = unlines [''rm'' @ bsl ''s+(-[rRfF]+'' @ bsl ''s+)+'' @ bsl ''S+'',
        ''git'' @ bsl ''s+push'' @ bsl ''s+.*--force'', ''^kubectl delete'', ''DROP'' @ bsl ''s+TABLE''],
      pr_action = ''deny'', pr_fields = [''command'']\<rparr>"
| "PRESETS RtSecretRead =
     \<lparr>pr_label = ''Secret read (.env, ~/.ssh, credentials)'', pr_description = ''Match Read on sensitive paths.'',
      pr_idSuggestion = ''rogue.secret-read'', pr_tool = ''Read'',
      pr_regexPlaceholder = unlines [bsl ''.env('' @ bsl ''.|$)'', ''/'' @ bsl ''.ssh/id_[^/]+$''],
      pr_regexExamples = unlines [bsl ''.env('' @ bsl ''.|$)'', ''/'' @ bsl ''.ssh/id_[^/]+$'', ''/secrets'' @ bsl ''.(json|yaml)$''],
      pr_action = ''deny'', pr_fields = [''path'']\<rparr>"
| "PRESETS RtNetEgressUrl =
     \<lparr>pr_label = ''Network egress (WebFetch / WebSearch URL)'', pr_description = ''Block fetches to suspect hosts.'',
      pr_idSuggestion = ''rogue.net-egress'', pr_tool = ''WebFetch'',
      pr_regexPlaceholder = ''^https?://(?:[a-z0-9-]+'' @ bsl ''.)*attacker'' @ bsl ''.example'',
      pr_regexExamples = unlines [''^https?://[^/]*requestbin'' @ bsl ''.com'', ''^https?://[^/]*pastebin'' @ bsl ''.com'',
        ''^https?://(?:[a-z0-9-]+'' @ bsl ''.)*ngrok'' @ bsl ''.io''],
      pr_action = ''deny'', pr_fields = [''url'']\<rparr>"
| "PRESETS RtBash =
     \<lparr>pr_label = ''Generic bash command'', pr_description = ''Match any Bash invocation.'', pr_idSuggestion = ''custom.bash'',
      pr_tool = ''Bash'', pr_regexPlaceholder = ''^my-command'', pr_regexExamples = ''^my-command'',
      pr_action = ''deny'', pr_fields = [''command'']\<rparr>"
| "PRESETS RtCustom =
     \<lparr>pr_label = ''Custom (advanced '' @ map char_of [0xE2, 0x80, 0x94 :: nat] @ '' all fields)'',
      pr_description = ''Combine command / path / URL matchers freely.'', pr_idSuggestion = ''custom.rule'',
      pr_tool = '''', pr_regexPlaceholder = '''', pr_regexExamples = '''', pr_action = ''deny'', pr_fields = [''all'']\<rparr>"

definition TOOL_OPTIONS :: "string list" where
  "TOOL_OPTIONS = [''Bash'', ''Read'', ''Write'', ''Edit'', ''MultiEdit'', ''WebFetch'', ''WebSearch'', ''Glob'', ''Grep'', ''Task'']"

section \<open>Adding a rule\<close>

record add_form =
  af_ruleType :: rule_type
  af_id :: string
  af_tool :: string
  af_command :: string
  af_path :: string
  af_url :: string
  af_action :: string
  af_mode :: string
  af_submitting :: bool
  af_error :: "string option"

definition opt_or :: "'a \<Rightarrow> 'a option \<Rightarrow> 'a" where
  "opt_or d v = (case v of None \<Rightarrow> d | Some x \<Rightarrow> x)"

text \<open>The initial states of the modal, from the caller's preset when there is one.\<close>

definition no_preset :: rule_preset where
  "no_preset = \<lparr>rp_ruleType = None, rp_id = None, rp_tool = None, rp_commandRegexes = None, rp_pathRegexes = None,
     rp_urlRegexes = None, rp_action = None, rp_mode = None\<rparr>"

definition add_init :: "rule_preset option \<Rightarrow> add_form" where
  "add_init initialPreset =
     (let p = opt_or no_preset initialPreset; t = opt_or RtDestructive (rp_ruleType p); base = PRESETS t in
      \<lparr>af_ruleType = t, af_id = opt_or (pr_idSuggestion base) (rp_id p), af_tool = opt_or (pr_tool base) (rp_tool p),
       af_command = opt_or [] (rp_commandRegexes p), af_path = opt_or [] (rp_pathRegexes p), af_url = opt_or [] (rp_urlRegexes p),
       af_action = opt_or (pr_action base) (rp_action p), af_mode = opt_or ''inherit'' (rp_mode p),
       af_submitting = False, af_error = None\<rparr>)"

text \<open>The effect on a change of \<open>initialPreset\<close>: everything is set again, but not \<open>submitting\<close>.\<close>

definition add_reapply :: "rule_preset option \<Rightarrow> add_form \<Rightarrow> add_form" where
  "add_reapply initialPreset f =
     (case initialPreset of None \<Rightarrow> f | Some p \<Rightarrow> (add_init (Some p))\<lparr>af_submitting := af_submitting f\<rparr>)"

definition onRuleTypeChange :: "rule_type \<Rightarrow> add_form \<Rightarrow> add_form" where
  "onRuleTypeChange t f =
     f\<lparr>af_ruleType := t, af_id := pr_idSuggestion (PRESETS t), af_tool := pr_tool (PRESETS t), af_command := [], af_path := [],
       af_url := [], af_action := pr_action (PRESETS t), af_error := None\<rparr>"

definition field_shown :: "string \<Rightarrow> add_form \<Rightarrow> bool" where
  "field_shown field f \<longleftrightarrow> (let fs = pr_fields (PRESETS (af_ruleType f)) in field \<in> set fs \<or> ''all'' \<in> set fs)"

text \<open>The body: an empty tool is \<open>undefined\<close>, which \<open>JSON.stringify\<close> leaves out, and so is an absent pattern list.\<close>

definition pattern_field :: "bool \<Rightarrow> string \<Rightarrow> json option" where
  "pattern_field shown text =
     (if shown \<and> 0 < length (splitLines text) then Some (JArr (map JStr (splitLines text))) else None)"

definition add_body :: "add_form \<Rightarrow> json" where
  "add_body f =
     obj_of [(''id'', Some (JStr (trim (af_id f)))),
       (''tool'', if trim (af_tool f) = [] then None else Some (JStr (trim (af_tool f)))),
       (''action'', Some (JStr (af_action f))), (''mode'', Some (JStr (af_mode f))),
       (''any_command_regex'', pattern_field (field_shown ''command'' f) (af_command f)),
       (''any_path_regex'', pattern_field (field_shown ''path'' f) (af_path f)),
       (''any_url_regex'', pattern_field (field_shown ''url'' f) (af_url f))]"

text \<open>\<open>onSubmit\<close>: the id passed to \<open>onCreated\<close> when it is called, and the form afterwards.\<close>

definition add_submit :: "web_env \<Rightarrow> add_form \<Rightarrow> (string option \<times> add_form) prog" where
  "add_submit we f =
     (if trim (af_id f) = [] then ret (None, f\<lparr>af_error := Some ''id is required''\<rparr>)
      else tryP
        (bindP (web_send we ''/v1/policy/gates'' ''POST'' (Some (add_body f))) (\<lambda>_.
           ret (Some (trim (af_id f)), f\<lparr>af_error := None, af_submitting := False\<rparr>)))
        (\<lambda>e. ret (None, f\<lparr>af_error := Some (err_msg e), af_submitting := False\<rparr>)))"

text \<open>The choices of the tool menu: the current one first.\<close>

definition tool_choices :: "add_form \<Rightarrow> string list" where
  "tool_choices f = af_tool f # filter (\<lambda>t. t \<noteq> af_tool f) TOOL_OPTIONS"

section \<open>Editing a rule\<close>

definition simpleMatch :: "gate_view \<Rightarrow> match_view option" where
  "simpleMatch g =
     (case gv_match g of None \<Rightarrow> None | Some m \<Rightarrow> if length (or_nil (mv_any_of m)) = 0 then Some m else None)"

definition groupedMatch :: "gate_view \<Rightarrow> bool" where
  "groupedMatch g \<longleftrightarrow> (case gv_match g of None \<Rightarrow> False | Some m \<Rightarrow> 0 < length (or_nil (mv_any_of m)))"

record edit_form =
  ef_mode :: string
  ef_disabled :: bool
  ef_command :: string
  ef_path :: string
  ef_url :: string
  ef_test :: string
  ef_saving :: bool
  ef_error :: "string option"

text \<open>The effect that fills the form when another gate is selected.\<close>

definition edit_load :: "gate_view \<Rightarrow> edit_form \<Rightarrow> edit_form" where
  "edit_load g f =
     (let m = simpleMatch g;
          text = (\<lambda>sel own. unlines (or_nil (or_else (Option.bind m sel) own)))
      in f\<lparr>ef_mode := (if gv_mode g = [] then ''inherit'' else gv_mode g), ef_disabled := gv_disabled g,
           ef_command := text mv_command (gv_command g), ef_path := text mv_path (gv_path g), ef_url := text mv_url (gv_url g),
           ef_test := [], ef_error := None\<rparr>)"

definition edit_body :: "gate_view \<Rightarrow> edit_form \<Rightarrow> json" where
  "edit_body g f =
     obj_of ([(''disabled'', Some (JBool (ef_disabled f))), (''mode'', Some (JStr (ef_mode f)))] @
       (if groupedMatch g then []
        else [(''any_command_regex'', Some (JArr (map JStr (splitLines (ef_command f))))),
              (''any_path_regex'', Some (JArr (map JStr (splitLines (ef_path f))))),
              (''any_url_regex'', Some (JArr (map JStr (splitLines (ef_url f)))))]))"

definition gate_path :: "string \<Rightarrow> string" where
  "gate_path i = ''/v1/policy/gates/'' @ encodeURIComponent i"

text \<open>\<open>onSave\<close>: whether \<open>onSaved\<close> is called, and the form afterwards.\<close>

definition edit_save :: "web_env \<Rightarrow> gate_view \<Rightarrow> edit_form \<Rightarrow> (bool \<times> edit_form) prog" where
  "edit_save we g f =
     tryP
       (bindP (web_send we (gate_path (gv_id g)) ''PATCH'' (Some (edit_body g f))) (\<lambda>_.
          ret (True, f\<lparr>ef_error := None, ef_saving := False\<rparr>)))
       (\<lambda>e. ret (False, f\<lparr>ef_error := Some (err_msg e), ef_saving := False\<rparr>))"

datatype pattern_kind = KCommand | KPath | KUrl

fun kind_field :: "pattern_kind \<Rightarrow> match_view \<Rightarrow> string list option" where
  "kind_field KCommand m = mv_command m"
| "kind_field KPath m = mv_path m"
| "kind_field KUrl m = mv_url m"

fun flattenMatchRegexes :: "pattern_kind \<Rightarrow> match_view \<Rightarrow> string list" where
  "flattenMatchRegexes k (MatchView t tp pg c p u None) = or_nil (kind_field k (MatchView t tp pg c p u None))"
| "flattenMatchRegexes k (MatchView t tp pg c p u (Some subs)) =
     or_nil (kind_field k (MatchView t tp pg c p u (Some subs))) @ concat (map (flattenMatchRegexes k) subs)"

text \<open>\<open>new RegExp(p)\<close>: the message of the error it throws, or its \<open>test\<close>.\<close>

type_synonym regexp = "string \<Rightarrow> string + (string \<Rightarrow> bool)"

fun preview_list :: "regexp \<Rightarrow> string \<Rightarrow> (string \<times> string) list \<Rightarrow> bool \<times> string" where
  "preview_list rx input [] = (False, ''no regex match for this input'')"
| "preview_list rx input ((label, pat) # ps) =
     (case rx pat of
        Inl err \<Rightarrow> (False, ''invalid '' @ label @ '' regex '' @ pat @ '': '' @ err)
      | Inr test \<Rightarrow>
          if test input then (True, ''matches '' @ label @ '' regex: '' @ pat) else preview_list rx input ps)"

definition previewMatcher :: "regexp \<Rightarrow> string \<Rightarrow> string list \<Rightarrow> string list \<Rightarrow> string list \<Rightarrow> (bool \<times> string) option" where
  "previewMatcher rx value cmds paths urls =
     (let input = trim value in
      if input = [] then None
      else Some (preview_list rx input (map (Pair ''command'') cmds @ map (Pair ''path'') paths @ map (Pair ''url'') urls)))"

text \<open>The preview of the drawer for the selected gate.\<close>

definition drawer_preview :: "regexp \<Rightarrow> gate_view \<Rightarrow> edit_form \<Rightarrow> (bool \<times> string) option" where
  "drawer_preview rx g f =
     (let pats = (\<lambda>k text. if groupedMatch g
                          then (case gv_match g of None \<Rightarrow> [] | Some m \<Rightarrow> flattenMatchRegexes k m)
                          else splitLines text)
      in previewMatcher rx (ef_test f) (pats KCommand (ef_command f)) (pats KPath (ef_path f)) (pats KUrl (ef_url f)))"

section \<open>The rules tab\<close>

record rules_tab =
  rt_policy :: polled
  rt_selected :: "string option"
  rt_actionError :: "string option"

text \<open>\<open>onToggle\<close> and \<open>onDelete\<close>; the answer to \<open>confirm\<close> is the first argument of the latter.\<close>

definition gate_action :: "web_env \<Rightarrow> json prog \<Rightarrow> (rules_tab \<Rightarrow> rules_tab) \<Rightarrow> rules_tab \<Rightarrow> rules_tab prog" where
  "gate_action we call after st =
     (let st0 = st\<lparr>rt_actionError := None\<rparr> in
      tryP (bindP call (\<lambda>_. bindP (refreshPolicy we (rt_policy st0)) (\<lambda>p. ret ((after st0)\<lparr>rt_policy := p\<rparr>))))
        (\<lambda>e. ret (st0\<lparr>rt_actionError := Some (err_msg e)\<rparr>)))"

definition onToggle :: "web_env \<Rightarrow> gate_view \<Rightarrow> bool \<Rightarrow> rules_tab \<Rightarrow> rules_tab prog" where
  "onToggle we g enabled =
     gate_action we (web_send we (gate_path (gv_id g)) ''PATCH'' (Some (JObj [(''disabled'', JBool (\<not> enabled))]))) (\<lambda>st. st)"

definition onDelete :: "bool \<Rightarrow> web_env \<Rightarrow> gate_view \<Rightarrow> rules_tab \<Rightarrow> rules_tab prog" where
  "onDelete confirmed we g st =
     (if \<not> confirmed then ret st
      else gate_action we (web_send we (gate_path (gv_id g)) ''DELETE'' None)
        (\<lambda>s. if rt_selected s = Some (gv_id g) then s\<lparr>rt_selected := None\<rparr> else s) st)"

definition em_dash_text :: string where
  "em_dash_text = map char_of [0xE2, 0x80, 0x94 :: nat]"

definition toolSummary :: "gate_view \<Rightarrow> string" where
  "toolSummary g =
     (let own = opt_or em_dash_text (or_else (gv_tool g) (gv_tool_prefix g)) in
      case gv_match g of
        None \<Rightarrow> own
      | Some m \<Rightarrow>
          if 0 < length (or_nil (mv_any_of m)) then
            (let tools = filter (\<lambda>t. t \<noteq> []) (map (\<lambda>sub. opt_or [] (or_else (mv_tool sub) (mv_tool_prefix sub))) (or_nil (mv_any_of m)))
             in if 0 < length tools then join '' | '' tools else ''any_of'')
          else opt_or own (or_else (mv_tool m) (mv_tool_prefix m)))"

fun commandRegexes :: "match_view \<Rightarrow> string list" where
  "commandRegexes (MatchView t tp pg c p u None) = or_nil c"
| "commandRegexes (MatchView t tp pg c p u (Some subs)) = or_nil c @ concat (map commandRegexes subs)"

definition matchSummary :: "gate_view \<Rightarrow> string" where
  "matchSummary g =
     (let own = (case gv_match g of None \<Rightarrow> [] | Some m \<Rightarrow> commandRegexes m);
          regexes = (if length own = 0 then own @ or_nil (gv_command g) else own)
      in if 0 < length regexes
         then join '' | '' (take 2 regexes) @ (if 2 < length regexes then '' +'' @ nat_str (length regexes - 2) else [])
         else if 0 < length (or_nil (gv_evaluators g)) then join '', '' (or_nil (gv_evaluators g)) else em_dash_text)"

section \<open>The mode toggle and the MCP tab\<close>

text \<open>A failed change of mode is an alert: the state and the alert shown.\<close>

definition mode_click :: "web_env \<Rightarrow> string \<Rightarrow> string \<Rightarrow> json option \<Rightarrow> (json option \<times> string option) prog" where
  "mode_click we what target mode =
     tryP (bindP (setMode we target mode) (\<lambda>m. ret (m, None))) (\<lambda>e. ret (mode, Some (what @ err_msg e)))"

definition mode_onClick :: "web_env \<Rightarrow> string \<Rightarrow> json option \<Rightarrow> (json option \<times> string option) prog" where
  "mode_onClick we = mode_click we ''Failed to change mode: ''"

definition mode_onClear :: "web_env \<Rightarrow> json option \<Rightarrow> (json option \<times> string option) prog" where
  "mode_onClear we = mode_click we ''Failed to clear override: '' []"

record pin_row =
  pin_id :: string
  pin_server :: string
  pin_fingerprint :: string
  pin_known :: "string option"
  pin_status :: string
  pin_info :: "json option"
  pin_created :: string
  pin_updated :: string

record mcp_tab =
  mt_pins :: polled
  mt_acting :: "string option"
  mt_actionError :: "string option"
  mt_selected :: "pin_row option"

definition mcp_act :: "web_env \<Rightarrow> pin_row \<Rightarrow> string \<Rightarrow> mcp_tab \<Rightarrow> mcp_tab prog" where
  "mcp_act we row action st =
     (let st0 = st\<lparr>mt_actionError := None\<rparr> in
      tryP
        (bindP (web_send we (''/v1/mcp/pin/'' @ action) ''POST''
             (Some (JObj [(''server'', JStr (pin_server row)), (''fingerprint'', JStr (pin_fingerprint row))]))) (\<lambda>_.
           bindP (refreshPins we (mt_pins st0)) (\<lambda>p. ret (st0\<lparr>mt_pins := p, mt_selected := None, mt_acting := None\<rparr>))))
        (\<lambda>e. ret (st0\<lparr>mt_actionError := Some (err_msg e), mt_acting := None\<rparr>)))"

section \<open>Trimming\<close>

lemma trim_start_id: "s = [] \<or> \<not> is_space (hd s) \<Longrightarrow> trim_start s = s"
  by (cases s) (auto simp: trim_start_def)

lemma trim_end_id: "s = [] \<or> \<not> is_space (last s) \<Longrightarrow> trim_end s = s"
  by (cases s rule: rev_cases) (auto simp: trim_end_def)

lemma trim_id: "s = [] \<or> \<not> is_space (hd s) \<and> \<not> is_space (last s) \<Longrightarrow> trim s = s"
  by (auto simp: trim_def trim_start_id trim_end_id)

lemma trim_start_no_space: "trim_start s = [] \<or> \<not> is_space (hd (trim_start s))"
  using hd_dropWhile [of is_space s] by (auto simp: trim_start_def)

lemma trim_end_no_space: "trim_end s = [] \<or> \<not> is_space (last (trim_end s))"
proof -
  let ?d = "dropWhile is_space (rev s)"
  have "?d = [] \<or> \<not> is_space (hd ?d)" using hd_dropWhile [of is_space "rev s"] by blast
  then show ?thesis by (cases ?d) (auto simp: trim_end_def)
qed

lemma trim_end_prefix: "\<exists>t. s = trim_end s @ t"
proof -
  have "rev s = takeWhile is_space (rev s) @ dropWhile is_space (rev s)" by simp
  then have "s = rev (dropWhile is_space (rev s)) @ rev (takeWhile is_space (rev s))" by (metis rev_append rev_rev_ident)
  then show ?thesis unfolding trim_end_def by blast
qed

lemma trim_no_space: "trim s = [] \<or> \<not> is_space (hd (trim s)) \<and> \<not> is_space (last (trim s))"
proof -
  obtain t where "trim_start s = trim_end (trim_start s) @ t" using trim_end_prefix by blast
  then show ?thesis
    using trim_start_no_space [of s] trim_end_no_space [of "trim_start s"] unfolding trim_def
    by (cases "trim_end (trim_start s)") auto
qed

lemma trim_idem [simp]: "trim (trim s) = trim s"
  by (rule trim_id) (rule trim_no_space)

text \<open>A text that a line of a form keeps as it is.\<close>

definition clean_line :: "string \<Rightarrow> bool" where
  "clean_line s \<longleftrightarrow> s \<noteq> [] \<and> chr_nl \<notin> set s \<and> \<not> is_space (hd s) \<and> \<not> is_space (last s)"

lemma clean_line_trim: "clean_line s \<Longrightarrow> trim s = s"
  by (rule trim_id) (simp add: clean_line_def)

lemma splitLines_unlines: "list_all clean_line ls \<Longrightarrow> splitLines (unlines ls) = ls"
proof (cases "ls = []")
  case False
  assume a: "list_all clean_line ls"
  with False have "split_on chr_nl (unlines ls) = ls" by (intro split_join) (auto simp: list_all_iff clean_line_def)
  moreover have "filter (\<lambda>x. 0 < length x) (map trim ls) = ls"
    using a by (induction ls) (auto simp: clean_line_trim, auto simp: clean_line_def)
  ultimately show ?thesis by (simp add: splitLines_def)
qed (simp add: splitLines_def trim_def trim_start_def trim_end_def)

lemma splitLines_one: "clean_line s \<Longrightarrow> splitLines s = [s]"
  using splitLines_unlines [of "[s]"] by simp

lemma splitLines_clean: "list_all clean_line (splitLines s)"
proof -
  have "clean_line (trim w)" if "w \<in> set (split_on chr_nl s)" "trim w \<noteq> []" for w
  proof -
    have "set (trim w) \<subseteq> set w"
      by (auto simp: trim_def trim_start_def trim_end_def dest!: set_dropWhileD)
    with split_on_pieces [OF that(1)] trim_no_space [of w] that(2) show ?thesis by (auto simp: clean_line_def)
  qed
  then show ?thesis by (auto simp: splitLines_def list_all_iff)
qed

lemma splitLines_idem: "splitLines (unlines (splitLines s)) = splitLines s"
  by (rule splitLines_unlines) (rule splitLines_clean)

lemma escape_set: "set (escapeRegexLiteral v) \<subseteq> insert chr_bs (set v)"
  by (auto simp: escapeRegexLiteral_def split: if_splits)

lemma exactRegex_clean: "chr_nl \<notin> set v \<Longrightarrow> clean_line (exactRegex v)"
  using escape_set [of v] by (auto simp: clean_line_def exactRegex_def is_space_def)

end
