(* ===== verification/WebGuardrails.thy ===== *)
theory WebGuardrails
  imports WebApi
begin

text \<open>
  The guardrails tab of the web dashboard (\<open>routes/guardrails.tsx\<close>): the three reads of a refresh and the
  optimistic toggles, whose saves can be answered in any order, as a state machine over clicks and
  answers.
\<close>

section \<open>The state and its steps\<close>

type_synonym grkey = "string \<times> string"

text \<open>An entry's key: provider and entry, \<open>provider_id/entry_id\<close> in the source.\<close>

definition key_text :: "grkey \<Rightarrow> string" where
  "key_text k = fst k @ ''/'' @ snd k"

text \<open>
  A save in flight: its request number, the list it sent and the list to go back to.
\<close>

record save_flight =
  sv_id :: nat
  sv_next :: "grkey list"
  sv_prev :: "grkey list"

record guardrails_tab =
  gr_enabled :: "grkey list"
  gr_error :: string
  gr_request :: nat
  gr_flights :: "save_flight list"

datatype gr_event = Toggle grkey bool | Saved nat "grkey list" | SaveFailed nat string

definition toggled :: "grkey \<Rightarrow> bool \<Rightarrow> grkey list \<Rightarrow> grkey list" where
  "toggled k checked enabled = (if checked then enabled @ [k] else filter (\<lambda>i. key_text i \<noteq> key_text k) enabled)"

definition toggleEntry :: "grkey \<Rightarrow> bool \<Rightarrow> guardrails_tab \<Rightarrow> guardrails_tab" where
  "toggleEntry k checked s =
     (let prev = gr_enabled s; requestID = gr_request s + 1; nxt = toggled k checked (gr_enabled s)
      in s\<lparr>gr_request := requestID, gr_enabled := nxt,
           gr_flights := gr_flights s @ [\<lparr>sv_id = requestID, sv_next = nxt, sv_prev = prev\<rparr>]\<rparr>)"

definition flight_of :: "nat \<Rightarrow> guardrails_tab \<Rightarrow> save_flight option" where
  "flight_of i s = List.find (\<lambda>f. sv_id f = i) (gr_flights s)"

definition land :: "nat \<Rightarrow> guardrails_tab \<Rightarrow> guardrails_tab" where
  "land i s = s\<lparr>gr_flights := filter (\<lambda>f. sv_id f \<noteq> i) (gr_flights s)\<rparr>"

definition save_answered :: "nat \<Rightarrow> grkey list \<Rightarrow> guardrails_tab \<Rightarrow> guardrails_tab" where
  "save_answered i entries s =
     (case flight_of i s of None \<Rightarrow> s
      | Some f \<Rightarrow> if gr_request s = i then (land i s)\<lparr>gr_enabled := entries\<rparr> else land i s)"

definition save_failed :: "nat \<Rightarrow> string \<Rightarrow> guardrails_tab \<Rightarrow> guardrails_tab" where
  "save_failed i msg s =
     (case flight_of i s of None \<Rightarrow> s
      | Some f \<Rightarrow> (if gr_request s = i then (land i s)\<lparr>gr_enabled := sv_prev f\<rparr> else land i s)\<lparr>gr_error := msg\<rparr>)"

fun gr_step :: "guardrails_tab \<Rightarrow> gr_event \<Rightarrow> guardrails_tab" where
  "gr_step s (Toggle k checked) = toggleEntry k checked s"
| "gr_step s (Saved i entries) = save_answered i entries s"
| "gr_step s (SaveFailed i msg) = save_failed i msg s"

definition gr_run :: "guardrails_tab \<Rightarrow> gr_event list \<Rightarrow> guardrails_tab" where
  "gr_run s es = foldl gr_step s es"

text \<open>The state a refresh leaves: the daemon's list and no save in flight.\<close>

definition gr_fresh :: "grkey list \<Rightarrow> guardrails_tab" where
  "gr_fresh entries = \<lparr>gr_enabled = entries, gr_error = [], gr_request = 0, gr_flights = []\<rparr>"

definition gr_enabled_keys :: "guardrails_tab \<Rightarrow> string set" where
  "gr_enabled_keys s = key_text ` set (gr_enabled s)"

definition providerNote :: "string \<Rightarrow> string" where
  "providerNote i =
     (if i = ''nvidia'' then ''Runtime classifier entries can block after local rules allow.''
      else if i = ''openrouter'' then
        ''Catalog visibility only in this slice. OpenRouter entries do not run as runtime classifiers yet.''
      else ''Provider-specific behavior depends on runtime enforcement support.'')"

text \<open>\<open>refresh\<close>: the three reads, then the states set from the answers; an error of any is shown.\<close>

definition entry_key :: "json \<Rightarrow> grkey" where
  "entry_key j = (or_empty (str_field j ''provider_id''), or_empty (str_field j ''entry_id''))"

definition json_items :: "json option \<Rightarrow> json list" where
  "json_items v = (case v of Some (JArr xs) \<Rightarrow> xs | _ \<Rightarrow> [])"

record guardrails_data =
  gd_providers :: "json list"
  gd_catalog :: "json list"
  gd_errors :: "json list"

text \<open>\<open>Promise.all\<close>: every request is sent; the first one that fails in the order of the list gives the error.\<close>

definition settle :: "'a prog \<Rightarrow> (js_error + 'a) prog" where
  "settle m = tryP (bindP m (\<lambda>x. ret (Inr x))) (\<lambda>e. ret (Inl e))"

definition gr_refresh :: "web_env \<Rightarrow> guardrails_data \<times> guardrails_tab \<Rightarrow> ((guardrails_data \<times> guardrails_tab) \<times> js_error option) prog" where
  "gr_refresh we st =
     (let st0 = ((fst st)\<lparr>gd_errors := []\<rparr>, (snd st)\<lparr>gr_error := []\<rparr>) in
      bindP (settle (listGuardrailProviders we)) (\<lambda>p.
      bindP (settle (listGuardrailCatalog we)) (\<lambda>c.
      bindP (settle (listGuardrailEnabled we)) (\<lambda>e.
        ret (case (p, c, e) of
               (Inr pj, Inr cj, Inr ej) \<Rightarrow>
                 ((\<lparr>gd_providers = json_items (jprop pj ''providers''), gd_catalog = json_items (jprop cj ''entries''),
                    gd_errors = json_items (jprop cj ''provider_errors'')\<rparr>,
                   (snd st0)\<lparr>gr_enabled := map entry_key (json_items (jprop ej ''entries''))\<rparr>), None)
             | (Inl x, _, _) \<Rightarrow> (st0, Some x)
             | (_, Inl x, _) \<Rightarrow> (st0, Some x)
             | (_, _, Inl x) \<Rightarrow> (st0, Some x))))))"

text \<open>The effect of the first render shows the error; the button's handler has no \<open>catch\<close>.\<close>

definition gr_mount :: "web_env \<Rightarrow> guardrails_data \<times> guardrails_tab \<Rightarrow> (guardrails_data \<times> guardrails_tab) prog" where
  "gr_mount we st =
     bindP (gr_refresh we st) (\<lambda>(st1, failed).
       ret (case failed of None \<Rightarrow> st1 | Some x \<Rightarrow> (fst st1, (snd st1)\<lparr>gr_error := err_msg x\<rparr>)))"

definition gr_button :: "web_env \<Rightarrow> guardrails_data \<times> guardrails_tab \<Rightarrow> (guardrails_data \<times> guardrails_tab) prog" where
  "gr_button we st = bindP (gr_refresh we st) (\<lambda>(st1, failed). ret st1)"

section \<open>Stale answers\<close>

definition gr_wf :: "guardrails_tab \<Rightarrow> bool" where
  "gr_wf s \<longleftrightarrow> list_all (\<lambda>f. sv_id f \<le> gr_request s) (gr_flights s) \<and> distinct (map sv_id (gr_flights s))"

lemma gr_wf_step: "gr_wf s \<Longrightarrow> gr_wf (gr_step s e)"
proof (cases e)
  case (Toggle k b)
  assume w: "gr_wf s"
  then have "gr_request s + 1 \<notin> sv_id ` set (gr_flights s)" by (auto simp: gr_wf_def list_all_iff)
  with w Toggle show ?thesis by (auto simp: gr_wf_def toggleEntry_def Let_def list_all_iff)
qed (auto simp: gr_wf_def save_answered_def save_failed_def land_def list_all_iff distinct_map_filter split: option.split)

interpretation gr: machine gr_step gr_wf "\<lambda>_. True"
  by unfold_locales (rule gr_wf_step)

text \<open>Whether an event is the answer to the save with the given number.\<close>

definition answers :: "nat \<Rightarrow> gr_event \<Rightarrow> bool" where
  "answers i e = (case e of Toggle k b \<Rightarrow> False | Saved j entries \<Rightarrow> j = i | SaveFailed j msg \<Rightarrow> j = i)"

definition is_toggle :: "gr_event \<Rightarrow> bool" where
  "is_toggle e = (case e of Toggle k b \<Rightarrow> True | _ \<Rightarrow> False)"

lemma stale_answer: "\<not> is_toggle e \<Longrightarrow> \<not> answers (gr_request s) e \<Longrightarrow>
    gr_enabled (gr_step s e) = gr_enabled s \<and> gr_request (gr_step s e) = gr_request s \<and>
    flight_of (gr_request s) (gr_step s e) = flight_of (gr_request s) s"
proof -
  have find_filter: "List.find (\<lambda>f. sv_id f = i) (filter (\<lambda>f. sv_id f \<noteq> j) fs) = List.find (\<lambda>f. sv_id f = i) fs"
    if "j \<noteq> i" for i j and fs :: "save_flight list"
    using that by (induction fs) auto
  assume "\<not> is_toggle e" "\<not> answers (gr_request s) e"
  then show ?thesis
    by (cases e) (auto simp: is_toggle_def answers_def save_answered_def save_failed_def land_def flight_of_def find_filter
      split: option.split)
qed

interpretation gr_stale: machine gr_step "\<lambda>s. gr_enabled s = l \<and> gr_request s = n \<and> flight_of n s = f"
    "\<lambda>e. \<not> is_toggle e \<and> \<not> answers n e"
  by unfold_locales (use stale_answer in blast)

lemma stale_answers: "list_all (\<lambda>e. \<not> is_toggle e \<and> \<not> answers (gr_request s) e) es \<Longrightarrow>
    gr_enabled (gr_run s es) = gr_enabled s \<and> gr_request (gr_run s es) = gr_request s \<and>
    flight_of (gr_request s) (gr_run s es) = flight_of (gr_request s) s"
  unfolding gr_run_def by (rule gr_stale.run) simp_all

lemma settled_step: "\<not> is_toggle e \<Longrightarrow> flight_of (gr_request s) s = None \<Longrightarrow>
    gr_enabled (gr_step s e) = gr_enabled s \<and> gr_request (gr_step s e) = gr_request s \<and>
    flight_of (gr_request s) (gr_step s e) = None"
proof (cases "answers (gr_request s) e")
  case True
  assume "\<not> is_toggle e" "flight_of (gr_request s) s = None"
  with True show ?thesis by (cases e) (auto simp: is_toggle_def answers_def save_answered_def save_failed_def)
qed (simp add: stale_answer)

interpretation gr_settled: machine gr_step "\<lambda>s. gr_enabled s = l \<and> gr_request s = n \<and> flight_of n s = None" "\<lambda>e. \<not> is_toggle e"
proof
  fix s e assume "gr_enabled s = l \<and> gr_request s = n \<and> flight_of n s = None" "\<not> is_toggle e"
  with settled_step [of e s] show "gr_enabled (gr_step s e) = l \<and> gr_request (gr_step s e) = n \<and> flight_of n (gr_step s e) = None" by simp
qed

lemma settled_run: "list_all (\<lambda>e. \<not> is_toggle e) es \<Longrightarrow> flight_of (gr_request s) s = None \<Longrightarrow>
    gr_enabled (gr_run s es) = gr_enabled s"
  unfolding gr_run_def using gr_settled.run [of s "gr_enabled s" "gr_request s" es] by simp

lemma landed: "List.find (\<lambda>f. sv_id f = i) (filter (\<lambda>f. sv_id f \<noteq> i) fs) = None"
  by (induction fs) auto

lemma toggle_flight:
  assumes "gr_wf s"
  shows "flight_of (gr_request s + 1) (toggleEntry k b s) =
    Some \<lparr>sv_id = gr_request s + 1, sv_next = toggled k b (gr_enabled s), sv_prev = gr_enabled s\<rparr>"
proof -
  have app: "List.find (\<lambda>f. sv_id f = i) (fs @ [g]) = Some g"
    if "\<forall>f \<in> set fs. sv_id f < i" "sv_id g = i" for fs i and g :: save_flight
    using that by (induction fs) auto
  have "\<forall>f \<in> set (gr_flights s). sv_id f < gr_request s + 1" using assms by (auto simp: gr_wf_def list_all_iff)
  from app [OF this] show ?thesis by (simp add: flight_of_def toggleEntry_def Let_def)
qed

text \<open>C40. The last toggle wins: whatever was in flight before it and in whatever order the saves are answered, the tab shows the list of
  the last toggle until its own save is answered, then the list the daemon stored for it, or, when it failed, the list from before that
  toggle; answers to older saves change nothing but the error line.\<close>

theorem last_toggle_wins:
  assumes "gr_wf s" and "list_all (\<lambda>e. \<not> is_toggle e \<and> \<not> answers (gr_request s + 1) e) late" and "list_all (\<lambda>e. \<not> is_toggle e) rest"
  shows "gr_enabled (gr_run s (Toggle k b # late)) = toggled k b (gr_enabled s) \<and>
    gr_enabled (gr_run s (Toggle k b # late @ Saved (gr_request s + 1) entries # rest)) = entries \<and>
    gr_enabled (gr_run s (Toggle k b # late @ SaveFailed (gr_request s + 1) msg # rest)) = gr_enabled s"
proof -
  let ?t = "toggleEntry k b s" and ?u = "gr_run (toggleEntry k b s) late"
  have r: "gr_request ?t = gr_request s + 1" and e: "gr_enabled ?t = toggled k b (gr_enabled s)"
    by (simp_all add: toggleEntry_def Let_def)
  from stale_answers [of ?t late] assms(2) r
  have u: "gr_enabled ?u = toggled k b (gr_enabled s)" "gr_request ?u = gr_request s + 1"
      "flight_of (gr_request s + 1) ?u = Some \<lparr>sv_id = gr_request s + 1, sv_next = toggled k b (gr_enabled s), sv_prev = gr_enabled s\<rparr>"
    using toggle_flight [OF assms(1), of k b] by (simp_all add: e)
  have split: "gr_run s (Toggle k b # late @ x # rest) = gr_run (gr_step ?u x) rest" for x by (simp add: gr_run_def)
  have gone: "flight_of (gr_request s + 1) (land (gr_request s + 1) ?u) = None" by (simp add: flight_of_def land_def landed)
  have "gr_enabled (gr_run (gr_step ?u (Saved (gr_request s + 1) entries)) rest) = entries"
    using settled_run [OF assms(3), of "gr_step ?u (Saved (gr_request s + 1) entries)"] u gone
    by (simp add: save_answered_def land_def flight_of_def)
  moreover have "gr_enabled (gr_run (gr_step ?u (SaveFailed (gr_request s + 1) msg)) rest) = gr_enabled s"
    using settled_run [OF assms(3), of "gr_step ?u (SaveFailed (gr_request s + 1) msg)"] u gone
    by (simp add: save_failed_def land_def flight_of_def)
  ultimately show ?thesis unfolding split using u(1) by (simp add: gr_run_def)
qed

theorem last_toggle_wins_witness:
  "gr_enabled (gr_run (gr_run (gr_fresh []) [Toggle (''p'', ''a'') True]) (Toggle (''p'', ''b'') True #
     [Saved 1 [(''p'', ''a'')]] @ Saved 2 [(''p'', ''a''), (''p'', ''b'')] # [])) = [(''p'', ''a''), (''p'', ''b'')]"
proof -
  have wf: "gr_wf (gr_run (gr_fresh []) [Toggle (''p'', ''a'') True])"
    unfolding gr_run_def by (rule gr.run) (simp_all add: gr_wf_def gr_fresh_def)
  have r: "gr_request (gr_run (gr_fresh []) [Toggle (''p'', ''a'') True]) = 1"
    by (simp add: gr_run_def gr_fresh_def toggleEntry_def Let_def)
  show ?thesis
    using last_toggle_wins [OF wf, of "[Saved 1 [(''p'', ''a'')]]" "[]" "(''p'', ''b'')" True "[(''p'', ''a''), (''p'', ''b'')]" "[]"]
    by (simp add: r is_toggle_def answers_def numeral_2_eq_2)
qed

text \<open>
  Two toggles that both fail leave the first one shown, though the daemon stored neither: the failure of
  the first is stale when it arrives, and the second goes back to the list the first had set.
\<close>

lemma failed_toggles_shown:
  "gr_enabled (gr_run (gr_fresh []) [Toggle k True, Toggle l True, SaveFailed 1 m, SaveFailed 2 m]) = [k]"
  by (simp add: gr_run_def gr_fresh_def toggleEntry_def Let_def save_failed_def flight_of_def land_def toggled_def)

end
