(* ===== verification/WebViews.thy ===== *)
theory WebViews
  imports WebEvents WebRules WebGuardrails
begin

text \<open>
  What the tabs of the web dashboard show and how their dialogs open and close
  (\<open>control-plane/dashboard-ui/src\<close>): \<open>components/Header.tsx\<close>, \<open>routes/__root.tsx\<close>, the tables and details of
  \<open>routes/events.tsx\<close>, \<open>sessions.tsx\<close>, \<open>mcp.tsx\<close>, \<open>guardrails.tsx\<close>, \<open>rules.tsx\<close>. A table row is its cells, each a text and
  its tooltip (empty: none); layout and style are not modelled, except for the classes chosen by a value.
\<close>

type_synonym cell = "string \<times> string"

definition plain :: "string \<Rightarrow> cell" where
  "plain t = (t, [])"

definition dash_if_empty :: "string \<Rightarrow> string" where
  "dash_if_empty s = (if s = [] then em_dash_text else s)"

definition opt_dash :: "string option \<Rightarrow> string" where
  "opt_dash s = (case s of None \<Rightarrow> em_dash_text | Some t \<Rightarrow> t)"

section \<open>Frame\<close>

definition upper_text :: "string \<Rightarrow> string" where
  "upper_text s = map (\<lambda>c. if is_lower c then char_of (code_of c - 32) else c) s"

text \<open>The badge of the header: text and class.\<close>

definition web_Header :: "string \<Rightarrow> json option \<Rightarrow> string \<times> string \<times> string" where
  "web_Header base mode =
     (let label = (case Option.bind mode (\<lambda>m. str_field m ''mode'') of None \<Rightarrow> [] | Some t \<Rightarrow> upper_text t);
          badge = (if label = ''FIREWALL'' then ''bg-deny/20 text-deny'' else if label = ''MONITOR'' then ''bg-monitor/20 text-monitor''
                   else ''bg-chip text-muted'')
      in (if base = [] then ''(dev proxy)'' else base, dash_if_empty label, badge))"

definition root_tabs :: "(string \<times> string) list" where
  "root_tabs = [(''/events'', ''Events''), (''/rules'', ''Rules''), (''/sessions'', ''Sessions''), (''/mcp'', ''MCP''), (''/guardrails'', ''Guardrails'')]"

text \<open>The mode toggle: which button is lit, the note, and whether the override can be cleared.\<close>

definition mode_lit :: "json option \<Rightarrow> string \<Rightarrow> bool" where
  "mode_lit mode target \<longleftrightarrow> Option.bind mode (\<lambda>m. str_field m ''mode'') = Some target"

definition mode_note :: "json option \<Rightarrow> string \<times> bool" where
  "mode_note mode =
     (let get = (\<lambda>k. or_empty (Option.bind mode (\<lambda>m. str_field m k))); env = get ''env''; ov = get ''runtime_override''
      in (''env='' @ dash_if_empty env @ '' override='' @ dash_if_empty ov, ov \<noteq> []))"

section \<open>The rows of the events tab\<close>

definition root_panel :: "locale_dates \<Rightarrow> json option \<Rightarrow> cell list" where
  "root_panel l root =
     (let get = (\<lambda>k. Option.bind root (\<lambda>r. jprop r k)); at = Option.bind root (\<lambda>r. str_field r ''computed_at'');
          num = (\<lambda>k. case get k of None \<Rightarrow> em_dash_text | Some JNull \<Rightarrow> em_dash_text | Some j \<Rightarrow> js_string j);
          h = or_empty (Option.bind root (\<lambda>r. str_field r ''root''))
      in [plain (if h = [] then em_dash_text else shortHash (Some h) 32), plain (num ''seq''), plain (num ''count''),
          (shortTime l at, fullLocal l at)])"

definition monitor_tip :: "ledger_entry \<Rightarrow> string" where
  "monitor_tip e = (if le_monitor_match e then ''monitor mode: rule '' @ or_empty (le_rule_id e) @ '' would have denied'' else [])"

definition event_cells :: "locale_dates \<Rightarrow> ledger_entry \<Rightarrow> cell list" where
  "event_cells l e =
     [plain (int_str (le_seq e)), (shortTime l (Some (le_ts e)), fullLocal l (Some (le_ts e))), plain (le_source e),
      plain (dash_if_empty (or_empty (le_rule_id e))),
      (if or_empty (le_verdict e) \<noteq> [] then (fst (verdictDisplay (le_verdict e) (le_monitor_match e)), monitor_tip e) else plain em_dash_text),
      plain (le_signer e), plain (shortHash (Some (le_tool_use_id e)) 16), (shortHash (Some (le_leaf_hash e)) 12, le_leaf_hash e)]"

definition outcome_cells :: "locale_dates \<Rightarrow> ledger_entry \<Rightarrow> cell list" where
  "outcome_cells l e =
     [plain (map char_of [0xE2, 0x86, 0xB3 :: nat] @ '' '' @ int_str (le_seq e)), (shortTime l (Some (le_ts e)), fullLocal l (Some (le_ts e))),
      plain (le_source e), plain ''tool outcome'', plain (fst (verdictDisplay (le_verdict e) (le_monitor_match e))),
      plain (le_signer e), plain (shortHash (Some (le_tool_use_id e)) 16), (shortHash (Some (le_leaf_hash e)) 12, le_leaf_hash e)]"

text \<open>Each row with the sequence number a click on it opens.\<close>

definition event_table :: "locale_dates \<Rightarrow> events_view \<Rightarrow> (int \<times> cell list) list" where
  "event_table l v =
     concat (map (\<lambda>e. (le_seq e, event_cells l e) #
        (case row_outcome v e of None \<Rightarrow> [] | Some out \<Rightarrow> [(le_seq out, outcome_cells l out)])) (paged v))"

definition trace_item :: "json \<Rightarrow> string" where
  "trace_item t =
     (let get = (\<lambda>k. or_empty (str_field t k)); layer = (if get ''layer'' \<noteq> [] then get ''layer'' else if get ''source'' \<noteq> [] then get ''source'' else ''policy'')
      in layer @ '':'' @ js_ostring (jprop t ''rule_id'') @ ''='' @ js_ostring (jprop t ''verdict'') @
         (if jprop t ''precedence'' = Some (JStr ''priority'')
          then '' priority='' @ (case jprop t ''priority'' of None \<Rightarrow> ''0'' | Some JNull \<Rightarrow> ''0'' | Some j \<Rightarrow> js_string j) else []))"

definition policy_trace_text :: "json option \<Rightarrow> string option" where
  "policy_trace_text v =
     (case json_items v of [] \<Rightarrow> None
      | items \<Rightarrow> Some (join ('' '' @ map char_of [0xE2, 0x86, 0x92 :: nat] @ '' '') (map trace_item items)))"

fun subject_text :: "subject_label \<Rightarrow> string" where
  "subject_text SubCommand = ''command''"
| "subject_text SubPath = ''path''"
| "subject_text SubUrl = ''url''"

text \<open>The dialog of an entry: labels and values, in order.\<close>

definition detail_rows :: "locale_dates \<Rightarrow> ledger_entry \<Rightarrow> (string \<times> string) list" where
  "detail_rows l e =
     [(''time'', fullLocal l (Some (le_ts e))), (''source'', le_source e)] @
     (case subjectFromLedgerEntry e of None \<Rightarrow> [] | Some (k, v) \<Rightarrow> [(subject_text k, v)]) @
     [(''rule'', opt_dash (le_rule_id e)), (''verdict'', fst (verdictDisplay (le_verdict e) (le_monitor_match e)))] @
     (if le_monitor_match e
      then [(''monitor'', ''suppressed deny '' @ em_dash_text @ '' runtime allowed; ledger keeps original verdict'')] else []) @
     (case policy_trace_text (le_policy_trace e) of None \<Rightarrow> [] | Some t \<Rightarrow> [(''policy'', t)]) @
     [(''signer'', dash_if_empty (le_signer e)), (''tool_use_id'', dash_if_empty (le_tool_use_id e)),
      (''payload_hash'', le_payload_hash e), (''leaf_hash'', le_leaf_hash e), (''prev_leaf'', le_prev_leaf e)] @
     (if 0 < length (le_sig e) then [(''sig'', le_sig e)] else [])"

section \<open>Menu, form and dialog of the events tab\<close>

text \<open>
  The states of \<open>EventsTab\<close> outside the list, and of the dialog: the trace shown, tagged with the entry it was
  requested for; the request whose answer is still wanted; which control has the focus.
\<close>

datatype focus = OnClose | OnReplacement

record events_page =
  ep_view :: events_view
  ep_menu :: "(int \<times> int \<times> rule_preset) option"
  ep_trace :: "(int \<times> json) option"
  ep_wait :: "int option"
  ep_focus :: focus

definition shown_entry :: "events_page \<Rightarrow> ledger_entry option" where
  "shown_entry p = Option.bind (ev_selected (ep_view p)) (\<lambda>s. find (\<lambda>e. le_seq e = s) (ev_entries (ep_view p)))"

datatype page_event =
    PgControl ev_control | PgContext ledger_entry int int int int | PgBlock | PgAway | PgEscape | PgFormClosed
  | PgTrace int json | PgTraceFailed int | PgTyping

text \<open>
  The effects after a change: a closed dialog is unmounted; another entry requests its trace. \<open>onClose\<close> is a
  new function in every render of the tab, so each one also focuses the close button of an open dialog.
\<close>

definition page_effects :: "events_page \<Rightarrow> events_page \<Rightarrow> events_page" where
  "page_effects old p =
     (if ev_selected (ep_view p) = None then p\<lparr>ep_trace := None, ep_wait := None\<rparr>
      else (let q = (if shown_entry p = shown_entry old \<and> ev_selected (ep_view old) \<noteq> None then p
                     else (case shown_entry p of
                             None \<Rightarrow> p\<lparr>ep_wait := None, ep_trace := (if ev_selected (ep_view old) = None then None else ep_trace p)\<rparr>
                           | Some e \<Rightarrow> p\<lparr>ep_trace := None, ep_wait := Some (le_seq e)\<rparr>))
            in q\<lparr>ep_focus := OnClose\<rparr>))"

definition open_menu :: "ledger_entry \<Rightarrow> int \<Rightarrow> int \<Rightarrow> int \<Rightarrow> int \<Rightarrow> events_page \<Rightarrow> events_page" where
  "open_menu e x y width height p =
     (case rulePresetFromLedgerEntry e of None \<Rightarrow> p
      | Some r \<Rightarrow> p\<lparr>ep_menu := Some (min x (width - 220), min y (height - 64), r)\<rparr>)"

definition page_handle :: "page_event \<Rightarrow> events_page \<Rightarrow> events_page" where
  "page_handle ev p =
     (case ev of
        PgControl c \<Rightarrow> p\<lparr>ep_view := ev_step (ep_view p) c\<rparr>
      | PgContext e x y width height \<Rightarrow> open_menu e x y width height p
      | PgBlock \<Rightarrow>
          (case ep_menu p of None \<Rightarrow> p
           | Some (x, y, r) \<Rightarrow> p\<lparr>ep_view := (ep_view p)\<lparr>ev_preset := Some r\<rparr>, ep_menu := None\<rparr>)
      | PgAway \<Rightarrow> p\<lparr>ep_menu := None\<rparr>
      | PgEscape \<Rightarrow> p\<lparr>ep_menu := None, ep_view := (ep_view p)\<lparr>ev_selected := None\<rparr>\<rparr>
      | PgFormClosed \<Rightarrow> p\<lparr>ep_view := (ep_view p)\<lparr>ev_preset := None\<rparr>\<rparr>
      | _ \<Rightarrow> p)"

text \<open>An answer of the trace request changes the dialog only; typing focuses the text.\<close>

definition page_step :: "events_page \<Rightarrow> page_event \<Rightarrow> events_page" where
  "page_step p ev =
     (case ev of
        PgTrace s t \<Rightarrow> if ep_wait p = Some s then p\<lparr>ep_trace := Some (s, t), ep_wait := None\<rparr> else p
      | PgTraceFailed s \<Rightarrow> if ep_wait p = Some s then p\<lparr>ep_trace := None, ep_wait := None\<rparr> else p
      | PgTyping \<Rightarrow> if ev_selected (ep_view p) = None then p else p\<lparr>ep_focus := OnReplacement\<rparr>
      | _ \<Rightarrow> page_effects p (page_handle ev p))"

definition page_init :: events_page where
  "page_init = \<lparr>ep_view = events_init, ep_menu = None, ep_trace = None, ep_wait = None, ep_focus = OnClose\<rparr>"

text \<open>The trace shown, and the one waited for, belong to the entry shown.\<close>

definition trace_own :: "events_page \<Rightarrow> bool" where
  "trace_own p \<longleftrightarrow>
     (case shown_entry p of
        None \<Rightarrow> ep_wait p = None
      | Some e \<Rightarrow> ep_wait p \<in> {None, Some (le_seq e)} \<and> (ep_trace p = None \<or> map_option fst (ep_trace p) = Some (le_seq e)))"

lemma shown_selected: "shown_entry p = Some e \<Longrightarrow> ev_selected (ep_view p) = Some (le_seq e)"
  by (auto simp: shown_entry_def find_Some_iff split: bind_splits)

lemma shown_cong [simp]: "shown_entry (p\<lparr>ep_menu := m\<rparr>) = shown_entry p" "shown_entry (p\<lparr>ep_trace := t\<rparr>) = shown_entry p"
  "shown_entry (p\<lparr>ep_wait := w\<rparr>) = shown_entry p" "shown_entry (p\<lparr>ep_focus := f\<rparr>) = shown_entry p"
  by (simp_all add: shown_entry_def)

lemma handle_trace: "ep_trace (page_handle ev p) = ep_trace p" "ep_wait (page_handle ev p) = ep_wait p"
  by (auto simp: page_handle_def open_menu_def split: page_event.split option.split)

lemma effects_own: "trace_own p \<Longrightarrow> ep_trace q = ep_trace p \<Longrightarrow> ep_wait q = ep_wait p \<Longrightarrow> trace_own (page_effects p q)"
proof -
  assume own: "trace_own p" and q: "ep_trace q = ep_trace p" "ep_wait q = ep_wait p"
  show ?thesis
  proof (cases "ev_selected (ep_view q) = None")
    case True
    then have "shown_entry q = None" by (simp add: shown_entry_def)
    with True show ?thesis by (simp add: page_effects_def trace_own_def)
  next
    case False
    then show ?thesis using own q
      by (cases "shown_entry q = shown_entry p \<and> ev_selected (ep_view p) \<noteq> None")
        (auto simp: page_effects_def trace_own_def Let_def split: option.splits)
  qed
qed

interpretation page: machine page_step trace_own "\<lambda>_. True"
proof
  fix p ev assume own: "trace_own p"
  then have "trace_own (page_effects p (page_handle ev p))" by (rule effects_own) (simp_all add: handle_trace)
  moreover have "trace_own (p\<lparr>ep_trace := Some (s, t), ep_wait := None\<rparr>)" if "ep_wait p = Some s" for s t
    using own that by (cases "shown_entry p") (simp_all add: trace_own_def)
  moreover have "trace_own (p\<lparr>ep_trace := None, ep_wait := None\<rparr>)"
    by (cases "shown_entry p") (simp_all add: trace_own_def)
  moreover have "trace_own (p\<lparr>ep_focus := f\<rparr>)" for f
    using own by (cases "shown_entry p") (simp_all add: trace_own_def)
  ultimately show "trace_own (page_step p ev)"
    using own by (cases ev) (simp_all add: page_step_def)
qed

text \<open>So the guardrail trace on screen is always the one of the entry on screen, however late the answers come.\<close>

lemma trace_of_entry:
  assumes "shown_entry (foldl page_step page_init evs) = Some e" "ep_trace (foldl page_step page_init evs) = Some (s, t)"
  shows "s = le_seq e"
proof -
  have "trace_own (foldl page_step page_init evs)"
    by (rule page.run) (simp_all add: page_init_def trace_own_def shown_entry_def events_init_def list_all_iff)
  with assms show ?thesis by (simp add: trace_own_def)
qed

text \<open>The menu proposes the rule of the row that was clicked, and opening its form closes it.\<close>

lemma menu_block:
  assumes "rulePresetFromLedgerEntry e = Some r"
  shows "ev_preset (ep_view (page_step (page_step p (PgContext e x y width height)) PgBlock)) = Some r \<and>
    ep_menu (page_step (page_step p (PgContext e x y width height)) PgBlock) = None"
  using assms by (simp add: page_step_def page_handle_def open_menu_def page_effects_def Let_def split: option.split)

text \<open>
  Whatever arrives on the ledger while the replacement rule is being typed moves the focus from the text to
  the close button, where the next Enter or blank closes the dialog.
\<close>

lemma entry_steals_focus:
  "ev_selected (ep_view p) = Some s \<Longrightarrow> ep_focus (page_step (page_step p PgTyping) (PgControl (EvEntries es))) = OnClose"
  by (simp add: page_step_def page_handle_def page_effects_def ev_step_def page_reset_def Let_def split: option.split)

section \<open>Sessions, rules and guardrails\<close>

definition live_note :: "json option \<Rightarrow> string" where
  "live_note data = ''live policy_hash='' @ dash_if_empty (shortHash (Option.bind data (\<lambda>d. str_field d ''live_policy_hash'')) 12)"

definition session_cells :: "locale_dates \<Rightarrow> json \<Rightarrow> cell list" where
  "session_cells l s =
     (let get = (\<lambda>k. or_empty (str_field s k)) in
      [(shortHash (str_field s ''id'') 12, get ''id''), plain (if get ''harness'' = [] then ''(none)'' else get ''harness''), plain (get ''signer''),
       (shortHash (str_field s ''policy_hash'') 12, get ''policy_hash''),
       (shortTime l (str_field s ''started_at''), fullLocal l (str_field s ''started_at'')), plain (session_status s)])"

definition session_table :: "locale_dates \<Rightarrow> bool \<Rightarrow> json option \<Rightarrow> cell list list" where
  "session_table l showInternal data = map (session_cells l) (session_rows showInternal (json_items (Option.bind data (\<lambda>d. jprop d ''sessions''))))"

text \<open>A row of the rules table: whether it is on and selected, and its cells.\<close>

definition rule_row :: "string option \<Rightarrow> gate_view \<Rightarrow> bool \<times> bool \<times> cell list" where
  "rule_row selected g =
     (\<not> gv_disabled g, selected = Some (gv_id g),
      map plain [gv_id g, (if gv_mode g = [] then ''inherit'' else gv_mode g), (if gv_source g = [] then ''daemon'' else gv_source g),
                 toolSummary g, matchSummary g])"

text \<open>
  The clicks of the rules tab that change what is open; saving and creating also refresh the policy. A
  created rule is selected at once and found when the refreshed policy arrives.
\<close>

record rules_page =
  rp_gates :: "gate_view list"
  rp_selected :: "string option"
  rp_adding :: bool
  rp_error :: "string option"

datatype rules_event =
    RuSelect string | RuCloseDrawer | RuAdd | RuCloseAdd | RuCreated string | RuSaved | RuPolicy "gate_view list" | RuRefreshFailed string

fun rules_step :: "rules_page \<Rightarrow> rules_event \<Rightarrow> rules_page" where
  "rules_step p (RuSelect i) = p\<lparr>rp_selected := Some i\<rparr>"
| "rules_step p RuCloseDrawer = p\<lparr>rp_selected := None\<rparr>"
| "rules_step p RuAdd = p\<lparr>rp_adding := True\<rparr>"
| "rules_step p RuCloseAdd = p\<lparr>rp_adding := False\<rparr>"
| "rules_step p (RuCreated i) = p\<lparr>rp_adding := False, rp_selected := Some i, rp_error := None\<rparr>"
| "rules_step p RuSaved = p\<lparr>rp_error := None\<rparr>"
| "rules_step p (RuPolicy gs) = p\<lparr>rp_gates := gs\<rparr>"
| "rules_step p (RuRefreshFailed msg) = p\<lparr>rp_error := Some msg\<rparr>"

definition drawer_gate :: "rules_page \<Rightarrow> gate_view option" where
  "drawer_gate p = Option.bind (rp_selected p) (\<lambda>i. find (\<lambda>g. gv_id g = i) (rp_gates p))"

lemma created_rule_opens:
  assumes "find (\<lambda>g. gv_id g = i) gs = Some g"
  shows "drawer_gate (foldl rules_step p [RuCreated i, RuPolicy gs]) = Some g"
  using assms by (simp add: drawer_gate_def)

definition provider_card :: "json \<Rightarrow> string list" where
  "provider_card p =
     (let get = (\<lambda>k. or_empty (str_field p k)) in
      [get ''name'', join '' / '' (map js_string (json_items (jprop p ''capabilities''))),
       (if truthy (jprop p ''configured'') then ''configured'' else ''not configured''),
       ''Configure keys when starting the control plane. Example: '' @ (if get ''id'' = ''nvidia'' then ''NVIDIA_API_KEY'' else ''OPENROUTER_API_KEY'') @ ''=...'',
       providerNote (get ''id'')])"

text \<open>A row of the catalog: whether its box can be changed and is checked, its label, and the cells.\<close>

definition catalog_row_web :: "guardrails_tab \<Rightarrow> json \<Rightarrow> bool \<times> bool \<times> string \<times> cell list" where
  "catalog_row_web st e =
     (let get = (\<lambda>k. or_empty (str_field e k)); name = (if get ''name'' = [] then get ''entry_id'' else get ''name'');
          runtime = truthy (jprop e ''supports_runtime_enforcement'')
      in (runtime, key_text (entry_key e) \<in> gr_enabled_keys st, ''enable '' @ name,
          map plain [get ''provider_id'', name, (if get ''kind'' = ''classifier_model'' then ''classifier'' else ''policy''),
                     (if runtime then ''yes'' else ''no'')]))"

definition provider_error_lines :: "json list \<Rightarrow> string list" where
  "provider_error_lines errs = map (\<lambda>x. or_empty (str_field x ''provider_id'') @ '': '' @ or_empty (str_field x ''detail'')) errs"

section \<open>The MCP tab\<close>

definition pending_cells :: "locale_dates \<Rightarrow> pin_row \<Rightarrow> cell list" where
  "pending_cells l r =
     [plain (pin_server r), plain (pin_status r), (shortHash (Some (pin_fingerprint r)) 24, pin_fingerprint r)] @
     (if or_empty (pin_known r) = [] then [] else [(''was '' @ shortHash (pin_known r) 18, or_empty (pin_known r))]) @
     [(shortTime l (Some (pin_updated r)), fullLocal l (Some (pin_updated r)))]"

definition pin_details :: "pin_row \<Rightarrow> (string \<times> string) list" where
  "pin_details r =
     [(''MCP pin request'', pin_server r), (''fingerprint'', pin_fingerprint r)] @
     (if or_empty (pin_known r) = [] then [] else [(''known fingerprint'', or_empty (pin_known r))]) @
     [(''server info'', json_pretty 0 (case pin_info r of None \<Rightarrow> JObj [] | Some JNull \<Rightarrow> JObj [] | Some j \<Rightarrow> j))]"

text \<open>
  Accepting and refusing pins: the requests in flight, the one the buttons show, the row whose details are
  open. The buttons of the table are disabled while a request runs, those of the details are not.
\<close>

datatype pin_action = Accept | Refuse

record mcp_page =
  mp_acting :: "(pin_action \<times> string) option"
  mp_error :: "string option"
  mp_selected :: "pin_row option"
  mp_flights :: "(pin_action \<times> pin_row) list"

datatype mcp_event =
    McTable pin_action pin_row | McDetails pin_row | McDialog pin_action | McClose
  | McDone pin_action pin_row | McFailed pin_action pin_row string

definition mcp_act_start :: "pin_action \<Rightarrow> pin_row \<Rightarrow> mcp_page \<Rightarrow> mcp_page" where
  "mcp_act_start a r p = p\<lparr>mp_acting := Some (a, pin_id r), mp_error := None, mp_flights := mp_flights p @ [(a, r)]\<rparr>"

definition mcp_step :: "mcp_page \<Rightarrow> mcp_event \<Rightarrow> mcp_page" where
  "mcp_step p ev =
     (case ev of
        McTable a r \<Rightarrow> if mp_acting p = None then mcp_act_start a r p else p
      | McDetails r \<Rightarrow> p\<lparr>mp_selected := Some r\<rparr>
      | McDialog a \<Rightarrow> (case mp_selected p of None \<Rightarrow> p | Some r \<Rightarrow> mcp_act_start a r p)
      | McClose \<Rightarrow> p\<lparr>mp_selected := None\<rparr>
      | McDone a r \<Rightarrow>
          if (a, r) \<in> set (mp_flights p)
          then p\<lparr>mp_flights := remove1 (a, r) (mp_flights p), mp_selected := None, mp_acting := None\<rparr> else p
      | McFailed a r msg \<Rightarrow>
          if (a, r) \<in> set (mp_flights p)
          then p\<lparr>mp_flights := remove1 (a, r) (mp_flights p), mp_error := Some msg, mp_acting := None\<rparr> else p)"

text \<open>From the table alone one request runs at a time, and the buttons show it.\<close>

definition one_flight :: "mcp_page \<Rightarrow> bool" where
  "one_flight p \<longleftrightarrow> map (\<lambda>(a, r). (a, pin_id r)) (mp_flights p) = (case mp_acting p of None \<Rightarrow> [] | Some x \<Rightarrow> [x])"

interpretation pins: machine mcp_step one_flight "\<lambda>ev. \<forall>a. ev \<noteq> McDialog a"
proof
  fix p ev assume "one_flight p" "\<forall>a. ev \<noteq> McDialog a"
  then show "one_flight (mcp_step p ev)"
    by (cases ev) (auto simp: mcp_step_def one_flight_def mcp_act_start_def map_eq_Cons_conv split: option.splits)
qed

text \<open>From the details both answers can be sent for one pin.\<close>

lemma dialog_sends_both:
  "mp_flights (foldl mcp_step \<lparr>mp_acting = None, mp_error = None, mp_selected = None, mp_flights = []\<rparr>
     [McDetails r, McDialog Accept, McDialog Refuse]) = [(Accept, r), (Refuse, r)]"
  by (simp add: mcp_step_def mcp_act_start_def)

text \<open>The answer for one pin closes the details of another.\<close>

lemma answer_closes_details:
  "(a, r) \<in> set (mp_flights p) \<Longrightarrow> mp_selected (foldl mcp_step p [McDetails r', McDone a r]) = None"
  by (simp add: mcp_step_def)

end
