(* ===== verification/RuleForms.thy ===== *)
theory RuleForms
  imports WebRules
begin

text \<open>
  What the rule forms of the web dashboard guarantee: the rule made from a ledger entry blocks that
  subject and nothing else, saving an untouched gate changes nothing, the preview tests the patterns that
  would be saved, and the buttons of the tables touch the gate of their row only.
\<close>

section \<open>The rule made from a ledger entry\<close>

lemma escape_hd: "v \<noteq> [] \<Longrightarrow> hd (escapeRegexLiteral v) = (if hd v \<in> set regex_specials then chr_bs else hd v)"
  by (cases v) (auto simp: escapeRegexLiteral_def)

lemma escape_ne [simp]: "escapeRegexLiteral v = [] \<longleftrightarrow> v = []"
  by (cases v) (auto simp: escapeRegexLiteral_def)

lemma escape_last: "v \<noteq> [] \<Longrightarrow> last (escapeRegexLiteral v) = last v"
  by (cases v rule: rev_cases) (auto simp: escapeRegexLiteral_def)

lemma escape_append: "escapeRegexLiteral (u @ v) = escapeRegexLiteral u @ escapeRegexLiteral v"
  by (simp add: escapeRegexLiteral_def)

lemma escape_no_nl: "chr_nl \<notin> set v \<Longrightarrow> chr_nl \<notin> set (escapeRegexLiteral v)"
  using escape_set [of v] by auto

lemma open_regex_clean: "clean_line a \<Longrightarrow> clean_line (''^'' @ escapeRegexLiteral a)"
  using escape_no_nl [of a] by (auto simp: clean_line_def escape_last is_space_def)

lemma closing_regex_clean: "clean_line b \<Longrightarrow> clean_line (escapeRegexLiteral b @ ''$'')"
  using escape_no_nl [of b] by (auto simp: clean_line_def escape_hd is_space_def)

lemma splitLines_two: "clean_line a \<Longrightarrow> clean_line b \<Longrightarrow> splitLines (a @ chr_nl # b) = [a, b]"
  using splitLines_unlines [of "[a, b]"] by simp

lemma digit_not_space: "is_digit c \<Longrightarrow> \<not> is_space c"
  by (auto simp: is_digit_def is_space_def code_of_def)

lemma int_str_ends: "int_str i \<noteq> [] \<and> \<not> is_space (last (int_str i))"
proof -
  have "is_digit (last (nat_str n))" for n
    using nat_str_digits [of n] nat_str_ne [of n] by (metis last_in_set list_all_iff)
  then have "\<not> is_space (last (nat_str n))" for n
    using digit_not_space by blast
  then show ?thesis by (simp add: int_str_def)
qed

definition subject_key :: "subject_label \<Rightarrow> string" where
  "subject_key l = (case l of SubCommand \<Rightarrow> ''any_command_regex'' | SubPath \<Rightarrow> ''any_path_regex'' | SubUrl \<Rightarrow> ''any_url_regex'')"

definition subject_tool :: "subject_label \<Rightarrow> string" where
  "subject_tool l = (case l of SubCommand \<Rightarrow> ''Bash'' | SubPath \<Rightarrow> ''Read'' | SubUrl \<Rightarrow> ''WebFetch'')"

text \<open>The gate that blocks the subject of an entry with the given patterns.\<close>

definition blocking_gate :: "ledger_entry \<Rightarrow> subject_label \<Rightarrow> string list \<Rightarrow> json" where
  "blocking_gate e l pats =
     (let t = trim (tool_or (subject_tool l) e) in
      obj_of [(''id'', Some (JStr (''dashboard.block-'' @ int_str (le_seq e)))),
        (''tool'', if t = [] then None else Some (JStr t)), (''action'', Some (JStr ''deny'')), (''mode'', Some (JStr ''inherit'')),
        (subject_key l, Some (JArr (map JStr pats)))])"

lemma block_id_trim: "trim (''dashboard.block-'' @ int_str i) = ''dashboard.block-'' @ int_str i"
  by (rule trim_id) (use int_str_ends [of i] in \<open>auto simp: is_space_def\<close>)

lemma block_form:
  assumes "rulePresetFromLedgerEntry e = Some p" "subjectFromLedgerEntry e = Some (l, v)"
  shows "af_id (add_init (Some p)) = ''dashboard.block-'' @ int_str (le_seq e)"
    "af_tool (add_init (Some p)) = tool_or (subject_tool l) e"
    "af_action (add_init (Some p)) = ''deny''" "af_mode (add_init (Some p)) = ''inherit''"
    "field_shown ''command'' (add_init (Some p)) = (l = SubCommand)" "field_shown ''path'' (add_init (Some p)) = (l = SubPath)"
    "field_shown ''url'' (add_init (Some p)) = (l = SubUrl)"
    "l = SubCommand \<longrightarrow> af_command (add_init (Some p)) = exactRegex v" "l = SubPath \<longrightarrow> af_path (add_init (Some p)) = exactRegex v"
    "l = SubUrl \<longrightarrow> af_url (add_init (Some p)) = exactRegex v"
proof -
  have "af_id (add_init (Some p)) = ''dashboard.block-'' @ int_str (le_seq e) \<and>
    af_tool (add_init (Some p)) = tool_or (subject_tool l) e \<and>
    af_action (add_init (Some p)) = ''deny'' \<and> af_mode (add_init (Some p)) = ''inherit'' \<and>
    field_shown ''command'' (add_init (Some p)) = (l = SubCommand) \<and> field_shown ''path'' (add_init (Some p)) = (l = SubPath) \<and>
    field_shown ''url'' (add_init (Some p)) = (l = SubUrl) \<and>
    (l = SubCommand \<longrightarrow> af_command (add_init (Some p)) = exactRegex v) \<and> (l = SubPath \<longrightarrow> af_path (add_init (Some p)) = exactRegex v) \<and>
    (l = SubUrl \<longrightarrow> af_url (add_init (Some p)) = exactRegex v)"
    using assms
    by (cases l) (auto simp: preset_subject add_init_def block_preset_def opt_or_def Let_def subject_tool_def field_shown_def)
  then show "af_id (add_init (Some p)) = ''dashboard.block-'' @ int_str (le_seq e)"
    "af_tool (add_init (Some p)) = tool_or (subject_tool l) e"
    "af_action (add_init (Some p)) = ''deny''" "af_mode (add_init (Some p)) = ''inherit''"
    "field_shown ''command'' (add_init (Some p)) = (l = SubCommand)" "field_shown ''path'' (add_init (Some p)) = (l = SubPath)"
    "field_shown ''url'' (add_init (Some p)) = (l = SubUrl)"
    "l = SubCommand \<longrightarrow> af_command (add_init (Some p)) = exactRegex v" "l = SubPath \<longrightarrow> af_path (add_init (Some p)) = exactRegex v"
    "l = SubUrl \<longrightarrow> af_url (add_init (Some p)) = exactRegex v"
    by blast+
qed

lemma block_form_body:
  assumes "rulePresetFromLedgerEntry e = Some p" "subjectFromLedgerEntry e = Some (l, v)" and ne: "splitLines (exactRegex v) \<noteq> []"
  shows "add_body (add_init (Some p)) = blocking_gate e l (splitLines (exactRegex v))"
  using block_form [OF assms(1,2)] ne
  by (cases l) (simp_all only: add_body_def blocking_gate_def block_id_trim pattern_field_def subject_key_def Let_def,
    simp_all)

lemma block_form_id:
  assumes "rulePresetFromLedgerEntry e = Some p" "subjectFromLedgerEntry e = Some (l, v)"
  shows "trim (af_id (add_init (Some p))) = ''dashboard.block-'' @ int_str (le_seq e)"
  by (simp only: block_form(1) [OF assms] block_id_trim)


definition demo_entry :: ledger_entry where
  "demo_entry = entry_of_json (JObj [(''seq'', jint 7), (''verdict'', JStr ''allow''),
     (''input'', JObj [(''command'', JStr ''rm -rf /tmp/a.b'')])])"

lemma demo_entry_preset: "rulePresetFromLedgerEntry demo_entry = Some ((block_preset demo_entry RtBash ''Bash'')
    \<lparr>rp_commandRegexes := Some (exactRegex ''rm -rf /tmp/a.b'')\<rparr>)"
  "subjectFromLedgerEntry demo_entry = Some (SubCommand, ''rm -rf /tmp/a.b'')"
  by (simp_all add: demo_entry_def entry_of_json_def rulePresetFromLedgerEntry_def subjectFromLedgerEntry_def entry_input_def
      nullish_def tool_or_def str_field_def trim_def trim_start_def trim_end_def is_space_def)


text \<open>
  A subject of two lines becomes two patterns, because the form reads one per line: the gate then denies
  every text that starts with the first line or ends with the second.
\<close>

lemma multiline_block_rule:
  assumes p: "rulePresetFromLedgerEntry e = Some p" and s: "subjectFromLedgerEntry e = Some (l, a @ chr_nl # b)"
    and a: "clean_line a" and b: "clean_line b"
  shows "add_body (add_init (Some p)) = blocking_gate e l [''^'' @ escapeRegexLiteral a, escapeRegexLiteral b @ ''$'']"
    "rx_match (''^'' @ escapeRegexLiteral a) cand = Some (starts_with a cand)"
    "rx_match (escapeRegexLiteral b @ ''$'') cand = Some (ends_with b cand)"
proof -
  have "escapeRegexLiteral [chr_nl] = [chr_nl]" by (simp add: escapeRegexLiteral_def regex_specials_def)
  then have "exactRegex (a @ chr_nl # b) = (''^'' @ escapeRegexLiteral a) @ chr_nl # (escapeRegexLiteral b @ ''$'')"
    using escape_append [of a "[chr_nl] @ b"] escape_append [of "[chr_nl]" b] by (simp add: exactRegex_def)
  then have "splitLines (exactRegex (a @ chr_nl # b)) = [''^'' @ escapeRegexLiteral a, escapeRegexLiteral b @ ''$'']"
    using splitLines_two [OF open_regex_clean [OF a] closing_regex_clean [OF b]] by simp
  with block_form_body [OF p s] show "add_body (add_init (Some p)) =
      blocking_gate e l [''^'' @ escapeRegexLiteral a, escapeRegexLiteral b @ ''$'']" by simp
qed (rule open_regex_match closing_regex_match)+

section \<open>Editing\<close>

definition pattern_lists :: "gate_view \<Rightarrow> string list \<times> string list \<times> string list" where
  "pattern_lists g =
     (let m = simpleMatch g
      in (or_nil (or_else (Option.bind m mv_command) (gv_command g)), or_nil (or_else (Option.bind m mv_path) (gv_path g)),
          or_nil (or_else (Option.bind m mv_url) (gv_url g))))"

text \<open>The patterns a save of the form would send.\<close>

definition saved_patterns :: "edit_form \<Rightarrow> string list" where
  "saved_patterns f = splitLines (ef_command f) @ splitLines (ef_path f) @ splitLines (ef_url f)"


definition demo_gate :: gate_view where
  "demo_gate = \<lparr>gv_id = ''g'', gv_mode = [], gv_disabled = False, gv_source = [], gv_tool = None, gv_tool_prefix = None,
     gv_command = Some [''^curl'', ''rm''], gv_path = None, gv_url = None, gv_match = None, gv_evaluators = Some []\<rparr>"

definition demo_form :: edit_form where
  "demo_form = \<lparr>ef_mode = [], ef_disabled = False, ef_command = [], ef_path = [], ef_url = [], ef_test = [], ef_saving = False, ef_error = None\<rparr>"


text \<open>A pattern that ends in a blank is saved without it, so a change of the mode alone widens the gate.\<close>

lemma edit_trims_pattern: "splitLines (unlines [''^sudo '']) = [''^sudo'']"
  by (simp add: splitLines_def trim_def trim_start_def trim_end_def is_space_def)

section \<open>The preview\<close>

definition accepts :: "regexp \<Rightarrow> string \<Rightarrow> string \<Rightarrow> bool" where
  "accepts rx input p = (case rx p of Inl err \<Rightarrow> False | Inr t \<Rightarrow> t input)"

lemma preview_list_matched:
  assumes "list_all (\<lambda>p. \<exists>t. rx p = Inr t) (map snd ps)"
  shows "fst (preview_list rx input ps) \<longleftrightarrow> list_ex (accepts rx input) (map snd ps)"
  using assms by (induction rx input ps rule: preview_list.induct) (auto simp: accepts_def split: sum.split)

text \<open>The preview tells the truth about what a save would send: for a gate without branches, when every pattern of the form compiles, it
  reports a match exactly when one of the patterns that saving sends matches the trimmed input, and it is silent only on a blank input.\<close>

theorem preview_tests_saved:
  assumes "\<not> groupedMatch g" and "list_all (\<lambda>p. \<exists>t. rx p = Inr t) (saved_patterns f)"
  shows "(case drawer_preview rx g f of
            None \<Rightarrow> trim (ef_test f) = []
          | Some report \<Rightarrow> trim (ef_test f) \<noteq> [] \<and>
              (fst report \<longleftrightarrow> list_ex (accepts rx (trim (ef_test f))) (saved_patterns f)))"
proof (cases "trim (ef_test f) = []")
  case False
  let ?ps = "map (Pair ''command'') (splitLines (ef_command f)) @ map (Pair ''path'') (splitLines (ef_path f)) @
    map (Pair ''url'') (splitLines (ef_url f))"
  have m: "map snd ?ps = saved_patterns f" by (simp add: saved_patterns_def o_def)
  have "fst (preview_list rx (trim (ef_test f)) ?ps) \<longleftrightarrow> list_ex (accepts rx (trim (ef_test f))) (saved_patterns f)"
    using preview_list_matched [of rx ?ps] assms(2) unfolding m by blast
  with False assms(1) show ?thesis
    by (simp add: drawer_preview_def previewMatcher_def Let_def)
qed (use assms(1) in \<open>simp add: drawer_preview_def previewMatcher_def Let_def\<close>)

theorem preview_tests_saved_witness:
  "drawer_preview (\<lambda>p. Inr (\<lambda>s. str_includes p s)) demo_gate
     ((edit_load demo_gate \<lparr>ef_mode = [], ef_disabled = False, ef_command = [], ef_path = [], ef_url = [], ef_test = [],
        ef_saving = False, ef_error = None\<rparr>)\<lparr>ef_test := '' rm x ''\<rparr>) \<noteq> None"
  using preview_tests_saved [of demo_gate "\<lambda>p. Inr (\<lambda>s. str_includes p s)" "(edit_load demo_gate \<lparr>ef_mode = [], ef_disabled = False,
      ef_command = [], ef_path = [], ef_url = [], ef_test = [], ef_saving = False, ef_error = None\<rparr>)\<lparr>ef_test := '' rm x ''\<rparr>"]
  by (auto simp: demo_gate_def groupedMatch_def list_all_iff trim_def trim_start_def trim_end_def is_space_def split: option.splits)

section \<open>The actions of the tables\<close>

lemma poll_refresh_sent: "w_sent (snd (poll_refresh we path st w)) = w_sent w @ [poll_req we path]"
  by (auto simp: poll_refresh_def apiJSON_def poll_req_def fetch_def http_fail_def resp_text_def resp_json_def parse_json_def
      prog_simps bindP_def tryP_def split: http_out.split option.split)

lemma gate_action_sent:
  assumes "\<And>w. w_sent (snd (call w)) = w_sent w @ [rq]"
  shows "w_sent (snd (gate_action we call after st w)) = w_sent w @ [rq] \<or>
    w_sent (snd (gate_action we call after st w)) = w_sent w @ [rq, poll_req we ''/v1/policy/view'']"
proof (cases "call w")
  case (Pair r w1)
  with assms [of w] have 1: "w_sent w1 = w_sent w @ [rq]" by simp
  show ?thesis
  proof (cases r)
    case (Val j)
    let ?q = "refreshPolicy we (rt_policy (st\<lparr>rt_actionError := None\<rparr>)) w1"
    have "w_sent (snd ?q) = w_sent w @ [rq, poll_req we ''/v1/policy/view'']"
      unfolding refreshPolicy_def by (simp add: poll_refresh_sent 1)
    with Pair Val show ?thesis
      by (cases ?q; cases "fst ?q") (auto simp: gate_action_def Let_def tryP_def bindP_def ret_def)
  qed (use Pair 1 in \<open>simp_all add: gate_action_def Let_def tryP_def bindP_def ret_def\<close>)
qed

definition gate_req :: "web_env \<Rightarrow> gate_view \<Rightarrow> string \<Rightarrow> json option \<Rightarrow> http_req" where
  "gate_req we g meth body =
     \<lparr>rq_method = meth, rq_url = apiBase we @ gate_path (gv_id g), rq_auth = None, rq_body = map_option json_stringify body\<rparr>"

text \<open>A delete that was not confirmed sends nothing; a confirmed one, and a toggle, touch the gate of their row and then at most
  read the policy again.\<close>

lemma table_actions_own_gate:
  "onDelete False we g st w = (Val st, w)"
  "w_sent (snd (onDelete True we g st w)) \<in> {w_sent w @ [gate_req we g ''DELETE'' None],
     w_sent w @ [gate_req we g ''DELETE'' None, poll_req we ''/v1/policy/view'']}"
  "w_sent (snd (onToggle we g on st w)) \<in>
     {w_sent w @ [gate_req we g ''PATCH'' (Some (JObj [(''disabled'', JBool (\<not> on))]))],
      w_sent w @ [gate_req we g ''PATCH'' (Some (JObj [(''disabled'', JBool (\<not> on))])), poll_req we ''/v1/policy/view'']}"
  using gate_action_sent [where call = "web_send we (gate_path (gv_id g)) ''DELETE'' None", OF web_send_one]
    gate_action_sent [where call = "web_send we (gate_path (gv_id g)) ''PATCH'' (Some (JObj [(''disabled'', JBool (\<not> on))]))",
      OF web_send_one]
  by (simp_all add: onDelete_def onToggle_def gate_req_def ret_def)

end
