(* ===== verification/WebForms.thy ===== *)
theory WebForms
  imports WebViews RuleForms
begin

text \<open>
  The dialogs of the web dashboard as the user meets them (\<open>control-plane/dashboard-ui/src\<close>): the rules tab with
  the drawer beside it (\<open>routes/rules.tsx\<close>, \<open>components/RuleEditDrawer.tsx\<close>) as one state machine, and the
  controls drawn by the drawer, by the form that adds a rule (\<open>components/AddRuleModal.tsx\<close>) and by the
  false-positive section of an event's dialog (\<open>routes/events.tsx\<close>). A control is its label, its value and
  whether it can be used; layout and style are not modelled.
\<close>

section \<open>The rules tab and its drawer\<close>

text \<open>
  The drawer fills its form again whenever the gate object it is given is another one. The objects are those
  of the policy last read, and every answer of the poll makes new ones: \<open>rd_round\<close> counts the answers, so a gate
  object is the number of its answer with its id.
\<close>

record rules_drawer =
  rd_page :: rules_page
  rd_round :: nat
  rd_form :: edit_form

datatype drawer_event =
    DwPage rules_event
  | DwMode string | DwEnabled bool | DwCommand string | DwPath string | DwUrl string | DwTest string
  | DwSave | DwSaved | DwSaveFailed string

definition empty_form :: edit_form where
  "empty_form = \<lparr>ef_mode = ''inherit'', ef_disabled = False, ef_command = [], ef_path = [], ef_url = [], ef_test = [],
     ef_saving = False, ef_error = None\<rparr>"

definition rd_init :: rules_drawer where
  "rd_init = \<lparr>rd_page = \<lparr>rp_gates = [], rp_selected = None, rp_adding = False, rp_error = None\<rparr>, rd_round = 0, rd_form = empty_form\<rparr>"

definition rd_gate :: "rules_drawer \<Rightarrow> gate_view option" where
  "rd_gate s = drawer_gate (rd_page s)"

definition drawer_obj :: "rules_drawer \<Rightarrow> (nat \<times> string) option" where
  "drawer_obj s = map_option (\<lambda>g. (rd_round s, gv_id g)) (rd_gate s)"

text \<open>The change handlers of the fields; the pattern fields of a grouped gate are disabled.\<close>

fun form_edit :: "gate_view \<Rightarrow> edit_form \<Rightarrow> drawer_event \<Rightarrow> edit_form" where
  "form_edit g f (DwMode m) = f\<lparr>ef_mode := m\<rparr>"
| "form_edit g f (DwEnabled b) = f\<lparr>ef_disabled := \<not> b\<rparr>"
| "form_edit g f (DwCommand t) = (if groupedMatch g then f else f\<lparr>ef_command := t\<rparr>)"
| "form_edit g f (DwPath t) = (if groupedMatch g then f else f\<lparr>ef_path := t\<rparr>)"
| "form_edit g f (DwUrl t) = (if groupedMatch g then f else f\<lparr>ef_url := t\<rparr>)"
| "form_edit g f (DwTest t) = f\<lparr>ef_test := t\<rparr>"
| "form_edit g f _ = f"

text \<open>The request of the save button, disabled while one is in flight.\<close>

definition save_call :: "rules_drawer \<Rightarrow> (string \<times> json) option" where
  "save_call s =
     (case rd_gate s of
        None \<Rightarrow> None
      | Some g \<Rightarrow> if ef_saving (rd_form s) then None else Some (gv_id g, edit_body g (rd_form s)))"

definition rd_handle :: "rules_drawer \<Rightarrow> drawer_event \<Rightarrow> rules_drawer" where
  "rd_handle s e =
     (case e of
        DwPage (RuPolicy gs) \<Rightarrow> s\<lparr>rd_page := rules_step (rd_page s) (RuPolicy gs), rd_round := rd_round s + 1\<rparr>
      | DwPage r \<Rightarrow> s\<lparr>rd_page := rules_step (rd_page s) r\<rparr>
      | DwSave \<Rightarrow> if save_call s = None then s else s\<lparr>rd_form := (rd_form s)\<lparr>ef_saving := True, ef_error := None\<rparr>\<rparr>
      | DwSaved \<Rightarrow>
          if ef_saving (rd_form s) then
            s\<lparr>rd_page := rules_step (rd_page s) RuSaved, rd_form := (rd_form s)\<lparr>ef_saving := False\<rparr>\<rparr>
          else s
      | DwSaveFailed m \<Rightarrow>
          if ef_saving (rd_form s) then s\<lparr>rd_form := (rd_form s)\<lparr>ef_saving := False, ef_error := Some m\<rparr>\<rparr> else s
      | _ \<Rightarrow> (case rd_gate s of None \<Rightarrow> s | Some g \<Rightarrow> s\<lparr>rd_form := form_edit g (rd_form s) e\<rparr>))"

text \<open>The effect of the drawer on its gate.\<close>

definition rd_effect :: "rules_drawer \<Rightarrow> rules_drawer \<Rightarrow> rules_drawer" where
  "rd_effect old s =
     (if drawer_obj s = drawer_obj old then s
      else (case rd_gate s of None \<Rightarrow> s | Some g \<Rightarrow> s\<lparr>rd_form := edit_load g (rd_form s)\<rparr>))"

definition rd_step :: "rules_drawer \<Rightarrow> drawer_event \<Rightarrow> rules_drawer" where
  "rd_step s e = rd_effect s (rd_handle s e)"

section \<open>What the drawer shows\<close>

fun is_edit :: "drawer_event \<Rightarrow> bool" where
  "is_edit (DwPage r) = False"
| "is_edit DwSave = False"
| "is_edit DwSaved = False"
| "is_edit (DwSaveFailed m) = False"
| "is_edit _ = True"

text \<open>The edits since the form was last filled.\<close>

definition track :: "rules_drawer \<times> drawer_event list \<Rightarrow> drawer_event \<Rightarrow> rules_drawer \<times> drawer_event list" where
  "track x e =
     (let s = rd_step (fst x) e in
      (s, if drawer_obj s \<noteq> drawer_obj (fst x) then [] else if is_edit e \<and> rd_gate s \<noteq> None then snd x @ [e] else snd x))"

definition pending_edits :: "drawer_event list \<Rightarrow> drawer_event list" where
  "pending_edits es = snd (foldl track (rd_init, []) es)"

text \<open>The fields of the form.\<close>

definition form_fields :: "edit_form \<Rightarrow> string \<times> bool \<times> string \<times> string \<times> string \<times> string" where
  "form_fields f = (ef_mode f, ef_disabled f, ef_command f, ef_path f, ef_url f, ef_test f)"

definition edited :: "gate_view \<Rightarrow> drawer_event list \<Rightarrow> edit_form" where
  "edited g es = foldl (form_edit g) (edit_load g empty_form) es"

lemma fields_load: "form_fields (edit_load g f) = form_fields (edit_load g f')"
  by (simp add: form_fields_def edit_load_def Let_def)

lemma fields_edit: "form_fields f = form_fields f' \<Longrightarrow> form_fields (form_edit g f e) = form_fields (form_edit g f' e)"
  by (cases e) (simp_all add: form_fields_def)

lemma fields_flags [simp]: "form_fields (f\<lparr>ef_saving := b\<rparr>) = form_fields f" "form_fields (f\<lparr>ef_error := m\<rparr>) = form_fields f"
  by (simp_all add: form_fields_def)

lemma fields_body: "form_fields f = form_fields f' \<Longrightarrow> edit_body g f = edit_body g f'"
  by (simp add: form_fields_def edit_body_def)

definition drawer_ok :: "rules_drawer \<times> drawer_event list \<Rightarrow> bool" where
  "drawer_ok x \<longleftrightarrow>
     (case rd_gate (fst x) of None \<Rightarrow> snd x = [] | Some g \<Rightarrow> form_fields (rd_form (fst x)) = form_fields (edited g (snd x)))"

text \<open>Within one answer of the poll the gate of an object is the same.\<close>

lemma same_gate:
  assumes "drawer_obj s' = drawer_obj s" "rp_gates (rd_page s') = rp_gates (rd_page s)"
  shows "rd_gate s' = rd_gate s"
proof (cases "rd_gate s")
  case None
  then show ?thesis using assms(1) by (simp add: drawer_obj_def)
next
  case (Some g)
  with assms(1) obtain g' where g': "rd_gate s' = Some g'" "gv_id g' = gv_id g" by (auto simp: drawer_obj_def)
  from Some have "find (\<lambda>h. gv_id h = gv_id g) (rp_gates (rd_page s)) = Some g"
    by (auto simp: rd_gate_def drawer_gate_def bind_eq_Some_conv find_Some_iff)
  moreover from g' have "find (\<lambda>h. gv_id h = gv_id g') (rp_gates (rd_page s')) = Some g'"
    by (auto simp: rd_gate_def drawer_gate_def bind_eq_Some_conv find_Some_iff)
  ultimately show ?thesis using g' assms(2) Some by simp
qed

lemma handle_round:
  "rd_round (rd_handle s e) = rd_round s \<and> rp_gates (rd_page (rd_handle s e)) = rp_gates (rd_page s) \<or>
   rd_round (rd_handle s e) = rd_round s + 1"
  by (auto simp: rd_handle_def split: drawer_event.split rules_event.split option.split)

lemma effect_obj [simp]: "rd_round (rd_effect old s) = rd_round s" "drawer_obj (rd_effect old s) = drawer_obj s" "rd_gate (rd_effect old s) = rd_gate s"
  by (auto simp: rd_effect_def drawer_obj_def rd_gate_def split: option.split)

lemma kept_gate:
  assumes "drawer_obj (rd_handle s e) = drawer_obj s"
  shows "rd_gate (rd_handle s e) = rd_gate s"
proof (cases "rd_gate s")
  case None
  with assms show ?thesis by (simp add: drawer_obj_def)
next
  case Some
  with assms have "rd_round (rd_handle s e) = rd_round s" by (auto simp: drawer_obj_def)
  with handle_round [of s e] show ?thesis by (intro same_gate assms) auto
qed

lemma handle_fields:
  "form_fields (rd_form (rd_handle s e)) =
   (case rd_gate s of None \<Rightarrow> form_fields (rd_form s) | Some g \<Rightarrow> if is_edit e then form_fields (form_edit g (rd_form s) e) else form_fields (rd_form s))"
  by (cases e) (auto simp: rd_handle_def split: rules_event.split option.split)

lemma drawer_ok_step:
  assumes "drawer_ok x"
  shows "drawer_ok (track x e)"
proof -
  obtain s es where x: "x = (s, es)" by fastforce
  let ?h = "rd_handle s e"
  show ?thesis
  proof (cases "drawer_obj ?h = drawer_obj s")
    case True
    then have t: "track x e = (?h, if is_edit e \<and> rd_gate s \<noteq> None then es @ [e] else es)"
      by (simp add: track_def x rd_step_def rd_effect_def kept_gate Let_def)
    show ?thesis
    proof (cases "rd_gate s")
      case None
      with assms have "es = []" by (simp add: drawer_ok_def x)
      with None show ?thesis unfolding t by (simp add: drawer_ok_def kept_gate [OF True])
    next
      case (Some g)
      with assms have "form_fields (rd_form s) = form_fields (edited g es)" by (simp add: drawer_ok_def x)
      then show ?thesis
        using Some fields_edit [of "rd_form s" "edited g es" g e]
        unfolding t by (simp add: drawer_ok_def kept_gate [OF True] handle_fields edited_def)
    qed
  next
    case False
    then have "snd (track x e) = []" "fst (track x e) = rd_effect s ?h"
      by (simp_all add: track_def x rd_step_def Let_def)
    moreover have "form_fields (rd_form (rd_effect s ?h)) = form_fields (edit_load g empty_form)" if "rd_gate ?h = Some g" for g
      using False that fields_load by (simp add: rd_effect_def)
    ultimately show ?thesis by (simp add: drawer_ok_def edited_def split: option.split)
  qed
qed

interpretation drawer: machine track drawer_ok "\<lambda>_. True"
  by unfold_locales (rule drawer_ok_step)

lemma track_run: "fst (foldl track x es) = foldl rd_step (fst x) es"
  by (induction es arbitrary: x) (simp_all add: track_def Let_def)

lemma policy_obj: "drawer_obj (rd_step s (DwPage (RuPolicy gs))) \<noteq> drawer_obj s \<or> rd_gate (rd_step s (DwPage (RuPolicy gs))) = None"
proof -
  have "rd_round (rd_handle s (DwPage (RuPolicy gs))) = rd_round s + 1" by (simp add: rd_handle_def)
  then show ?thesis
    by (cases "rd_gate s"; cases "rd_gate (rd_handle s (DwPage (RuPolicy gs)))") (simp_all add: rd_step_def drawer_obj_def)
qed

text \<open>C37. The drawer of the rules tab always shows the gate that is selected, as it was last read from the daemon, with the edits made
  since then and nothing of any other gate; the save button sends exactly that, to the gate's own address, and is off while a save is in
  flight. "Since then" is short: every answer of the poll starts over, so what was typed before it is gone.\<close>

theorem drawer_current:
  "(let s = foldl rd_step rd_init es in
    (\<forall>g. rd_gate s = Some g \<longrightarrow>
       form_fields (rd_form s) = form_fields (edited g (pending_edits es)) \<and>
       save_call s = (if ef_saving (rd_form s) then None else Some (gv_id g, edit_body g (edited g (pending_edits es))))) \<and>
    (rd_gate s = None \<longrightarrow> save_call s = None)) \<and>
   pending_edits (es @ [DwPage (RuPolicy gs)]) = []"
proof (intro conjI)
  let ?x = "foldl track (rd_init, []) es"
  have ok: "drawer_ok (foldl track (rd_init, []) us)" for us
    by (rule drawer.run) (simp_all add: drawer_ok_def rd_init_def rd_gate_def drawer_gate_def list_all_iff)
  have run: "fst ?x = foldl rd_step rd_init es" by (simp add: track_run)
  have shown: "form_fields (rd_form (fst ?x)) = form_fields (edited g (pending_edits es))" if "rd_gate (fst ?x) = Some g" for g
    using ok [of es] that by (simp add: drawer_ok_def pending_edits_def)
  then show "let s = foldl rd_step rd_init es in
    (\<forall>g. rd_gate s = Some g \<longrightarrow>
       form_fields (rd_form s) = form_fields (edited g (pending_edits es)) \<and>
       save_call s = (if ef_saving (rd_form s) then None else Some (gv_id g, edit_body g (edited g (pending_edits es))))) \<and>
    (rd_gate s = None \<longrightarrow> save_call s = None)"
    unfolding run Let_def using fields_body [OF shown [unfolded run]] by (auto simp: save_call_def)
  have "snd (track ?x (DwPage (RuPolicy gs))) = []"
    using policy_obj [of "fst ?x" gs] ok [of es] ok [of "es @ [DwPage (RuPolicy gs)]"]
    by (auto simp: track_def Let_def drawer_ok_def)
  then show "pending_edits (es @ [DwPage (RuPolicy gs)]) = []" by (simp add: pending_edits_def)
qed

definition demo_typing :: "drawer_event list" where
  "demo_typing = [DwPage (RuPolicy [demo_gate]), DwPage (RuSelect (gv_id demo_gate)), DwCommand ''^rm '']"

lemma demo_drawer:
  "rd_gate (foldl rd_step rd_init demo_typing) = Some demo_gate" "\<not> ef_saving (rd_form (foldl rd_step rd_init demo_typing))"
  "pending_edits demo_typing = [DwCommand ''^rm '']"
  by (simp_all add: demo_typing_def pending_edits_def track_def rd_init_def empty_form_def rd_step_def rd_handle_def rd_effect_def rd_gate_def
        drawer_obj_def drawer_gate_def edit_load_def demo_gate_def groupedMatch_def simpleMatch_def or_nil_def Let_def)

theorem drawer_current_witness:
  "save_call (foldl rd_step rd_init demo_typing) = Some (gv_id demo_gate, edit_body demo_gate (edited demo_gate [DwCommand ''^rm ''])) \<and>
   pending_edits (demo_typing @ [DwPage (RuPolicy [demo_gate])]) = []"
  using drawer_current [of demo_typing "[demo_gate]"] demo_drawer by (simp add: Let_def)

text \<open>What was typed is lost to the next answer of the poll, which comes every four seconds, even when nothing has changed at the daemon.\<close>

lemma poll_discards_edits:
  assumes "rd_gate s = Some g" "find (\<lambda>h. gv_id h = gv_id g) gs = Some g"
  shows "form_fields (rd_form (rd_step (rd_step s (DwCommand t)) (DwPage (RuPolicy gs)))) = form_fields (edit_load g empty_form)"
proof -
  let ?s = "rd_step s (DwCommand t)" and ?p = "DwPage (RuPolicy gs)"
  have h: "rd_page (rd_handle s (DwCommand t)) = rd_page s" "rd_round (rd_handle s (DwCommand t)) = rd_round s"
    using assms(1) by (simp_all add: rd_handle_def)
  then have s: "rd_page ?s = rd_page s" by (simp add: rd_step_def rd_effect_def drawer_obj_def rd_gate_def)
  have sel: "rp_selected (rd_page s) = Some (gv_id g)"
    using assms(1) by (auto simp: rd_gate_def drawer_gate_def bind_eq_Some_conv find_Some_iff)
  then have g: "rd_gate (rd_handle ?s ?p) = Some g"
    using assms(2) s by (simp add: rd_handle_def rd_gate_def drawer_gate_def)
  then have "drawer_obj (rd_handle ?s ?p) \<noteq> drawer_obj ?s"
    by (cases "rd_gate ?s") (auto simp: drawer_obj_def rd_handle_def)
  with g have e: "rd_form (rd_step ?s ?p) = edit_load g (rd_form (rd_handle ?s ?p))"
    by (simp add: rd_step_def rd_effect_def)
  show ?thesis unfolding e by (rule fields_load)
qed

text \<open>A failed save reports under the gate that is selected when the answer comes, not under the one that was saved.\<close>

lemma save_error_misplaced:
  assumes "rd_gate s = Some g" "ef_saving (rd_form s)" "find (\<lambda>h. gv_id h = i) (rp_gates (rd_page s)) = Some g'" "i \<noteq> gv_id g"
  shows "rd_gate (foldl rd_step s [DwPage (RuSelect i), DwSaveFailed m]) = Some g' \<and>
    ef_error (rd_form (foldl rd_step s [DwPage (RuSelect i), DwSaveFailed m])) = Some m"
  using assms find_Some_iff [of "\<lambda>h. gv_id h = i" "rp_gates (rd_page s)" g']
  by (auto simp: rd_step_def rd_effect_def rd_handle_def rd_gate_def drawer_gate_def drawer_obj_def edit_load_def Let_def split: if_splits)

end
