(* ===== verification/WebControls.thy ===== *)
theory WebControls
  imports WebForms
begin

text \<open>
  The controls drawn by the dialogs of the web dashboard (\<open>control-plane/dashboard-ui/src\<close>): the form that adds a rule
  (\<open>components/AddRuleModal.tsx\<close>), the drawer that edits one (\<open>components/RuleEditDrawer.tsx\<close>), the filters and the
  false-positive section of the events tab (\<open>routes/events.tsx\<close>). What a form sends is what its controls show.
\<close>

datatype control =
    Note string
  | Field string string string
  | Area string string string bool
  | Menu string string "(string \<times> string) list"
  | Check string bool
  | Button string bool

definition ellipsis :: string where
  "ellipsis = map char_of [0xE2, 0x80, 0xA6 :: nat]"

definition per_line :: string where
  "per_line = '' '' @ em_dash_text @ '' one per line''"

definition same_texts :: "string list \<Rightarrow> (string \<times> string) list" where
  "same_texts vs = map (\<lambda>v. (v, v)) vs"

section \<open>Adding a rule\<close>

fun type_key :: "rule_type \<Rightarrow> string" where
  "type_key RtPkgInstall = ''pkg-install''"
| "type_key RtDestructive = ''destructive''"
| "type_key RtSecretRead = ''secret-read''"
| "type_key RtNetEgressUrl = ''net-egress-url''"
| "type_key RtBash = ''bash''"
| "type_key RtCustom = ''custom''"

definition type_choices :: "(string \<times> string) list" where
  "type_choices =
     map (\<lambda>t. (type_key t, pr_label (PRESETS t))) [RtPkgInstall, RtDestructive, RtSecretRead, RtNetEgressUrl, RtBash, RtCustom]"

text \<open>\<open>a || b\<close> on texts.\<close>

definition text_or :: "string \<Rightarrow> string \<Rightarrow> string" where
  "text_or a b = (if a = [] then b else a)"

definition pattern_area :: "add_form \<Rightarrow> string \<Rightarrow> string \<Rightarrow> string \<Rightarrow> string \<Rightarrow> string \<Rightarrow> string \<Rightarrow> control list" where
  "pattern_area f field name key note_text v placeholder =
     (if field_shown field f then
        [Area (name @ '' pattern'' @ (if af_ruleType f = RtCustom then '' ('' @ key @ '')'' else []) @ per_line @ note_text) v
           (text_or (pr_regexExamples (PRESETS (af_ruleType f))) placeholder) True]
      else [])"

definition add_controls :: "add_form \<Rightarrow> control list" where
  "add_controls f =
     (let preset = PRESETS (af_ruleType f) in
      [Note ''Add rule'', Button ''close'' True,
       Menu ''rule type'' (type_key (af_ruleType f)) type_choices, Note (pr_description preset),
       Field ''id *'' (af_id f) ''supply-chain.pkg-install'',
       (if af_ruleType f = RtCustom then Field ''tool'' (af_tool f) ''Bash''
        else Menu ''tool'' (af_tool f) (same_texts (tool_choices f)))] @
      pattern_area f ''command'' ''command'' ''any_command_regex'' [] (af_command f) (pr_regexPlaceholder preset) @
      pattern_area f ''path'' ''path'' ''any_path_regex'' [] (af_path f) (bsl ''.env('' @ bsl ''.|$)'') @
      pattern_area f ''url'' ''URL'' ''any_url_regex'' '', matched against input.url'' (af_url f) (''^https?://attacker'' @ bsl ''.example'') @
      [Menu ''action'' (af_action f) (same_texts [''deny'', ''allow'']),
       Menu ''mode'' (af_mode f) (same_texts [''inherit'', ''monitor'', ''enforce''])] @
      (case af_error f of None \<Rightarrow> [] | Some m \<Rightarrow> if m = [] then [] else [Note m]) @
      [Button (if af_submitting f then ''Creating'' @ ellipsis else ''Create'') (\<not> af_submitting f), Button ''Cancel'' True])"

text \<open>The changes of the controls.\<close>

datatype add_event =
    AeType rule_type | AeId string | AeTool string | AeCommand string | AePath string | AeUrl string | AeAction string | AeMode string

fun add_change :: "add_form \<Rightarrow> add_event \<Rightarrow> add_form" where
  "add_change f (AeType t) = onRuleTypeChange t f"
| "add_change f (AeId v) = f\<lparr>af_id := v\<rparr>"
| "add_change f (AeTool v) = f\<lparr>af_tool := v\<rparr>"
| "add_change f (AeCommand v) = (if field_shown ''command'' f then f\<lparr>af_command := v\<rparr> else f)"
| "add_change f (AePath v) = (if field_shown ''path'' f then f\<lparr>af_path := v\<rparr> else f)"
| "add_change f (AeUrl v) = (if field_shown ''url'' f then f\<lparr>af_url := v\<rparr> else f)"
| "add_change f (AeAction v) = f\<lparr>af_action := v\<rparr>"
| "add_change f (AeMode v) = f\<lparr>af_mode := v\<rparr>"

section \<open>Editing a rule\<close>

definition match_line :: "string \<Rightarrow> string option \<Rightarrow> string list" where
  "match_line label v = (case v of None \<Rightarrow> [] | Some t \<Rightarrow> if t = [] then [] else [label @ '': '' @ t])"

definition match_list :: "string \<Rightarrow> string list option \<Rightarrow> string list" where
  "match_list label vs = (if or_nil vs = [] then [] else (label @ '':'') # or_nil vs)"

definition branch_lines :: "string \<Rightarrow> match_view \<Rightarrow> string list" where
  "branch_lines label m =
     label # match_line ''tool'' (mv_tool m) @ match_line ''tool_prefix'' (mv_tool_prefix m) @
     match_line ''path_glob_regex'' (mv_path_glob_regex m) @ match_list ''any_command_regex'' (mv_command m) @
     match_list ''any_path_regex'' (mv_path m) @ match_list ''any_url_regex'' (mv_url m)"

definition MatchSchemaView :: "match_view option \<Rightarrow> string list" where
  "MatchSchemaView match =
     (case match of
        None \<Rightarrow> [em_dash_text]
      | Some m \<Rightarrow>
          if 0 < length (or_nil (mv_any_of m)) then
            concat (map (\<lambda>(i, sub). branch_lines (''any_of['' @ nat_str i @ '']'') sub) (zip [0..<length (or_nil (mv_any_of m))] (or_nil (mv_any_of m))))
          else branch_lines ''match'' m)"

definition own_or_match :: "(match_view \<Rightarrow> string option) \<Rightarrow> string option \<Rightarrow> gate_view \<Rightarrow> string" where
  "own_or_match sel own g = opt_or em_dash_text (or_else (Option.bind (simpleMatch g) sel) own)"

definition edit_area :: "gate_view \<Rightarrow> string \<Rightarrow> string \<Rightarrow> control" where
  "edit_area g label v = Area (label @ '' (one per line)'') v [] (\<not> groupedMatch g)"

definition test_label :: string where
  "test_label = ''test input against this rule''"

definition drawer_controls :: "regexp \<Rightarrow> gate_view option \<Rightarrow> edit_form \<Rightarrow> control list" where
  "drawer_controls rx gate f =
     (case gate of
        None \<Rightarrow> [Note ''Select a rule on the left to edit it.'']
      | Some g \<Rightarrow>
          [Note ''Edit rule'', Button ''close'' True, Note (gv_id g),
           Note (own_or_match mv_tool (gv_tool g) g), Note (own_or_match mv_tool_prefix (gv_tool_prefix g) g),
           Note (if or_nil (gv_evaluators g) = [] then em_dash_text else join '', '' (or_nil (gv_evaluators g)))] @
          map Note (MatchSchemaView (gv_match g)) @
          [edit_area g ''any_command_regex'' (ef_command f), edit_area g ''any_path_regex'' (ef_path f),
           edit_area g ''any_url_regex'' (ef_url f)] @
          (if groupedMatch g then
             [Note (''This rule uses grouped match branches. Inline regex editing is available for simple '' @
                ''top-level matchers; delete + re-add grouped rules to change branch structure.'')]
           else []) @
          [Area test_label (ef_test f) ''Paste a command, path, or URL'' True,
           Note (case drawer_preview rx g f of None \<Rightarrow> ''Enter a value to check local regex match.'' | Some (b, m) \<Rightarrow> m),
           Menu ''mode'' (ef_mode f) (same_texts [''inherit'', ''monitor'', ''enforce'']),
           Check ''enabled'' (\<not> ef_disabled f)] @
          (case ef_error f of None \<Rightarrow> [] | Some m \<Rightarrow> if m = [] then [] else [Note m]) @
          [Button (if ef_saving f then ''Saving'' @ ellipsis else ''Save'') (\<not> ef_saving f), Button ''Cancel'' True,
           Note (''Tool, tool_prefix, and evaluator shape are not yet editable inline '' @ em_dash_text @ '' delete + re-add to change those.'')])"

section \<open>What is sent is what is shown\<close>

text \<open>The patterns a user sees and can change: the enabled text areas, one pattern per line, without the test input.\<close>

definition shown_patterns :: "control list \<Rightarrow> string list" where
  "shown_patterns cs =
     concat (map (\<lambda>c. case c of Area l v p on \<Rightarrow> if on \<and> l \<noteq> test_label then splitLines v else [] | _ \<Rightarrow> []) cs)"

definition strings_of :: "json option \<Rightarrow> string list" where
  "strings_of j = (case j of Some (JArr xs) \<Rightarrow> concat (map (\<lambda>x. case x of JStr s \<Rightarrow> [s] | _ \<Rightarrow> []) xs) | _ \<Rightarrow> [])"

definition sent_patterns :: "json \<Rightarrow> string list" where
  "sent_patterns body =
     strings_of (jprop body ''any_command_regex'') @ strings_of (jprop body ''any_path_regex'') @ strings_of (jprop body ''any_url_regex'')"

lemma strings_of_list [simp]: "strings_of (Some (JArr (map JStr xs))) = xs"
  by (induction xs) (simp_all add: strings_of_def)

lemma strings_of_None [simp]: "strings_of None = []"
  by (simp add: strings_of_def)

lemma strings_of_pattern [simp]: "strings_of (pattern_field b t) = (if b then splitLines t else [])"
  by (simp add: pattern_field_def)

lemma obj_prop_Nil: "jprop (obj_of []) k = None"
  by simp

lemma obj_prop_Cons: "jprop (obj_of ((k', v) # fs)) k = (if k = k' \<and> v \<noteq> None then v else jprop (obj_of fs) k)"
  by auto

lemma shown_append [simp]: "shown_patterns (xs @ ys) = shown_patterns xs @ shown_patterns ys"
  by (simp add: shown_patterns_def)

lemma shown_simps [simp]:
  "shown_patterns [] = []"
  "shown_patterns (Note t # cs) = shown_patterns cs"
  "shown_patterns (Field l v p # cs) = shown_patterns cs"
  "shown_patterns (Menu l v os # cs) = shown_patterns cs"
  "shown_patterns (Check l b # cs) = shown_patterns cs"
  "shown_patterns (Button l b # cs) = shown_patterns cs"
  "shown_patterns (Area l v p on # cs) = (if on \<and> l \<noteq> test_label then splitLines v else []) @ shown_patterns cs"
  by (simp_all add: shown_patterns_def)

lemma shown_notes [simp]: "shown_patterns (map Note ts) = []"
  by (induction ts) simp_all

lemma shown_area [simp]: "shown_patterns (pattern_area f k name key nt v p) = (if field_shown k f then splitLines v else [])"
  if "hd name \<noteq> CHR ''t''" "name \<noteq> []"
  using that by (cases name) (simp_all add: pattern_area_def test_label_def)

lemma shown_edit_area [simp]:
  "hd label \<noteq> CHR ''t'' \<Longrightarrow> label \<noteq> [] \<Longrightarrow>
   shown_patterns (edit_area g label v # cs) = (if groupedMatch g then [] else splitLines v) @ shown_patterns cs"
  by (cases label) (simp_all add: edit_area_def test_label_def)

lemma add_body_patterns:
  "jprop (add_body f) ''any_command_regex'' = pattern_field (field_shown ''command'' f) (af_command f)"
  "jprop (add_body f) ''any_path_regex'' = pattern_field (field_shown ''path'' f) (af_path f)"
  "jprop (add_body f) ''any_url_regex'' = pattern_field (field_shown ''url'' f) (af_url f)"
  unfolding add_body_def obj_prop_Cons obj_prop_Nil by simp_all

lemma edit_body_patterns:
  "jprop (edit_body g f) ''any_command_regex'' = (if groupedMatch g then None else Some (JArr (map JStr (splitLines (ef_command f)))))"
  "jprop (edit_body g f) ''any_path_regex'' = (if groupedMatch g then None else Some (JArr (map JStr (splitLines (ef_path f)))))"
  "jprop (edit_body g f) ''any_url_regex'' = (if groupedMatch g then None else Some (JArr (map JStr (splitLines (ef_url f)))))"
  by (simp_all add: edit_body_def)

lemma add_sends_shown: "sent_patterns (add_body f) = shown_patterns (add_controls f)"
  by (simp add: sent_patterns_def add_body_patterns add_controls_def Let_def split: option.split)

text \<open>The drawer sends the patterns of its enabled areas; a grouped gate has none and sends none.\<close>

lemma edit_sends_shown: "sent_patterns (edit_body g f) = shown_patterns (drawer_controls rx (Some g) f)"
  by (simp add: sent_patterns_def edit_body_patterns drawer_controls_def split: option.split)

text \<open>Changing the type of a rule leaves no pattern of another type behind: what is then sent has been typed since.\<close>

lemma type_change_clears: "sent_patterns (add_body (add_change f (AeType t))) = []"
  by (simp add: sent_patterns_def add_body_patterns onRuleTypeChange_def splitLines_def trim_def trim_start_def trim_end_def)

text \<open>The buttons that send are off while a request is in flight.\<close>

lemma no_second_send:
  "af_submitting f \<Longrightarrow> Button t True \<in> set (add_controls f) \<Longrightarrow> t \<in> {''close'', ''Cancel''}"
  "ef_saving h \<Longrightarrow> Button t True \<in> set (drawer_controls rx gate h) \<Longrightarrow> t \<in> {''close'', ''Cancel''}"
  by (auto simp: add_controls_def drawer_controls_def pattern_area_def edit_area_def Let_def split: option.splits if_splits)

section \<open>The events tab\<close>

text \<open>The filters above the list; the first choice of both menus stands for no filter.\<close>

definition filter_controls :: "events_view \<Rightarrow> control list" where
  "filter_controls v =
     [Menu ''source'' (ev_source v) (([], ''all'') # same_texts (ev_sources v)),
      Menu ''verdict'' (ev_verdict v) (([], ''all'') # same_texts (ev_verdicts v)),
      Field ''rule contains'' (ev_rule v) ''pkg-install'',
      Check ''show tool outcomes'' (ev_outcomes v), Check ''show internal'' (ev_internal v)]"

text \<open>What a menu shows: the choice with its value, the first one when there is none.\<close>

definition menu_text :: "string \<Rightarrow> (string \<times> string) list \<Rightarrow> string" where
  "menu_text v cs = (case map_of cs v of Some t \<Rightarrow> t | None \<Rightarrow> snd (hd cs))"

text \<open>
  A source whose last entry has dropped out of the window is no longer a choice: the menu shows "all" while
  the list stays filtered, and is empty.
\<close>

lemma stale_filter:
  assumes "s \<notin> le_source ` set es" "s \<noteq> []"
  defines "v \<equiv> foldl ev_step events_init [EvSource s, EvEntries es]"
  shows "(case hd (filter_controls v) of Menu l x cs \<Rightarrow> menu_text x cs | _ \<Rightarrow> []) = ''all'' \<and> filtered v = []"
proof -
  have v: "ev_source v = s" "ev_entries v = es" by (simp_all add: v_def ev_step_def page_reset_def events_init_def)
  have "\<not> shown_event v e" if "e \<in> set es" for e
  proof -
    from that assms(1) have "le_source e \<noteq> s" by auto
    then show ?thesis by (simp add: shown_event_def v assms(2) Let_def)
  qed
  then have "filtered v = []" using v by (simp add: filtered_def filter_empty_conv)
  moreover have "s \<notin> set (ev_sources v)" using assms(1) v by (simp add: ev_sources_def)
  ultimately show ?thesis using assms(2)
    by (auto simp: filter_controls_def menu_text_def v same_texts_def map_of_eq_None_iff image_iff split: option.split dest: map_of_SomeD)
qed

text \<open>
  The false-positive section of an event's dialog; \<open>None\<close> is the error of drawing a case without its gate or input. Its
  input is an object of texts.
\<close>

definition fp_rows :: "json \<Rightarrow> control list option" where
  "fp_rows c =
     (case (jprop c ''matched_gate'', jprop c ''input'') of
        (Some g, Some (JObj kvs)) \<Rightarrow>
          if g = JNull then None
          else Some (Note (''matched: '' @ js_ostring (jprop g ''id'') @ '' ('' @ js_ostring (jprop g ''source'') @ '')'') #
                     map (\<lambda>(k, v). Note (k @ '': '' @ js_string v)) kvs)
      | _ \<Rightarrow> None)"

definition fp_validation_text :: "json \<Rightarrow> string" where
  "fp_validation_text v =
     (if truthy (jprop v ''ok'') then
        ''valid; original event verdict: '' @ js_ostring (nullish (jprop v ''replacement_verdict'') (Some (JStr ''allow'')))
      else join ''; '' (strings_of (nullish (jprop v ''errors'') (Some (JArr [JStr ''validation failed''])))))"

definition fp_controls :: "fp_dialog \<Rightarrow> control list option" where
  "fp_controls d =
     (case fp_case d of
        None \<Rightarrow> Some []
      | Some c \<Rightarrow>
          map_option (\<lambda>rows.
            [Note ''False positive case''] @ rows @
            [Area ''replacement rule'' (fp_yaml d) [] True, Button ''validate'' (\<not> fp_busy d),
             Button ''apply replacement'' (fp_apply_enabled d)] @
            (case fp_validation d of None \<Rightarrow> [] | Some v \<Rightarrow> [Note (fp_validation_text v)]) @
            (case fp_applied d of None \<Rightarrow> []
             | Some a \<Rightarrow> [Note (''applied '' @ js_ostring (jprop a ''replacement_id'') @ ''; reload sessions to pick up policy '' @
                            shortHash (str_field a ''hash'') 12)]) @
            (case fp_error d of None \<Rightarrow> [] | Some m \<Rightarrow> if m = [] then [] else [Note m])) (fp_rows c))"

definition report_button :: "ledger_entry \<Rightarrow> fp_dialog \<Rightarrow> control list" where
  "report_button e d =
     (if web_canReport e then
        [Button (if fp_case d = None then ''report false positive'' else ''refresh false-positive case'') (\<not> fp_busy d)]
      else [])"

definition EventDetail :: "locale_dates \<Rightarrow> ledger_entry option \<Rightarrow> fp_dialog \<Rightarrow> control list option" where
  "EventDetail dates entry d =
     (case entry of
        None \<Rightarrow> Some [Note (''entry not loaded '' @ em_dash_text @ '' try again'')]
      | Some e \<Rightarrow>
          map_option (\<lambda>cs.
            [Note (''ledger entry #'' @ int_str (le_seq e)), Button ''close'' True] @
            map (\<lambda>(l, v). Note (l @ '': '' @ v)) (detail_rows dates e) @ report_button e d @ cs) (fp_controls d))"

text \<open>A click on the apply button sends something exactly when the button is drawn as usable.\<close>

lemma apply_button:
  assumes "fp_controls d = Some cs" "fp_case d = Some c"
  shows "Button ''apply replacement'' True \<in> set cs \<longleftrightarrow> fp_flight (fp_step d ClickApply) = Some (FpApply c (fp_yaml d)) \<and> \<not> fp_busy d"
  using assms
  by (auto simp: fp_controls_def applyFalsePositive_def fp_apply_enabled_def fp_busy_def fp_rows_def
      split: option.splits if_splits prod.splits json.splits)

end
