(* ===== verification/Editor.thy ===== *)
theory Editor
  imports Node
begin

text \<open>
  Editing a text in the user's editor (\<open>cli/src/util/editor.ts\<close>): a temporary directory with the seed, the
  editor as a child process, the saved text, and the clean-up. The editor is a parameter: from its
  command line and the contents of the file, how it ended and what it left in the file.
\<close>

section \<open>The code\<close>

datatype editor_end = EdError string | EdSignal string | EdExit int

type_synonym editor = "string list \<Rightarrow> string \<Rightarrow> editor_end \<times> string option"

text \<open>One run of the editor on the file: its command is recorded and the file replaced, or removed.\<close>

definition run_editor :: "editor \<Rightarrow> string \<Rightarrow> string \<Rightarrow> editor_end prog" where
  "run_editor ed cmd path w =
     (let w1 = w\<lparr>w_ran := w_ran w @ [[cmd, path]]\<rparr>;
          (how, left) = ed [cmd, path] (case file_at w path of Some c \<Rightarrow> c | None \<Rightarrow> [])
      in (Val how, case left of Some t \<Rightarrow> put_node (fs_key w path) (File t) w1 | None \<Rightarrow> del_node (fs_key w path) w1))"

definition editor_command :: "world \<Rightarrow> string" where
  "editor_command w =
     (case w_env w ''VISUAL'' of
        Some (c # cs) \<Rightarrow> c # cs
      | _ \<Rightarrow> (case w_env w ''EDITOR'' of Some (c # cs) \<Rightarrow> c # cs | _ \<Rightarrow> ''vi''))"

definition spawnEditor :: "editor \<Rightarrow> string \<Rightarrow> unit prog" where
  "spawnEditor ed path =
     bindP (getsP editor_command) (\<lambda>cmd.
     bindP (run_editor ed cmd path) (\<lambda>how.
       case how of
         EdError msg \<Rightarrow> throw_msg msg
       | EdSignal sg \<Rightarrow> throw_msg (''editor terminated by signal '' @ sg)
       | EdExit code \<Rightarrow> if code \<noteq> 0 then throw_msg (''editor exited with code '' @ int_str code) else ret ()))"

text \<open>\<open>mkdtempSync\<close>, given the name it has chosen: the parent must exist.\<close>

definition mkdtemp :: "string \<Rightarrow> unit prog" where
  "mkdtemp dir w =
     (case w_denied w (fs_key w dir) of
        Some code \<Rightarrow> (Err (fs_err code ''mkdtemp'' dir), w)
      | None \<Rightarrow>
          (if node_at w (path_dirname (fs_key w dir)) = Some Dir then (Val (), put_node (fs_key w dir) Dir w)
           else (Err (fs_err ''ENOENT'' ''mkdtemp'' dir), w)))"

text \<open>The result: the saved text and whether it is the seed.\<close>

definition editYAMLInEditor :: "editor \<Rightarrow> string \<Rightarrow> string \<Rightarrow> string \<Rightarrow> (string \<times> bool) prog" where
  "editYAMLInEditor ed dir seed hint =
     (let path = path_join [dir, hint] in
      thenP (mkdtemp dir)
     (thenP (write_file path seed)
     (finallyP
        (thenP (spawnEditor ed path) (bindP (read_file path) (\<lambda>c. ret (c, c = seed))))
        (tryP (rm_rf dir) (\<lambda>_. ret ())))))"

section \<open>What it leaves behind\<close>

lemma key_of_snoc: "segs \<noteq> [] \<Longrightarrow> key_of (segs @ [f]) = key_of segs @ ''/'' @ f"
proof -
  assume "segs \<noteq> []"
  then have "join ''/'' (segs @ [f]) = join ''/'' segs @ ''/'' @ f"
  proof (induction segs)
    case (Cons s segs)
    then show ?case by (cases segs) (simp_all add: join_Cons)
  qed simp
  then show ?thesis by (simp add: key_of_def)
qed

lemma dirname_under:
  assumes "d \<noteq> []" "plain_name f"
  shows "path_dirname (d @ CHR ''/'' # f) = d"
proof -
  have f: "CHR ''/'' \<notin> set f" "f \<noteq> []" using assms(2) by (auto simp: plain_name_def clean_seg_def)
  have "last f \<noteq> CHR ''/''" using f last_in_set by metis
  then have strip: "strip_slashes (d @ CHR ''/'' # f) = d @ CHR ''/'' # f"
    using f(2) by (cases f rule: rev_cases) (simp_all add: strip_slashes_def)
  have "dropWhile (\<lambda>c. c \<noteq> CHR ''/'') (rev f @ CHR ''/'' # rev d) = CHR ''/'' # rev d"
    using f(1) by (subst dropWhile_append2) auto
  then have "rev (dropWhile (\<lambda>c. c \<noteq> CHR ''/'') (rev (d @ CHR ''/'' # f))) = d @ ''/''" by simp
  with assms(1) show ?thesis by (simp add: path_dirname_def Let_def strip)
qed

lemma dirname_in_dir:
  assumes "dir_segs h \<noteq> []" "plain_name f"
  shows "path_dirname (in_dir h f) = key_of (dir_segs h)"
  using dirname_under [of "key_of (dir_segs h)" f] assms by (simp add: in_dir_def key_of_snoc) (simp add: key_of_def)

definition below :: "string \<Rightarrow> string \<Rightarrow> bool" where
  "below dir k \<longleftrightarrow> k = dir \<or> starts_with (dir @ ''/'') k"

definition fresh_dir :: "string \<Rightarrow> world \<Rightarrow> bool" where
  "fresh_dir dir w \<longleftrightarrow> list_all (\<lambda>(k, n). \<not> below dir k) (w_tree w)"

definition outside :: "string \<Rightarrow> (string \<times> node) list \<Rightarrow> (string \<times> node) list" where
  "outside dir t = filter (\<lambda>(k, n). \<not> below dir k) t"

lemma outside_update: "below dir k \<Longrightarrow> outside dir (AList.update k n t) = outside dir t"
  by (induction t) (auto simp: outside_def)

lemma outside_delete: "below dir k \<Longrightarrow> outside dir (AList.delete k t) = outside dir t"
  by (induction t) (auto simp: outside_def AList.delete_eq)

lemma outside_fresh: "fresh_dir dir w \<Longrightarrow> outside dir (w_tree w) = w_tree w"
  by (simp add: outside_def fresh_dir_def list_all_iff)

lemma rm_rf_outside: "w_denied w (fs_key w dir) = None \<Longrightarrow> fs_key w dir = dir \<Longrightarrow>
    rm_rf dir w = (Val (), w\<lparr>w_tree := outside dir (w_tree w)\<rparr>)"
  by (simp add: rm_rf_def outside_def below_def case_prod_beta cong: filter_cong)

text \<open>The result of an editor run that was given the seed.\<close>

definition editor_result :: "editor_end \<times> string option \<Rightarrow> string \<Rightarrow> string \<Rightarrow> (string \<times> bool) res" where
  "editor_result how path seed =
     (case how of
        (EdError msg, left) \<Rightarrow> Err (JsError msg None)
      | (EdSignal sg, left) \<Rightarrow> Err (JsError (''editor terminated by signal '' @ sg) None)
      | (EdExit code, left) \<Rightarrow>
          if code \<noteq> 0 then Err (JsError (''editor exited with code '' @ int_str code) None)
          else (case left of None \<Rightarrow> Err (fs_err ''ENOENT'' ''open'' path) | Some t \<Rightarrow> Val (t, t = seed)))"

text \<open>The paths of a fresh directory and of the one file in it.\<close>

lemma edit_paths:
  assumes tmp: "starts_with ''/'' tmp" "plain_name name" "plain_name hint" "dir_segs tmp \<noteq> []" and dir: "dir = in_dir tmp name"
  shows "path_join [dir, hint] = in_dir dir hint" "fs_key v dir = dir" "fs_key v (in_dir dir hint) = in_dir dir hint"
    and "path_dirname (in_dir dir hint) = dir" "path_dirname dir = key_of (dir_segs tmp)"
    and "dir \<noteq> ''/''" "in_dir dir hint \<noteq> ''/''" "in_dir dir hint \<noteq> dir" "below dir dir" "below dir (in_dir dir hint)"
proof -
  let ?p = "in_dir dir hint"
  have abs: "starts_with ''/'' dir" by (simp add: dir in_dir_abs)
  show "path_join [dir, hint] = ?p" by (rule path_join_file [OF abs tmp(3)])
  show "fs_key v dir = dir" "fs_key v ?p = ?p" unfolding dir by (rule fs_key_in_dir [OF tmp(2)], rule fs_key_in_dir [OF tmp(3)])
  have segs: "dir_segs dir = dir_segs tmp @ [name]" unfolding dir by (rule in_dir_segs [OF tmp(2)])
  have dd: "key_of (dir_segs dir) = dir" by (simp add: segs) (simp add: dir in_dir_def)
  show "path_dirname ?p = dir" using dirname_in_dir [of dir hint] tmp(3) segs dd by simp
  show "path_dirname dir = key_of (dir_segs tmp)" unfolding dir by (rule dirname_in_dir [OF tmp(4,2)])
  have p: "?p = dir @ CHR ''/'' # hint" using key_of_snoc [of "dir_segs dir" hint] segs dd by (simp add: in_dir_def)
  show "dir \<noteq> ''/''" "?p \<noteq> ''/''" unfolding dir by (rule in_dir_not_root [OF tmp(2)], rule in_dir_not_root [OF tmp(3)])
  show "below dir dir" "below dir ?p" "?p \<noteq> dir" by (simp_all add: below_def p starts_with_def)
qed



text \<open>
  The file name is not checked: one with a slash names a file that is not in the directory, so the seed of a
  gate with such an identifier is written elsewhere.
\<close>

lemma editor_path_escapes: "path_join [''/tmp/agentlock-edit-a1'', ''agentlock-x/../../../home/u/y.yaml''] = ''/home/u/y.yaml''"
  by (simp add: path_join_def path_normalize_def norm_segs.simps starts_with_def ends_with_def)

end
