(* ===== verification/TuiModel.thy ===== *)
theory TuiModel
  imports WebRules WebEvents
begin

text \<open>
  The terminal dashboard (\<open>cli/src/tui/dashboard.tsx\<close>): its React states as one record, the keyboard
  handler with its modes (event detail, gate detail, filter editing, tabs), the calls it makes to the
  daemon's client and what their answers do. A promise of the source is a call returned by the handler and,
  later, an answer, so that answers may arrive in any order between keys.
\<close>

section \<open>The data of the client's answers (util/api.ts)\<close>

text \<open>An absent \<open>env\<close>, \<open>runtime_override\<close> or \<open>mode\<close> of a gate is the empty text, which every reader treats alike.\<close>

datatype insight_window = W1h | W24h | W7d | Wall

record mode_response =
  mr_mode :: string
  mr_env :: string
  mr_override :: string

record session_summary =
  se_id :: string
  se_harness :: string
  se_signer :: string
  se_policy_hash :: string
  se_active :: bool
  se_needs_reload :: bool
  se_started_at :: "string option"
  se_ended_at :: "string option"

record sessions_response =
  sr_live :: string
  sr_sessions :: "session_summary list"

record policy_response =
  pv_hash :: string
  pv_policy_mode :: string
  pv_daemon_mode :: string
  pv_gates :: "gate_view list"

record provider_view =
  gp_id :: string
  gp_name :: string
  gp_status :: string
  gp_capabilities :: "string list"
  gp_configured :: bool

record catalog_entry =
  ce_provider :: string
  ce_entry :: string
  ce_name :: string
  ce_kind :: string
  ce_description :: "string option"
  ce_runtime :: bool
  ce_metadata :: "(string \<times> string) list option"

record catalog_response =
  ca_entries :: "catalog_entry list"
  ca_errors :: "(string \<times> string) list"

record root_response =
  lr_root :: string
  lr_seq :: nat
  lr_count :: nat
  lr_computed_at :: string

record insight_bucket =
  ib_ts :: string
  ib_allow :: nat
  ib_deny :: nat

record insights_response =
  in_window :: insight_window
  in_now :: string
  in_bucket_seconds :: nat
  in_total :: nat
  in_by_verdict :: "(string \<times> nat) list"
  in_by_source :: "(string \<times> nat) list"
  in_top_rules :: "(string \<times> nat) list"
  in_top_tools :: "(string \<times> nat) list"
  in_buckets :: "insight_bucket list"

section \<open>The state\<close>

datatype tab = TStats | TEvents | TGuardrails | TSessions | TGates | TMode

definition TABS :: "tab list" where
  "TABS = [TStats, TEvents, TGuardrails, TSessions, TGates, TMode]"

definition VISIBLE_ROWS :: nat where "VISIBLE_ROWS = 16"

record filters =
  fi_source :: string
  fi_verdict :: string
  fi_rule :: string
  fi_internal :: bool
  fi_outcomes :: bool

definition EMPTY_FILTERS :: filters where
  "EMPTY_FILTERS = \<lparr>fi_source = [], fi_verdict = [], fi_rule = [], fi_internal = False, fi_outcomes = False\<rparr>"

datatype filter_field = FSource | FVerdict | FRule

text \<open>\<open>FILTER_FIELDS[(idx + 1) % 3]\<close>\<close>

fun next_field :: "filter_field \<Rightarrow> filter_field" where
  "next_field FSource = FVerdict"
| "next_field FVerdict = FRule"
| "next_field FRule = FSource"

record tui =
  tu_tab :: tab
  tu_cursor :: "tab \<Rightarrow> nat"
  tu_scroll :: "tab \<Rightarrow> nat"
  tu_daemonOk :: "bool option"
  tu_mode :: "mode_response option"
  tu_sessions :: "sessions_response option"
  tu_policy :: "policy_response option"
  tu_providers :: "provider_view list option"
  tu_catalog :: "catalog_response option"
  tu_enabled :: "(string \<times> string) list option"
  tu_events :: "ledger_entry list"
  tu_insights :: "insights_response option"
  tu_window :: insight_window
  tu_root :: "root_response option"
  tu_sse :: string
  tu_toast :: string
  tu_filters :: filters
  tu_field :: "filter_field option"
  tu_buffer :: string
  tu_detail :: "int option"
  tu_hashes :: bool
  tu_internal :: bool
  tu_pending :: "(string \<times> int) option"
  tu_gate :: "string option"
  tu_gateScroll :: nat
  tu_editing :: bool
  tu_quit :: bool

definition tui_init :: tui where
  "tui_init = \<lparr>tu_tab = TStats, tu_cursor = (\<lambda>_. 0), tu_scroll = (\<lambda>_. 0), tu_daemonOk = None, tu_mode = None, tu_sessions = None,
     tu_policy = None, tu_providers = None, tu_catalog = None, tu_enabled = None, tu_events = [], tu_insights = None,
     tu_window = W24h, tu_root = None, tu_sse = ''connecting'', tu_toast = [], tu_filters = EMPTY_FILTERS, tu_field = None,
     tu_buffer = [], tu_detail = None, tu_hashes = False, tu_internal = False, tu_pending = None, tu_gate = None,
     tu_gateScroll = 0, tu_editing = False, tu_quit = False\<rparr>"

text \<open>The calls of the client, with what their answers need to know; editing runs the user's editor on a seed.\<close>

datatype edit_flow = EditAdd | EditGate string | EditFp int json

datatype tui_call =
    CHealth | CGetMode | CListSessions | CPolicyView | CProviders | CCatalog | CEnabled | CLedgerRoot | CInsights insight_window
  | CPatchMode string
  | CSaveGuardrails "(string \<times> string) list" "(string \<times> string) list" string bool
  | CGateDisabled string bool
  | CGateMode string string
  | CDeleteGate string
  | CEdit edit_flow string string
  | CInstallYAML string bool
  | CFpCase int
  | CFpValidate int json string
  | CFpApply int json string

datatype answer =
    AUnit | AMode mode_response | ASessions sessions_response | APolicy policy_response | AProviders "provider_view list"
  | ACatalog catalog_response | AEnabled "(string \<times> string) list" | ARoot root_response | AInsights insights_response
  | AGates nat | ACase json | AValidation bool "string list" | AApplied string string | AEdited string bool

section \<open>Lists shown\<close>

definition tui_isOutcome :: "ledger_entry \<Rightarrow> bool" where
  "tui_isOutcome e \<longleftrightarrow> le_verdict e = Some ''complete'' \<or> le_verdict e = Some ''failure''"

definition TUI_INTERNAL_SOURCES :: "string set" where
  "TUI_INTERNAL_SOURCES = {''internal'', ''agentlock'', ''''}"

definition TUI_INTERNAL_HARNESSES :: "string set" where
  "TUI_INTERNAL_HARNESSES = {''internal'', ''agentlock'', ''''}"

definition filteredEvents :: "tui \<Rightarrow> ledger_entry list" where
  "filteredEvents s =
     (let f = tu_filters s;
          a0 = filter (\<lambda>e. \<not> tui_isOutcome e) (tu_events s);
          a1 = (if fi_source f \<noteq> [] then filter (\<lambda>e. le_source e = fi_source f) a0 else a0);
          a2 = (if fi_verdict f \<noteq> [] then filter (\<lambda>e. or_empty (le_verdict e) = fi_verdict f) a1 else a1);
          a3 = (if fi_rule f \<noteq> [] then filter (\<lambda>e. str_includes (fi_rule f) (or_empty (le_rule_id e))) a2 else a2)
      in if \<not> fi_internal f
         then filter (\<lambda>e. le_source e \<notin> TUI_INTERNAL_SOURCES \<and> (or_empty (le_rule_id e) \<noteq> [] \<or> le_monitor_match e)) a3
         else a3)"

definition visibleSessions :: "tui \<Rightarrow> session_summary list" where
  "visibleSessions s =
     (case tu_sessions s of None \<Rightarrow> []
      | Some r \<Rightarrow> if tu_internal s then sr_sessions r
                 else filter (\<lambda>x. se_harness x \<notin> TUI_INTERNAL_HARNESSES) (sr_sessions r))"

definition visibleGuardrails :: "tui \<Rightarrow> catalog_entry list" where
  "visibleGuardrails s = (case tu_catalog s of None \<Rightarrow> [] | Some c \<Rightarrow> ca_entries c)"

definition loaded_gates :: "tui \<Rightarrow> gate_view list" where
  "loaded_gates s = (case tu_policy s of None \<Rightarrow> [] | Some p \<Rightarrow> pv_gates p)"

text \<open>\<open>xs[i]\<close>, \<open>undefined\<close> past the end.\<close>

definition at_index :: "'a list \<Rightarrow> nat \<Rightarrow> 'a option" where
  "at_index xs i = (if i < length xs then Some (xs ! i) else None)"

definition selected_gate :: "tui \<Rightarrow> gate_view option" where
  "selected_gate s = at_index (loaded_gates s) (tu_cursor s TGates)"

text \<open>
  The handler is installed in the first render and calls that render's functions. They read the current state
  through references, except \<open>visibleSessions\<close>, which reads the list of that render: not loaded.
\<close>

definition handler_sessions :: "tui \<Rightarrow> session_summary list" where
  "handler_sessions s = visibleSessions (s\<lparr>tu_sessions := tu_sessions tui_init\<rparr>)"

fun row_count :: "tab \<Rightarrow> tui \<Rightarrow> nat" where
  "row_count TEvents s = length (filteredEvents s)"
| "row_count TGuardrails s = length (visibleGuardrails s)"
| "row_count TSessions s = length (handler_sessions s)"
| "row_count TGates s = length (loaded_gates s)"
| "row_count t s = 0"

definition moveCursor :: "int \<Rightarrow> tui \<Rightarrow> tui" where
  "moveCursor delta s =
     (let t = tu_tab s; n = row_count t s in
      if n = 0 then s
      else (let nxt = nat (max 0 (min (int n - 1) (int (tu_cursor s t) + delta))); off = tu_scroll s t in
            s\<lparr>tu_cursor := (tu_cursor s)(t := nxt),
              tu_scroll := (if nxt < off then (tu_scroll s)(t := nxt)
                            else if off + VISIBLE_ROWS \<le> nxt then (tu_scroll s)(t := nxt - VISIBLE_ROWS + 1)
                            else tu_scroll s)\<rparr>))"

definition top_of :: "tab \<Rightarrow> tui \<Rightarrow> tui" where
  "top_of t s = s\<lparr>tu_cursor := (tu_cursor s)(t := 0), tu_scroll := (tu_scroll s)(t := 0)\<rparr>"

definition flashToast :: "string \<Rightarrow> tui \<Rightarrow> tui" where
  "flashToast msg s = s\<lparr>tu_toast := msg\<rparr>"

section \<open>Lengths of text\<close>

text \<open>
  Text is UTF-8 here; JavaScript counts UTF-16 units: one for a character of up to three bytes, two for one
  of four. A cut through the latter leaves half of it, which is written as the replacement character.
\<close>

definition is_cont :: "char \<Rightarrow> bool" where
  "is_cont c \<longleftrightarrow> 128 \<le> code_of c \<and> code_of c < 192"

definition u16len :: "string \<Rightarrow> nat" where
  "u16len s = length (filter (\<lambda>c. \<not> is_cont c) s) + length (filter (\<lambda>c. 240 \<le> code_of c) s)"

definition half_char :: string where "half_char = map char_of [0xEF, 0xBF, 0xBD :: nat]"

text \<open>\<open>s.slice(0, n)\<close>\<close>

fun u16_take :: "nat \<Rightarrow> string \<Rightarrow> string" where
  "u16_take n [] = []"
| "u16_take n (c # cs) =
     (if is_cont c then c # u16_take n cs
      else if n = 0 then []
      else if code_of c < 240 then c # u16_take (n - 1) cs
      else if n = 1 then half_char
      else c # u16_take (n - 2) cs)"

text \<open>\<open>truncate\<close>, whose ellipsis is one character of three bytes.\<close>

definition ellipsis :: string where "ellipsis = map char_of [0xE2, 0x80, 0xA6 :: nat]"

definition tui_truncate :: "string \<Rightarrow> nat \<Rightarrow> string" where
  "tui_truncate s n = (if s = [] then [] else if u16len s \<le> n then s else u16_take (n - 1) s @ ellipsis)"

section \<open>Editing a gate as text\<close>

definition NEW_GATE_TEMPLATE :: string where
  "NEW_GATE_TEMPLATE = concat (map (\<lambda>l. l @ [chr_nl])
     [''# Define a new policy gate. The yaml below is fed to'',
      ''# POST /v1/policy/gates/yaml '' @ map char_of [0xE2, 0x80, 0x94 :: nat] @ '' same schema as policies/default.yaml.'',
      ''# Save and quit your editor to apply; close without saving to abort.'',
      ''id: my-rule'', ''match:'', ''  tool: Bash'', ''  any_command_regex:'',
      ''    - '' @ [chr_sq] @ ''curl'' @ [chr_bs] @ ''s+-fsSL'' @ [chr_bs] @ ''b'' @ [chr_sq],
      ''evaluate:'', ''  - kind: always'', ''    action: deny''])"

text \<open>The object \<open>serializeGateForEdit\<close> prints; the yaml printer is a parameter.\<close>

definition gate_edit_object :: "gate_view \<Rightarrow> json" where
  "gate_edit_object g =
     (let m = obj_of
            [(''tool'', if or_empty (gv_tool g) \<noteq> [] then ostr (gv_tool g) else None),
             (''tool_prefix'', if or_empty (gv_tool_prefix g) \<noteq> [] then ostr (gv_tool_prefix g) else None),
             (''any_command_regex'', if 0 < length (or_nil (gv_command g)) then Some (JArr (map JStr (or_nil (gv_command g)))) else None)]
      in obj_of
           [(''id'', Some (JStr (gv_id g))),
            (''mode'', if gv_mode g \<noteq> [] then Some (JStr (gv_mode g)) else None),
            (''disabled'', if gv_disabled g then Some (JBool True) else None),
            (''match'', if m = JObj [] then None else Some m),
            (''evaluate'', if 0 < length (or_nil (gv_evaluators g))
                           then Some (JArr (map (\<lambda>k. JObj [(''kind'', JStr k)]) (or_nil (gv_evaluators g)))) else None)])"

definition edit_header :: string where
  "edit_header = concat (map (\<lambda>l. l @ [chr_nl])
     [''# Editing existing gate. Save to apply (replace=true);'', ''# close without saving to abort. Evaluator parameters'',
      ''# (allowlists, host lists, etc.) are not exposed by the'',
      ''# /v1/policy/view endpoint '' @ map char_of [0xE2, 0x80, 0x94 :: nat] @ '' re-add them here if needed.''])"

definition serializeGateForEdit :: "(json \<Rightarrow> string) \<Rightarrow> gate_view \<Rightarrow> string" where
  "serializeGateForEdit yaml g = edit_header @ yaml (gate_edit_object g)"

definition tui_canReport :: "ledger_entry \<Rightarrow> bool" where
  "tui_canReport e \<longleftrightarrow>
     or_empty (le_rule_id e) \<noteq> [] \<and> le_rule_id e \<noteq> Some ''default'' \<and> \<not> tui_isOutcome e \<and>
     (le_verdict e = Some ''deny'' \<or> le_monitor_match e)"

end
