(* ===== verification/TuiKeys.thy ===== *)
theory TuiKeys
  imports TuiModel
begin

text \<open>
  The keyboard handler of the terminal dashboard and the continuations of its calls
  (\<open>cli/src/tui/dashboard.tsx\<close>), one function per mode of the handler, and the events of a session:
  keys, answers, polls, ledger entries.
\<close>

section \<open>Keys\<close>

record key =
  k_name :: string
  k_seq :: string

definition is_enter :: "key \<Rightarrow> bool" where
  "is_enter k \<longleftrightarrow> k_name k = ''return'' \<or> k_name k = ''enter''"

definition closes :: "key \<Rightarrow> bool" where
  "closes k \<longleftrightarrow> k_name k = ''escape'' \<or> k_name k = ''q'' \<or> is_enter k"

definition is_spacebar :: "key \<Rightarrow> bool" where
  "is_spacebar k \<longleftrightarrow> k_name k = ''space'' \<or> k_seq k = '' ''"

definition drop_last_char :: "string \<Rightarrow> string" where
  "drop_last_char s = rev (drop 1 (dropWhile is_cont (rev s)))"

definition printable :: "string \<Rightarrow> bool" where
  "printable ch \<longleftrightarrow> ch \<noteq> [] \<and> u16len ch = 1 \<and> 32 \<le> code_of (hd ch)"

type_synonym outcome = "tui \<times> tui_call list"

section \<open>The modes of the handler\<close>

definition key_detail :: "int \<Rightarrow> key \<Rightarrow> tui \<Rightarrow> outcome" where
  "key_detail sq k s =
     (if k_name k = ''f'' then
        (case find (\<lambda>e. le_seq e = sq) (tu_events s) of
           Some e \<Rightarrow> if tui_canReport e then (s, [CFpCase (le_seq e)])
                     else (flashToast ''false-positive action unavailable for this row'' s, [])
         | None \<Rightarrow> (flashToast ''false-positive action unavailable for this row'' s, []))
      else if closes k then (s\<lparr>tu_detail := None\<rparr>, [])
      else if k_name k = ''H'' then (s\<lparr>tu_hashes := \<not> tu_hashes s\<rparr>, [])
      else (s, []))"

definition key_gate_detail :: "key \<Rightarrow> tui \<Rightarrow> outcome" where
  "key_gate_detail k s =
     (if closes k then (s\<lparr>tu_gate := None, tu_gateScroll := 0\<rparr>, [])
      else if k_name k = ''down'' \<or> k_name k = ''j'' then (s\<lparr>tu_gateScroll := tu_gateScroll s + 1\<rparr>, [])
      else if k_name k = ''up'' \<or> k_name k = ''k'' then (s\<lparr>tu_gateScroll := tu_gateScroll s - 1\<rparr>, [])
      else (s, []))"

definition eventFilterOptions :: "ledger_entry list \<Rightarrow> filter_field \<Rightarrow> string list" where
  "eventFilterOptions es field =
     (let values = map (\<lambda>e. if field = FSource then le_source e else or_empty (le_verdict e)) (filter (\<lambda>e. \<not> tui_isOutcome e) es)
      in [] # sort_key (map code_of) (remdups (filter (\<lambda>v. v \<noteq> []) values)))"

fun filter_value :: "filter_field \<Rightarrow> filters \<Rightarrow> string" where
  "filter_value FSource f = fi_source f"
| "filter_value FVerdict f = fi_verdict f"
| "filter_value FRule f = fi_rule f"

fun set_filter :: "filter_field \<Rightarrow> string \<Rightarrow> filters \<Rightarrow> filters" where
  "set_filter FSource v f = f\<lparr>fi_source := v\<rparr>"
| "set_filter FVerdict v f = f\<lparr>fi_verdict := v\<rparr>"
| "set_filter FRule v f = f\<lparr>fi_rule := v\<rparr>"

text \<open>\<open>Math.max(0, values.indexOf(x))\<close>\<close>

fun index_or_0 :: "'a \<Rightarrow> 'a list \<Rightarrow> nat" where
  "index_or_0 x [] = 0"
| "index_or_0 x (y # ys) = (if x = y \<or> x \<notin> set ys then 0 else Suc (index_or_0 x ys))"

definition cycleEventFilter :: "filter_field \<Rightarrow> int \<Rightarrow> tui \<Rightarrow> tui" where
  "cycleEventFilter field delta s =
     (let values = eventFilterOptions (tu_events s) field; n = int (length values);
          idx = int (index_or_0 (filter_value field (tu_filters s)) values);
          nxt = values ! nat ((idx + delta + n) mod n)
      in top_of TEvents (s\<lparr>tu_filters := set_filter field nxt (tu_filters s)\<rparr>))"

definition save_rule :: "filter_field \<Rightarrow> tui \<Rightarrow> tui" where
  "save_rule field s = (if field = FRule then s\<lparr>tu_filters := set_filter FRule (tu_buffer s) (tu_filters s)\<rparr> else s)"

definition key_filter :: "filter_field \<Rightarrow> key \<Rightarrow> tui \<Rightarrow> tui" where
  "key_filter field k s =
     (if k_name k = ''escape'' then s\<lparr>tu_field := None, tu_buffer := []\<rparr>
      else if is_enter k then top_of TEvents ((save_rule field s)\<lparr>tu_field := None, tu_buffer := []\<rparr>)
      else if k_name k = ''tab'' then
        (let nextField = next_field field in
         top_of TEvents ((save_rule field s)\<lparr>tu_field := Some nextField,
           tu_buffer := (if nextField = FRule then fi_rule (tu_filters s) else [])\<rparr>))
      else if field \<noteq> FRule \<and> (k_name k = ''left'' \<or> k_name k = ''h'') then cycleEventFilter field (- 1) s
      else if field \<noteq> FRule \<and> (k_name k = ''right'' \<or> k_name k = ''l'') then cycleEventFilter field 1 s
      else if field \<noteq> FRule \<and> (k_name k = ''backspace'' \<or> k_name k = ''delete'') then
        top_of TEvents (s\<lparr>tu_filters := set_filter field [] (tu_filters s)\<rparr>)
      else if field \<noteq> FRule then s
      else if k_name k = ''backspace'' then s\<lparr>tu_buffer := drop_last_char (tu_buffer s)\<rparr>
      else if printable (k_seq k) then s\<lparr>tu_buffer := tu_buffer s @ k_seq k\<rparr>
      else s)"

definition tab_index :: "tab \<Rightarrow> nat" where
  "tab_index t = index_or_0 t TABS"

definition tab_step :: "nat \<Rightarrow> tab \<Rightarrow> tab" where
  "tab_step d t = TABS ! ((tab_index t + d) mod length TABS)"

definition refresh_calls :: "tui \<Rightarrow> tui_call list" where
  "refresh_calls s = [CGetMode, CListSessions, CPolicyView, CProviders, CCatalog, CEnabled, CLedgerRoot, CInsights (tu_window s)]"

definition flip_mode :: "mode_response \<Rightarrow> string" where
  "flip_mode m = (if mr_mode m = ''firewall'' then ''monitor'' else ''firewall'')"

text \<open>The global keys; \<open>None\<close>: not one of them.\<close>

definition key_global :: "key \<Rightarrow> tui \<Rightarrow> outcome option" where
  "key_global k s =
     (if k_name k = ''q'' \<or> k_name k = ''escape'' then Some (s\<lparr>tu_quit := True\<rparr>, [])
      else if k_name k = ''left'' \<or> k_name k = ''h'' then Some (s\<lparr>tu_tab := tab_step (length TABS - 1) (tu_tab s)\<rparr>, [])
      else if k_name k = ''right'' \<or> k_name k = ''l'' then Some (s\<lparr>tu_tab := tab_step 1 (tu_tab s)\<rparr>, [])
      else if k_name k = ''down'' \<or> k_name k = ''j'' then Some (moveCursor 1 s, [])
      else if k_name k = ''up'' \<or> k_name k = ''k'' then Some (moveCursor (- 1) s, [])
      else if k_name k = ''r'' then Some (flashToast ''refreshed'' s, refresh_calls s)
      else if k_name k = ''m'' then
        Some (case tu_mode s of
                None \<Rightarrow> (flashToast ''mode unknown; waiting for daemon response'' s, [])
              | Some m \<Rightarrow> (s, [CPatchMode (flip_mode m)]))
      else None)"

definition key_stats :: "key \<Rightarrow> tui \<Rightarrow> tui" where
  "key_stats k s =
     (if k_name k = ''1'' then s\<lparr>tu_window := W1h\<rparr>
      else if k_name k = ''2'' then s\<lparr>tu_window := W24h\<rparr>
      else if k_name k = ''3'' then s\<lparr>tu_window := W7d\<rparr>
      else if k_name k = ''0'' then s\<lparr>tu_window := Wall\<rparr>
      else s)"

definition key_events :: "key \<Rightarrow> tui \<Rightarrow> tui" where
  "key_events k s =
     (if is_enter k then
        (case at_index (filteredEvents s) (tu_cursor s TEvents) of None \<Rightarrow> s | Some e \<Rightarrow> s\<lparr>tu_detail := Some (le_seq e)\<rparr>)
      else if k_name k = ''f'' then s\<lparr>tu_field := Some FSource, tu_buffer := []\<rparr>
      else if k_name k = ''c'' then flashToast ''filters cleared'' (top_of TEvents (s\<lparr>tu_filters := EMPTY_FILTERS\<rparr>))
      else if k_name k = ''i'' then s\<lparr>tu_filters := (tu_filters s)\<lparr>fi_internal := \<not> fi_internal (tu_filters s)\<rparr>\<rparr>
      else if k_name k = ''o'' then s\<lparr>tu_filters := (tu_filters s)\<lparr>fi_outcomes := \<not> fi_outcomes (tu_filters s)\<rparr>\<rparr>
      else s)"

definition enabled_list :: "tui \<Rightarrow> (string \<times> string) list" where
  "enabled_list s = (case tu_enabled s of None \<Rightarrow> [] | Some l \<Rightarrow> l)"

definition isGuardrailEnabled :: "catalog_entry \<Rightarrow> tui \<Rightarrow> bool" where
  "isGuardrailEnabled e s \<longleftrightarrow> list_ex (\<lambda>i. fst i = ce_provider e \<and> snd i = ce_entry e) (enabled_list s)"

definition toggleGuardrail :: "catalog_entry \<Rightarrow> tui \<Rightarrow> outcome" where
  "toggleGuardrail e s =
     (if \<not> ce_runtime e then (flashToast (ce_name e @ '' is catalog-only'') s, [])
      else (let current = enabled_list s; on = isGuardrailEnabled e s;
                nxt = (if on then filter (\<lambda>i. \<not> (fst i = ce_provider e \<and> snd i = ce_entry e)) current
                       else current @ [(ce_provider e, ce_entry e)])
            in (s\<lparr>tu_enabled := Some nxt\<rparr>, [CSaveGuardrails nxt current (ce_name e) on])))"

definition key_guardrails :: "key \<Rightarrow> tui \<Rightarrow> outcome" where
  "key_guardrails k s =
     (if is_spacebar k then
        (case at_index (visibleGuardrails s) (tu_cursor s TGuardrails) of
           None \<Rightarrow> (flashToast ''no guardrail selected'' s, [])
         | Some e \<Rightarrow> toggleGuardrail e s)
      else (s, []))"

definition key_sessions :: "key \<Rightarrow> tui \<Rightarrow> tui" where
  "key_sessions k s = (if k_name k = ''i'' then top_of TSessions (s\<lparr>tu_internal := \<not> tu_internal s\<rparr>) else s)"

definition mode_cycle :: "string list" where
  "mode_cycle = [''inherit'', ''monitor'', ''enforce'']"

definition next_gate_mode :: "gate_view \<Rightarrow> string" where
  "next_gate_mode g =
     mode_cycle ! ((index_or_0 (if gv_mode g = [] then ''inherit'' else gv_mode g) mode_cycle + 1) mod length mode_cycle)"

definition armed :: "int \<Rightarrow> string \<Rightarrow> tui \<Rightarrow> bool" where
  "armed now i s \<longleftrightarrow> (case tu_pending s of None \<Rightarrow> False | Some (j, expires) \<Rightarrow> j = i \<and> now < expires)"

definition key_gates :: "(json \<Rightarrow> string) \<Rightarrow> int \<Rightarrow> key \<Rightarrow> tui \<Rightarrow> outcome" where
  "key_gates yaml now k s =
     (if is_enter k then
        (case selected_gate s of None \<Rightarrow> (s, []) | Some g \<Rightarrow> (s\<lparr>tu_gate := Some (gv_id g), tu_gateScroll := 0\<rparr>, []))
      else if k_name k = ''a'' then (s\<lparr>tu_editing := True\<rparr>, [CEdit EditAdd NEW_GATE_TEMPLATE ''agentlock-new-gate.yaml''])
      else case selected_gate s of
        None \<Rightarrow> (s, [])
      | Some g \<Rightarrow>
          if k_name k = ''e'' then
            (s\<lparr>tu_editing := True\<rparr>, [CEdit (EditGate (gv_id g)) (serializeGateForEdit yaml g) (''agentlock-'' @ gv_id g @ ''.yaml'')])
          else if is_spacebar k then (s, [CGateDisabled (gv_id g) (\<not> gv_disabled g)])
          else if k_name k = ''M'' then (s, [CGateMode (gv_id g) (next_gate_mode g)])
          else if k_name k = ''x'' then
            (if armed now (gv_id g) s then (s, [CDeleteGate (gv_id g)])
             else (flashToast (''press x again within 2s to delete '' @ gv_id g) (s\<lparr>tu_pending := Some (gv_id g, now + 2000)\<rparr>), []))
          else (s, []))"

definition key_tab :: "(json \<Rightarrow> string) \<Rightarrow> int \<Rightarrow> key \<Rightarrow> tui \<Rightarrow> outcome" where
  "key_tab yaml now k s =
     (case tu_tab s of
        TStats \<Rightarrow> (key_stats k s, [])
      | TEvents \<Rightarrow> (key_events k s, [])
      | TGuardrails \<Rightarrow> key_guardrails k s
      | TSessions \<Rightarrow> (key_sessions k s, [])
      | TGates \<Rightarrow> key_gates yaml now k s
      | TMode \<Rightarrow> (s, []))"

definition handle_key :: "(json \<Rightarrow> string) \<Rightarrow> int \<Rightarrow> key \<Rightarrow> tui \<Rightarrow> outcome" where
  "handle_key yaml now k s =
     (if tu_editing s then (s, [])
      else case tu_detail s of
        Some sq \<Rightarrow> key_detail sq k s
      | None \<Rightarrow>
          (case tu_gate s of
             Some i \<Rightarrow> key_gate_detail k s
           | None \<Rightarrow>
               (case tu_field s of
                  Some field \<Rightarrow> (key_filter field k s, [])
                | None \<Rightarrow> (case key_global k s of Some r \<Rightarrow> r | None \<Rightarrow> key_tab yaml now k s))))"

section \<open>Answers\<close>

definition tui_arrow :: string where "tui_arrow = map char_of [0xE2, 0x86, 0x92 :: nat]"

text \<open>What \<open>runEditor\<close> returns: the text, unless the editor failed, changed nothing or left only blanks.\<close>

definition edited_text :: "string + answer \<Rightarrow> string option" where
  "edited_text res =
     (case res of
        Inr (AEdited content unchanged) \<Rightarrow> if \<not> unchanged \<and> trim content \<noteq> [] then Some content else None
      | _ \<Rightarrow> None)"

definition answer_edit :: "edit_flow \<Rightarrow> string + answer \<Rightarrow> tui \<Rightarrow> outcome" where
  "answer_edit flow res s0 =
     (let s = (case res of Inl e \<Rightarrow> flashToast (''editor failed: '' @ e) s0 | Inr a \<Rightarrow> s0)\<lparr>tu_editing := False\<rparr> in
      case (flow, edited_text res) of
        (EditAdd, None) \<Rightarrow> (flashToast ''add cancelled'' s, [])
      | (EditAdd, Some y) \<Rightarrow> (s, [CInstallYAML y False])
      | (EditGate i, None) \<Rightarrow> (flashToast ''edit cancelled'' s, [])
      | (EditGate i, Some y) \<Rightarrow> (s, [CInstallYAML y True])
      | (EditFp sq c, None) \<Rightarrow> (flashToast ''false-positive edit cancelled'' s, [])
      | (EditFp sq c, Some y) \<Rightarrow> (s, [CFpValidate sq c y]))"

definition fp_failed :: "string \<Rightarrow> tui \<Rightarrow> outcome" where
  "fp_failed e s = (flashToast (''false-positive failed: '' @ tui_truncate e 80) s, [])"

text \<open>The same text as the web dashboard's, from a copy of its function.\<close>

definition defaultFalsePositiveReplacementYAML :: "json \<Rightarrow> string option" where
  "defaultFalsePositiveReplacementYAML c = web_replacementYAML c"

text \<open>The reads of the polls and of a refresh: an error leaves the state alone, except for the health.\<close>

definition answer_read :: "tui_call \<Rightarrow> string + answer \<Rightarrow> tui \<Rightarrow> tui" where
  "answer_read c res s =
     (case c of
        CHealth \<Rightarrow> s\<lparr>tu_daemonOk := Some (case res of Inl e \<Rightarrow> False | Inr a \<Rightarrow> True)\<rparr>
      | CGetMode \<Rightarrow> (case res of Inr (AMode m) \<Rightarrow> s\<lparr>tu_mode := Some m\<rparr> | _ \<Rightarrow> s)
      | CListSessions \<Rightarrow> (case res of Inr (ASessions r) \<Rightarrow> s\<lparr>tu_sessions := Some r\<rparr> | _ \<Rightarrow> s)
      | CPolicyView \<Rightarrow> (case res of Inr (APolicy p) \<Rightarrow> s\<lparr>tu_policy := Some p\<rparr> | _ \<Rightarrow> s)
      | CProviders \<Rightarrow> (case res of Inr (AProviders p) \<Rightarrow> s\<lparr>tu_providers := Some p\<rparr> | _ \<Rightarrow> s)
      | CCatalog \<Rightarrow> (case res of Inr (ACatalog x) \<Rightarrow> s\<lparr>tu_catalog := Some x\<rparr> | _ \<Rightarrow> s)
      | CEnabled \<Rightarrow> (case res of Inr (AEnabled l) \<Rightarrow> s\<lparr>tu_enabled := Some l\<rparr> | _ \<Rightarrow> s)
      | CLedgerRoot \<Rightarrow> (case res of Inr (ARoot r) \<Rightarrow> s\<lparr>tu_root := Some r\<rparr> | _ \<Rightarrow> s)
      | CInsights w \<Rightarrow> (case res of Inr (AInsights i) \<Rightarrow> s\<lparr>tu_insights := Some i\<rparr> | _ \<Rightarrow> s)
      | _ \<Rightarrow> s)"

definition answer_mode :: "string + answer \<Rightarrow> tui \<Rightarrow> tui" where
  "answer_mode res s =
     (case res of
        Inl e \<Rightarrow> flashToast (''mode flip failed: '' @ e) s
      | Inr (AMode m) \<Rightarrow> flashToast (''mode '' @ tui_arrow @ '' '' @ mr_mode m) (s\<lparr>tu_mode := Some m\<rparr>)
      | _ \<Rightarrow> s)"

definition answer_save :: "(string \<times> string) list \<Rightarrow> string \<Rightarrow> bool \<Rightarrow> string + answer \<Rightarrow> tui \<Rightarrow> tui" where
  "answer_save current nm on res s =
     (case res of
        Inl e \<Rightarrow> flashToast (''guardrail toggle failed: '' @ tui_truncate e 80) (s\<lparr>tu_enabled := Some current\<rparr>)
      | Inr (AEnabled l) \<Rightarrow> flashToast (nm @ '' '' @ (if on then ''disabled'' else ''enabled'')) (s\<lparr>tu_enabled := Some l\<rparr>)
      | _ \<Rightarrow> s)"

text \<open>The continuations of a change of a gate: a toast and, when it succeeded, a fresh policy.\<close>

definition answer_gate :: "string \<Rightarrow> string \<Rightarrow> string + answer \<Rightarrow> tui \<Rightarrow> outcome" where
  "answer_gate ok_msg failed res s =
     (case res of Inl e \<Rightarrow> (flashToast (failed @ e) s, []) | Inr a \<Rightarrow> (flashToast ok_msg s, [CPolicyView]))"

definition answer_delete :: "string \<Rightarrow> string + answer \<Rightarrow> tui \<Rightarrow> outcome" where
  "answer_delete i res s =
     (case res of
        Inl e \<Rightarrow> (flashToast (''delete failed: '' @ e) s, [])
      | Inr a \<Rightarrow> ((flashToast (''deleted '' @ i) s)\<lparr>tu_pending := None\<rparr>, [CPolicyView]))"

definition answer_install :: "bool \<Rightarrow> string + answer \<Rightarrow> tui \<Rightarrow> outcome" where
  "answer_install replace res s =
     (case res of
        Inl e \<Rightarrow> (flashToast ((if replace then ''edit failed: '' else ''add failed: '') @ tui_truncate e 80) s, [])
      | Inr (AGates n) \<Rightarrow>
          (flashToast ((if replace then ''updated gate; '' else ''added gate; '') @ nat_str n @ '' loaded'') s, [CPolicyView])
      | _ \<Rightarrow> (s, []))"

definition answer_case :: "int \<Rightarrow> string + answer \<Rightarrow> tui \<Rightarrow> outcome" where
  "answer_case sq res s =
     (case res of
        Inl e \<Rightarrow> fp_failed e s
      | Inr (ACase c) \<Rightarrow>
          (case defaultFalsePositiveReplacementYAML c of
             None \<Rightarrow> fp_failed (err_msg (type_error ''c.event'')) s
           | Some y \<Rightarrow>
               (s\<lparr>tu_editing := True\<rparr>, [CEdit (EditFp sq c) y (''agentlock-false-positive-'' @ int_str sq @ ''.yaml'')]))
      | _ \<Rightarrow> (s, []))"

definition answer_validate :: "int \<Rightarrow> json \<Rightarrow> string \<Rightarrow> string + answer \<Rightarrow> tui \<Rightarrow> outcome" where
  "answer_validate sq c y res s =
     (case res of
        Inl e \<Rightarrow> fp_failed e s
      | Inr (AValidation ok errors) \<Rightarrow>
          if \<not> ok then (flashToast (''replacement invalid: '' @ join ''; '' errors) s, []) else (s, [CFpApply sq c y])
      | _ \<Rightarrow> (s, []))"

definition answer_apply :: "string + answer \<Rightarrow> tui \<Rightarrow> outcome" where
  "answer_apply res s =
     (case res of
        Inl e \<Rightarrow> fp_failed e s
      | Inr (AApplied d r) \<Rightarrow> (flashToast (''disabled '' @ d @ ''; added '' @ r) s, [CPolicyView])
      | _ \<Rightarrow> (s, []))"

definition handle_answer :: "tui_call \<Rightarrow> string + answer \<Rightarrow> tui \<Rightarrow> outcome" where
  "handle_answer c res s =
     (case c of
        CPatchMode nxt \<Rightarrow> (answer_mode res s, [])
      | CSaveGuardrails nxt current nm on \<Rightarrow> (answer_save current nm on res s, [])
      | CGateDisabled i nxt \<Rightarrow> answer_gate (i @ '' '' @ (if nxt then ''disabled'' else ''enabled'')) ''toggle failed: '' res s
      | CGateMode i nxt \<Rightarrow> answer_gate (i @ '' mode '' @ tui_arrow @ '' '' @ nxt) ''mode change failed: '' res s
      | CDeleteGate i \<Rightarrow> answer_delete i res s
      | CEdit flow seed hint \<Rightarrow> answer_edit flow res s
      | CInstallYAML y replace \<Rightarrow> answer_install replace res s
      | CFpCase sq \<Rightarrow> answer_case sq res s
      | CFpValidate sq c y \<Rightarrow> answer_validate sq c y res s
      | CFpApply sq c y \<Rightarrow> answer_apply res s
      | _ \<Rightarrow> (answer_read c res s, []))"

section \<open>A session\<close>

datatype tui_event =
    TKey key | TAnswer tui_call "string + answer" | TPoll | TInsightPoll | TEntry ledger_entry | TStatus string | TToastOver

definition poll_calls :: "tui_call list" where
  "poll_calls = [CHealth, CGetMode, CListSessions, CPolicyView, CProviders, CCatalog, CEnabled, CLedgerRoot]"

text \<open>One event at a time; a new window of the statistics also runs the effect that reads the insights.\<close>

definition tui_step :: "(json \<Rightarrow> string) \<Rightarrow> int \<Rightarrow> tui_event \<Rightarrow> tui \<Rightarrow> outcome" where
  "tui_step yaml now e s =
     (if tu_quit s then (s, [])
      else case e of
        TKey k \<Rightarrow>
          (let (s', calls) = handle_key yaml now k s
           in (s', calls @ (if tu_window s' = tu_window s then [] else [CInsights (tu_window s')])))
      | TAnswer c res \<Rightarrow> handle_answer c res s
      | TPoll \<Rightarrow> (s, poll_calls)
      | TInsightPoll \<Rightarrow> (s, [CInsights (tu_window s)])
      | TEntry x \<Rightarrow> (s\<lparr>tu_events := take 500 (x # tu_events s)\<rparr>, [])
      | TStatus st \<Rightarrow> (s\<lparr>tu_sse := st\<rparr>, [])
      | TToastOver \<Rightarrow> (s\<lparr>tu_toast := []\<rparr>, []))"

end
