(* ===== verification/TuiViews.thy ===== *)
theory TuiViews
  imports TuiKeys
begin

text \<open>
  What the terminal dashboard draws (\<open>cli/src/tui/dashboard.tsx\<close>): header, tab bar, the six panes, the two
  dialogs and the footer, as rows of coloured texts. Bold type, borders and margins are not modelled; the
  local clock and calendar are parameters. Percentages and bars are computed in double precision.
\<close>

section \<open>Numbers\<close>

text \<open>A double that is not negative is a fraction; \<open>dbl a b\<close> is \<open>a / b\<close> rounded to 53 bits, half to even.\<close>

type_synonym double = "nat \<times> nat"

fun bit_count :: "nat \<Rightarrow> nat" where
  "bit_count n = (if n = 0 then 0 else Suc (bit_count (n div 2)))"

declare bit_count.simps [simp del]

definition round_even :: "nat \<Rightarrow> nat \<Rightarrow> nat" where
  "round_even a b =
     (let d = a div b; r = a mod b in
      if 2 * r < b then d else if b < 2 * r then Suc d else if even d then d else Suc d)"

text \<open>The quotient scaled by \<open>2 ^ (- e)\<close>.\<close>

definition scaled :: "nat \<Rightarrow> nat \<Rightarrow> int \<Rightarrow> nat \<times> nat" where
  "scaled a b e = (if 0 \<le> e then (a, b * 2 ^ nat e) else (a * 2 ^ nat (- e), b))"

definition dbl :: "nat \<Rightarrow> nat \<Rightarrow> double" where
  "dbl a b =
     (if a = 0 then (0, 1)
      else (let e0 = int (bit_count a) - int (bit_count b) - 53; (x, y) = scaled a b e0;
                e = (if 2 ^ 53 * y \<le> x then e0 + 1 else e0); (p, q) = scaled a b e; m = round_even p q
            in if 0 \<le> e then (m * 2 ^ nat e, 1) else (m, 2 ^ nat (- e))))"

definition mult_dbl :: "double \<Rightarrow> nat \<Rightarrow> double" where
  "mult_dbl x k = dbl (fst x * k) (snd x)"

text \<open>\<open>Math.round\<close> and \<open>toFixed\<close>, which round the exact value of the double, halves up.\<close>

definition js_round :: "double \<Rightarrow> nat" where
  "js_round x = (2 * fst x + snd x) div (2 * snd x)"

definition to_fixed0 :: "double \<Rightarrow> string" where
  "to_fixed0 x = nat_str (js_round x)"

definition to_fixed1 :: "double \<Rightarrow> string" where
  "to_fixed1 x = (let n = js_round (fst x * 10, snd x) in nat_str (n div 10) @ ''.'' @ nat_str (n mod 10))"

definition dbl_gt :: "double \<Rightarrow> nat \<Rightarrow> bool" where
  "dbl_gt x k \<longleftrightarrow> k * snd x < fst x"

section \<open>Texts of fixed width\<close>

type_synonym span = "string \<times> string"

definition row_text :: "span list \<Rightarrow> string" where
  "row_text r = concat (map snd r)"

definition padEnd :: "string \<Rightarrow> nat \<Rightarrow> string" where
  "padEnd s n = s @ replicate (n - u16len s) CHR '' ''"

definition padStart :: "string \<Rightarrow> nat \<Rightarrow> string" where
  "padStart s n = replicate (n - u16len s) CHR '' '' @ s"

definition tui_cell :: "string \<Rightarrow> nat \<Rightarrow> string" where
  "tui_cell s n = padEnd (tui_truncate s n) n @ ''  ''"

definition formatTs :: "(string \<Rightarrow> string) \<Rightarrow> string \<Rightarrow> string" where
  "formatTs clock ts = (if ts = [] then [] else clock ts)"

text \<open>\<open>toUpperCase\<close> on ASCII letters.\<close>

definition uppercase :: "string \<Rightarrow> string" where
  "uppercase s = map (\<lambda>c. if is_lower c then char_of (code_of c - 32) else c) s"

definition bytes3 :: "nat \<Rightarrow> nat \<Rightarrow> string" where
  "bytes3 b c = map char_of [0xE2, b, c :: nat]"

definition em_dash :: string where "em_dash = bytes3 0x80 0x94"
definition cursor_bar :: string where "cursor_bar = bytes3 0x96 0x8C"
definition full_block :: string where "full_block = bytes3 0x96 0x88"
definition mid_dot :: string where "mid_dot = map char_of [0xC2, 0xB7 :: nat]"
definition times_sign :: string where "times_sign = map char_of [0xC3, 0x97 :: nat]"

definition or_dash :: "string \<Rightarrow> string" where
  "or_dash s = (if s = [] then em_dash else s)"

section \<open>Header, tabs and dividers\<close>

definition tui_Header :: "string \<Rightarrow> bool option \<Rightarrow> mode_response option \<Rightarrow> root_response option \<Rightarrow> span list" where
  "tui_Header url ok mode root =
     [(''#888888'', ''local-first hardening for AI coding agents  ''),
      (case ok of None \<Rightarrow> (''#888888'', ''? '') | Some True \<Rightarrow> (''#00FF88'', bytes3 0x97 0x8F @ '' '')
         | Some False \<Rightarrow> (''#FF4455'', bytes3 0x97 0x8B @ '' '')),
      (''#CCCCCC'', url @ ''  ''), (''#555555'', ''|  mode: ''),
      (if map_option mr_mode mode = Some ''monitor'' then ''#F5A623'' else ''#00FF88'',
       case mode of None \<Rightarrow> em_dash | Some m \<Rightarrow> uppercase (mr_mode m))] @
     (case root of None \<Rightarrow> []
      | Some r \<Rightarrow> [(''#555555'', ''  |  seq ''), (''#CCCCCC'', nat_str (lr_seq r)), (''#555555'', ''  count ''),
                  (''#CCCCCC'', nat_str (lr_count r)), (''#555555'', ''  root ''), (''#7FE7DC'', tui_truncate (lr_root r) 14)])"

fun tab_name :: "tab \<Rightarrow> string" where
  "tab_name TStats = ''Stats''"
| "tab_name TEvents = ''Events''"
| "tab_name TGuardrails = ''Guardrails''"
| "tab_name TSessions = ''Sessions''"
| "tab_name TGates = ''Gates''"
| "tab_name TMode = ''Mode''"

definition TabBar :: "tab \<Rightarrow> span list" where
  "TabBar active =
     map (\<lambda>t. (if t = active then ''#7FE7DC'' else ''#888888'',
               ''  '' @ (if t = active then cursor_bar else '' '') @ '' '' @ tab_name t @ ''  '')) TABS"

definition Divider :: "string \<Rightarrow> span list" where
  "Divider title =
     (let line = bytes3 0x94 0x80 in
      [(''#7FE7DC'', line @ line @ '' '' @ title @ '' ''),
       (''#444444'', concat (replicate (max 4 (64 - u16len title)) line))])"

section \<open>The statistics pane\<close>

fun window_text :: "insight_window \<Rightarrow> string" where
  "window_text W1h = ''1h''"
| "window_text W24h = ''24h''"
| "window_text W7d = ''7d''"
| "window_text Wall = ''all''"

definition WindowSelector :: "insight_window \<Rightarrow> span list" where
  "WindowSelector w =
     (''#666666'', ''window:  '') #
     map (\<lambda>(sep, key, it).
            if it = w then (''#7FE7DC'', sep @ ''['' @ key @ ''='' @ window_text it @ '']'')
            else (''#888888'', sep @ '' '' @ key @ ''='' @ window_text it @ '' ''))
       [([], ''1'', W1h), (''   '', ''2'', W24h), (''   '', ''3'', W7d), (''   '', ''0'', Wall)]"

definition count_of :: "string \<Rightarrow> (string \<times> nat) list \<Rightarrow> nat" where
  "count_of k d = (case map_of d k of None \<Rightarrow> 0 | Some n \<Rightarrow> n)"

definition percent :: "nat \<Rightarrow> nat \<Rightarrow> double" where
  "percent a n = (if 0 < n then mult_dbl (dbl a n) 100 else (0, 1))"

definition CounterRow :: "insights_response \<Rightarrow> span list" where
  "CounterRow d =
     (let allow = count_of ''allow'' (in_by_verdict d); deny = count_of ''deny'' (in_by_verdict d); n = allow + deny;
          ap = percent allow n; dp = percent deny n;
          c = (if dbl_gt dp 25 then ''#FF4455'' else if dbl_gt dp 5 then ''#F5A623'' else ''#7FE7DC'')
      in [(''#666666'', ''total ''), (''#CCCCCC'', nat_str (in_total d)), (''#666666'', ''   allow ''), (''#00FF88'', nat_str allow),
          (''#555555'', '' ('' @ to_fixed0 ap @ ''%)''), (''#666666'', ''   deny ''), (''#FF4455'', nat_str deny),
          (''#555555'', '' ('' @ to_fixed1 dp @ ''%)''), (''#666666'', ''   rate ''), (c, to_fixed1 dp @ ''%'')])"

definition SPARK_CHARS :: "string list" where
  "SPARK_CHARS = map (bytes3 0x96) [0x81, 0x82, 0x83, 0x84, 0x85, 0x86, 0x87, 0x88]"

definition bucket_total :: "insight_bucket \<Rightarrow> nat" where
  "bucket_total b = ib_allow b + ib_deny b"

definition busiest :: "insight_bucket list \<Rightarrow> nat" where
  "busiest bs = fold (\<lambda>b m. max m (bucket_total b)) bs 0"

definition spark_index :: "nat \<Rightarrow> nat \<Rightarrow> nat" where
  "spark_index t m = max 2 (min 7 (js_round (mult_dbl (dbl t m) 7)))"

text \<open>\<open>rate < 0.05\<close> compares two doubles, \<open>0.25\<close> is exact.\<close>

definition rate_color :: "nat \<Rightarrow> nat \<Rightarrow> string" where
  "rate_color deny t =
     (let rate = dbl deny t; lim = dbl 5 100 in
      if fst rate = 0 then ''#00FF88''
      else if fst rate * snd lim < fst lim * snd rate then ''#7FE7DC''
      else if fst rate * 4 < snd rate then ''#F5A623''
      else ''#FF4455'')"

definition cell_width :: "insight_window \<Rightarrow> nat" where
  "cell_width w = (if w = W7d then 2 else 1)"

definition spark_cell :: "nat \<Rightarrow> nat \<Rightarrow> insight_bucket \<Rightarrow> span" where
  "spark_cell width m b =
     (let t = bucket_total b in
      if t = 0 \<or> m = 0 then (''#333333'', concat (replicate width mid_dot))
      else (rate_color (ib_deny b) t, concat (replicate width (SPARK_CHARS ! spark_index t m))))"

definition ActivitySparkline :: "insight_bucket list \<Rightarrow> insight_window \<Rightarrow> span list" where
  "ActivitySparkline bs w = map (spark_cell (cell_width w) (busiest bs)) bs"

text \<open>The calendar gives the day of the week of a time, if it can be read, and whether it is today.\<close>

type_synonym calendar = "string \<Rightarrow> nat option \<times> bool"

definition day_letter :: "nat option \<Rightarrow> string" where
  "day_letter d = (case d of None \<Rightarrow> ''?'' | Some i \<Rightarrow> if i < 7 then [''SMTWTFS'' ! i] else ''?'')"

text \<open>Writing a label into the cells from a column on, as far as there are cells.\<close>

fun put_label :: "nat \<Rightarrow> string list \<Rightarrow> string list \<Rightarrow> string list" where
  "put_label col [] cells = cells"
| "put_label col (x # xs) cells = put_label (Suc col) xs (cells[col := x])"

definition axis_label :: "string \<Rightarrow> string list" where
  "axis_label t = bytes3 0x88 0x92 # map (\<lambda>c. [c]) t"

definition axis_cells :: "nat \<Rightarrow> insight_window \<Rightarrow> string list" where
  "axis_cells width w =
     (let a = put_label 0 (axis_label (if w = W24h then ''24h'' else ''60m'')) (replicate width '' '');
          b = (if w = W24h then put_label 12 (axis_label ''12h'') a else a)
      in put_label (width - 3) [''n'', ''o'', ''w''] b)"

definition TimeAxis :: "calendar \<Rightarrow> insight_bucket list \<Rightarrow> insight_window \<Rightarrow> span list" where
  "TimeAxis cal bs w =
     (if bs = [] then []
      else if w = W7d then
        map (\<lambda>b. (if snd (cal (ib_ts b)) then ''#7FE7DC'' else ''#666666'', padEnd (day_letter (fst (cal (ib_ts b)))) 2)) bs
      else [(''#555555'', concat (axis_cells (length bs) w))])"

definition none_row :: "span list" where
  "none_row = [(''#555555'', ''  (none)'')]"

definition bar_length :: "nat \<Rightarrow> nat \<Rightarrow> nat" where
  "bar_length n m = max 1 (js_round (mult_dbl (dbl n m) 12))"

definition TopList :: "string \<Rightarrow> (string \<times> nat) list \<Rightarrow> span list list" where
  "TopList colour items =
     (if items = [] then [none_row]
      else (let m = fold (\<lambda>it m. max m (snd it)) items 1 in
            map (\<lambda>(k, n). [(''#CCCCCC'', ''  '' @ padEnd (tui_truncate k 28) 30), (''#666666'', padStart (nat_str n) 4 @ ''  ''),
                          (colour, concat (replicate (bar_length n m) full_block))]) items))"

definition TopDenyTools :: "insights_response \<Rightarrow> span list list" where
  "TopDenyTools d =
     (if in_top_tools d \<noteq> [] then TopList ''#FF8855'' (in_top_tools d)
      else (let n = sum_list (map snd (in_top_rules d)) in
            if 0 < n then
              [[(''#666666'', ''  no tool field on the '' @ nat_str n @ '' deny entr'' @ (if n = 1 then ''y'' else ''ies'') @ '' in this window.'')],
               [(''#555555'', ''  (these were written before the daemon gained the tool field '' @ em_dash @ '' fire a fresh deny to populate)'')]]
            else [none_row]))"

definition SourceRow :: "(string \<times> nat) list \<Rightarrow> span list" where
  "SourceRow d =
     (let entries = sort_key (\<lambda>e. - int (snd e)) d in
      if entries = [] then none_row else map (\<lambda>(k, v). (''#CCCCCC'', ''  '' @ k @ ''='' @ nat_str v)) entries)"

definition StatsPane :: "calendar \<Rightarrow> insights_response option \<Rightarrow> insight_window \<Rightarrow> span list list" where
  "StatsPane cal data w =
     (case data of
        None \<Rightarrow> [[(''#888888'', ''loading insights...'')]]
      | Some d \<Rightarrow>
          [WindowSelector w, CounterRow d] @
          (if w \<noteq> Wall \<and> 0 < length (in_buckets d) then
             [Divider (''activity over '' @ window_text w @ '' (bar = volume, color = deny rate)''),
              ActivitySparkline (in_buckets d) w, TimeAxis cal (in_buckets d) w]
           else []) @
          [Divider ''top deny rules''] @ TopList ''#FF8855'' (in_top_rules d) @
          [Divider ''top deny tools''] @ TopDenyTools d @
          [Divider ''by source'', SourceRow (in_by_source d)] @
          (if in_total d = 0 then [[(''#666666'', ''no decisions in the last '' @ window_text w @ ''. waiting for activity.'')]] else []))"

end
