(* ===== verification/TuiSafety.thy ===== *)
theory TuiSafety
  imports TuiKeys
begin

text \<open>
  What the terminal dashboard guarantees: every call that changes something at the daemon is the one the
  pressed key stands for, on the row under the cursor; deleting a gate takes two presses on the same gate
  within two seconds; the cursor stays inside the rows on screen and at most one dialog is open.
\<close>

section \<open>Which calls an event may make\<close>

text \<open>No dialog, no filter being edited, no editor.\<close>

definition idle :: "tui \<Rightarrow> bool" where
  "idle s \<longleftrightarrow> \<not> tu_editing s \<and> tu_detail s = None \<and> tu_gate s = None \<and> tu_field s = None"

definition pressed :: "(key \<Rightarrow> bool) \<Rightarrow> tui_event \<Rightarrow> bool" where
  "pressed p e \<longleftrightarrow> (case e of TKey k \<Rightarrow> p k | _ \<Rightarrow> False)"

definition on_gate :: "tui \<Rightarrow> string \<Rightarrow> (gate_view \<Rightarrow> bool) \<Rightarrow> bool" where
  "on_gate s i p \<longleftrightarrow> tu_tab s = TGates \<and> (case selected_gate s of None \<Rightarrow> False | Some g \<Rightarrow> gv_id g = i \<and> p g)"

text \<open>Reading calls and the editor are free; every other call has one cause.\<close>

fun justified :: "int \<Rightarrow> tui_event \<Rightarrow> tui \<Rightarrow> tui_call \<Rightarrow> bool" where
  "justified now e s (CPatchMode m) \<longleftrightarrow>
     pressed (\<lambda>k. k_name k = ''m'') e \<and> idle s \<and> map_option flip_mode (tu_mode s) = Some m"
| "justified now e s (CSaveGuardrails nxt current nm on) \<longleftrightarrow>
     pressed is_spacebar e \<and> idle s \<and> tu_tab s = TGuardrails \<and> current = enabled_list s"
| "justified now e s (CGateDisabled i b) \<longleftrightarrow> pressed is_spacebar e \<and> idle s \<and> on_gate s i (\<lambda>g. b = (\<not> gv_disabled g))"
| "justified now e s (CGateMode i m) \<longleftrightarrow> pressed (\<lambda>k. k_name k = ''M'') e \<and> idle s \<and> on_gate s i (\<lambda>g. m = next_gate_mode g)"
| "justified now e s (CDeleteGate i) \<longleftrightarrow> pressed (\<lambda>k. k_name k = ''x'') e \<and> idle s \<and> on_gate s i (\<lambda>g. True) \<and> armed now i s"
| "justified now e s (CInstallYAML y replace) \<longleftrightarrow>
     (case e of TAnswer (CEdit flow seed hint) (Inr (AEdited y' unchanged)) \<Rightarrow>
        y' = y \<and> \<not> unchanged \<and> trim y \<noteq> [] \<and> (case flow of EditAdd \<Rightarrow> \<not> replace | EditGate i \<Rightarrow> replace | EditFp sq c \<Rightarrow> False)
      | _ \<Rightarrow> False)"
| "justified now e s (CFpValidate sq c y) \<longleftrightarrow>
     (case e of TAnswer (CEdit flow seed hint) (Inr (AEdited y' unchanged)) \<Rightarrow>
        y' = y \<and> \<not> unchanged \<and> trim y \<noteq> [] \<and> flow = EditFp sq c
      | _ \<Rightarrow> False)"
| "justified now e s (CFpApply sq c y) \<longleftrightarrow>
     (case e of TAnswer (CFpValidate sq' c' y') (Inr (AValidation ok errors)) \<Rightarrow> sq' = sq \<and> c' = c \<and> y' = y \<and> ok | _ \<Rightarrow> False)"
| "justified now e s c \<longleftrightarrow> True"

lemma detail_calls: "list_all (justified now e s) (snd (key_detail sq k s))"
  by (auto simp: key_detail_def split: option.split)

lemma gate_detail_calls: "snd (key_gate_detail k s) = []"
  by (simp add: key_gate_detail_def)

lemma global_calls: "idle s \<Longrightarrow> key_global k s = Some r \<Longrightarrow> list_all (justified now (TKey k) s) (snd r)"
  by (auto simp: key_global_def pressed_def refresh_calls_def split: if_splits option.splits)

lemma guardrails_calls: "idle s \<Longrightarrow> tu_tab s = TGuardrails \<Longrightarrow> list_all (justified now (TKey k) s) (snd (key_guardrails k s))"
  by (auto simp: key_guardrails_def toggleGuardrail_def Let_def pressed_def split: option.split)

lemma gates_calls: "idle s \<Longrightarrow> tu_tab s = TGates \<Longrightarrow> list_all (justified now (TKey k) s) (snd (key_gates yaml now k s))"
  by (auto simp: key_gates_def pressed_def on_gate_def split: option.split)

lemma key_calls: "list_all (justified now (TKey k) s) (snd (handle_key yaml now k s))"
proof (cases "idle s")
  case True
  then have h: "handle_key yaml now k s = (case key_global k s of Some r \<Rightarrow> r | None \<Rightarrow> key_tab yaml now k s)"
    by (simp add: handle_key_def idle_def)
  have "list_all (justified now (TKey k) s) (snd (key_tab yaml now k s))"
    using guardrails_calls [OF True] gates_calls [OF True] by (simp add: key_tab_def split: tab.split)
  then show ?thesis using global_calls [OF True] h by (simp split: option.split)
next
  case False
  then show ?thesis
    by (auto simp: handle_key_def idle_def detail_calls gate_detail_calls split: option.split)
qed

lemma answer_calls: "list_all (justified now (TAnswer c res) s) (snd (handle_answer c res s))"
proof (cases c)
  case (CEdit flow seed hint)
  then show ?thesis
    by (cases flow; cases res)
      (auto simp: handle_answer_def answer_edit_def edited_text_def Let_def split: answer.splits option.splits if_splits)
qed (auto simp: handle_answer_def answer_gate_def answer_delete_def answer_install_def answer_case_def answer_validate_def
    answer_apply_def fp_failed_def split: sum.split answer.split option.split)

lemma tui_calls_justified_aux: "list_all (justified now e s) (snd (tui_step yaml now e s))"
proof (cases e)
  case (TKey k)
  then show ?thesis using key_calls [of now k s yaml] by (auto simp: tui_step_def split: prod.split)
next
  case (TAnswer c res)
  then show ?thesis using answer_calls [of now c res s] by (simp add: tui_step_def)
qed (simp_all add: tui_step_def poll_calls_def)


section \<open>Runs\<close>

type_synonym tui_log = "(int \<times> tui \<times> tui_event \<times> tui_call list) list"

text \<open>A run: time does not go back, and an answer answers a call that was made and not yet answered.\<close>

inductive tui_run :: "(json \<Rightarrow> string) \<Rightarrow> tui_log \<Rightarrow> tui_call list \<Rightarrow> int \<Rightarrow> tui \<Rightarrow> bool" for yaml where
  start: "tui_run yaml [] [] t tui_init"
| step: "tui_run yaml log fl t s \<Longrightarrow> t \<le> t' \<Longrightarrow> (case e of TAnswer c res \<Rightarrow> c \<in> set fl | _ \<Rightarrow> True) \<Longrightarrow>
    tui_step yaml t' e s = (s', calls) \<Longrightarrow>
    tui_run yaml (log @ [(t', s, e, calls)]) ((case e of TAnswer c res \<Rightarrow> remove1 c fl | _ \<Rightarrow> fl) @ calls) t' s'"

text \<open>A press of "x" on a gate that did not delete it but armed it.\<close>

definition arming :: "string \<Rightarrow> int \<times> tui \<times> tui_event \<times> tui_call list \<Rightarrow> bool" where
  "arming i = (\<lambda>(t0, u, e, calls). pressed (\<lambda>k. k_name k = ''x'') e \<and> idle u \<and> on_gate u i (\<lambda>g. True) \<and> calls = [])"

definition pending_armed :: "tui_log \<Rightarrow> int \<Rightarrow> tui \<Rightarrow> bool" where
  "pending_armed log now s \<longleftrightarrow>
     (case tu_pending s of None \<Rightarrow> True
      | Some (i, expires) \<Rightarrow> list_ex (\<lambda>x. arming i x \<and> expires = fst x + 2000 \<and> fst x \<le> now) log)"

lemma moveCursor_pending [simp]: "tu_pending (moveCursor d s) = tu_pending s"
  by (simp add: moveCursor_def Let_def)

lemma top_of_pending [simp]: "tu_pending (top_of t s) = tu_pending s"
  and flash_pending [simp]: "tu_pending (flashToast m s) = tu_pending s"
  by (simp_all add: top_of_def flashToast_def)

lemma filter_pending [simp]: "tu_pending (key_filter field k s) = tu_pending s"
  by (simp add: key_filter_def cycleEventFilter_def save_rule_def Let_def)

lemma reply_pending: "tu_pending (fst (handle_answer c res s)) \<in> {None, tu_pending s}"
proof (cases c)
  case (CEdit flow seed hint)
  then show ?thesis
    by (cases flow) (auto simp: handle_answer_def answer_edit_def Let_def flashToast_def split: sum.splits option.splits)
qed (auto simp: handle_answer_def answer_gate_def answer_delete_def answer_install_def answer_case_def answer_validate_def
    answer_apply_def fp_failed_def answer_mode_def answer_save_def answer_read_def split: sum.split answer.split option.split)

lemma key_pending:
  "tu_pending (fst (handle_key yaml now k s)) = tu_pending s \<or>
   (\<exists>i. tu_pending (fst (handle_key yaml now k s)) = Some (i, now + 2000) \<and> k_name k = ''x'' \<and> idle s \<and> on_gate s i (\<lambda>g. True) \<and>
     snd (handle_key yaml now k s) = [] \<and> tu_window (fst (handle_key yaml now k s)) = tu_window s)"
proof (cases "idle s")
  case True
  then have h: "handle_key yaml now k s = (case key_global k s of Some r \<Rightarrow> r | None \<Rightarrow> key_tab yaml now k s)"
    by (simp add: handle_key_def idle_def)
  have "key_global k s = Some r \<Longrightarrow> tu_pending (fst r) = tu_pending s" for r
    by (auto simp: key_global_def split: if_splits option.splits)
  moreover have "tu_tab s \<noteq> TGates \<Longrightarrow> tu_pending (fst (key_tab yaml now k s)) = tu_pending s"
    by (auto simp: key_tab_def key_stats_def key_events_def key_guardrails_def toggleGuardrail_def key_sessions_def Let_def
        split: tab.split option.split)
  moreover have "tu_tab s = TGates \<Longrightarrow> tu_pending (fst (key_gates yaml now k s)) = tu_pending s \<or>
     (\<exists>i. tu_pending (fst (key_gates yaml now k s)) = Some (i, now + 2000) \<and> k_name k = ''x'' \<and> on_gate s i (\<lambda>g. True) \<and>
       snd (key_gates yaml now k s) = [] \<and> tu_window (fst (key_gates yaml now k s)) = tu_window s)"
    by (auto simp: key_gates_def on_gate_def flashToast_def split: option.split)
  ultimately show ?thesis using h True by (cases "tu_tab s = TGates") (auto simp: key_tab_def split: option.split)
next
  case False
  then have "tu_pending (fst (handle_key yaml now k s)) = tu_pending s"
    by (auto simp: handle_key_def idle_def key_detail_def key_gate_detail_def split: option.split)
  then show ?thesis by simp
qed

lemma pending_grow: "pending_armed log now s \<Longrightarrow> now \<le> now' \<Longrightarrow> tu_pending s' \<in> {None, tu_pending s} \<Longrightarrow> pending_armed (log @ l) now' s'"
  by (auto simp: pending_armed_def list_ex_iff split: option.splits intro: order_trans)

lemma step_pending:
  assumes p: "pending_armed log t s" and t: "t \<le> t'" and st: "tui_step yaml t' e s = (s', calls)"
  shows "pending_armed (log @ [(t', s, e, calls)]) t' s'"
proof (cases "tu_quit s")
  case True
  then show ?thesis using pending_grow [OF p t] st by (simp add: tui_step_def)
next
  case False
  show ?thesis
  proof (cases e)
    case (TKey k)
    let ?h = "handle_key yaml t' k s"
    from st TKey False have s': "s' = fst ?h"
        and c: "calls = snd ?h @ (if tu_window (fst ?h) = tu_window s then [] else [CInsights (tu_window (fst ?h))])"
      by (auto simp: tui_step_def split: prod.splits)
    from key_pending [of yaml t' k s] show ?thesis
    proof (elim disjE exE conjE)
      assume "tu_pending (fst ?h) = tu_pending s"
      then show ?thesis using pending_grow [OF p t] s' by simp
    next
      fix i assume "tu_pending (fst ?h) = Some (i, t' + 2000)" "k_name k = ''x''" "idle s" "on_gate s i (\<lambda>g. True)"
        "snd ?h = []" "tu_window (fst ?h) = tu_window s"
      then show ?thesis using TKey by (simp add: pending_armed_def arming_def pressed_def s' c)
    qed
  next
    case (TAnswer c res)
    then show ?thesis
      using pending_grow [OF p t, of s'] reply_pending [of c res s] st False by (simp add: tui_step_def)
  qed (use pending_grow [OF p t, of s'] st False in \<open>auto simp: tui_step_def\<close>)
qed

lemma run_pending: "tui_run yaml log fl t s \<Longrightarrow> pending_armed log t s"
proof (induction rule: tui_run.induct)
  case (start t)
  show ?case by (simp add: pending_armed_def tui_init_def)
next
  case (step log fl t s t' e s' calls)
  then show ?case by (simp add: step_pending)
qed

lemma deleting_step:
  assumes "tui_step yaml t e u = (s', calls)" "CDeleteGate i \<in> set calls"
  shows "justified t e u (CDeleteGate i)"
  using tui_calls_justified_aux [of t e u yaml] assms by (auto simp: list_all_iff)

text \<open>An entry of the log that deletes a gate, and what must come before it.\<close>

definition confirmed :: "string \<Rightarrow> tui_log \<Rightarrow> int \<times> tui \<times> tui_event \<times> tui_call list \<Rightarrow> bool" where
  "confirmed i log = (\<lambda>(t, u, e, calls). pressed (\<lambda>k. k_name k = ''x'') e \<and> idle u \<and> on_gate u i (\<lambda>g. True) \<and>
     list_ex (\<lambda>x. arming i x \<and> fst x \<le> t \<and> t < fst x + 2000) log)"

lemma run_confirmed:
  "tui_run yaml log fl t s \<Longrightarrow> x \<in> set log \<Longrightarrow> CDeleteGate i \<in> set (snd (snd (snd x))) \<Longrightarrow> confirmed i log x"
proof (induction rule: tui_run.induct)
  case (step log fl t s t' e s' calls)
  have mono: "confirmed i log y \<Longrightarrow> confirmed i (log @ l) y" for y l
    by (auto simp: confirmed_def list_ex_iff)
  show ?case
  proof (cases "x \<in> set log")
    case True
    with step show ?thesis by (blast intro: mono)
  next
    case False
    with step.prems have x: "x = (t', s, e, calls)" "CDeleteGate i \<in> set calls" by auto
    from deleting_step [OF step.hyps(4) x(2)] have j: "pressed (\<lambda>k. k_name k = ''x'') e" "idle s" "on_gate s i (\<lambda>g. True)" "armed t' i s"
      by simp_all
    from j(4) obtain expires where pend: "tu_pending s = Some (i, expires)" "t' < expires"
      by (auto simp: armed_def split: option.splits)
    with run_pending [OF step.hyps(1)] obtain y where "y \<in> set log" "arming i y" "expires = fst y + 2000" "fst y \<le> t"
      by (auto simp: pending_armed_def list_ex_iff)
    with pend step.hyps(2) j x(1) show ?thesis by (force simp: confirmed_def list_ex_iff)
  qed
qed simp

text \<open>C27. Deleting a gate takes two presses: in every session, whatever answers, polls and ledger entries come in between and however the
  policy changes meanwhile, a delete request for a gate is sent only by pressing "x" with the cursor on that gate, less than two
  seconds after an earlier "x" on the same gate that sent nothing.\<close>

theorem two_key_delete:
  assumes "tui_run yaml log fl now s" and "(t, u, e, calls) \<in> set log" and "CDeleteGate i \<in> set calls"
  shows "pressed (\<lambda>k. k_name k = ''x'') e \<and> idle u \<and> on_gate u i (\<lambda>g. True) \<and>
    (\<exists>t0 u0 e0. (t0, u0, e0, []) \<in> set log \<and> pressed (\<lambda>k. k_name k = ''x'') e0 \<and> idle u0 \<and> on_gate u0 i (\<lambda>g. True) \<and>
       t0 \<le> t \<and> t < t0 + 2000)"
  using run_confirmed [OF assms(1,2)] assms(3) by (force simp: confirmed_def arming_def list_ex_iff)

lemma run_key:
  assumes "tui_run yaml log fl t s" "t \<le> t'" "tui_step yaml t' (TKey k) s = (s', calls)"
  shows "tui_run yaml (log @ [(t', s, TKey k, calls)]) (fl @ calls) t' s'"
  using tui_run.step [OF assms(1,2) _ assms(3)] by simp

definition plain_key :: "string \<Rightarrow> key" where
  "plain_key n = \<lparr>k_name = n, k_seq = n\<rparr>"

definition one_gate :: gate_view where
  "one_gate = \<lparr>gv_id = ''g'', gv_mode = [], gv_disabled = False, gv_source = [], gv_tool = None, gv_tool_prefix = None,
     gv_command = None, gv_path = None, gv_url = None, gv_match = None, gv_evaluators = None\<rparr>"

definition one_policy :: policy_response where
  "one_policy = \<lparr>pv_hash = [], pv_policy_mode = [], pv_daemon_mode = [], pv_gates = [one_gate]\<rparr>"

definition gates_open :: tui where
  "gates_open = tui_init\<lparr>tu_policy := Some one_policy, tu_tab := TGates\<rparr>"

lemma gates_open_steps:
  "tui_step yaml 0 TPoll tui_init = (tui_init, poll_calls)"
  "tui_step yaml 0 (TAnswer CPolicyView (Inr (APolicy one_policy))) tui_init = (tui_init\<lparr>tu_policy := Some one_policy\<rparr>, [])"
  "tui_step yaml 0 (TKey (plain_key ''left'')) (tui_init\<lparr>tu_policy := Some one_policy\<rparr>) =
     (tui_init\<lparr>tu_policy := Some one_policy, tu_tab := TMode\<rparr>, [])"
  "tui_step yaml 0 (TKey (plain_key ''left'')) (tui_init\<lparr>tu_policy := Some one_policy, tu_tab := TMode\<rparr>) = (gates_open, [])"
  by (simp_all add: tui_step_def tui_init_def handle_answer_def answer_read_def plain_key_def handle_key_def key_global_def
      tab_step_def tab_index_def TABS_def gates_open_def)

lemma gates_open_run: "\<exists>log fl. tui_run yaml log fl 0 gates_open"
proof -
  have r1: "tui_run yaml [(0, tui_init, TPoll, poll_calls)] poll_calls 0 tui_init"
    using tui_run.step [OF tui_run.start order.refl _ gates_open_steps(1), of yaml] by simp
  have c: "case TAnswer CPolicyView (Inr (APolicy one_policy)) of TAnswer c res \<Rightarrow> c \<in> set poll_calls | _ \<Rightarrow> True"
    by (simp add: poll_calls_def)
  note r2 = tui_run.step [OF r1 order.refl c gates_open_steps(2)]
  note r3 = run_key [OF r2 order.refl gates_open_steps(3)]
  from run_key [OF r3 order.refl gates_open_steps(4)] show ?thesis by blast
qed

lemma gates_open_x:
  "tui_step yaml 1000 (TKey (plain_key ''x'')) gates_open =
     (flashToast ''press x again within 2s to delete g'' (gates_open\<lparr>tu_pending := Some (''g'', 3000)\<rparr>), [])"
  "tui_step yaml 2000 (TKey (plain_key ''x'')) (flashToast ''press x again within 2s to delete g'' (gates_open\<lparr>tu_pending := Some (''g'', 3000)\<rparr>)) =
     (flashToast ''press x again within 2s to delete g'' (gates_open\<lparr>tu_pending := Some (''g'', 3000)\<rparr>), [CDeleteGate ''g''])"
  by (simp_all add: tui_step_def plain_key_def gates_open_def tui_init_def handle_key_def key_global_def key_tab_def key_gates_def
      is_enter_def is_spacebar_def selected_gate_def at_index_def loaded_gates_def one_policy_def one_gate_def armed_def flashToast_def)

theorem two_key_delete_witness:
  "\<exists>log fl s u e calls. tui_run json_stringify log fl 2000 s \<and> (2000, u, e, calls) \<in> set log \<and> CDeleteGate ''g'' \<in> set calls \<and>
     pressed (\<lambda>k. k_name k = ''x'') e \<and> on_gate u ''g'' (\<lambda>g. True)"
proof -
  obtain log fl where r: "tui_run json_stringify log fl 0 gates_open" using gates_open_run by blast
  have r1: "tui_run json_stringify (log @ [(1000, gates_open, TKey (plain_key ''x''), [])]) (fl @ []) 1000
      (flashToast ''press x again within 2s to delete g'' (gates_open\<lparr>tu_pending := Some (''g'', 3000)\<rparr>))"
    by (rule run_key [OF r _ gates_open_x(1)]) simp
  have t: "(1000 :: int) \<le> 2000" by simp
  note r2 = run_key [OF r1 t gates_open_x(2)]
  let ?u = "flashToast ''press x again within 2s to delete g'' (gates_open\<lparr>tu_pending := Some (''g'', 3000)\<rparr>)"
  have x: "(2000, ?u, TKey (plain_key ''x''), [CDeleteGate ''g''])
      \<in> set ((log @ [(1000, gates_open, TKey (plain_key ''x''), [])]) @ [(2000, ?u, TKey (plain_key ''x''), [CDeleteGate ''g''])])"
    by simp
  from two_key_delete [OF r2 x, of "''g''"] r2 x show ?thesis by (metis list.set_intros(1))
qed

section \<open>The shape of the state\<close>

definition on_screen :: "tui \<Rightarrow> bool" where
  "on_screen s \<longleftrightarrow> (\<forall>t. tu_scroll s t \<le> tu_cursor s t \<and> tu_cursor s t < tu_scroll s t + VISIBLE_ROWS)"

definition one_dialog :: "tui \<Rightarrow> bool" where
  "one_dialog s \<longleftrightarrow> (tu_detail s = None \<or> tu_gate s = None) \<and> (tu_detail s = None \<or> tu_field s = None) \<and> (tu_gate s = None \<or> tu_field s = None)"

definition tui_ok :: "tui \<Rightarrow> bool" where
  "tui_ok s \<longleftrightarrow> on_screen s \<and> one_dialog s \<and> length (tu_events s) \<le> 500"

lemma on_screen_same: "on_screen s \<Longrightarrow> tu_cursor s' = tu_cursor s \<Longrightarrow> tu_scroll s' = tu_scroll s \<Longrightarrow> on_screen s'"
  by (simp add: on_screen_def)

lemma on_screen_top: "on_screen s \<Longrightarrow> on_screen (top_of t s)"
  by (simp add: on_screen_def top_of_def VISIBLE_ROWS_def)

lemma on_screen_move: "on_screen s \<Longrightarrow> on_screen (moveCursor d s)"
  unfolding on_screen_def moveCursor_def Let_def VISIBLE_ROWS_def by auto

definition shape :: "tui \<Rightarrow> (tab \<Rightarrow> nat) \<times> (tab \<Rightarrow> nat) \<times> int option \<times> string option \<times> filter_field option \<times> ledger_entry list" where
  "shape s = (tu_cursor s, tu_scroll s, tu_detail s, tu_gate s, tu_field s, tu_events s)"

lemma tui_ok_shape: "tui_ok s \<Longrightarrow> shape s' = shape s \<Longrightarrow> tui_ok s'"
  by (simp add: tui_ok_def on_screen_def one_dialog_def shape_def)

lemma answer_shape: "shape (fst (handle_answer c res s)) = shape s"
proof (cases c)
  case (CEdit flow seed hint)
  then show ?thesis
    by (cases flow) (auto simp: shape_def handle_answer_def answer_edit_def Let_def flashToast_def split: sum.splits option.splits)
qed (auto simp: shape_def handle_answer_def answer_gate_def answer_delete_def answer_install_def answer_case_def answer_validate_def
    answer_apply_def fp_failed_def answer_mode_def answer_save_def answer_read_def flashToast_def
    split: sum.split answer.split option.split)

lemma flash_shape [simp]: "shape (flashToast m s) = shape s"
  by (simp add: shape_def flashToast_def)

lemma stats_shape: "shape (key_stats k s) = shape s"
  by (simp add: key_stats_def shape_def)

lemma guardrails_shape: "shape (fst (key_guardrails k s)) = shape s"
proof -
  have "shape (fst (toggleGuardrail e s)) = shape s" for e
    by (simp add: toggleGuardrail_def Let_def) (simp add: shape_def)
  then show ?thesis by (simp add: key_guardrails_def split: option.split)
qed

lemma top_of_ok: "tui_ok s \<Longrightarrow> tui_ok (top_of t s)"
  using on_screen_top [of s t] by (simp add: tui_ok_def one_dialog_def top_of_def)

lemma move_ok: "tui_ok s \<Longrightarrow> tui_ok (moveCursor d s)"
  using on_screen_move [of s d] by (auto simp: tui_ok_def one_dialog_def moveCursor_def Let_def)

lemma filter_ok: "tui_ok s \<Longrightarrow> tu_field s = Some f \<Longrightarrow> tui_ok (key_filter f k s)"
proof -
  assume ok: "tui_ok s" and f: "tu_field s = Some f"
  have a: "tui_ok (s\<lparr>tu_field := None, tu_buffer := []\<rparr>)" "tui_ok (s\<lparr>tu_buffer := b\<rparr>)" for b
    using ok by (simp_all add: tui_ok_def one_dialog_def on_screen_def)
  have b: "tui_ok (s\<lparr>tu_filters := x\<rparr>)" for x
    using ok by (rule tui_ok_shape) (simp add: shape_def)
  have c: "tui_ok ((save_rule f s)\<lparr>tu_field := g, tu_buffer := b\<rparr>)" for g b
    using ok f by (simp add: save_rule_def tui_ok_def one_dialog_def on_screen_def)
  have d: "tui_ok (cycleEventFilter f x s)" for x
    unfolding cycleEventFilter_def Let_def by (rule top_of_ok) (rule b)
  show ?thesis
    using ok a d top_of_ok [OF b] top_of_ok [OF c] unfolding key_filter_def Let_def by (auto split: if_split)
qed

lemma global_ok: "tui_ok s \<Longrightarrow> key_global k s = Some r \<Longrightarrow> tui_ok (fst r)"
proof -
  assume ok: "tui_ok s" and r: "key_global k s = Some r"
  have "tui_ok (s\<lparr>tu_quit := q\<rparr>)" "tui_ok (s\<lparr>tu_tab := t\<rparr>)" "tui_ok (flashToast m s)" for q t m
    using ok by (auto intro!: tui_ok_shape [OF ok] simp: shape_def flashToast_def)
  then show ?thesis
    using r ok move_ok [OF ok] by (auto simp: key_global_def split: if_splits option.splits)
qed

lemma sessions_ok: "tui_ok s \<Longrightarrow> tui_ok (key_sessions k s)"
  unfolding key_sessions_def using tui_ok_shape [of s "s\<lparr>tu_internal := \<not> tu_internal s\<rparr>"]
  by (simp add: top_of_ok shape_def)

text \<open>Opening a dialog where none is open.\<close>

lemma open_ok:
  assumes "tui_ok s" "idle s"
  shows "tui_ok (s\<lparr>tu_detail := d\<rparr>)" "tui_ok (s\<lparr>tu_gate := g, tu_gateScroll := n\<rparr>)" "tui_ok (s\<lparr>tu_field := f, tu_buffer := b\<rparr>)"
  using assms by (simp_all add: tui_ok_def one_dialog_def idle_def on_screen_def)

lemma events_ok: "tui_ok s \<Longrightarrow> idle s \<Longrightarrow> tui_ok (key_events k s)"
proof -
  assume ok: "tui_ok s" "idle s"
  have f: "tui_ok (s\<lparr>tu_filters := x\<rparr>)" for x using ok(1) by (rule tui_ok_shape) (simp add: shape_def)
  then show ?thesis
    using ok open_ok [OF ok] tui_ok_shape [OF top_of_ok [OF f] flash_shape] by (simp add: key_events_def split: option.split)
qed

lemma gates_ok: "tui_ok s \<Longrightarrow> idle s \<Longrightarrow> tui_ok (fst (key_gates yaml now k s))"
proof -
  assume ok: "tui_ok s" "idle s"
  have "tui_ok (s\<lparr>tu_editing := True\<rparr>)" "tui_ok (flashToast m (s\<lparr>tu_pending := x\<rparr>))" for m x
    using ok(1) by (auto intro!: tui_ok_shape [OF ok(1)] simp: shape_def flashToast_def)
  then show ?thesis using ok(1) open_ok [OF ok] by (simp add: key_gates_def split: option.split)
qed

lemma tab_ok: "tui_ok s \<Longrightarrow> idle s \<Longrightarrow> tui_ok (fst (key_tab yaml now k s))"
  using tui_ok_shape [OF _ stats_shape] tui_ok_shape [OF _ guardrails_shape]
  by (simp add: key_tab_def events_ok sessions_ok gates_ok split: tab.split)

lemma key_ok: "tui_ok s \<Longrightarrow> tui_ok (fst (handle_key yaml now k s))"
proof -
  assume ok: "tui_ok s"
  have "tui_ok (fst (key_detail sq k s))" "tui_ok (fst (key_gate_detail k s))" for sq
    using ok by (auto simp: tui_ok_def one_dialog_def on_screen_def key_detail_def key_gate_detail_def flashToast_def split: option.split)
  moreover have "tui_ok (fst (case key_global k s of Some r \<Rightarrow> r | None \<Rightarrow> key_tab yaml now k s))" if "idle s"
    using global_ok [OF ok] tab_ok [OF ok that] by (simp split: option.split)
  ultimately show ?thesis
    using ok filter_ok [OF ok] by (auto simp: handle_key_def idle_def split: option.split)
qed

lemma step_ok: "tui_ok s \<Longrightarrow> tui_ok (fst (tui_step yaml now e s))"
proof (cases e)
  case (TKey k)
  assume "tui_ok s"
  then show ?thesis using key_ok [of s yaml now k] TKey by (auto simp: tui_step_def split: prod.split)
next
  case (TAnswer c res)
  assume "tui_ok s"
  then show ?thesis using tui_ok_shape [OF _ answer_shape] TAnswer by (simp add: tui_step_def)
qed (auto simp: tui_step_def tui_ok_def one_dialog_def on_screen_def)

lemma run_ok: "tui_run yaml log fl now s \<Longrightarrow> tui_ok s"
proof (induction rule: tui_run.induct)
  case (start t)
  show ?case by (simp add: tui_ok_def on_screen_def one_dialog_def tui_init_def VISIBLE_ROWS_def)
next
  case (step log fl t s t' e s' calls)
  then show ?case using step_ok [of s yaml t' e] by simp
qed

text \<open>C29. In every state of a session the row under the cursor lies within the sixteen rows on screen, on every tab, at most one of the
  event dialog, the gate dialog and the filter line is open, and no more than 500 events are kept, whatever the order of keys, answers
  and ledger entries.\<close>

theorem tui_shape:
  assumes "tui_run yaml log fl now s"
  shows "(\<forall>t. tu_scroll s t \<le> tu_cursor s t \<and> tu_cursor s t < tu_scroll s t + 16) \<and>
    length (filter (\<lambda>b. b) [tu_detail s \<noteq> None, tu_gate s \<noteq> None, tu_field s \<noteq> None]) \<le> 1 \<and> length (tu_events s) \<le> 500"
  using run_ok [OF assms] by (auto simp: tui_ok_def on_screen_def one_dialog_def VISIBLE_ROWS_def)

theorem tui_shape_witness:
  "tu_cursor gates_open TGates < tu_scroll gates_open TGates + 16"
proof -
  obtain log fl where "tui_run json_stringify log fl 0 gates_open" using gates_open_run by blast
  from tui_shape [OF this] show ?thesis by blast
qed

section \<open>What the dashboard gets wrong\<close>

text \<open>
  Editing a gate as text drops everything the view has only under \<open>match\<close>, and the path and URL patterns:
  gates that differ in these alone are given to the editor as the same text.
\<close>

lemma edit_loses_matchers:
  "serializeGateForEdit yaml (g\<lparr>gv_path := p, gv_url := u, gv_match := m\<rparr>) = serializeGateForEdit yaml g"
  by (simp add: serializeGateForEdit_def gate_edit_object_def)

text \<open>An entry whose detail is open can drop out of the 500 kept: the list is shown again, and the keys still go to the dialog.\<close>

lemma lost_detail_takes_keys:
  assumes "tu_detail s = Some sq" "find (\<lambda>e. le_seq e = sq) (tu_events s) = None" "k_name k \<notin> {''f'', ''escape'', ''q'', ''return'', ''enter'', ''H''}"
  shows "handle_key yaml now k s = (s, [])"
  using assms by (simp add: handle_key_def key_detail_def closes_def is_enter_def)

text \<open>The cursor of the sessions tab never moves: the handler counts the rows of a list that is never loaded.\<close>

lemma sessions_cursor_stuck: "tu_tab s = TSessions \<Longrightarrow> moveCursor d s = s"
  by (simp add: moveCursor_def handler_sessions_def visibleSessions_def tui_init_def)

text \<open>Toggling a guardrail before the enabled list has been read saves a list with that one entry.\<close>

lemma toggle_before_load:
  "tu_enabled s = None \<Longrightarrow> ce_runtime e \<Longrightarrow> snd (toggleGuardrail e s) = [CSaveGuardrails [(ce_provider e, ce_entry e)] [] (ce_name e) False]"
  by (simp add: toggleGuardrail_def isGuardrailEnabled_def enabled_list_def Let_def)

text \<open>The message that the editor failed is replaced at once.\<close>

lemma editor_failure_hidden: "tu_toast (fst (answer_edit EditAdd (Inl e) s)) = ''add cancelled''"
  by (simp add: answer_edit_def edited_text_def flashToast_def Let_def)

end
