(* ===== verification/TuiPanes.thy ===== *)
theory TuiPanes
  imports TuiViews TuiSafety
begin

text \<open>
  The lists, dialogs and footer of the terminal dashboard, and the whole screen as a function of its state;
  the rows have fixed columns, and the marked row is the one the keys act on.
\<close>

section \<open>Events\<close>

definition verdictColor :: "string option \<Rightarrow> bool \<Rightarrow> string" where
  "verdictColor v monitor =
     (if monitor then ''#F5A623'' else if v = Some ''allow'' then ''#00FF88'' else if v = Some ''deny'' then ''#FF4455'' else ''#888888'')"

definition filter_name :: "filter_field \<Rightarrow> string" where
  "filter_name f = (case f of FSource \<Rightarrow> ''source'' | FVerdict \<Rightarrow> ''verdict'' | FRule \<Rightarrow> ''rule'')"

definition filter_cell :: "filters \<Rightarrow> filter_field option \<Rightarrow> string \<Rightarrow> filter_field \<Rightarrow> span" where
  "filter_cell f field buffer label =
     (let editing = (field = Some label); v = filter_value label f; current = (if v = [] then ''all'' else v);
          shown = (if editing then (if label = FRule then buffer @ ''_'' else bytes3 0x80 0xB9 @ current @ bytes3 0x80 0xBA) else current)
      in (if editing then ''#7FE7DC'' else if v \<noteq> [] then ''#CCCCCC'' else ''#555555'',
          ''  '' @ filter_name label @ '':['' @ shown @ '']  ''))"

definition FilterBar :: "filters \<Rightarrow> filter_field option \<Rightarrow> string \<Rightarrow> span list" where
  "FilterBar f field buffer =
     map (filter_cell f field buffer) [FSource, FVerdict, FRule] @
     [(if fi_internal f then ''#7FE7DC'' else ''#555555'', ''  internal:['' @ (if fi_internal f then ''on'' else ''off'') @ '']''),
      (if fi_outcomes f then ''#7FE7DC'' else ''#555555'', ''  outcomes:['' @ (if fi_outcomes f then ''on'' else ''off'') @ '']'')] @
     (case field of
        None \<Rightarrow> []
      | Some FRule \<Rightarrow> [(''#555555'', ''  type rule text  tab next  enter done'')]
      | Some _ \<Rightarrow> [(''#555555'', ''  h/l select  tab next  enter done'')])"

definition tui_outcomes :: "ledger_entry list \<Rightarrow> (string \<rightharpoonup> ledger_entry)" where
  "tui_outcomes es =
     fold (\<lambda>e out. if \<not> tui_isOutcome e \<or> le_tool_use_id e = [] then out
                   else (case out (le_tool_use_id e) of
                           None \<Rightarrow> out(le_tool_use_id e \<mapsto> e)
                         | Some current \<Rightarrow> if le_seq e > le_seq current then out(le_tool_use_id e \<mapsto> e) else out)) es Map.empty"

definition id_short :: "string \<Rightarrow> string" where
  "id_short i = (if starts_with ''toolu_'' i then drop 6 i else i)"

definition event_row :: "(string \<Rightarrow> string) \<Rightarrow> bool \<Rightarrow> ledger_entry \<Rightarrow> span list" where
  "event_row clock isCursor e =
     [(if isCursor then ''#7FE7DC'' else ''#555555'',
       (if isCursor then cursor_bar else '' '') @ '' '' @ padStart (int_str (le_seq e)) 5 @ ''  ''),
      (''#888888'', tui_cell (formatTs clock (le_ts e)) 8),
      (verdictColor (le_verdict e) (le_monitor_match e),
       tui_cell (uppercase (if le_monitor_match e then ''alert'' else case le_verdict e of None \<Rightarrow> em_dash | Some v \<Rightarrow> v)) 7),
      (''#888888'', tui_cell (le_source e) 12),
      (if isCursor then ''#FFFFFF'' else ''#CCCCCC'', tui_cell (or_dash (or_empty (le_rule_id e))) 22),
      (''#666666'', tui_cell (id_short (le_tool_use_id e)) 18)]"

definition outcome_row :: "(string \<Rightarrow> string) \<Rightarrow> ledger_entry \<Rightarrow> ledger_entry \<Rightarrow> span list" where
  "outcome_row clock e out =
     [(''#555555'', ''  '' @ bytes3 0x86 0xB3 @ '' '' @ padStart (int_str (le_seq out)) 5 @ ''  ''),
      (''#666666'', tui_cell (formatTs clock (le_ts out)) 8),
      (verdictColor (le_verdict out) (le_monitor_match out), tui_cell (if le_verdict out = Some ''complete'' then ''RAN'' else ''ERRORED'') 7),
      (''#666666'', tui_cell (le_source out) 12), (''#666666'', tui_cell ''tool outcome'' 22),
      (''#555555'', tui_cell (id_short (le_tool_use_id e)) 18)]"

text \<open>The rows on screen with their positions in the list.\<close>

definition on_page :: "nat \<Rightarrow> 'a list \<Rightarrow> (nat \<times> 'a) list" where
  "on_page scroll xs = enumerate scroll (take VISIBLE_ROWS (drop scroll xs))"

definition EventsPane :: "(string \<Rightarrow> string) \<Rightarrow> tui \<Rightarrow> span list list" where
  "EventsPane clock s =
     (let entries = filteredEvents s; f = tu_filters s;
          outcomes = (if fi_outcomes f then tui_outcomes (tu_events s) else Map.empty)
      in [(if tu_sse s = ''open'' then ''#00FF88'' else if tu_sse s = ''closed'' then ''#FF4455'' else ''#F5A623'', bytes3 0x97 0x8F @ '' SSE: '' @ tu_sse s),
          (''#555555'', ''    '' @ nat_str (length entries) @ '' shown (seq DESC)'')] #
         FilterBar f (tu_field s) (tu_buffer s) #
         (if entries = [] then [[(''#666666'', ''no events match. press c to clear filters or wait for activity.'')]]
          else concat (map (\<lambda>(i, e). event_row clock (i = tu_cursor s TEvents) e #
                 (case outcomes (le_tool_use_id e) of None \<Rightarrow> [] | Some out \<Rightarrow> [outcome_row clock e out]))
               (on_page (tu_scroll s TEvents) entries))))"

section \<open>Sessions and guardrails\<close>

definition signerColor :: "string \<Rightarrow> string" where
  "signerColor s =
     (if s = ''yubikey_piv'' \<or> s = ''yubikey_fido2'' then ''#00FF88''
      else if s = ''os_keychain'' then ''#7FE7DC''
      else if s = ''totp_backed_software'' then ''#F5A623''
      else if s = ''none'' \<or> s = ''software'' then ''#FF8888''
      else ''#AAAAAA'')"

definition session_row :: "bool \<Rightarrow> session_summary \<Rightarrow> span list" where
  "session_row isCursor x =
     [(if isCursor then ''#7FE7DC'' else ''#CCCCCC'', (if isCursor then cursor_bar else '' '') @ '' '' @ padEnd (tui_truncate (se_id x) 22) 22),
      (''#AAAAAA'', padEnd (se_harness x) 14), (signerColor (se_signer x), padEnd (se_signer x) 16),
      (if se_active x then ''#00FF88'' else ''#888888'', padEnd (if se_active x then ''yes'' else ''ended'') 8),
      (if se_needs_reload x then ''#F5A623'' else ''#666666'', if se_needs_reload x then ''yes'' else ''no'')]"

definition SessionsPane :: "tui \<Rightarrow> span list list" where
  "SessionsPane s =
     (case tu_sessions s of
        None \<Rightarrow> [[(''#888888'', ''loading sessions...'')]]
      | Some d \<Rightarrow>
          if visibleSessions s = [] then
            [[(''#888888'', ''no sessions'' @ (if tu_internal s then [] else '' (i to show internal)'') @ ''.'')]]
          else
            [(''#888888'', ''live policy hash: ''), (''#CCCCCC'', sr_live d), (''#555555'', ''    internal: ''),
             (if tu_internal s then ''#7FE7DC'' else ''#555555'', if tu_internal s then ''shown'' else ''hidden'')] #
            [(''#555555'', padEnd ''   ID'' 24 @ padEnd ''HARNESS'' 14 @ padEnd ''SIGNER'' 16 @ padEnd ''ACTIVE'' 8 @ ''NEEDS_RELOAD'')] #
            map (\<lambda>(i, x). session_row (i = tu_cursor s TSessions) x) (on_page (tu_scroll s TSessions) (visibleSessions s)))"

definition provider_rows :: "provider_view \<Rightarrow> span list list" where
  "provider_rows p =
     [[(if gp_configured p then ''#7FE7DC'' else ''#888888'', padEnd (gp_name p) 14),
       (if gp_configured p then ''#00FF88'' else ''#F5A623'', padEnd (if gp_configured p then ''configured'' else ''not configured'') 16),
       (''#666666'', join '' / '' (gp_capabilities p))],
      [(''#666666'', if gp_id p = ''nvidia'' then ''runtime classifier after local allow''
                    else if gp_id p = ''openrouter'' then ''catalog only in this slice; no runtime classifier yet''
                    else ''provider behavior depends on runtime support'')]]"

definition catalog_row :: "bool \<Rightarrow> bool \<Rightarrow> catalog_entry \<Rightarrow> span list" where
  "catalog_row selected active e =
     [(if selected then ''#7FE7DC'' else ''#555555'', padEnd ((if selected then cursor_bar else '' '') @ (if active then ''[x]'' else ''[ ]'')) 4),
      (if selected then ''#CCCCCC'' else ''#AAAAAA'', padEnd (ce_provider e) 14),
      (if ce_kind e = ''classifier_model'' then ''#7FE7DC'' else ''#F5A623'', padEnd (if ce_kind e = ''classifier_model'' then ''classifier'' else ''policy'') 18),
      (if ce_runtime e then ''#00FF88'' else ''#888888'', padEnd (if ce_runtime e then ''yes'' else ''no'') 10),
      (if selected then ''#FFFFFF'' else ''#CCCCCC'', tui_truncate (if ce_name e = [] then ce_entry e else ce_name e) 56)]"

definition rows_note :: "nat \<Rightarrow> nat \<Rightarrow> string" where
  "rows_note scroll n = ''rows '' @ nat_str (scroll + 1) @ ''-'' @ nat_str (min n (scroll + VISIBLE_ROWS)) @ '' of '' @ nat_str n"

definition GuardrailsPane :: "tui \<Rightarrow> span list list" where
  "GuardrailsPane s =
     (case tu_providers s of
        None \<Rightarrow> [[(''#888888'', ''loading guardrails...'')]]
      | Some ps \<Rightarrow>
          (let entries = visibleGuardrails s; scroll = tu_scroll s TGuardrails; n = length (enabled_list s);
               errors = (case tu_catalog s of None \<Rightarrow> [] | Some c \<Rightarrow> ca_errors c)
           in [Divider ''providers''] @
              (if ps = [] then [[(''#888888'', ''no providers registered'')]] else concat (map provider_rows ps)) @
              (if errors = [] then []
               else Divider ''provider errors'' # map (\<lambda>(p, d). [(''#F5A623'', padEnd p 14), (''#FF8888'', tui_truncate d 96)]) errors) @
              [Divider ''catalog'', [(''#666666'', nat_str n @ '' runtime guardrail'' @ (if n = 1 then [] else ''s'') @ '' enabled'')]] @
              (if entries = [] then [[(''#888888'', ''no catalog entries'')]]
               else [[(''#555555'', padEnd ''ON'' 4 @ padEnd ''PROVIDER'' 14 @ padEnd ''KIND'' 18 @ padEnd ''RUNTIME'' 10 @ ''ENTRY'')]] @
                    map (\<lambda>(i, e). catalog_row (i = tu_cursor s TGuardrails) (isGuardrailEnabled e s) e) (on_page scroll entries) @
                    (if VISIBLE_ROWS < length entries then [[(''#666666'', rows_note scroll (length entries))]] else []))))"

section \<open>Gates and mode\<close>

definition commandRegexesFromMatch :: "match_view option \<Rightarrow> string list" where
  "commandRegexesFromMatch m = (case m of None \<Rightarrow> [] | Some x \<Rightarrow> commandRegexes x)"

definition own_tool :: "gate_view \<Rightarrow> string" where
  "own_tool g =
     (let m = gv_match g; mt = Option.bind m mv_tool; mp = Option.bind m mv_tool_prefix in
      case or_else mt (or_else mp (or_else (gv_tool g) (gv_tool_prefix g))) of None \<Rightarrow> ''*'' | Some t \<Rightarrow> t)"

definition gateToolSummary :: "gate_view \<Rightarrow> string" where
  "gateToolSummary g =
     (case Option.bind (gv_match g) mv_any_of of
        Some (b # bs) \<Rightarrow>
          (let tools = filter (\<lambda>t. t \<noteq> []) (map (\<lambda>m. or_empty (or_else (mv_tool m) (mv_tool_prefix m))) (b # bs))
           in if tools = [] then ''any_of'' else join ''|'' tools)
      | _ \<Rightarrow> own_tool g)"

definition gateMatchSummary :: "gate_view \<Rightarrow> string" where
  "gateMatchSummary g =
     (let own = commandRegexesFromMatch (gv_match g); regexes = (if own = [] then or_nil (gv_command g) else own)
      in if regexes \<noteq> [] then ''regex'' @ times_sign @ nat_str (length regexes) else join '','' (or_nil (gv_evaluators g)))"

definition gate_row :: "int \<Rightarrow> (string \<times> int) option \<Rightarrow> bool \<Rightarrow> gate_view \<Rightarrow> span list" where
  "gate_row now pending isCursor g =
     [(if isCursor then ''#7FE7DC'' else if gv_disabled g then ''#555555'' else ''#CCCCCC'',
       ''  '' @ (if isCursor then cursor_bar else if gv_disabled g then ''-'' else bytes3 0x80 0xA2) @ '' ''),
      (if isCursor then ''#FFFFFF'' else if gv_disabled g then ''#555555'' else ''#CCCCCC'', padEnd (gv_id g) 36),
      (''#888888'', padEnd (or_dash (gv_mode g)) 10),
      (''#888888'', padEnd (tui_truncate (gateToolSummary g) 18) 20),
      (''#555555'', gateMatchSummary g)] @
     (case pending of None \<Rightarrow> []
      | Some (i, expires) \<Rightarrow> if i = gv_id g \<and> now < expires then [(''#FF4455'', ''  '' @ bytes3 0x86 0x90 @ '' x to confirm'')] else [])"

definition GatesPane :: "int \<Rightarrow> tui \<Rightarrow> span list list" where
  "GatesPane now s =
     (case tu_policy s of
        None \<Rightarrow> [[(''#888888'', ''loading policy...'')]]
      | Some d \<Rightarrow>
          [(''#888888'', ''hash: ''), (''#CCCCCC'', tui_truncate (pv_hash d) 40), (''#555555'', ''    policy_mode: ''),
           (''#CCCCCC'', pv_policy_mode d), (''#555555'', ''    gates: ''), (''#CCCCCC'', nat_str (length (pv_gates d)))] #
          map (\<lambda>(i, g). gate_row now (tu_pending s) (i = tu_cursor s TGates) g) (on_page (tu_scroll s TGates) (pv_gates d)))"

definition ModePane :: "mode_response option \<Rightarrow> span list list" where
  "ModePane data =
     (case data of
        None \<Rightarrow> [[(''#888888'', ''loading mode...'')]]
      | Some d \<Rightarrow>
          [[(''#888888'', ''Daemon-wide enforcement posture. Press '')], [(''#7FE7DC'', ''m'')], [(''#888888'', '' to flip the runtime override.'')],
           [(''#888888'', ''effective:  ''), (if mr_mode d = ''monitor'' then ''#F5A623'' else ''#00FF88'', uppercase (mr_mode d))],
           [(''#888888'', ''env       : ''),
            (if mr_env d \<noteq> [] then ''#CCCCCC'' else ''#555555'', if mr_env d \<noteq> [] then mr_env d else ''(unset)'')],
           [(''#888888'', ''override  : ''),
            (if mr_override d \<noteq> [] then ''#7FE7DC'' else ''#555555'', if mr_override d \<noteq> [] then mr_override d else ''(none)'')],
           [(''#555555'', ''monitor = log-only; firewall = enforce deny. Precedence: runtime override > env > default (firewall).'')]])"

section \<open>Dialogs\<close>

definition GATE_DETAIL_VISIBLE_ROWS :: nat where "GATE_DETAIL_VISIBLE_ROWS = 14"
definition GATE_DETAIL_LINE_WIDTH :: nat where "GATE_DETAIL_LINE_WIDTH = 112"

definition regex_rows :: "string \<Rightarrow> string list option \<Rightarrow> span list" where
  "regex_rows label values =
     (case values of
        None \<Rightarrow> []
      | Some vs \<Rightarrow> if vs = [] then [] else (''#888888'', ''  '' @ label @ '':'') # map (\<lambda>v. (''#CCCCCC'', ''    - '' @ v)) vs)"

definition text_row :: "string \<Rightarrow> string option \<Rightarrow> span list" where
  "text_row label v = (if or_empty v = [] then [] else [(''#CCCCCC'', ''  '' @ label @ '': '' @ or_empty v)])"

definition match_rows :: "match_view \<Rightarrow> span list" where
  "match_rows m =
     (let rows = text_row ''tool'' (mv_tool m) @ text_row ''tool_prefix'' (mv_tool_prefix m) @
                 text_row ''path_glob_regex'' (mv_path_glob_regex m) @ regex_rows ''any_command_regex'' (mv_command m) @
                 regex_rows ''any_path_regex'' (mv_path m) @ regex_rows ''any_url_regex'' (mv_url m)
      in if rows = [] then [(''#555555'', ''  '' @ em_dash)] else rows)"

definition matchBranches :: "match_view option \<Rightarrow> (string \<times> match_view) list" where
  "matchBranches mo =
     (case mo of
        None \<Rightarrow> []
      | Some m \<Rightarrow>
          (case mv_any_of m of
             Some (b # bs) \<Rightarrow> map (\<lambda>(i, x). (''any_of['' @ nat_str i @ '']'', x)) (enumerate 0 (b # bs))
           | _ \<Rightarrow> [(''match'', m)]))"

definition gateSchemaRows :: "match_view option \<Rightarrow> span list" where
  "gateSchemaRows m = concat (map (\<lambda>(label, b). (''#7FE7DC'', label) # match_rows b) (matchBranches m))"

definition safe_scroll :: "nat \<Rightarrow> nat \<Rightarrow> nat" where
  "safe_scroll scroll n = min scroll (n - GATE_DETAIL_VISIBLE_ROWS)"

definition GateDetailModal :: "gate_view \<Rightarrow> nat \<Rightarrow> span list list" where
  "GateDetailModal g scroll =
     (let rows = gateSchemaRows (gv_match g); n = length rows; safe = safe_scroll scroll n;
          shown = take GATE_DETAIL_VISIBLE_ROWS (drop safe rows); more = (GATE_DETAIL_VISIBLE_ROWS < n);
          evs = join '', '' (or_nil (gv_evaluators g))
      in [[(''#7FE7DC'', ''gate detail '' @ em_dash @ '' '' @ gv_id g)],
          [(''#888888'', ''mode: ''), (''#CCCCCC'', if gv_mode g = [] then ''inherit'' else gv_mode g), (''#555555'', ''   source: ''),
           (''#CCCCCC'', if gv_source g = [] then ''daemon'' else gv_source g), (''#555555'', ''   enabled: ''),
           (if gv_disabled g then ''#FF8888'' else ''#00FF88'', if gv_disabled g then ''no'' else ''yes'')],
          [(''#888888'', ''tool: ''), (''#CCCCCC'', gateToolSummary g), (''#555555'', ''   tool_prefix: ''),
           (''#CCCCCC'', case or_else (Option.bind (gv_match g) mv_tool_prefix) (gv_tool_prefix g) of None \<Rightarrow> em_dash | Some t \<Rightarrow> t)],
          [(''#888888'', ''evaluators: ''), (''#CCCCCC'', or_dash evs)],
          [(''#888888'', ''match schema''),
           (''#555555'', if more then ''  rows '' @ nat_str (safe + 1) @ ''-'' @ nat_str (min n (safe + GATE_DETAIL_VISIBLE_ROWS)) @
                                     '' of '' @ nat_str n else [])]] @
         (if shown = [] then [[(''#555555'', em_dash)]] else map (\<lambda>(fg, t). [(fg, tui_truncate t GATE_DETAIL_LINE_WIDTH)]) shown) @
         [[(''#555555'', (if more then bytes3 0x86 0x91 @ ''/'' @ bytes3 0x86 0x93 @ '' or j/k scroll  '' else []) @ ''enter/esc closes'')]])"

definition tui_subject :: "ledger_entry \<Rightarrow> (string \<times> string) option" where
  "tui_subject e =
     (case entry_input e of None \<Rightarrow> None
      | Some i \<Rightarrow>
          (case stringField i [''command''] of Some c \<Rightarrow> Some (''command'', c)
           | None \<Rightarrow>
               (case stringField i [''file_path'', ''path''] of Some p \<Rightarrow> Some (''path'', p)
                | None \<Rightarrow> map_option (\<lambda>u. (''url'', u)) (stringField i [''url'']))))"

definition detail_line :: "string \<Rightarrow> string \<Rightarrow> span list" where
  "detail_line k v = [(''#888888'', padEnd k 14 @ '': ''), (''#CCCCCC'', v)]"

text \<open>Hashes are hexadecimal, one byte per character.\<close>

definition hashFmt :: "bool \<Rightarrow> string \<Rightarrow> string" where
  "hashFmt expand h =
     (if h = [] then em_dash else if expand then h else if length h \<le> 16 then h
      else take 8 h @ ellipsis @ drop (length h - 8) h)"

definition DetailModal :: "ledger_entry \<Rightarrow> bool \<Rightarrow> span list list" where
  "DetailModal e expand =
     [[(''#7FE7DC'', ''event detail '' @ em_dash @ '' seq '' @ int_str (le_seq e))], detail_line ''ts'' (le_ts e), detail_line ''source'' (le_source e)] @
     (case tui_subject e of None \<Rightarrow> [] | Some (l, v) \<Rightarrow> [detail_line l v]) @
     [detail_line ''rule_id'' (or_dash (or_empty (le_rule_id e))),
      detail_line ''verdict'' (or_dash (or_empty (le_verdict e)) @ (if le_monitor_match e then '' (monitor match)'' else [])),
      detail_line ''tool'' (or_dash (or_empty (le_tool e))), detail_line ''tool_use_id'' (le_tool_use_id e), detail_line ''signer'' (le_signer e),
      detail_line ''payload_hash'' (hashFmt expand (le_payload_hash e)), detail_line ''leaf_hash'' (hashFmt expand (le_leaf_hash e)),
      detail_line ''prev_leaf'' (hashFmt expand (le_prev_leaf e)), detail_line ''sig'' (hashFmt expand (le_sig e)),
      [(''#555555'', ''  H toggle full hashes'' @ (if tui_canReport e then ''   f report false positive'' else []) @ ''   esc/enter close'')]]"

section \<open>The screen\<close>

definition tab_help :: "tab \<Rightarrow> string" where
  "tab_help t =
     (case t of
        TStats \<Rightarrow> ''(window keybinds shown next to each button above)''
      | TEvents \<Rightarrow> ''enter detail  f filter  c clear  i internal  o outcomes  H hashes''
      | TGuardrails \<Rightarrow> ''space toggle runtime guardrail  r refresh  startup env on control plane''
      | TSessions \<Rightarrow> ''i toggle internal harnesses''
      | TGates \<Rightarrow> ''enter detail  a add  e edit  space toggle  M cycle-mode  x x delete''
      | TMode \<Rightarrow> ''(read-only '' @ em_dash @ '' m on any tab flips mode)'')"

definition tui_Footer :: "string \<Rightarrow> tab \<Rightarrow> span list list" where
  "tui_Footer toast t =
     (if toast \<noteq> [] then [[(''#7FE7DC'', toast)]]
      else [[(''#666666'', tab_help t)], [(''#555555'', ''h/l tab  j/k move  m flip mode  r refresh  q quit'')]])"

text \<open>What the keys are sent to, as the screen shows it.\<close>

definition detailEntry :: "tui \<Rightarrow> ledger_entry option" where
  "detailEntry s = Option.bind (tu_detail s) (\<lambda>sq. find (\<lambda>e. le_seq e = sq) (tu_events s))"

definition gateDetail :: "tui \<Rightarrow> gate_view option" where
  "gateDetail s = Option.bind (tu_gate s) (\<lambda>i. find (\<lambda>g. gv_id g = i) (loaded_gates s))"

definition tui_body :: "(string \<Rightarrow> string) \<Rightarrow> calendar \<Rightarrow> int \<Rightarrow> tui \<Rightarrow> span list list" where
  "tui_body clock cal now s =
     (case detailEntry s of
        Some e \<Rightarrow> DetailModal e (tu_hashes s)
      | None \<Rightarrow>
          (case gateDetail s of
             Some g \<Rightarrow> GateDetailModal g (tu_gateScroll s)
           | None \<Rightarrow>
               (case tu_tab s of
                  TStats \<Rightarrow> StatsPane cal (tu_insights s) (tu_window s)
                | TEvents \<Rightarrow> EventsPane clock s
                | TGuardrails \<Rightarrow> GuardrailsPane s
                | TSessions \<Rightarrow> SessionsPane s
                | TGates \<Rightarrow> GatesPane now s
                | TMode \<Rightarrow> ModePane (tu_mode s))))"

definition tui_screen :: "string \<Rightarrow> (string \<Rightarrow> string) \<Rightarrow> calendar \<Rightarrow> int \<Rightarrow> tui \<Rightarrow> span list list" where
  "tui_screen url clock cal now s =
     tui_Header url (tu_daemonOk s) (tu_mode s) (tu_root s) # TabBar (tu_tab s) # tui_body clock cal now s @ tui_Footer (tu_toast s) (tu_tab s)"

section \<open>Columns\<close>

lemma u16len_Nil [simp]: "u16len [] = 0"
  and u16len_Cons: "u16len (c # s) = (if is_cont c then 0 else if code_of c < 240 then 1 else 2) + u16len s"
  and u16len_append [simp]: "u16len (s @ t) = u16len s + u16len t"
  by (auto simp: u16len_def is_cont_def)

lemma u16len_ascii: "list_all (\<lambda>c. code_of c < 128) s \<Longrightarrow> u16len s = length s"
  by (induction s) (auto simp: u16len_Cons is_cont_def)

lemma u16len_blanks [simp]: "u16len (replicate n CHR '' '') = n"
  by (simp add: u16len_ascii list_all_iff code_of_def)

lemma u16len_half: "u16len half_char = 1"
  by (simp add: half_char_def u16len_Cons is_cont_def code_of_def)

lemma u16len_ellipsis: "u16len ellipsis = 1"
  by (simp add: ellipsis_def u16len_Cons is_cont_def code_of_def)

lemma u16len_take: "u16len (u16_take n s) = min n (u16len s)"
  by (induction n s rule: u16_take.induct) (auto simp: u16len_Cons u16len_half)

lemma truncate_len: "1 \<le> n \<Longrightarrow> u16len (tui_truncate s n) \<le> n"
  by (auto simp: tui_truncate_def u16len_take u16len_ellipsis)

lemma u16len_cell: "1 \<le> n \<Longrightarrow> u16len (tui_cell s n) = n + 2"
  using truncate_len [of n s] by (simp add: tui_cell_def padEnd_def) (simp add: u16len_Cons is_cont_def code_of_def)

lemma nat_str_len: "u16len (nat_str n) = length (nat_str n)"
proof -
  have "list_all (\<lambda>c. code_of c < 128) (nat_str n)"
  proof (induction n rule: nat_str.induct)
    case (1 n)
    have "code_of (digit_chr k) < 128" if "k < 10" for k using that by (simp add: digit_chr_def code_of_def)
    with 1 show ?case by (subst nat_str.simps) simp
  qed
  then show ?thesis by (rule u16len_ascii)
qed

lemma int_str_len: "u16len (int_str i) = length (int_str i)"
  by (simp add: int_str_def nat_str_len u16len_Cons is_cont_def code_of_def)

text \<open>
  The columns of the event list are aligned: whatever the texts of the entries and in whatever script, every
  row, marked or not, takes 81 places and those of its sequence number, which takes at least five. The row of
  an outcome is indented by two.
\<close>

lemma event_rows_aligned:
  "u16len (row_text (event_row clock c e)) = 81 + max 5 (length (int_str (le_seq e)))"
  "u16len (row_text (outcome_row clock e out)) = 83 + max 5 (length (int_str (le_seq out)))"
proof -
  have blank: "u16len ('' '' @ s) = 1 + u16len s" "u16len (''  '' @ s) = 2 + u16len s" "u16len (CHR '' '' # s) = 1 + u16len s" for s
    by (simp_all add: u16len_Cons is_cont_def code_of_def)
  have bar: "u16len cursor_bar = 1" "u16len (bytes3 0x86 0xB3) = 1"
    by (simp_all add: cursor_bar_def bytes3_def u16len_Cons is_cont_def code_of_def)
  show "u16len (row_text (event_row clock c e)) = 81 + max 5 (length (int_str (le_seq e)))"
    by (simp add: event_row_def row_text_def padStart_def u16len_cell int_str_len bar blank)
  show "u16len (row_text (outcome_row clock e out)) = 83 + max 5 (length (int_str (le_seq out)))"
    by (simp add: outcome_row_def row_text_def padStart_def u16len_cell int_str_len bar blank)
qed

section \<open>The marked row\<close>

lemma on_page_marked:
  assumes "scroll \<le> c" "c < scroll + VISIBLE_ROWS"
  shows "filter (\<lambda>p. fst p = c) (on_page scroll xs) = (case at_index xs c of None \<Rightarrow> [] | Some x \<Rightarrow> [(c, x)])"
proof -
  have key: "n \<le> c \<Longrightarrow> filter (\<lambda>p. fst p = c) (enumerate n ys) = (if c - n < length ys then [(c, ys ! (c - n))] else [])" for n and ys :: "'a list"
  proof (induction ys arbitrary: n)
    case (Cons y ys)
    have gone: "filter (\<lambda>p. fst p = c) (enumerate m ys) = []" if "c < m" for m
      using that by (auto simp: filter_empty_conv in_set_enumerate_eq)
    show ?case
    proof (cases "n = c")
      case True
      then show ?thesis using gone [of "Suc c"] by simp
    next
      case False
      with Cons.prems have "Suc n \<le> c" by simp
      then have "filter (\<lambda>p. fst p = c) (enumerate (Suc n) ys) = (if c - Suc n < length ys then [(c, ys ! (c - Suc n))] else [])"
        by (rule Cons.IH)
      with \<open>Suc n \<le> c\<close> False show ?thesis by (auto simp: nth_Cons' Suc_diff_Suc)
    qed
  qed simp
  have "c - scroll < length (take VISIBLE_ROWS (drop scroll xs)) \<longleftrightarrow> c < length xs" using assms by auto
  moreover have "take VISIBLE_ROWS (drop scroll xs) ! (c - scroll) = xs ! c" if "c < length xs"
    using assms that by simp
  ultimately show ?thesis using key [OF assms(1), of "take VISIBLE_ROWS (drop scroll xs)"] by (simp add: on_page_def at_index_def)
qed

text \<open>A row of a list is marked by a bar in its first text.\<close>

definition marked_gate_row :: "span list \<Rightarrow> bool" where
  "marked_gate_row r \<longleftrightarrow> map snd (take 1 r) = [''  '' @ cursor_bar @ '' '']"

definition confirm_note :: span where
  "confirm_note = (''#FF4455'', ''  '' @ bytes3 0x86 0x90 @ '' x to confirm'')"

lemma gate_row_marked: "marked_gate_row (gate_row now p c g) = c"
  by (simp add: marked_gate_row_def gate_row_def cursor_bar_def bytes3_def)

lemma gates_marked: "filter marked_gate_row (map (\<lambda>(i, g). gate_row now p (i = c) g) ps) =
    map (\<lambda>q. gate_row now p True (snd q)) (filter (\<lambda>q. fst q = c) ps)"
  by (induction ps) (auto simp: gate_row_marked)

lemma confirm_shown: "confirm_note \<in> set (gate_row now (tu_pending s) c g) \<longleftrightarrow> armed now (gv_id g) s"
  by (auto simp: gate_row_def confirm_note_def armed_def split: option.splits prod.splits)

lemma gates_keys:
  assumes "idle s" "tu_tab s = TGates" "selected_gate s = Some g"
  shows "CDeleteGate (gv_id g) \<in> set (snd (handle_key yaml now (plain_key ''x'') s)) \<longleftrightarrow> armed now (gv_id g) s"
    and "tu_gate (fst (handle_key yaml now (plain_key ''return'') s)) = Some (gv_id g)"
  using assms by (simp_all add: handle_key_def idle_def key_global_def plain_key_def key_tab_def key_gates_def is_enter_def is_spacebar_def)

text \<open>C28. On the gates tab the screen tells the truth about the keys: in every session exactly one row is marked, the gate under the cursor;
  that row asks for a confirmation exactly when pressing "x" now would delete the gate, and Enter opens that gate's dialog.\<close>

theorem marked_gate:
  assumes "tui_run yaml log fl t s" and "idle s" and "tu_tab s = TGates" and "selected_gate s = Some g"
  shows "filter marked_gate_row (tui_body clock cal now s) = [gate_row now (tu_pending s) True g] \<and>
    (confirm_note \<in> set (gate_row now (tu_pending s) True g)
       \<longleftrightarrow> CDeleteGate (gv_id g) \<in> set (snd (handle_key yaml now (plain_key ''x'') s))) \<and>
    tu_gate (fst (handle_key yaml now (plain_key ''return'') s)) = Some (gv_id g)"
proof -
  obtain p where p: "tu_policy s = Some p" "at_index (pv_gates p) (tu_cursor s TGates) = Some g"
    using assms(4) by (auto simp: selected_gate_def loaded_gates_def at_index_def split: option.splits if_splits)
  have "tui_ok s" using run_ok [OF assms(1)] .
  then have c: "tu_scroll s TGates \<le> tu_cursor s TGates" "tu_cursor s TGates < tu_scroll s TGates + VISIBLE_ROWS"
    by (simp_all add: tui_ok_def on_screen_def)
  have head: "\<not> marked_gate_row ((a, ''hash: '') # r)" for a r by (simp add: marked_gate_row_def)
  have "tui_body clock cal now s = GatesPane now s"
    using assms(2,3) by (simp add: tui_body_def detailEntry_def gateDetail_def idle_def)
  then have "filter marked_gate_row (tui_body clock cal now s) = [gate_row now (tu_pending s) True g]"
    using p on_page_marked [OF c, of "pv_gates p"] by (simp add: GatesPane_def gates_marked head)
  with gates_keys [OF assms(2,3,4), of yaml now] show ?thesis by (simp add: confirm_shown)
qed

theorem marked_gate_witness:
  "filter marked_gate_row (tui_body (\<lambda>t. t) (\<lambda>t. (None, False)) 0 gates_open) = [gate_row 0 None True one_gate]"
proof -
  obtain log fl where run: "tui_run json_stringify log fl 0 gates_open" using gates_open_run by blast
  have s: "idle gates_open" "tu_tab gates_open = TGates" "selected_gate gates_open = Some one_gate" "tu_pending gates_open = None"
    by (simp_all add: gates_open_def tui_init_def idle_def selected_gate_def loaded_gates_def one_policy_def at_index_def)
  from marked_gate [OF run s(1-3), of "\<lambda>t. t" "\<lambda>t. (None, False)" 0] s(4) show ?thesis by simp
qed

section \<open>Bars\<close>

lemma bit_count_pos: "0 < n \<Longrightarrow> 0 < bit_count n"
  by (subst bit_count.simps) simp

lemma dbl_same: "0 < m \<Longrightarrow> dbl m m = (2 ^ 52, 2 ^ 52)"
  by (simp add: dbl_def scaled_def round_even_def Let_def)

lemma full_bar: "js_round (mult_dbl (2 ^ 52, 2 ^ 52) 7) = 7"
  by (simp add: mult_dbl_def dbl_def scaled_def round_even_def Let_def js_round_def bit_count.simps)

lemma spark_full: "0 < m \<Longrightarrow> spark_index m m = 7"
  using full_bar by (simp add: spark_index_def dbl_same)

text \<open>Every bucket has a cell; an empty one is a dot, any other at least the third bar, and the busiest the full block.\<close>

lemma sparkline_bars:
  "list_all2 (\<lambda>b x. if bucket_total b = 0 then snd x = concat (replicate (cell_width w) mid_dot)
     else (\<exists>k. 2 \<le> k \<and> k \<le> 7 \<and> snd x = concat (replicate (cell_width w) (SPARK_CHARS ! k)) \<and> (bucket_total b = busiest bs \<longrightarrow> k = 7)))
   bs (ActivitySparkline bs w)"
proof -
  have mono: "m \<le> fold (\<lambda>b m. max m (bucket_total b)) xs m" for xs m by (induction xs arbitrary: m) (auto intro: order_trans [OF max.cobounded1])
  have le: "b \<in> set xs \<Longrightarrow> bucket_total b \<le> fold (\<lambda>b m. max m (bucket_total b)) xs m" for b xs m
    using mono by (induction xs arbitrary: m) (auto intro: order_trans [OF max.cobounded2])
  have le: "bucket_total b \<le> busiest bs" if "b \<in> set bs" for b using le [OF that] by (simp add: busiest_def)
  have idx: "2 \<le> spark_index t m \<and> spark_index t m \<le> 7" for t m by (simp add: spark_index_def)
  have "if bucket_total b = 0 then snd (c b) = concat (replicate (cell_width w) mid_dot)
     else (\<exists>k. 2 \<le> k \<and> k \<le> 7 \<and> snd (c b) = concat (replicate (cell_width w) (SPARK_CHARS ! k)) \<and> (bucket_total b = busiest bs \<longrightarrow> k = 7))"
    if "b \<in> set bs" "c = spark_cell (cell_width w) (busiest bs)" for b c
  proof (cases "bucket_total b = 0")
    case True
    then show ?thesis by (simp add: that(2) spark_cell_def)
  next
    case False
    with le [OF that(1)] have "snd (c b) = concat (replicate (cell_width w) (SPARK_CHARS ! spark_index (bucket_total b) (busiest bs)))"
      by (simp add: that(2) spark_cell_def Let_def)
    moreover have "spark_index (bucket_total b) (busiest bs) = 7" if "bucket_total b = busiest bs"
      using that False spark_full by simp
    ultimately show ?thesis using idx unfolding if_not_P [OF False]
      by (intro exI [of _ "spark_index (bucket_total b) (busiest bs)"]) simp
  qed
  note cell = this [OF _ refl]
  show ?thesis unfolding ActivitySparkline_def list_all2_map2 list_all2_same by (intro ballI) (rule cell)
qed

lemma put_label_length [simp]: "length (put_label col xs cells) = length cells"
  by (induction col xs cells rule: put_label.induct) simp_all

lemma axis_cells_length: "length (axis_cells n w) = n"
  by (simp add: axis_cells_def Let_def)

text \<open>Scrolling the gate dialog past its end is not seen, but every such step has to be taken back before it scrolls up again.\<close>

lemma overscroll_not_shown:
  "length (gateSchemaRows (gv_match g)) - GATE_DETAIL_VISIBLE_ROWS \<le> n \<Longrightarrow> GateDetailModal g (n + k) = GateDetailModal g n"
proof -
  assume "length (gateSchemaRows (gv_match g)) - GATE_DETAIL_VISIBLE_ROWS \<le> n"
  then have "safe_scroll (n + k) (length (gateSchemaRows (gv_match g))) = safe_scroll n (length (gateSchemaRows (gv_match g)))"
    by (simp add: safe_scroll_def)
  then show ?thesis by (simp add: GateDetailModal_def)
qed

text \<open>With an entry's dialog open that is no longer kept, the list is on the screen.\<close>

lemma lost_detail_shows_list:
  "find (\<lambda>e. le_seq e = sq) (tu_events s) = None \<Longrightarrow> tu_detail s = Some sq \<Longrightarrow> tu_gate s = None \<Longrightarrow> tu_tab s = TEvents \<Longrightarrow>
   tui_body clock cal now s = EventsPane clock s"
  by (simp add: tui_body_def detailEntry_def gateDetail_def)

end
