(* ===== verification/Spec2Isabelle.thy ===== *)
theory Spec2Isabelle
  imports Backoff HookContract InstallFs McpProxy McpServer Canonical Totp Signers Sessions ApiClient Doctor InstallFlow Rules CommandTable WebControls Editor TuiPanes
begin

text \<open>
  A verification development for OpenAgentLock's TypeScript: the command-line program \<open>cli/src\<close>
  (installer, harness hooks, MCP proxy and server, signers, sessions, rules) and the logic of the
  web dashboard \<open>control-plane/dashboard-ui/src\<close>.

  \<^bold>\<open>The program.\<close> A daemon on the loopback interface decides whether a tool call of a coding agent may
  run and keeps a signed ledger of its decisions; it is written in Go and is not part of this
  development. The TypeScript program around it has five jobs. It wires the agents' harnesses to the
  daemon and undoes that (\<open>install\<close>, \<open>uninstall\<close>, \<open>doctor\<close>, \<open>detect\<close>); it is what a wired harness calls for
  every tool call (\<open>hook\<close>, \<open>mcp-proxy\<close>); it makes and rotates the signed sessions under which calls
  are decided (\<open>signer\<close>, \<open>session\<close>); it manages the rules the daemon applies (\<open>rules\<close>, \<open>false-positive\<close>);
  and it shows what happened (\<open>status\<close>, \<open>ledger\<close>, \<open>mcp-server\<close>, the dashboards). All parts talk to the
  daemon through one HTTP client (\<open>util/api.ts\<close>) or, for the hooks, one request of their own.

  \<^bold>\<open>How the code is modelled.\<close> An \<open>async\<close> function is a program over an explicit world (\<open>World\<close>): a function
  from a world to a result and the next world. The result is a value, a thrown error, the end of the
  process with a code, or a promise that never settles. The world holds the files, the environment,
  the standard streams, the exit code, the requests sent so far with a server that may answer
  depending on all of them, the programs run, the clock and the random bytes. \<open>try\<close>, \<open>catch\<close>, \<open>finally\<close>
  and early returns are the combinators \<open>tryP\<close>, \<open>finallyP\<close>, \<open>bindP\<close> and conditionals. \<open>Node\<close> has the part of
  Node's library the sources call (POSIX paths, files, streams, \<open>fetch\<close>). Values of unknown shape are
  \<open>json\<close>, with \<open>JSON.parse\<close> and \<open>JSON.stringify\<close> as functions and their round trip in \<open>Json_Roundtrip\<close>. The
  parser's fuel is twice the length of the text plus one: every recursive call that does not consume
  a character is followed by one that does. Where the code runs concurrently (the MCP proxy, the
  ledger tail) the model is a state machine over explicit events, one per callback.

  \<^bold>\<open>Theories and sources\<close> (paths below \<open>cli/src\<close>):
  \<^item> \<open>Prelude\<close>, \<open>Json\<close>, \<open>Json_Roundtrip\<close>, \<open>World\<close>, \<open>Node\<close>: strings, values, programs and the run-time library;
  \<^item> \<open>HookShims\<close> models \<open>commands/hook-*.ts\<close> from standard input to the exit code; \<open>HookContract\<close> states what
    they share as the locale \<open>hook_shim\<close>, interpreted for the four shims, and the four contracts: exit
    codes, forwarding, silence of an allowed call, explanation of a blocked one;
  \<^item> \<open>ApiClient\<close> models \<open>util/api.ts\<close> (requests, capabilities, login) and \<open>util/paths.ts\<close>; \<open>Framing\<close> the event
    stream and the tail of \<open>util/api.ts\<close> (\<open>Backoff\<close> the pauses between its attempts) and the line buffer of \<open>commands/mcp-proxy.ts\<close>;
  \<^item> \<open>McpProxy\<close> models \<open>commands/mcp-proxy.ts\<close>: the queue of host lines, pending calls and verdicts; its
    state machine refines a log of the host's lines with the daemon's answers. \<open>McpServer\<close> models
    \<open>commands/mcp-server.ts\<close>;
  \<^item> \<open>Canonical\<close> models \<open>signer/canonical.ts\<close>; \<open>Totp\<close> the codes and base32 of \<open>signer/totp.ts\<close>; \<open>Signers\<close> the three
    signers of \<open>signer/\<close> and \<open>commands/signer-enroll.ts\<close>; \<open>Sessions\<close> models \<open>commands/session.ts\<close> and
    \<open>util/session-mint.ts\<close>;
  \<^item> \<open>Detect\<close> models \<open>detect/\<close>; \<open>Doctor\<close> \<open>commands/doctor.ts\<close>; \<open>Multiselect\<close> the picker \<open>tui/multiselect.tsx\<close>;
    \<open>InstallFs\<close> \<open>util/install-fs.ts\<close>; \<open>Install\<close> \<open>commands/install.ts\<close>, with its guarantees in \<open>InstallFlow\<close>;
  \<^item> \<open>Rules\<close> models \<open>commands/rules.ts\<close>; \<open>Commands\<close> and \<open>FalsePositive\<close> the smaller commands and \<open>util/prompt.ts\<close>;
    \<open>CommandLine\<close> the actions of \<open>index.ts\<close> and
    \<open>CommandTable\<close> its commands with their declared options, how the actions read them and the program as a whole; \<open>Editor\<close> \<open>util/editor.ts\<close>, a text in the user's editor and the clean-up;
  \<^item> \<open>TuiModel\<close>, \<open>TuiKeys\<close>, \<open>TuiViews\<close>, \<open>TuiPanes\<close> model the terminal dashboard \<open>tui/dashboard.tsx\<close>: the React states as
    one record, the keyboard handler by mode and tab, the continuations of its calls as answers that arrive
    in any order, and the rows of coloured text it draws (with its arithmetic in double precision). \<open>TuiSafety\<close>
    has its guarantees over all runs: which event may change what at the daemon, deleting by two presses,
    the shape of the state; \<open>TuiPanes\<close> that the marked row is the one the keys act on;
  \<^item> below \<open>control-plane/dashboard-ui/src\<close>: \<open>WebData\<close> models \<open>lib/types.ts\<close>, \<open>filters.ts\<close>, \<open>time.ts\<close>,
    \<open>ledgerEntryDisplay.ts\<close>, \<open>eventRulePreset.ts\<close>; \<open>WebApi\<close> \<open>lib/api.ts\<close> and the hooks \<open>usePoll\<close> and \<open>useSSE\<close> as a state
    machine; \<open>WebRules\<close> the forms and tables of the rules, mode and MCP tabs, with the guarantees in
    \<open>RuleForms\<close>; \<open>WebEvents\<close> the events tab with its pages and the false-positive dialog, and the sessions
    tab; \<open>WebGuardrails\<close> the guardrails tab with its optimistic saves; \<open>WebViews\<close> what the
    tabs show, and the menus, dialogs and requests in flight of the events, rules and MCP tabs; \<open>WebForms\<close> the rules
    tab with its drawer under the poll of the policy; \<open>WebControls\<close> the controls of the dialogs: what a form sends
    is what it shows.

  \<^bold>\<open>Parameters.\<close> Code that is not in the repository is an argument: Ed25519, Argon2id, SHA-256 and
  HMAC-SHA1 (with the laws the code relies on as named hypotheses, instantiated in the
  witnesses), \<open>git\<close> and other child processes (as answers of the world), the yaml package, the path of a
  URL, the terminal renderer, how a stream cuts bytes into chunks, and the daemon.

  \<^bold>\<open>Not modelled.\<close> Windows path syntax (the platform tests of the sources are modelled, the separators
  are POSIX), file modes and ownership, the renderer of the terminal and the markup of the web interface
  (what they show is modelled as texts, tooltips, controls and the classes chosen by a value),
  the option parser of the command line (a parameter, with what it promises about a declaration in
  \<open>CommandTable\<close>) and the help texts, the generated route table and build files, and JavaScript's
  UTF-16 indexing of non-ASCII text outside the terminal dashboard (strings are their UTF-8 bytes;
  decoding of ill-formed bytes is modelled where the sources decode, in \<open>Framing\<close>). The React effects of the
  dashboards run as soon as their state has changed.
\<close>

end
